(* ===== verification/GoLib.thy ===== *)
theory GoLib
  imports Complex_Main "HOL-Library.Word" "HOL-Library.Monad_Syntax"
begin

text \<open>
  The part of Go and of its standard library that the SIPREC server's code uses, as HOL
  functions, and the facts about it that the component theories share.

  \<^item> A Go \<open>string\<close> is a byte string: a \<^typ>\<open>char list\<close>, one \<^typ>\<open>char\<close> per byte.
    \<open>TrimSpace\<close> removes every rune of Unicode's White\_Space property in its UTF-8 form, as
    \<^verbatim>\<open>strings.TrimSpace\<close> does. Case mapping (\<open>ToLower\<close>, \<open>ToUpper\<close>, \<open>EqualFold\<close>) is on ASCII
    letters; the server compares the results with ASCII constants only.
  \<^item> \<^verbatim>\<open>time.Time\<close> is the number of nanoseconds since Go's zero time, an \<^typ>\<open>int\<close>; \<open>IsZero\<close> is
    \<open>t = 0\<close>. \<^verbatim>\<open>time.Duration\<close> is a number of nanoseconds. \<^verbatim>\<open>time.Now()\<close> is an argument of the
    operation that reads the clock.
  \<^item> \<^verbatim>\<open>time.Parse(time.RFC3339, s)\<close> is \<open>parseRFC3339\<close>, Go's layout parser on that layout, with
    its leniencies (an hour of one digit, a comma before the fraction, zone hours up to 24).
\<close>

type_synonym go_time = int
type_synonym go_duration = int
type_synonym byte = "8 word"

named_theorems go_str \<open>definitions of the string functions\<close>

section \<open>Strings\<close>

text \<open>\<open>ws_tail s\<close> drops one leading white-space rune of \<open>s\<close>; \<open>ws_tail_rev\<close> does the same at the
  end of a string given back to front. Runes of two bytes: U+0085, U+00A0; of three: U+1680,
  U+2000 to U+200A, U+2028, U+2029, U+202F, U+205F, U+3000.\<close>

definition ascii_ws :: "char \<Rightarrow> bool" where
  "ascii_ws c \<longleftrightarrow> c = CHR 0x20 \<or> c = CHR 0x09 \<or> c = CHR 0x0A \<or> c = CHR 0x0B \<or> c = CHR 0x0C \<or> c = CHR 0x0D"

definition ws2 :: "char \<Rightarrow> char \<Rightarrow> bool" where
  "ws2 c d \<longleftrightarrow> c = CHR 0xC2 \<and> (d = CHR 0x85 \<or> d = CHR 0xA0)"

definition ws3 :: "char \<Rightarrow> char \<Rightarrow> char \<Rightarrow> bool" where
  "ws3 c d e \<longleftrightarrow>
     (c = CHR 0xE1 \<and> d = CHR 0x9A \<and> e = CHR 0x80) \<or>
     (c = CHR 0xE2 \<and> d = CHR 0x80 \<and>
        (let n = (of_char e :: nat) in (0x80 \<le> n \<and> n \<le> 0x8A) \<or> n = 0xA8 \<or> n = 0xA9 \<or> n = 0xAF)) \<or>
     (c = CHR 0xE2 \<and> d = CHR 0x81 \<and> e = CHR 0x9F) \<or>
     (c = CHR 0xE3 \<and> d = CHR 0x80 \<and> e = CHR 0x80)"

fun ws_tail :: "string \<Rightarrow> string option" where
  "ws_tail [] = None"
| "ws_tail (c # s) =
     (if ascii_ws c then Some s
      else case s of [] \<Rightarrow> None
        | d # s' \<Rightarrow> if ws2 c d then Some s'
            else case s' of [] \<Rightarrow> None | e # s'' \<Rightarrow> if ws3 c d e then Some s'' else None)"

fun ws_tail_rev :: "string \<Rightarrow> string option" where
  "ws_tail_rev [] = None"
| "ws_tail_rev (e # s) =
     (if ascii_ws e then Some s
      else case s of [] \<Rightarrow> None
        | d # s' \<Rightarrow> if ws2 d e then Some s'
            else case s' of [] \<Rightarrow> None | c # s'' \<Rightarrow> if ws3 c d e then Some s'' else None)"

lemma ws_tail_length: "ws_tail s = Some t \<Longrightarrow> length t < length s"
  by (cases s) (auto split: if_splits list.splits)

lemma ws_tail_rev_length: "ws_tail_rev s = Some t \<Longrightarrow> length t < length s"
  by (cases s) (auto split: if_splits list.splits)

function TrimLeftSpace :: "string \<Rightarrow> string" where
  "TrimLeftSpace s = (case ws_tail s of None \<Rightarrow> s | Some t \<Rightarrow> TrimLeftSpace t)"
  by pat_completeness auto
termination
  by (relation "measure length") (auto dest: ws_tail_length)

function trim_rev :: "string \<Rightarrow> string" where
  "trim_rev s = (case ws_tail_rev s of None \<Rightarrow> s | Some t \<Rightarrow> trim_rev t)"
  by pat_completeness auto
termination
  by (relation "measure length") (auto dest: ws_tail_rev_length)

declare TrimLeftSpace.simps [simp del] trim_rev.simps [simp del]

definition TrimSpace :: "string \<Rightarrow> string" where
  "TrimSpace s = rev (trim_rev (rev (TrimLeftSpace s)))"

definition lower_byte :: "char \<Rightarrow> char" where
  "lower_byte c = (let n = (of_char c :: nat) in if 65 \<le> n \<and> n \<le> 90 then char_of (n + 32) else c)"

definition upper_byte :: "char \<Rightarrow> char" where
  "upper_byte c = (let n = (of_char c :: nat) in if 97 \<le> n \<and> n \<le> 122 then char_of (n - 32) else c)"

definition ToLower :: "string \<Rightarrow> string" where
  "ToLower s = map lower_byte s"

definition ToUpper :: "string \<Rightarrow> string" where
  "ToUpper s = map upper_byte s"

definition EqualFold :: "string \<Rightarrow> string \<Rightarrow> bool" where
  "EqualFold s t \<longleftrightarrow> ToLower s = ToLower t"

definition HasPrefix :: "string \<Rightarrow> string \<Rightarrow> bool" where
  "HasPrefix s p \<longleftrightarrow> take (length p) s = p"

definition HasSuffix :: "string \<Rightarrow> string \<Rightarrow> bool" where
  "HasSuffix s p \<longleftrightarrow> HasPrefix (rev s) (rev p)"

definition TrimPrefix :: "string \<Rightarrow> string \<Rightarrow> string" where
  "TrimPrefix s p = (if HasPrefix s p then drop (length p) s else s)"

definition TrimSuffix :: "string \<Rightarrow> string \<Rightarrow> string" where
  "TrimSuffix s p = (if HasSuffix s p then take (length s - length p) s else s)"

text \<open>\<open>Index s p\<close> is the first position of \<open>p\<close> in \<open>s\<close>; Go's -1 is \<open>None\<close>.\<close>

fun Index :: "string \<Rightarrow> string \<Rightarrow> nat option" where
  "Index [] p = (if p = [] then Some 0 else None)"
| "Index (c # s) p = (if HasPrefix (c # s) p then Some 0 else map_option Suc (Index s p))"

definition Contains :: "string \<Rightarrow> string \<Rightarrow> bool" where
  "Contains s p \<longleftrightarrow> Index s p \<noteq> None"

text \<open>\<^verbatim>\<open>strings.Split(s, sep)\<close> for a separator of one byte: never an empty list.\<close>

fun Split :: "string \<Rightarrow> char \<Rightarrow> string list" where
  "Split [] c = [[]]"
| "Split (d # s) c =
     (if d = c then [] # Split s c
      else case Split s c of [] \<Rightarrow> [[d]] | p # ps \<Rightarrow> (d # p) # ps)"

definition first_nonblank :: "string list \<Rightarrow> string" where
  "first_nonblank cs = (case filter (\<lambda>s. s \<noteq> []) (map TrimSpace cs) of [] \<Rightarrow> [] | s # _ \<Rightarrow> s)"


section \<open>Slices\<close>

text \<open>A loop over a slice that returns the index of the first element with a property.\<close>

fun index_of :: "('a \<Rightarrow> bool) \<Rightarrow> 'a list \<Rightarrow> nat option" where
  "index_of P [] = None"
| "index_of P (x # xs) = (if P x then Some 0 else map_option Suc (index_of P xs))"

section \<open>Time\<close>

definition is_digit :: "char \<Rightarrow> bool" where
  "is_digit c \<longleftrightarrow> (let n = (of_char c :: nat) in 48 \<le> n \<and> n \<le> 57)"

definition digit_val :: "char \<Rightarrow> int" where
  "digit_val c = of_char c - 48"

definition num_val :: "string \<Rightarrow> int" where
  "num_val s = foldl (\<lambda>a c. a * 10 + digit_val c) 0 s"

text \<open>\<open>getnum fixed s\<close>: one or two digits, exactly two when \<open>fixed\<close>.\<close>

fun getnum :: "bool \<Rightarrow> string \<Rightarrow> (int \<times> string) option" where
  "getnum fixed [] = None"
| "getnum fixed (c # s) =
     (if \<not> is_digit c then None
      else case s of
        [] \<Rightarrow> if fixed then None else Some (digit_val c, [])
      | d # s' \<Rightarrow>
          if is_digit d then Some (digit_val c * 10 + digit_val d, s')
          else if fixed then None else Some (digit_val c, s))"

definition expect :: "char \<Rightarrow> string \<Rightarrow> string option" where
  "expect c s = (case s of [] \<Rightarrow> None | d # s' \<Rightarrow> if c = d then Some s' else None)"

definition getyear :: "string \<Rightarrow> (int \<times> string) option" where
  "getyear s =
     (if length s \<ge> 4 \<and> list_all is_digit (take 4 s) then Some (num_val (take 4 s), drop 4 s) else None)"

definition is_leap :: "int \<Rightarrow> bool" where
  "is_leap y \<longleftrightarrow> y mod 4 = 0 \<and> (y mod 100 \<noteq> 0 \<or> y mod 400 = 0)"

definition days_in :: "int \<Rightarrow> int \<Rightarrow> int" where
  "days_in m y =
     (if m = 2 then (if is_leap y then 29 else 28)
      else if m = 4 \<or> m = 6 \<or> m = 9 \<or> m = 11 then 30 else 31)"

definition days_before :: "int \<Rightarrow> int \<Rightarrow> int" where
  "days_before y m =
     365 * (y - 1) + (y - 1) div 4 - (y - 1) div 100 + (y - 1) div 400 +
     sum_list (map (\<lambda>i. days_in i y) [1..m - 1])"

text \<open>The fraction of a second: at most nine digits count, the others are read and dropped.\<close>

definition nanoseconds :: "string \<Rightarrow> int" where
  "nanoseconds ds = (let ds' = take 9 ds in num_val ds' * 10 ^ (9 - length ds'))"

definition getfrac :: "string \<Rightarrow> int \<times> string" where
  "getfrac s =
     (case s of
        c # d # s' \<Rightarrow>
          if (c = CHR ''.'' \<or> c = CHR '','') \<and> is_digit d
          then (nanoseconds (takeWhile is_digit (d # s')), dropWhile is_digit (d # s'))
          else (0, s)
      | _ \<Rightarrow> (0, s))"

text \<open>The zone: \<open>Z\<close>, or a sign, two digits, a colon and two digits; the offset in seconds.\<close>

definition getzone :: "string \<Rightarrow> (int \<times> string) option" where
  "getzone s =
     (if HasPrefix s ''Z'' then Some (0, drop 1 s)
      else if length s < 6 \<or> s ! 3 \<noteq> CHR '':'' then None
      else case (getnum True (take 2 (drop 1 s)), getnum True (take 2 (drop 4 s))) of
        (Some (hr, _), Some (mm, _)) \<Rightarrow>
          if hr > 24 \<or> mm > 60 then None
          else if s ! 0 = CHR ''+'' then Some ((hr * 60 + mm) * 60, drop 6 s)
          else if s ! 0 = CHR ''-'' then Some (- ((hr * 60 + mm) * 60), drop 6 s)
          else None
      | _ \<Rightarrow> None)"

definition parseRFC3339 :: "string \<Rightarrow> go_time option" where
  "parseRFC3339 s0 =
     do {
       (y, s1) \<leftarrow> getyear s0;
       s2 \<leftarrow> expect CHR ''-'' s1;
       (mo, s3) \<leftarrow> getnum True s2;
       s4 \<leftarrow> expect CHR ''-'' s3;
       (d, s5) \<leftarrow> getnum True s4;
       s6 \<leftarrow> expect CHR ''T'' s5;
       (hh, s7) \<leftarrow> getnum False s6;
       s8 \<leftarrow> expect CHR '':'' s7;
       (mi, s9) \<leftarrow> getnum True s8;
       s10 \<leftarrow> expect CHR '':'' s9;
       (sec, s11) \<leftarrow> getnum True s10;
       let (ns, s12) = getfrac s11;
       (off, s13) \<leftarrow> getzone s12;
       if s13 \<noteq> [] \<or> mo < 1 \<or> mo > 12 \<or> d < 1 \<or> d > days_in mo y \<or> hh > 23 \<or> mi > 59 \<or> sec > 59
       then None
       else Some ((((days_before y mo + d - 1) * 86400 + hh * 3600 + mi * 60 + sec) - off) * 1000000000 + ns)
     }"

section \<open>Facts on slices\<close>

lemma index_of_Some: "index_of P xs = Some i \<Longrightarrow> i < length xs \<and> P (xs ! i) \<and> (\<forall>j<i. \<not> P (xs ! j))"
proof (induction xs arbitrary: i)
  case (Cons x xs)
  show ?case
  proof (cases "P x")
    case False
    with Cons.prems obtain j where "index_of P xs = Some j" and i: "i = Suc j"
      by auto
    with Cons.IH [of j] False show ?thesis
      by (auto simp: less_Suc_eq_0_disj)
  qed (use Cons.prems in auto)
qed simp

lemma index_of_None: "index_of P xs = None \<longleftrightarrow> (\<forall>x \<in> set xs. \<not> P x)"
  by (induction xs) auto

section \<open>Facts on strings\<close>

lemmas HasPrefix_simps [go_str] = HasPrefix_def HasSuffix_def TrimPrefix_def TrimSuffix_def

lemma TrimLeftSpace_Nil [simp]: "TrimLeftSpace [] = []"
  by (subst TrimLeftSpace.simps) simp

lemma trim_rev_Nil [simp]: "trim_rev [] = []"
  by (subst trim_rev.simps) simp

lemma TrimSpace_Nil [simp]: "TrimSpace [] = []"
  by (simp add: TrimSpace_def)

lemma ToLower_Nil [simp]: "ToLower [] = []" and ToLower_eq_Nil [simp]: "ToLower s = [] \<longleftrightarrow> s = []"
  by (auto simp: ToLower_def)

lemma length_ToLower [simp]: "length (ToLower s) = length s"
  by (simp add: ToLower_def)

lemma EqualFold_refl [simp]: "EqualFold s s"
  by (simp add: EqualFold_def)

lemma HasPrefix_append [simp]: "HasPrefix (p @ s) p"
  by (simp add: HasPrefix_def)

lemma HasPrefix_Nil [simp]: "HasPrefix s []"
  by (simp add: HasPrefix_def)

lemma HasPrefix_iff: "HasPrefix s p \<longleftrightarrow> (\<exists>t. s = p @ t)"
  by (metis HasPrefix_append HasPrefix_def append_take_drop_id)

lemma HasPrefix_length: "HasPrefix s p \<Longrightarrow> length p \<le> length s"
  by (auto simp: HasPrefix_iff)

lemma TrimPrefix_append [simp]: "TrimPrefix (p @ s) p = s"
  by (simp add: TrimPrefix_def)

lemma ws_tail_trim_left: "ws_tail (TrimLeftSpace s) = None"
proof (induction s rule: TrimLeftSpace.induct)
  case (1 s)
  then show ?case
    by (subst TrimLeftSpace.simps) (auto split: option.splits)
qed

lemma ws_tail_rev_trim: "ws_tail_rev (trim_rev s) = None"
proof (induction s rule: trim_rev.induct)
  case (1 s)
  then show ?case
    by (subst trim_rev.simps) (auto split: option.splits)
qed

lemma TrimLeftSpace_id: "ws_tail s = None \<Longrightarrow> TrimLeftSpace s = s"
  by (subst TrimLeftSpace.simps) simp

lemma trim_rev_id: "ws_tail_rev s = None \<Longrightarrow> trim_rev s = s"
  by (subst trim_rev.simps) simp

text \<open>A string that starts with no white space has no prefix that does.\<close>

lemma ws_tail_prefix: "ws_tail (s @ t) = None \<Longrightarrow> ws_tail s = None"
  by (cases s) (auto split: if_splits list.splits)

lemma ws_tail_rev_suffix: "ws_tail_rev s = Some t \<Longrightarrow> \<exists>u. s = u @ t"
proof (cases s)
  case (Cons e s')
  assume "ws_tail_rev s = Some t"
  with Cons show ?thesis
    by (auto split: if_splits list.splits intro: exI [of _ "[_]"] exI [of _ "[_, _]"] exI [of _ "[_, _, _]"])
qed auto

lemma trim_rev_suffix: "\<exists>u. s = u @ trim_rev s"
proof (induction s rule: trim_rev.induct)
  case (1 s)
  show ?case
  proof (cases "ws_tail_rev s")
    case None
    then show ?thesis by (simp add: trim_rev_id)
  next
    case (Some t)
    from ws_tail_rev_suffix [OF Some] obtain u where u: "s = u @ t" by blast
    from 1 [OF Some] obtain v where v: "t = v @ trim_rev t" by blast
    have "trim_rev s = trim_rev t" using Some by (subst trim_rev.simps) simp
    with u v have "s = (u @ v) @ trim_rev s" by simp
    then show ?thesis by blast
  qed
qed

lemma TrimSpace_ends: "ws_tail (TrimSpace s) = None" "ws_tail_rev (rev (TrimSpace s)) = None"
proof -
  let ?l = "TrimLeftSpace s"
  obtain u where u: "rev ?l = u @ trim_rev (rev ?l)"
    using trim_rev_suffix by blast
  then have "?l = TrimSpace s @ rev u"
    by (metis TrimSpace_def rev_append rev_rev_ident)
  then show "ws_tail (TrimSpace s) = None"
    using ws_tail_trim_left ws_tail_prefix by metis
  show "ws_tail_rev (rev (TrimSpace s)) = None"
    by (simp add: TrimSpace_def ws_tail_rev_trim)
qed

lemma TrimSpace_id: "ws_tail s = None \<Longrightarrow> ws_tail_rev (rev s) = None \<Longrightarrow> TrimSpace s = s"
  by (simp add: TrimSpace_def TrimLeftSpace_id trim_rev_id)

theorem TrimSpace_idem [simp]: "TrimSpace (TrimSpace s) = TrimSpace s"
  by (simp add: TrimSpace_id TrimSpace_ends)

lemma Split_not_Nil [simp]: "Split s c \<noteq> []"
  by (cases s) (auto split: list.splits)

lemma Split_no_sep: "c \<notin> set s \<Longrightarrow> Split s c = [s]"
  by (induction s) auto

lemma Split_append: "c \<notin> set p \<Longrightarrow> Split (p @ c # s) c = p # Split s c"
  by (induction p) auto

lemma Index_Some_bound: "Index s p = Some i \<Longrightarrow> i + length p \<le> length s"
proof (induction s arbitrary: i)
  case Nil
  then show ?case by (simp split: if_splits)
next
  case (Cons c s)
  then show ?case by (auto split: if_splits dest: HasPrefix_length)
qed

lemma first_nonblank_Nil [simp]: "first_nonblank [] = []"
  by (simp add: first_nonblank_def)

lemma first_nonblank_Cons [simp]:
  "first_nonblank (s # ss) = (if TrimSpace s = [] then first_nonblank ss else TrimSpace s)"
  by (simp add: first_nonblank_def)

lemma Contains_iff: "Contains s p \<longleftrightarrow> (\<exists>a b. s = a @ p @ b)"
proof (induction s)
  case Nil
  show ?case by (auto simp: Contains_def HasPrefix_def split: if_splits)
next
  case (Cons c s)
  have "Contains (c # s) p \<longleftrightarrow> HasPrefix (c # s) p \<or> Contains s p"
    by (auto simp: Contains_def)
  then show ?case
    unfolding Cons.IH HasPrefix_iff by (metis append_Cons append_Nil neq_Nil_conv list.inject)
qed

lemma HasSuffix_iff: "HasSuffix s p \<longleftrightarrow> (\<exists>a. s = a @ p)"
  unfolding HasSuffix_def HasPrefix_iff by (metis rev_append rev_rev_ident)

text \<open>\<^verbatim>\<open>strings.SplitN(s, sep, 2)\<close> for a separator of one byte, and \<^verbatim>\<open>strings.Trim\<close> for a cutset of one
  byte.\<close>

definition SplitN2 :: "string \<Rightarrow> char \<Rightarrow> string list" where
  "SplitN2 s c = (case dropWhile (\<lambda>d. d \<noteq> c) s of [] \<Rightarrow> [s] | _ # r \<Rightarrow> [takeWhile (\<lambda>d. d \<noteq> c) s, r])"

definition TrimByte :: "char \<Rightarrow> string \<Rightarrow> string" where
  "TrimByte c s = rev (dropWhile (\<lambda>d. d = c) (rev (dropWhile (\<lambda>d. d = c) s)))"

text \<open>The visible ASCII characters.\<close>

definition graphic :: "char \<Rightarrow> bool" where
  "graphic c \<longleftrightarrow> 33 \<le> (of_char c :: nat) \<and> (of_char c :: nat) \<le> 126"

lemma graphic_ws:
  assumes "graphic c"
  shows "\<not> ascii_ws c" "\<not> ws2 c d" "\<not> ws3 c d e" "\<not> ws2 d c" "\<not> ws3 d e c"
  using assms by (auto simp: graphic_def ascii_ws_def ws2_def ws3_def Let_def)

lemma ws_tail_graphic: "graphic c \<Longrightarrow> ws_tail (c # s) = None" "graphic c \<Longrightarrow> ws_tail_rev (c # s) = None"
  by (auto simp: graphic_ws split: list.split)

lemma TrimSpace_graphic: "graphic (hd s) \<Longrightarrow> graphic (last s) \<Longrightarrow> TrimSpace s = s"
proof (cases "s = []")
  case False
  assume g: "graphic (hd s)" "graphic (last s)"
  have "s = hd s # tl s" "rev s = last s # rev (butlast s)"
    using False by (simp_all add: rev_eq_Cons_iff)
  then have "ws_tail s = None" "ws_tail_rev (rev s) = None"
    using g ws_tail_graphic by metis+
  then show ?thesis by (rule TrimSpace_id)
qed simp

lemma TrimSpace_space: "TrimSpace (CHR '' '' # s) = TrimSpace s"
  unfolding TrimSpace_def by (subst TrimLeftSpace.simps) (simp add: ascii_ws_def)

lemma SplitN2_append: "c \<notin> set k \<Longrightarrow> SplitN2 (k @ c # v) c = [k, v]"
  by (auto simp: SplitN2_def dropWhile_append takeWhile_append)

lemma dropWhile_absent: "c \<notin> set s \<Longrightarrow> dropWhile (\<lambda>d. d = c) s = s"
  by (cases s) auto

lemma TrimByte_none: "c \<notin> set s \<Longrightarrow> TrimByte c s = s"
  by (simp add: TrimByte_def dropWhile_absent)

lemma TrimByte_quoted: "c \<notin> set s \<Longrightarrow> TrimByte c (c # s @ [c]) = s"
proof (cases s)
  case (Cons d t)
  assume c: "c \<notin> set s"
  then have "dropWhile (\<lambda>d. d = c) (s @ [c]) = s @ [c]" using Cons by auto
  then show ?thesis using c dropWhile_absent[of c "rev s"] by (simp add: TrimByte_def)
qed (simp add: TrimByte_def)

text \<open>The decimal rendering of an integer, as \<^verbatim>\<open>strconv.Itoa\<close> and the verb \<^verbatim>\<open>%d\<close> give it.\<close>

definition digit_char :: "nat \<Rightarrow> char" where
  "digit_char d = char_of (48 + d)"

fun dec_digits :: "nat \<Rightarrow> string" where
  "dec_digits n = (if n < 10 then [digit_char n] else dec_digits (n div 10) @ [digit_char (n mod 10)])"

declare dec_digits.simps [simp del]

definition Itoa :: "int \<Rightarrow> string" where
  "Itoa i = (if i < 0 then ''-'' @ dec_digits (nat (- i)) else dec_digits (nat i))"

section \<open>Tables\<close>

text \<open>The map that a loop \<^verbatim>\<open>for _, x := range xs { m[key(x)] = x }\<close> builds: a later element replaces
  an earlier one with the same key.\<close>

definition index_by :: "('a \<Rightarrow> 'k) \<Rightarrow> 'a list \<Rightarrow> ('k \<rightharpoonup> 'a)" where
  "index_by key xs = map_of (rev (map (\<lambda>x. (key x, x)) xs))"

lemma index_by_dom: "dom (index_by key xs) = key ` set xs"
  by (simp add: index_by_def dom_map_of_conv_image_fst image_image)

lemma index_by_Some: "index_by key xs k = Some x \<Longrightarrow> x \<in> set xs \<and> key x = k"
  by (auto simp: index_by_def dest: map_of_SomeD)

lemma index_by_None: "index_by key xs k = None \<longleftrightarrow> k \<notin> key ` set xs"
  by (metis domIff index_by_dom)

lemma index_by_distinct:
  assumes "distinct (map key xs)"
  shows "index_by key xs k = Some x \<longleftrightarrow> x \<in> set xs \<and> key x = k"
proof -
  have "map fst (rev (map (\<lambda>x. (key x, x)) xs)) = rev (map key xs)"
    by (simp add: rev_map comp_def)
  then have "distinct (map fst (rev (map (\<lambda>x. (key x, x)) xs)))"
    using assms by (simp only: distinct_rev)
  then show ?thesis
    unfolding index_by_def by (subst map_of_eq_Some_iff) auto
qed

text \<open>The values met when the runtime ranges over the map \<open>m\<close> in the order \<open>ks\<close>.\<close>

lemma set_map_filter: "set (List.map_filter m ks) = {x. \<exists>k \<in> set ks. m k = Some x}"
  by (force simp: List.map_filter_def image_iff)

lemma distinct_range_values:
  "distinct ks \<Longrightarrow> (\<And>k x. m k = Some x \<Longrightarrow> f x = k) \<Longrightarrow> distinct (map f (List.map_filter m ks))"
  by (induction ks) (auto simp: List.map_filter_simps set_map_filter split: option.splits)

end
