(* ===== verification/SiprecTypes.thy ===== *)
theory SiprecTypes
  imports GoLib
begin

text \<open>
  The data model of \<^verbatim>\<open>pkg/siprec/types.go\<close>: the recording session, its participants, and the
  rs-metadata document of RFC 7865 with its normalisation, the resolution of a stream label to a
  participant, and the Oracle extension data. One record per struct, in the order of the file and
  with the fields of the struct behind a prefix that names the struct. A slice is a list; a nil
  and an empty slice are the same list. A pointer into a slice is an index. The pointer
  \<open>OriginalRequest\<close> of \<open>RecordingSession\<close> to a request of the SIP library, which this package
  never reads, is left out.
\<close>

section \<open>The recording session\<close>

record CommunicationID =
  com_Type :: string
  com_Value :: string
  com_Purpose :: string
  com_Priority :: int
  com_DisplayName :: string
  com_ValidFrom :: go_time
  com_ValidTo :: go_time
  com_Anonymous :: bool

record Participant =
  part_ID :: string
  part_Name :: string
  part_DisplayName :: string
  part_CommunicationIDs :: "CommunicationID list"
  part_Role :: string
  part_Languages :: "string list"
  part_MediaStreams :: "string list"
  part_JoinTime :: go_time
  part_LeaveTime :: go_time
  part_SessionPriority :: int
  part_PartialSession :: bool
  part_Anonymized :: bool
  part_RecordingAware :: bool
  part_ConsentObtained :: bool
  part_Affiliations :: "string list"
  part_ConfRole :: string
  part_GeographicLocation :: string
  part_UserAgent :: string
  part_CallCharges :: real
  part_CallingParty :: bool
  part_CalledParty :: bool
  part_AudioQuality :: real
  part_NetworkDelay :: go_duration
  part_PacketLoss :: real
  part_Jitter :: go_duration

record SessionGroupAssociation =
  sga_SessionGroupID :: string
  sga_SessionID :: string
  sga_Role :: string

record PolicyUpdate =
  pu_PolicyID :: string
  pu_Status :: string
  pu_Acknowledged :: bool
  pu_Timestamp :: string

record PolicyAckStatus =
  pas_Status :: string
  pas_Acknowledged :: bool
  pas_ReportedAt :: go_time
  pas_RawTimestamp :: string

record RecordingSession =
  rec_ID :: string
  rec_SIPID :: string
  rec_Participants :: "Participant list"
  rec_AssociatedTime :: go_time
  rec_SequenceNumber :: int
  rec_RecordingType :: string
  rec_RecordingState :: string
  rec_Direction :: string
  rec_StateReason :: string
  rec_StateReasonRef :: string
  rec_StateExpires :: go_time
  rec_MediaStreamTypes :: "string list"
  rec_SDPStreamLabels :: "string list"
  rec_SessionGroups :: "SessionGroupAssociation list"
  rec_PolicyUpdates :: "PolicyUpdate list"
  rec_SessionGroupRoles :: "string \<rightharpoonup> string"
  rec_PolicyStates :: "string \<rightharpoonup> PolicyAckStatus"
  rec_PolicyID :: string
  rec_RetentionPeriod :: go_duration
  rec_RecordingAgent :: string
  rec_RecordingAgentCert :: "byte list"
  rec_SecurityMechanism :: string
  rec_Reason :: string
  rec_Priority :: int
  rec_StartTime :: go_time
  rec_EndTime :: go_time
  rec_ExtendedMetadata :: "string \<rightharpoonup> string"
  rec_ReplacesSessionID :: string
  rec_PauseResumeAllowed :: bool
  rec_RealTimeMedia :: bool
  rec_FailoverID :: string
  rec_CreatedAt :: go_time
  rec_UpdatedAt :: go_time
  rec_ErrorCount :: int
  rec_IsValid :: bool
  rec_SourceIP :: string
  rec_Callbacks :: "string list"
  rec_ErrorState :: bool
  rec_ErrorMessage :: string
  rec_RetryCount :: int
  rec_Timeout :: go_duration
  rec_LogicalResourceID :: string
  rec_CustomRTPTimeout :: go_duration
  rec_CustomMaxDuration :: go_duration
  rec_CustomRetention :: go_duration
  rec_TimeoutSource :: string

section \<open>The rs-metadata document\<close>

record XMLExtension =
  ext_Space :: string
  ext_Local :: string
  ext_InnerXML :: string

record Group =
  grp_ID :: string
  grp_LegacyID :: string
  grp_AssociateTime :: string
  grp_SessionRefs :: "string list"
  grp_ParticipantRefs :: "string list"
  grp_LegacyParticipantRef :: "string list"
  grp_Extensions :: "XMLExtension list"

record Aor =
  aor_Value :: string
  aor_URI :: string
  aor_Display :: string
  aor_Priority :: int

record LocalizedName =
  ln_Lang :: string
  ln_Value :: string

record RSNameID =
  ni_ID :: string
  ni_AOR :: string
  ni_URI :: string
  ni_Display :: string
  ni_Context :: string
  ni_Names :: "LocalizedName list"
  ni_Extensions :: "XMLExtension list"

record RSParticipant =
  rsp_ID :: string
  rsp_LegacyID :: string
  rsp_NameID :: string
  rsp_Name :: string
  rsp_DisplayName :: string
  rsp_Aor :: "Aor list"
  rsp_NameInfos :: "RSNameID list"
  rsp_Associate :: string
  rsp_Role :: string
  rsp_Send :: "string list"
  rsp_Receive :: "string list"
  rsp_Extensions :: "XMLExtension list"

record Stream =
  st_Label :: string
  st_LabelElement :: string
  st_StreamID :: string
  st_StreamIDAlt :: string
  st_ID :: string
  st_Session :: string
  st_SessionAlt :: string
  st_Mode :: string
  st_ModeElement :: string
  st_Type :: string
  st_AssociateTime :: string
  st_ParticipantRef :: "string list"
  st_MixedStreams :: "string list"
  st_Extensions :: "XMLExtension list"

record RSAssociation =
  asc_SessionID :: string
  asc_SessionIDAlt :: string
  asc_Group :: string
  asc_GroupAlt :: string
  asc_CallID :: string
  asc_CallIDAlt :: string
  asc_FixedID :: string
  asc_IdentityRef :: string

record RSSession =
  ses_ID :: string
  ses_LegacyID :: string
  ses_Type :: string
  ses_AssociateTime :: string
  ses_SIPSessionID :: string
  ses_SessionName :: string
  ses_SessionDescription :: string
  ses_ParticipantRefs :: "string list"
  ses_GroupRefs :: "string list"
  ses_StreamRefs :: "string list"
  ses_Extensions :: "XMLExtension list"

record RSRecordingSession =
  rcs_ID :: string
  rcs_SessionID :: string
  rcs_State :: string
  rcs_Reason :: string
  rcs_AssociateTime :: string
  rcs_Extensions :: "XMLExtension list"

record RSParticipantStreamAssoc =
  psa_ID :: string
  psa_Participant :: string
  psa_ParticipantID :: string
  psa_Stream :: string
  psa_StreamID :: string
  psa_Send :: "string list"
  psa_Receive :: "string list"
  psa_Direction :: string
  psa_Extensions :: "XMLExtension list"

record RSParticipantSessionAssoc =
  pxa_ParticipantID :: string
  pxa_SessionID :: string
  pxa_AssociateTime :: string
  pxa_Extensions :: "XMLExtension list"

record RSMetadata =
  md_XMLSpace :: string
  md_XMLLocal :: string
  md_DataMode :: string
  md_DataModeAlt :: string
  md_SessionID :: string
  md_State :: string
  md_Reason :: string
  md_Sequence :: int
  md_ReasonRef :: string
  md_Expires :: string
  md_MediaLabel :: string
  md_Direction :: string
  md_Group :: "Group list"
  md_Sessions :: "RSSession list"
  md_RecordingSessions :: "RSRecordingSession list"
  md_Participants :: "RSParticipant list"
  md_Streams :: "Stream list"
  md_ParticipantStreamAssoc :: "RSParticipantStreamAssoc list"
  md_ParticipantSessionAssoc :: "RSParticipantSessionAssoc list"
  md_SessionRecordingAssoc :: RSAssociation
  md_SessionGroupAssociations :: "SessionGroupAssociation list"
  md_PolicyUpdates :: "PolicyUpdate list"
  md_FilledFields :: "string list"

text \<open>\<open>OracleExtensionData\<close>, the vendor data of an Oracle session border controller.\<close>

record OracleExtensionData =
  ora_UCID :: string
  ora_CallerOrig :: bool
  ora_CallingParty :: bool

section \<open>Zero values\<close>

definition CommunicationID_zero :: CommunicationID where
  "CommunicationID_zero =
     \<lparr>com_Type = [], com_Value = [], com_Purpose = [], com_Priority = 0, com_DisplayName = [],
      com_ValidFrom = 0, com_ValidTo = 0, com_Anonymous = False\<rparr>"

definition Participant_zero :: Participant where
  "Participant_zero =
     \<lparr>part_ID = [], part_Name = [], part_DisplayName = [], part_CommunicationIDs = [], part_Role = [],
      part_Languages = [], part_MediaStreams = [], part_JoinTime = 0, part_LeaveTime = 0,
      part_SessionPriority = 0, part_PartialSession = False, part_Anonymized = False,
      part_RecordingAware = False, part_ConsentObtained = False, part_Affiliations = [],
      part_ConfRole = [], part_GeographicLocation = [], part_UserAgent = [], part_CallCharges = 0,
      part_CallingParty = False, part_CalledParty = False, part_AudioQuality = 0,
      part_NetworkDelay = 0, part_PacketLoss = 0, part_Jitter = 0\<rparr>"

definition RecordingSession_zero :: RecordingSession where
  "RecordingSession_zero =
     \<lparr>rec_ID = [], rec_SIPID = [], rec_Participants = [], rec_AssociatedTime = 0, rec_SequenceNumber = 0,
      rec_RecordingType = [], rec_RecordingState = [], rec_Direction = [], rec_StateReason = [],
      rec_StateReasonRef = [], rec_StateExpires = 0, rec_MediaStreamTypes = [], rec_SDPStreamLabels = [],
      rec_SessionGroups = [], rec_PolicyUpdates = [], rec_SessionGroupRoles = Map.empty,
      rec_PolicyStates = Map.empty, rec_PolicyID = [], rec_RetentionPeriod = 0, rec_RecordingAgent = [],
      rec_RecordingAgentCert = [], rec_SecurityMechanism = [], rec_Reason = [], rec_Priority = 0,
      rec_StartTime = 0, rec_EndTime = 0, rec_ExtendedMetadata = Map.empty, rec_ReplacesSessionID = [],
      rec_PauseResumeAllowed = False, rec_RealTimeMedia = False, rec_FailoverID = [], rec_CreatedAt = 0,
      rec_UpdatedAt = 0, rec_ErrorCount = 0, rec_IsValid = False, rec_SourceIP = [], rec_Callbacks = [],
      rec_ErrorState = False, rec_ErrorMessage = [], rec_RetryCount = 0, rec_Timeout = 0,
      rec_LogicalResourceID = [], rec_CustomRTPTimeout = 0, rec_CustomMaxDuration = 0,
      rec_CustomRetention = 0, rec_TimeoutSource = []\<rparr>"

definition Aor_zero :: Aor where
  "Aor_zero = \<lparr>aor_Value = [], aor_URI = [], aor_Display = [], aor_Priority = 0\<rparr>"

definition RSNameID_zero :: RSNameID where
  "RSNameID_zero =
     \<lparr>ni_ID = [], ni_AOR = [], ni_URI = [], ni_Display = [], ni_Context = [], ni_Names = [], ni_Extensions = []\<rparr>"

definition RSParticipant_zero :: RSParticipant where
  "RSParticipant_zero =
     \<lparr>rsp_ID = [], rsp_LegacyID = [], rsp_NameID = [], rsp_Name = [], rsp_DisplayName = [], rsp_Aor = [],
      rsp_NameInfos = [], rsp_Associate = [], rsp_Role = [], rsp_Send = [], rsp_Receive = [], rsp_Extensions = []\<rparr>"

definition Stream_zero :: Stream where
  "Stream_zero =
     \<lparr>st_Label = [], st_LabelElement = [], st_StreamID = [], st_StreamIDAlt = [], st_ID = [], st_Session = [],
      st_SessionAlt = [], st_Mode = [], st_ModeElement = [], st_Type = [], st_AssociateTime = [],
      st_ParticipantRef = [], st_MixedStreams = [], st_Extensions = []\<rparr>"

definition RSAssociation_zero :: RSAssociation where
  "RSAssociation_zero =
     \<lparr>asc_SessionID = [], asc_SessionIDAlt = [], asc_Group = [], asc_GroupAlt = [], asc_CallID = [],
      asc_CallIDAlt = [], asc_FixedID = [], asc_IdentityRef = []\<rparr>"

definition RSSession_zero :: RSSession where
  "RSSession_zero =
     \<lparr>ses_ID = [], ses_LegacyID = [], ses_Type = [], ses_AssociateTime = [], ses_SIPSessionID = [],
      ses_SessionName = [], ses_SessionDescription = [], ses_ParticipantRefs = [], ses_GroupRefs = [],
      ses_StreamRefs = [], ses_Extensions = []\<rparr>"

definition RSMetadata_zero :: RSMetadata where
  "RSMetadata_zero =
     \<lparr>md_XMLSpace = [], md_XMLLocal = [], md_DataMode = [], md_DataModeAlt = [], md_SessionID = [],
      md_State = [], md_Reason = [], md_Sequence = 0, md_ReasonRef = [], md_Expires = [], md_MediaLabel = [],
      md_Direction = [], md_Group = [], md_Sessions = [], md_RecordingSessions = [], md_Participants = [],
      md_Streams = [], md_ParticipantStreamAssoc = [], md_ParticipantSessionAssoc = [],
      md_SessionRecordingAssoc = RSAssociation_zero, md_SessionGroupAssociations = [],
      md_PolicyUpdates = [], md_FilledFields = []\<rparr>"

end
