(* ===== verification/SiprecMetadata.thy ===== *)
theory SiprecMetadata
  imports SiprecTypes
begin

text \<open>
  The operations of \<^verbatim>\<open>pkg/siprec/types.go\<close> on the rs-metadata document: \<open>Normalize\<close>, which
  folds the vendors' alternative fields into the standard ones, \<open>ResolveStreamParticipant\<close>, which
  finds the speaker of a stream, and the Oracle extension data. The lemmas show that normalisation
  is a projection onto documents without alternative fields that keeps every standard field that
  is present, and that a resolved stream has a reason in the document.
\<close>

section \<open>Normalisation\<close>

text \<open>One function per loop of \<open>Normalize\<close>, for the loop's body on one element. The tests of a body
  read distinct fields, so each assignment is one field of a record update; an assignment that the
  code guards by the alternative field being present stores the same value without the guard. The
  loop over \<open>RecordingSessions\<close> also updates the document's \<open>State\<close> and \<open>Reason\<close>, so it
  threads the document.\<close>

definition normalize_group :: "Group \<Rightarrow> Group" where
  "normalize_group g =
     g\<lparr>grp_ID := (if grp_ID g = [] then grp_LegacyID g else grp_ID g),
       grp_LegacyID := [],
       grp_ParticipantRefs := grp_ParticipantRefs g @ grp_LegacyParticipantRef g,
       grp_LegacyParticipantRef := []\<rparr>"

definition normalize_session :: "RSSession \<Rightarrow> RSSession" where
  "normalize_session s =
     s\<lparr>ses_ID := (if ses_ID s = [] then ses_LegacyID s else ses_ID s), ses_LegacyID := []\<rparr>"

definition normalize_recsession :: "RSRecordingSession \<Rightarrow> RSRecordingSession" where
  "normalize_recsession r =
     r\<lparr>rcs_SessionID := (if rcs_SessionID r = [] then rcs_ID r else rcs_SessionID r)\<rparr>"

fun normalize_recsessions :: "RSRecordingSession list \<Rightarrow> RSMetadata \<Rightarrow> RSMetadata" where
  "normalize_recsessions [] m = m"
| "normalize_recsessions (r # rs) m =
     (let m1 = (if rcs_State r \<noteq> [] \<and> md_State m = [] then m\<lparr>md_State := rcs_State r\<rparr> else m);
          m2 = (if rcs_Reason r \<noteq> [] \<and> md_Reason m1 = [] then m1\<lparr>md_Reason := rcs_Reason r\<rparr> else m1)
      in normalize_recsessions rs m2)"

fun nameinfo_aors :: "RSNameID list \<Rightarrow> Aor list" where
  "nameinfo_aors [] = []"
| "nameinfo_aors (ni # nis) =
     (if ni_AOR ni \<noteq> [] \<or> ni_URI ni \<noteq> []
      then Aor_zero\<lparr>aor_Value := (if ni_AOR ni = [] then ni_URI ni else ni_AOR ni),
                    aor_URI := ni_URI ni, aor_Display := ni_Display ni\<rparr> # nameinfo_aors nis
      else nameinfo_aors nis)"

definition normalize_participant :: "RSParticipant \<Rightarrow> RSParticipant" where
  "normalize_participant p =
     (let nis = rsp_NameInfos p;
          name = (if rsp_Name p = [] then first_nonblank (concat (map (\<lambda>ni. map ln_Value (ni_Names ni)) nis))
                  else rsp_Name p);
          display = (if rsp_DisplayName p = []
                     then if name \<noteq> [] then name
                          else case nis of [] \<Rightarrow> [] | ni # _ \<Rightarrow> TrimSpace (ni_Display ni)
                     else rsp_DisplayName p)
      in p\<lparr>rsp_ID := (if rsp_ID p = [] then rsp_LegacyID p else rsp_ID p),
           rsp_LegacyID := [],
           rsp_Aor := (if rsp_Aor p = [] then nameinfo_aors nis else rsp_Aor p),
           rsp_Name := name,
           rsp_DisplayName := display\<rparr>)"

definition normalize_stream :: "Stream \<Rightarrow> Stream" where
  "normalize_stream s =
     s\<lparr>st_StreamID := (if st_StreamID s = []
                        then if st_StreamIDAlt s \<noteq> [] then st_StreamIDAlt s else st_ID s
                        else st_StreamID s),
       st_Label := (if st_Label s = [] then st_LabelElement s else st_Label s),
       st_Mode := (if st_Mode s = [] then st_ModeElement s else st_Mode s),
       st_Session := (if st_Session s = [] then st_SessionAlt s else st_Session s),
       st_StreamIDAlt := [], st_ID := [], st_LabelElement := [], st_ModeElement := [], st_SessionAlt := []\<rparr>"

definition normalize_assoc :: "RSAssociation \<Rightarrow> RSAssociation" where
  "normalize_assoc a =
     a\<lparr>asc_SessionID := (if asc_SessionID a = [] then asc_SessionIDAlt a else asc_SessionID a),
       asc_Group := (if asc_Group a = [] then asc_GroupAlt a else asc_Group a),
       asc_CallID := (if asc_CallID a = [] then asc_CallIDAlt a else asc_CallID a),
       asc_SessionIDAlt := [], asc_GroupAlt := [], asc_CallIDAlt := []\<rparr>"

text \<open>The last three steps of \<open>Normalize\<close>: where the recording session's ID comes from.\<close>

definition resolve_session_id :: "RSMetadata \<Rightarrow> string" where
  "resolve_session_id m =
     (let i1 = (if md_SessionID m = [] then asc_SessionID (md_SessionRecordingAssoc m) else md_SessionID m);
          i2 = (if i1 = [] then (case md_Sessions m of [] \<Rightarrow> i1 | s # _ \<Rightarrow> ses_ID s) else i1)
      in if i2 = []
         then (case md_RecordingSessions m of [] \<Rightarrow> i2
               | r # _ \<Rightarrow> if rcs_SessionID r \<noteq> [] then rcs_SessionID r
                           else if rcs_ID r \<noteq> [] then rcs_ID r else i2)
         else i2)"

definition Normalize :: "RSMetadata \<Rightarrow> RSMetadata" where
  "Normalize m =
     (let m' = (normalize_recsessions (md_RecordingSessions m) m)
            \<lparr>md_DataMode := (if md_DataMode m = [] then md_DataModeAlt m else md_DataMode m),
             md_DataModeAlt := [],
             md_Group := map normalize_group (md_Group m),
             md_Sessions := map normalize_session (md_Sessions m),
             md_RecordingSessions := map normalize_recsession (md_RecordingSessions m),
             md_Participants := map normalize_participant (md_Participants m),
             md_Streams := map normalize_stream (md_Streams m),
             md_SessionRecordingAssoc := normalize_assoc (md_SessionRecordingAssoc m)\<rparr>
      in m'\<lparr>md_SessionID := resolve_session_id m'\<rparr>)"

text \<open>\<open>UnmarshalXML\<close> normalises what the XML decoder returns; the decoder's result is its argument,
  \<open>None\<close> where it reports an error.\<close>

definition UnmarshalXML :: "RSMetadata option \<Rightarrow> RSMetadata option" where
  "UnmarshalXML aux = map_option Normalize aux"

section \<open>The participant behind a stream\<close>

definition streamIDToLabel :: "Stream list \<Rightarrow> (string \<rightharpoonup> string)" where
  "streamIDToLabel ss =
     fold (\<lambda>s m. if st_StreamID s \<noteq> [] \<and> st_Label s \<noteq> [] then m(st_StreamID s \<mapsto> st_Label s) else m) ss Map.empty"

definition assoc_matches :: "(string \<rightharpoonup> string) \<Rightarrow> string \<Rightarrow> RSParticipantStreamAssoc \<Rightarrow> bool" where
  "assoc_matches idToLabel label a =
     ((if psa_Stream a = [] then psa_StreamID a else psa_Stream a) = label \<or>
      list_ex (\<lambda>sendRef. sendRef = label \<or> idToLabel sendRef = Some label) (psa_Send a))"

definition assoc_participant :: "RSParticipantStreamAssoc \<Rightarrow> string" where
  "assoc_participant a = (if psa_Participant a = [] then psa_ParticipantID a else psa_Participant a)"

definition participant_index :: "RSParticipant list \<Rightarrow> string \<Rightarrow> nat option" where
  "participant_index ps ident = index_of (\<lambda>p. rsp_ID p = ident) ps"

fun resolve_by_assoc ::
  "(string \<rightharpoonup> string) \<Rightarrow> string \<Rightarrow> RSParticipant list \<Rightarrow> RSParticipantStreamAssoc list \<Rightarrow> nat option" where
  "resolve_by_assoc idToLabel label ps [] = None"
| "resolve_by_assoc idToLabel label ps (a # as) =
     (if assoc_matches idToLabel label a \<and> assoc_participant a \<noteq> []
      then case participant_index ps (assoc_participant a) of
             Some i \<Rightarrow> Some i
           | None \<Rightarrow> resolve_by_assoc idToLabel label ps as
      else resolve_by_assoc idToLabel label ps as)"

definition stream_ref :: "Stream \<Rightarrow> string" where
  "stream_ref s = (if st_Label s = [] then st_StreamID s else st_Label s)"

fun resolve_by_stream :: "string \<Rightarrow> RSParticipant list \<Rightarrow> Stream list \<Rightarrow> nat option" where
  "resolve_by_stream label ps [] = None"
| "resolve_by_stream label ps (s # ss) =
     (case st_ParticipantRef s of
        r # _ \<Rightarrow>
          if stream_ref s = label
          then (case participant_index ps r of Some i \<Rightarrow> Some i | None \<Rightarrow> resolve_by_stream label ps ss)
          else resolve_by_stream label ps ss
      | [] \<Rightarrow> resolve_by_stream label ps ss)"

definition ResolveStreamParticipant :: "RSMetadata \<Rightarrow> string \<Rightarrow> nat option" where
  "ResolveStreamParticipant m label =
     (if label = [] then None
      else case resolve_by_assoc (streamIDToLabel (md_Streams m)) label (md_Participants m)
                  (md_ParticipantStreamAssoc m) of
        Some i \<Rightarrow> Some i
      | None \<Rightarrow>
          (case resolve_by_stream label (md_Participants m) (md_Streams m) of
             Some i \<Rightarrow> Some i
           | None \<Rightarrow> index_of (\<lambda>p. label \<in> set (rsp_Send p)) (md_Participants m)))"

section \<open>Oracle extension data\<close>

text \<open>The text between a start tag and the first closing tag after it, prefixed closing tags
  first; \<open>None\<close> when the tag is not there or is not closed.\<close>

definition tag_content :: "string \<Rightarrow> string \<Rightarrow> string \<Rightarrow> string option" where
  "tag_content xml elementName startTag =
     (case Index xml startTag of
        None \<Rightarrow> None
      | Some idx \<Rightarrow>
          (let rest = drop (idx + length startTag) xml;
               endIdx = (case Index rest (''</apkt:'' @ elementName @ ''>'') of
                           Some e \<Rightarrow> Some e
                         | None \<Rightarrow> Index rest (''</'' @ elementName @ ''>''))
           in map_option (\<lambda>e. take e rest) endIdx))"

definition clean_content :: "string \<Rightarrow> string" where
  "clean_content content =
     (case Index content '';'' of
        Some i \<Rightarrow> TrimSpace (if i > 0 then take i content else content)
      | None \<Rightarrow> TrimSpace content)"

definition extractXMLElement :: "string \<Rightarrow> string \<Rightarrow> string" where
  "extractXMLElement xml elementName =
     (case tag_content xml elementName (''<apkt:'' @ elementName @ ''>'') of
        Some content \<Rightarrow> clean_content content
      | None \<Rightarrow>
          (case tag_content xml elementName (''<'' @ elementName @ ''>'') of
             Some content \<Rightarrow> clean_content content
           | None \<Rightarrow> []))"

definition is_oracle_ext :: "XMLExtension \<Rightarrow> bool" where
  "is_oracle_ext ext \<longleftrightarrow>
     ext_Space ext = ''http://acmepacket.com/siprec/extensiondata'' \<or>
     HasPrefix (ext_Local ext) ''apkt:'' \<or>
     Contains (ext_InnerXML ext) ''acmepacket.com/siprec/extensiondata''"

definition oracle_step :: "XMLExtension \<Rightarrow> OracleExtensionData \<times> bool \<Rightarrow> OracleExtensionData \<times> bool" where
  "oracle_step ext st =
     (if is_oracle_ext ext then
        let inner = ext_InnerXML ext;
            ucid = extractXMLElement inner ''ucid'';
            st1 = (if ucid \<noteq> [] then ((fst st)\<lparr>ora_UCID := ucid\<rparr>, True) else st);
            callerOrig = extractXMLElement inner ''callerOrig'';
            st2 = (if callerOrig \<noteq> [] then ((fst st1)\<lparr>ora_CallerOrig := EqualFold callerOrig ''true''\<rparr>, True) else st1);
            callingParty = extractXMLElement inner ''callingParty''
        in if callingParty \<noteq> [] then ((fst st2)\<lparr>ora_CallingParty := EqualFold callingParty ''true''\<rparr>, True) else st2
      else st)"

definition ExtractOracleExtensions :: "XMLExtension list \<Rightarrow> OracleExtensionData option" where
  "ExtractOracleExtensions exts =
     (let (d, found) = fold oracle_step exts
            (\<lparr>ora_UCID = [], ora_CallerOrig = False, ora_CallingParty = False\<rparr>, False)
      in if found then Some d else None)"

definition GetOracleSessionExtensions :: "RSMetadata \<Rightarrow> OracleExtensionData option" where
  "GetOracleSessionExtensions m =
     (case List.map_filter (\<lambda>s. ExtractOracleExtensions (ses_Extensions s)) (md_Sessions m) of
        d # _ \<Rightarrow> Some d
      | [] \<Rightarrow>
          (case List.map_filter (\<lambda>r. ExtractOracleExtensions (rcs_Extensions r)) (md_RecordingSessions m) of
             d # _ \<Rightarrow> Some d | [] \<Rightarrow> None))"

text \<open>The map from participant ID to its data; the empty map is the code's nil.\<close>

definition GetOracleParticipantExtensions :: "RSMetadata \<Rightarrow> (string \<rightharpoonup> OracleExtensionData)" where
  "GetOracleParticipantExtensions m =
     fold (\<lambda>p r. case ExtractOracleExtensions (rsp_Extensions p) of
                   None \<Rightarrow> r
                 | Some d \<Rightarrow>
                     (let ident = (if rsp_ID p = [] then rsp_LegacyID p else rsp_ID p)
                      in if ident \<noteq> [] then r(ident \<mapsto> d) else r))
       (md_Participants m) Map.empty"

text \<open>The code ranges over that map in an order the runtime picks; \<open>ks\<close> is that order.\<close>

definition IdentifyCallingParticipant :: "string list \<Rightarrow> RSMetadata \<Rightarrow> string" where
  "IdentifyCallingParticipant ks m =
     (case find (\<lambda>k. case GetOracleParticipantExtensions m k of
                       None \<Rightarrow> False | Some d \<Rightarrow> ora_CallingParty d) ks of
        None \<Rightarrow> [] | Some k \<Rightarrow> k)"


section \<open>Normalisation is a projection\<close>

text \<open>The first string of a list that is not empty: how \<open>Normalize\<close> picks between fields.\<close>

definition first_present :: "string list \<Rightarrow> string" where
  "first_present xs = (case filter (\<lambda>s. s \<noteq> []) xs of [] \<Rightarrow> [] | s # _ \<Rightarrow> s)"

text \<open>A document without alternative fields.\<close>

definition no_alternatives :: "RSMetadata \<Rightarrow> bool" where
  "no_alternatives m \<longleftrightarrow>
     md_DataModeAlt m = [] \<and>
     (\<forall>g \<in> set (md_Group m). grp_LegacyID g = [] \<and> grp_LegacyParticipantRef g = []) \<and>
     (\<forall>s \<in> set (md_Sessions m). ses_LegacyID s = []) \<and>
     (\<forall>p \<in> set (md_Participants m). rsp_LegacyID p = []) \<and>
     (\<forall>s \<in> set (md_Streams m). st_StreamIDAlt s = [] \<and> st_ID s = [] \<and> st_LabelElement s = [] \<and>
        st_ModeElement s = [] \<and> st_SessionAlt s = []) \<and>
     asc_SessionIDAlt (md_SessionRecordingAssoc m) = [] \<and> asc_GroupAlt (md_SessionRecordingAssoc m) = [] \<and>
     asc_CallIDAlt (md_SessionRecordingAssoc m) = []"

lemma first_present_simps [simp]:
  "first_present [] = []"
  "first_present (s # ss) = (if s = [] then first_present ss else s)"
  by (simp_all add: first_present_def)

lemma first_present_append: "first_present (xs @ ys) = (if first_present xs = [] then first_present ys else first_present xs)"
  by (induction xs) auto

lemma normalize_group_idem [simp]: "normalize_group (normalize_group g) = normalize_group g"
  by (simp add: normalize_group_def Let_def)

lemma normalize_session_idem [simp]: "normalize_session (normalize_session s) = normalize_session s"
  by (simp add: normalize_session_def)

lemma normalize_recsession_idem [simp]: "normalize_recsession (normalize_recsession r) = normalize_recsession r"
  by (simp add: normalize_recsession_def)

lemma normalize_participant_idem [simp]:
  "normalize_participant (normalize_participant p) = normalize_participant p"
  by (cases "rsp_NameInfos p") (simp_all add: normalize_participant_def Let_def)

lemma normalize_stream_idem [simp]: "normalize_stream (normalize_stream s) = normalize_stream s"
  by (simp add: normalize_stream_def Let_def)

lemma normalize_assoc_idem [simp]: "normalize_assoc (normalize_assoc a) = normalize_assoc a"
  by (simp add: normalize_assoc_def Let_def)

lemma normalize_recsession_keeps [simp]:
  "rcs_State (normalize_recsession r) = rcs_State r" "rcs_Reason (normalize_recsession r) = rcs_Reason r"
  "rcs_ID (normalize_recsession r) = rcs_ID r"
  "rcs_SessionID (normalize_recsession r) = first_present [rcs_SessionID r, rcs_ID r]"
  by (simp_all add: normalize_recsession_def)

lemma normalize_session_ID [simp]:
  "ses_ID (normalize_session s) = first_present [ses_ID s, ses_LegacyID s]" "ses_LegacyID (normalize_session s) = []"
  by (simp_all add: normalize_session_def)

lemma normalize_assoc_SessionID [simp]:
  "asc_SessionID (normalize_assoc a) = first_present [asc_SessionID a, asc_SessionIDAlt a]"
  "asc_SessionIDAlt (normalize_assoc a) = []"
  by (simp_all add: normalize_assoc_def)

lemma normalize_recsessions_eq:
  "normalize_recsessions rs m =
     m\<lparr>md_State := first_present (md_State m # map rcs_State rs),
       md_Reason := first_present (md_Reason m # map rcs_Reason rs)\<rparr>"
  by (induction rs arbitrary: m) (simp_all add: Let_def)

text \<open>Every field of a normalised document.\<close>

lemma Normalize_fields [simp]:
  "md_XMLSpace (Normalize m) = md_XMLSpace m" "md_XMLLocal (Normalize m) = md_XMLLocal m"
  "md_DataMode (Normalize m) = first_present [md_DataMode m, md_DataModeAlt m]"
  "md_DataModeAlt (Normalize m) = []"
  "md_State (Normalize m) = first_present (md_State m # map rcs_State (md_RecordingSessions m))"
  "md_Reason (Normalize m) = first_present (md_Reason m # map rcs_Reason (md_RecordingSessions m))"
  "md_Sequence (Normalize m) = md_Sequence m" "md_ReasonRef (Normalize m) = md_ReasonRef m"
  "md_Expires (Normalize m) = md_Expires m" "md_MediaLabel (Normalize m) = md_MediaLabel m"
  "md_Direction (Normalize m) = md_Direction m"
  "md_Group (Normalize m) = map normalize_group (md_Group m)"
  "md_Sessions (Normalize m) = map normalize_session (md_Sessions m)"
  "md_RecordingSessions (Normalize m) = map normalize_recsession (md_RecordingSessions m)"
  "md_Participants (Normalize m) = map normalize_participant (md_Participants m)"
  "md_Streams (Normalize m) = map normalize_stream (md_Streams m)"
  "md_ParticipantStreamAssoc (Normalize m) = md_ParticipantStreamAssoc m"
  "md_ParticipantSessionAssoc (Normalize m) = md_ParticipantSessionAssoc m"
  "md_SessionRecordingAssoc (Normalize m) = normalize_assoc (md_SessionRecordingAssoc m)"
  "md_SessionGroupAssociations (Normalize m) = md_SessionGroupAssociations m"
  "md_PolicyUpdates (Normalize m) = md_PolicyUpdates m" "md_FilledFields (Normalize m) = md_FilledFields m"
  by (simp_all add: Normalize_def Let_def normalize_recsessions_eq)

text \<open>Where the recording session's ID comes from, in the order the code looks.\<close>

lemma Normalize_SessionID [simp]:
  "md_SessionID (Normalize m) =
     first_present
       ([md_SessionID m, asc_SessionID (md_SessionRecordingAssoc m), asc_SessionIDAlt (md_SessionRecordingAssoc m)] @
        concat (map (\<lambda>s. [ses_ID s, ses_LegacyID s]) (take 1 (md_Sessions m))) @
        concat (map (\<lambda>r. [rcs_SessionID r, rcs_ID r]) (take 1 (md_RecordingSessions m))))"
  by (auto simp: Normalize_def Let_def normalize_recsessions_eq resolve_session_id_def
      split: list.splits if_splits)

lemma first_present_recs_idem:
  "first_present (first_present (x # xs) # xs) = first_present (x # xs)"
  by (induction xs) auto


text \<open>C1: normalising a document twice is normalising it once, and a normalised document has no
  alternative field left: the recorder may normalise at every hop (decoding, response, failover)
  without changing what it says.\<close>

theorem Normalize_projection: "Normalize (Normalize m) = Normalize m \<and> no_alternatives (Normalize m)"
proof
  show "Normalize (Normalize m) = Normalize m"
  proof (rule RSMetadata.equality)
    show "md_State (Normalize (Normalize m)) = md_State (Normalize m)"
      using first_present_recs_idem [of "md_State m" "map rcs_State (md_RecordingSessions m)"]
      by (simp add: comp_def)
    show "md_Reason (Normalize (Normalize m)) = md_Reason (Normalize m)"
      using first_present_recs_idem [of "md_Reason m" "map rcs_Reason (md_RecordingSessions m)"]
      by (simp add: comp_def)
    show "md_SessionID (Normalize (Normalize m)) = md_SessionID (Normalize m)"
      by (cases "md_Sessions m"; cases "md_RecordingSessions m") auto
  qed (simp_all add: comp_def)
  show "no_alternatives (Normalize m)"
    by (auto simp: no_alternatives_def normalize_group_def normalize_session_def
        normalize_participant_def normalize_stream_def normalize_assoc_def Let_def)
qed

text \<open>Normalisation keeps what a standard document says. Where the document names its session,
  its state and its reason itself, these stand; otherwise the ID is the first one present among the
  recording association, the first session element and the first recording-session element, in
  that order, and the state and the reason are those of the first recording session that has one.\<close>

theorem Normalize_keeps_and_fills:
  "md_SessionID (Normalize m) =
     first_present
       ([md_SessionID m, asc_SessionID (md_SessionRecordingAssoc m), asc_SessionIDAlt (md_SessionRecordingAssoc m)] @
        concat (map (\<lambda>s. [ses_ID s, ses_LegacyID s]) (take 1 (md_Sessions m))) @
        concat (map (\<lambda>r. [rcs_SessionID r, rcs_ID r]) (take 1 (md_RecordingSessions m)))) \<and>
   md_State (Normalize m) = first_present (md_State m # map rcs_State (md_RecordingSessions m)) \<and>
   md_Reason (Normalize m) = first_present (md_Reason m # map rcs_Reason (md_RecordingSessions m))"
  by simp

section \<open>Resolved streams\<close>

text \<open>Why a participant stands behind a stream label: an association that names the label and the
  participant, a stream element with that label and that first reference, or the participant's
  own send list.\<close>

definition stream_evidence :: "RSMetadata \<Rightarrow> string \<Rightarrow> RSParticipant \<Rightarrow> bool" where
  "stream_evidence m label p \<longleftrightarrow>
     (\<exists>a \<in> set (md_ParticipantStreamAssoc m).
        assoc_matches (streamIDToLabel (md_Streams m)) label a \<and>
        assoc_participant a \<noteq> [] \<and> rsp_ID p = assoc_participant a) \<or>
     (\<exists>s \<in> set (md_Streams m). stream_ref s = label \<and> (\<exists>rs. st_ParticipantRef s = rsp_ID p # rs)) \<or>
     label \<in> set (rsp_Send p)"

lemma participant_index_Some:
  "participant_index ps ident = Some i \<Longrightarrow> i < length ps \<and> rsp_ID (ps ! i) = ident"
  by (auto simp: participant_index_def dest: index_of_Some)

lemma participant_index_None: "participant_index ps ident = None \<longleftrightarrow> (\<forall>p \<in> set ps. rsp_ID p \<noteq> ident)"
  by (auto simp: participant_index_def index_of_None)

lemma resolve_by_assoc_Some:
  "resolve_by_assoc f label ps as = Some i \<Longrightarrow>
     i < length ps \<and> (\<exists>a \<in> set as. assoc_matches f label a \<and> assoc_participant a \<noteq> [] \<and>
       rsp_ID (ps ! i) = assoc_participant a)"
  by (induction as) (auto split: if_splits option.splits dest: participant_index_Some)

lemma resolve_by_assoc_None:
  "resolve_by_assoc f label ps as = None \<Longrightarrow> a \<in> set as \<Longrightarrow> assoc_matches f label a \<Longrightarrow>
     assoc_participant a \<noteq> [] \<Longrightarrow> p \<in> set ps \<Longrightarrow> rsp_ID p \<noteq> assoc_participant a"
  by (induction as) (auto split: if_splits option.splits simp: participant_index_None)

lemma resolve_by_stream_Some:
  "resolve_by_stream label ps ss = Some i \<Longrightarrow>
     i < length ps \<and> (\<exists>s \<in> set ss. stream_ref s = label \<and> (\<exists>rs. st_ParticipantRef s = rsp_ID (ps ! i) # rs))"
  by (induction ss) (auto split: if_splits option.splits list.splits dest: participant_index_Some)

lemma resolve_by_stream_None:
  "resolve_by_stream label ps ss = None \<Longrightarrow> s \<in> set ss \<Longrightarrow> stream_ref s = label \<Longrightarrow>
     st_ParticipantRef s = r # rs \<Longrightarrow> p \<in> set ps \<Longrightarrow> rsp_ID p \<noteq> r"
  by (induction ss) (auto split: if_splits option.splits list.splits simp: participant_index_None)

text \<open>Stream resolution is sound and complete. A label resolves to a participant only if the
  document gives evidence for it, and whenever the document gives evidence for some participant,
  the label resolves.\<close>

theorem ResolveStreamParticipant_correct:
  assumes "label \<noteq> []"
  shows "(\<forall>i. ResolveStreamParticipant m label = Some i \<longrightarrow>
            i < length (md_Participants m) \<and> stream_evidence m label (md_Participants m ! i)) \<and>
         (ResolveStreamParticipant m label = None \<longleftrightarrow>
            (\<forall>p \<in> set (md_Participants m). \<not> stream_evidence m label p))"
proof
  let ?f = "streamIDToLabel (md_Streams m)" and ?ps = "md_Participants m"
  let ?a = "resolve_by_assoc ?f label ?ps (md_ParticipantStreamAssoc m)"
  let ?s = "resolve_by_stream label ?ps (md_Streams m)"
  let ?i = "index_of (\<lambda>p. label \<in> set (rsp_Send p)) ?ps"
  have cases: "ResolveStreamParticipant m label = (case ?a of Some i \<Rightarrow> Some i | None \<Rightarrow> (case ?s of Some i \<Rightarrow> Some i | None \<Rightarrow> ?i))"
    using assms by (simp add: ResolveStreamParticipant_def)
  show sound: "\<forall>i. ResolveStreamParticipant m label = Some i \<longrightarrow>
      i < length ?ps \<and> stream_evidence m label (?ps ! i)"
    unfolding cases
    by (auto simp: stream_evidence_def split: option.splits
        dest: resolve_by_assoc_Some resolve_by_stream_Some index_of_Some)
  show "ResolveStreamParticipant m label = None \<longleftrightarrow> (\<forall>p \<in> set ?ps. \<not> stream_evidence m label p)"
  proof
    assume none: "ResolveStreamParticipant m label = None"
    then have "?a = None" "?s = None" "?i = None"
      unfolding cases by (auto split: option.splits)
    then show "\<forall>p \<in> set ?ps. \<not> stream_evidence m label p"
      by (auto simp: stream_evidence_def index_of_None dest: resolve_by_assoc_None resolve_by_stream_None)
  next
    assume none: "\<forall>p \<in> set ?ps. \<not> stream_evidence m label p"
    show "ResolveStreamParticipant m label = None"
      using sound none by (cases "ResolveStreamParticipant m label") auto
  qed
qed

text \<open>Two legs of a call in the Avaya form: the association names a stream by its ID, the stream
  carries the label.\<close>

definition avaya_example :: RSMetadata where
  "avaya_example =
     RSMetadata_zero
       \<lparr>md_Participants := [RSParticipant_zero\<lparr>rsp_ID := ''p1''\<rparr>, RSParticipant_zero\<lparr>rsp_ID := ''p2''\<rparr>],
        md_Streams := [Stream_zero\<lparr>st_StreamID := ''s1'', st_Label := ''1''\<rparr>,
                       Stream_zero\<lparr>st_StreamID := ''s2'', st_Label := ''2''\<rparr>],
        md_ParticipantStreamAssoc :=
          [\<lparr>psa_ID = [], psa_Participant = [], psa_ParticipantID = ''p2'', psa_Stream = [], psa_StreamID = [],
            psa_Send = [''s2''], psa_Receive = [''s1''], psa_Direction = [], psa_Extensions = []\<rparr>]\<rparr>"

theorem ResolveStreamParticipant_correct_witness:
  "ResolveStreamParticipant avaya_example ''2'' = Some 1 \<and>
   stream_evidence avaya_example ''2'' (md_Participants avaya_example ! 1) \<and>
   \<not> stream_evidence avaya_example ''1'' (md_Participants avaya_example ! 0)"
proof -
  have some: "ResolveStreamParticipant avaya_example ''2'' = Some 1"
    by code_simp
  have none: "ResolveStreamParticipant avaya_example ''1'' = None"
    by code_simp
  have p0: "md_Participants avaya_example ! 0 \<in> set (md_Participants avaya_example)"
    by (simp add: avaya_example_def)
  show ?thesis
    using ResolveStreamParticipant_correct [of "''2''" avaya_example]
      ResolveStreamParticipant_correct [of "''1''" avaya_example] some none p0
    by auto
qed

end
