(* ===== verification/SiprecValidation.thy ===== *)
theory SiprecValidation
  imports SiprecMetadata "HOL-Library.Multiset"
begin

text \<open>
  \<^verbatim>\<open>pkg/siprec/parser.go\<close>: the validation of rs-metadata and the metadata of a response.
  \<open>ValidateSiprecMessageWithOptions\<close> runs a sequence of checks, each of which appends messages to
  the lists of errors and warnings of its result. A check is the list of \<open>issue\<close>s it appends, in
  the order of the code, an error or a warning each; a message is a constructor of \<open>vmsg\<close> with the
  values the code formats into its text. The main theorem compares the validator with a
  declarative definition of an acceptable document.
\<close>

datatype doc_msg =
    MetadataNil | UnexpectedNamespace string | MissingNamespace | UnexpectedRoot string
  | MissingSessionID | SessionIDTooLong | MissingState | InvalidState string | MissingTerminationReason
  | UnsupportedReason string | ReasonNotValidForState string string | ErrorStateWithoutReason
  | NonStandardReasonRef string | ReasonRefWithoutReason | InvalidSequence | ExpiresNotRFC3339

datatype part_msg =
    NoParticipants | NoParticipantsContinuing | ParticipantMissingID | DuplicateParticipant string
  | EmptyAOR string | InvalidAORURI string string | ParticipantWithoutContact string
  | InvalidRole string string | GroupMissingID | GroupUnknownParticipant string string

datatype stream_msg =
    StreamMissingLabel | StreamMissingID | DuplicateStream string | StreamMissingType string
  | StreamInvalidType string string | MixedWithoutSources string

datatype policy_msg =
    PolicyMissingID | PolicyDuplicate string | PolicyMissingStatus string
  | PolicyUnsupportedStatus string string | PolicyBadTimestamp string | PolicyAckPending string
  | PolicyAckNoTimestamp string | PolicyNoAck string string
  | PolicyUpdateMissingID | PolicyUpdateMissingStatus string

datatype assoc_msg =
    MissingAssoc | AssocMissingSession | AssocMismatch string string | AssocNoCall
  | SGAMissingGroup | SGAMissingSession | SGAMismatch string string | SGADuplicate string
  | GroupAssocMissingGroup | GroupAssocMissingSession

datatype session_msg =
    NoSessions | SessionMissingID | SessionUnknownParticipant string string
  | SessionUnknownStream string string | NoMatchingSession

datatype ref_msg =
    PXAMissingParticipant | PXAUnknownParticipant string | PXAMissingSession | PXAMismatch string string
  | PSAMissingParticipant | PSAUnknownParticipant string | PSAMissingStream | PSAUnknownStream string

datatype vmsg =
    DocMsg doc_msg | PartMsg part_msg | StreamMsg stream_msg | PolicyMsg policy_msg | AssocMsg assoc_msg | SessionMsg session_msg | RefMsg ref_msg

datatype issue = Err vmsg | Warn vmsg

record ValidationResult =
  vr_Errors :: "vmsg list"
  vr_Warnings :: "vmsg list"

record ValidationOptions =
  vo_AllowMissingParticipants :: bool

fun error_of :: "issue \<Rightarrow> vmsg list" where
  "error_of (Err e) = [e]"
| "error_of (Warn w) = []"

fun warning_of :: "issue \<Rightarrow> vmsg list" where
  "warning_of (Err e) = []"
| "warning_of (Warn w) = [w]"

definition errors_of :: "issue list \<Rightarrow> vmsg list" where
  "errors_of is = concat (map error_of is)"

definition warnings_of :: "issue list \<Rightarrow> vmsg list" where
  "warnings_of is = concat (map warning_of is)"

section \<open>The tables\<close>

definition allowedRecordingStates :: "string list" where
  "allowedRecordingStates =
     [''pending'', ''initializing'', ''active'', ''paused'', ''partial'', ''inactive'', ''resuming'',
      ''recovering'', ''completed'', ''terminated'', ''error'', ''unknown'']"

definition allowedRecordingReasons :: "string list" where
  "allowedRecordingReasons =
     [''normal'', ''manual'', ''error'', ''failure'', ''system-failure'', ''media-failure'',
      ''resource-exhausted'', ''policy'', ''timeout'', ''emergency'', ''cancelled'']"

definition stateReasonMatrix :: "string \<rightharpoonup> string list" where
  "stateReasonMatrix =
     map_of
       [(''pending'', [''normal'', ''manual'', ''policy'', ''resource-exhausted'']),
        (''initializing'', [''normal'', ''manual'', ''policy'']),
        (''active'', [''normal'', ''manual'', ''policy'', ''emergency'']),
        (''paused'', [''manual'', ''policy'', ''resource-exhausted'', ''system-failure'']),
        (''partial'', [''manual'', ''policy'', ''resource-exhausted'', ''system-failure'']),
        (''inactive'', [''normal'', ''manual'', ''policy'']),
        (''resuming'', [''normal'', ''manual'']),
        (''recovering'', [''manual'', ''system-failure'', ''error'']),
        (''completed'', [''normal'', ''manual'', ''policy'']),
        (''terminated'', [''normal'', ''manual'', ''error'', ''failure'', ''system-failure'', ''media-failure'',
           ''resource-exhausted'', ''policy'', ''timeout'', ''emergency'', ''cancelled'']),
        (''error'', [''error'', ''failure'', ''system-failure'', ''media-failure''])]"

definition allowedPolicyStatuses :: "string list" where
  "allowedPolicyStatuses =
     [''pending'', ''applied'', ''acknowledged'', ''rejected'', ''accepted'', ''denied'', ''revoked'',
      ''deferred'', ''error'']"

definition allowedParticipantRoles :: "string list" where
  "allowedParticipantRoles = [''active'', ''passive'', ''focus'', ''mixer'', ''observer'']"

definition allowedStreamTypes :: "string list" where
  "allowedStreamTypes = [''audio'', ''video'', ''text'', ''message'', ''application'']"

section \<open>Identifiers\<close>

definition normalizedParticipantID :: "RSParticipant \<Rightarrow> string" where
  "normalizedParticipantID p = first_nonblank [rsp_ID p, rsp_LegacyID p, rsp_NameID p]"

definition normalizedStreamID :: "Stream \<Rightarrow> string" where
  "normalizedStreamID s = first_nonblank [st_StreamID s, st_StreamIDAlt s, st_ID s]"

definition normalizedStreamLabel :: "Stream \<Rightarrow> string" where
  "normalizedStreamLabel s = first_nonblank [st_Label s, st_LabelElement s, normalizedStreamID s]"

definition normalizedAssocSessionID :: "RSAssociation \<Rightarrow> string" where
  "normalizedAssocSessionID a = first_nonblank [asc_SessionID a, asc_SessionIDAlt a]"

section \<open>The checks\<close>

definition check_root :: "RSMetadata \<Rightarrow> issue list" where
  "check_root m =
     (let ns = TrimSpace (md_XMLSpace m); local = TrimSpace (md_XMLLocal m)
      in (if ns \<noteq> [] \<and> ns \<noteq> ''urn:ietf:params:xml:ns:recording:1'' then [Warn (DocMsg (UnexpectedNamespace ns))]
          else if ns = [] then [Warn (DocMsg MissingNamespace)] else []) @
         (if local \<noteq> [] \<and> local \<noteq> ''recording'' then [Err (DocMsg (UnexpectedRoot local))] else []))"

definition check_session_id :: "string \<Rightarrow> issue list" where
  "check_session_id sessionID =
     (if sessionID = [] then [Err (DocMsg MissingSessionID)]
      else if length sessionID > 255 then [Err (DocMsg SessionIDTooLong)] else [])"

definition check_state_reason :: "RSMetadata \<Rightarrow> issue list" where
  "check_state_reason m =
     (let state = ToLower (TrimSpace (md_State m)); reason = ToLower (TrimSpace (md_Reason m))
      in (if state = [] then [Warn (DocMsg MissingState)]
          else if state \<notin> set allowedRecordingStates then [Err (DocMsg (InvalidState (md_State m)))] else []) @
         (if state = ''terminated'' \<and> reason = [] then [Err (DocMsg MissingTerminationReason)] else []) @
         (if reason \<noteq> [] then
            (if reason \<notin> set allowedRecordingReasons then [Err (DocMsg (UnsupportedReason (md_Reason m)))] else []) @
            (case stateReasonMatrix state of
               Some allowed \<Rightarrow> if allowed \<noteq> [] \<and> reason \<notin> set allowed then [Err (DocMsg (ReasonNotValidForState reason state))] else []
             | None \<Rightarrow> [])
          else if state = ''error'' then [Err (DocMsg ErrorStateWithoutReason)] else []))"

definition check_reason_ref :: "RSMetadata \<Rightarrow> issue list" where
  "check_reason_ref m =
     (let reasonRef = TrimSpace (md_ReasonRef m)
      in if reasonRef \<noteq> [] then
           (if \<not> HasPrefix reasonRef ''urn:ietf:params:xml:ns:recording:1:''
            then [Warn (DocMsg (NonStandardReasonRef (md_ReasonRef m)))] else []) @
           (if ToLower (TrimSpace (md_Reason m)) = [] then [Warn (DocMsg ReasonRefWithoutReason)] else [])
         else [])"

definition check_sequence_expires :: "RSMetadata \<Rightarrow> issue list" where
  "check_sequence_expires m =
     (if md_Sequence m < 0 then [Err (DocMsg InvalidSequence)] else []) @
     (let expires = TrimSpace (md_Expires m)
      in if expires \<noteq> [] \<and> parseRFC3339 expires = None then [Warn (DocMsg ExpiresNotRFC3339)] else [])"

definition check_aor :: "string \<Rightarrow> Aor \<Rightarrow> issue list" where
  "check_aor ident a =
     (if TrimSpace (aor_Value a) = [] then [Err (PartMsg (EmptyAOR ident))] else []) @
     (let uri = TrimSpace (aor_URI a)
      in if uri \<noteq> [] \<and> \<not> Contains uri '':'' then [Warn (PartMsg (InvalidAORURI ident (aor_URI a)))] else [])"

definition has_contact :: "RSParticipant \<Rightarrow> bool" where
  "has_contact p \<longleftrightarrow>
     list_ex (\<lambda>a. TrimSpace (aor_Value a) \<noteq> []) (rsp_Aor p) \<or>
     list_ex (\<lambda>ni. TrimSpace (ni_AOR ni) \<noteq> [] \<or> TrimSpace (ni_URI ni) \<noteq> []) (rsp_NameInfos p)"

fun check_participants :: "string set \<Rightarrow> RSParticipant list \<Rightarrow> issue list" where
  "check_participants seen [] = []"
| "check_participants seen (p # ps) =
     (let ident = normalizedParticipantID p
      in if ident = [] then Err (PartMsg ParticipantMissingID) # check_participants seen ps
         else
           (if ident \<in> seen then [Err (PartMsg (DuplicateParticipant ident))] else []) @
           concat (map (check_aor ident) (rsp_Aor p)) @
           (if has_contact p then [] else [Err (PartMsg (ParticipantWithoutContact ident))]) @
           (let role = ToLower (TrimSpace (rsp_Role p))
            in if role \<noteq> [] \<and> role \<notin> set allowedParticipantRoles then [Err (PartMsg (InvalidRole ident (rsp_Role p)))] else []) @
           check_participants (insert ident seen) ps)"

definition participantIDs :: "RSMetadata \<Rightarrow> string set" where
  "participantIDs m = set (filter (\<lambda>i. i \<noteq> []) (map normalizedParticipantID (md_Participants m)))"

definition check_all_participants :: "ValidationOptions \<Rightarrow> RSMetadata \<Rightarrow> issue list" where
  "check_all_participants opts m =
     (if md_Participants m = []
      then [if vo_AllowMissingParticipants opts then Warn (PartMsg NoParticipantsContinuing) else Err (PartMsg NoParticipants)] else []) @
     check_participants {} (md_Participants m)"

definition check_group :: "string set \<Rightarrow> Group \<Rightarrow> issue list" where
  "check_group pids g =
     (let groupID = TrimSpace (grp_ID g)
      in if groupID = [] then [Err (PartMsg GroupMissingID)]
         else concat (map (\<lambda>ref. if TrimSpace ref \<in> pids then [] else [Warn (PartMsg (GroupUnknownParticipant groupID ref))])
                (grp_ParticipantRefs g)))"

fun check_streams :: "string set \<Rightarrow> Stream list \<Rightarrow> issue list" where
  "check_streams seen [] = []"
| "check_streams seen (s # ss) =
     (let streamID = normalizedStreamID s
      in (if normalizedStreamLabel s = [] then [Err (StreamMsg StreamMissingLabel)] else []) @
         (if streamID = [] then [Err (StreamMsg StreamMissingID)]
          else if streamID \<in> seen then [Err (StreamMsg (DuplicateStream streamID))] else []) @
         (if st_Type s = [] then [Warn (StreamMsg (StreamMissingType streamID))]
          else if st_Type s \<in> set allowedStreamTypes then [] else [Err (StreamMsg (StreamInvalidType (st_Label s) (st_Type s)))]) @
         (if st_Mode s = ''mixed'' \<and> st_MixedStreams s = [] then [Warn (StreamMsg (MixedWithoutSources (st_Label s)))] else []) @
         check_streams (if streamID = [] then seen else insert streamID seen) ss)"

definition streamIDs :: "RSMetadata \<Rightarrow> string set" where
  "streamIDs m = set (filter (\<lambda>i. i \<noteq> []) (map normalizedStreamID (md_Streams m)))"

fun check_group_assocs :: "string \<Rightarrow> string set \<Rightarrow> SessionGroupAssociation list \<Rightarrow> issue list" where
  "check_group_assocs sessionID seen [] = []"
| "check_group_assocs sessionID seen (a # as) =
     (let groupID = TrimSpace (sga_SessionGroupID a); sAssocID = TrimSpace (sga_SessionID a);
          key = groupID @ ''::'' @ sAssocID
      in (if groupID = [] then [Err (AssocMsg SGAMissingGroup)] else []) @
         (if sAssocID = [] then [Err (AssocMsg SGAMissingSession)]
          else if sessionID \<noteq> [] \<and> sAssocID \<noteq> sessionID then [Warn (AssocMsg (SGAMismatch sAssocID sessionID))] else []) @
         (if key \<in> seen then [Warn (AssocMsg (SGADuplicate key))] else []) @
         check_group_assocs sessionID (insert key seen) as)"

fun check_policies :: "string set \<Rightarrow> PolicyUpdate list \<Rightarrow> issue list" where
  "check_policies seen [] = []"
| "check_policies seen (u # us) =
     (let policyID = TrimSpace (pu_PolicyID u); status = ToLower (TrimSpace (pu_Status u));
          ts = TrimSpace (pu_Timestamp u)
      in (if policyID = [] then [Err (PolicyMsg PolicyMissingID)]
          else if policyID \<in> seen then [Warn (PolicyMsg (PolicyDuplicate policyID))] else []) @
         (if status = [] then [Err (PolicyMsg (PolicyMissingStatus policyID))]
          else if status \<notin> set allowedPolicyStatuses then [Err (PolicyMsg (PolicyUnsupportedStatus policyID status))] else []) @
         (if ts \<noteq> [] \<and> parseRFC3339 ts = None then [Err (PolicyMsg (PolicyBadTimestamp policyID))] else []) @
         (if pu_Acknowledged u then
            (if status = ''pending'' then [Warn (PolicyMsg (PolicyAckPending policyID))] else []) @
            (if ts = [] then [Warn (PolicyMsg (PolicyAckNoTimestamp policyID))] else [])
          else if status = ''acknowledged'' \<or> status = ''applied'' then [Warn (PolicyMsg (PolicyNoAck policyID status))] else []) @
         check_policies (if policyID = [] then seen else insert policyID seen) us)"

definition check_assoc :: "string \<Rightarrow> RSAssociation \<Rightarrow> issue list" where
  "check_assoc sessionID a =
     (if a = RSAssociation_zero then [Warn (AssocMsg MissingAssoc)]
      else
        (let assocSessionID = normalizedAssocSessionID a
         in if assocSessionID = [] then [Err (AssocMsg AssocMissingSession)]
            else if sessionID \<noteq> [] \<and> assocSessionID \<noteq> sessionID then [Warn (AssocMsg (AssocMismatch assocSessionID sessionID))] else []) @
        (if TrimSpace (asc_CallID a) = [] \<and> TrimSpace (asc_CallIDAlt a) = [] \<and> TrimSpace (asc_FixedID a) = []
         then [Warn (AssocMsg AssocNoCall)] else []))"

definition session_elem_id :: "RSSession \<Rightarrow> string" where
  "session_elem_id s = (if TrimSpace (ses_ID s) = [] then TrimSpace (ses_LegacyID s) else TrimSpace (ses_ID s))"

definition check_session_elem :: "string set \<Rightarrow> string set \<Rightarrow> RSSession \<Rightarrow> issue list" where
  "check_session_elem pids sids s =
     (let sID = session_elem_id s
      in if sID = [] then [Err (SessionMsg SessionMissingID)]
         else
           concat (map (\<lambda>pref. if TrimSpace pref \<notin> pids \<and> pids \<noteq> {} then [Err (SessionMsg (SessionUnknownParticipant sID pref))] else [])
             (ses_ParticipantRefs s)) @
           concat (map (\<lambda>sref. if TrimSpace sref \<notin> sids \<and> sids \<noteq> {} then [Err (SessionMsg (SessionUnknownStream sID sref))] else [])
             (ses_StreamRefs s)))"

definition check_sessions :: "string \<Rightarrow> string set \<Rightarrow> string set \<Rightarrow> RSSession list \<Rightarrow> issue list" where
  "check_sessions sessionID pids sids ss =
     (if ss = [] then [Err (SessionMsg NoSessions)]
      else if sessionID \<noteq> [] then
        concat (map (check_session_elem pids sids) ss) @
        (if list_ex (\<lambda>s. session_elem_id s = sessionID) ss then [] else [Err (SessionMsg NoMatchingSession)])
      else [])"

text \<open>The group associations and the policies are read a second time for blank identifiers.\<close>

definition recheck_group_assoc :: "SessionGroupAssociation \<Rightarrow> issue list" where
  "recheck_group_assoc a =
     (if TrimSpace (sga_SessionGroupID a) = [] then [Err (AssocMsg GroupAssocMissingGroup)] else []) @
     (if TrimSpace (sga_SessionID a) = [] then [Err (AssocMsg GroupAssocMissingSession)] else [])"

definition recheck_policy :: "PolicyUpdate \<Rightarrow> issue list" where
  "recheck_policy u =
     (if TrimSpace (pu_PolicyID u) = [] then [Err (PolicyMsg PolicyUpdateMissingID)] else []) @
     (if TrimSpace (pu_Status u) = [] then [Err (PolicyMsg (PolicyUpdateMissingStatus (pu_PolicyID u)))] else [])"

definition check_participant_session :: "string \<Rightarrow> string set \<Rightarrow> RSParticipantSessionAssoc \<Rightarrow> issue list" where
  "check_participant_session sessionID pids a =
     (let pid = TrimSpace (pxa_ParticipantID a); sid = TrimSpace (pxa_SessionID a)
      in (if pid = [] then [Err (RefMsg PXAMissingParticipant)]
          else if pid \<notin> pids then [Err (RefMsg (PXAUnknownParticipant pid))] else []) @
         (if sid = [] then [Err (RefMsg PXAMissingSession)]
          else if sessionID \<noteq> [] \<and> sid \<noteq> sessionID then [Warn (RefMsg (PXAMismatch sid sessionID))] else []))"

definition assoc_stream_refs :: "RSParticipantStreamAssoc \<Rightarrow> string list" where
  "assoc_stream_refs a =
     filter (\<lambda>r. r \<noteq> []) (map TrimSpace ([psa_Stream a, psa_StreamID a] @ psa_Send a @ psa_Receive a))"

definition check_participant_stream :: "string set \<Rightarrow> string set \<Rightarrow> RSParticipantStreamAssoc \<Rightarrow> issue list" where
  "check_participant_stream pids sids a =
     (let pid = (if TrimSpace (psa_Participant a) = [] then TrimSpace (psa_ParticipantID a) else TrimSpace (psa_Participant a));
          refs = assoc_stream_refs a
      in (if pid = [] then [Err (RefMsg PSAMissingParticipant)]
          else if pid \<notin> pids then [Err (RefMsg (PSAUnknownParticipant pid))] else []) @
         (if refs = [] then [Err (RefMsg PSAMissingStream)]
          else concat (map (\<lambda>ref. if ref \<notin> sids \<and> sids \<noteq> {} then [Err (RefMsg (PSAUnknownStream ref))] else []) refs)))"

definition validation_issues :: "ValidationOptions \<Rightarrow> RSMetadata \<Rightarrow> issue list" where
  "validation_issues opts m =
     (let sessionID = TrimSpace (md_SessionID m); pids = participantIDs m; sids = streamIDs m
      in check_root m @
         check_session_id sessionID @
         check_state_reason m @
         check_reason_ref m @
         check_sequence_expires m @
         check_all_participants opts m @
         concat (map (check_group pids) (md_Group m)) @
         check_streams {} (md_Streams m) @
         check_group_assocs sessionID {} (md_SessionGroupAssociations m) @
         check_policies {} (md_PolicyUpdates m) @
         check_assoc sessionID (md_SessionRecordingAssoc m) @
         check_sessions sessionID pids sids (md_Sessions m) @
         concat (map recheck_group_assoc (md_SessionGroupAssociations m)) @
         concat (map recheck_policy (md_PolicyUpdates m)) @
         concat (map (check_participant_session sessionID pids) (md_ParticipantSessionAssoc m)) @
         concat (map (check_participant_stream pids sids) (md_ParticipantStreamAssoc m)))"

text \<open>A nil pointer to the metadata is \<open>None\<close>.\<close>

definition ValidateSiprecMessageWithOptions :: "RSMetadata option \<Rightarrow> ValidationOptions \<Rightarrow> ValidationResult" where
  "ValidateSiprecMessageWithOptions rsMetadata opts =
     (case rsMetadata of
        None \<Rightarrow> \<lparr>vr_Errors = [DocMsg MetadataNil], vr_Warnings = []\<rparr>
      | Some m \<Rightarrow>
          (let is = validation_issues opts m in \<lparr>vr_Errors = errors_of is, vr_Warnings = warnings_of is\<rparr>))"

definition ValidateSiprecMessage :: "RSMetadata option \<Rightarrow> ValidationResult" where
  "ValidateSiprecMessage rsMetadata =
     ValidateSiprecMessageWithOptions rsMetadata \<lparr>vo_AllowMissingParticipants = False\<rparr>"

section \<open>Responses\<close>

text \<open>The document that \<open>CreateMetadataResponse\<close> marshals, \<open>None\<close> for nil metadata.\<close>

definition CreateMetadataResponse :: "RSMetadata option \<Rightarrow> RSMetadata option" where
  "CreateMetadataResponse metadata =
     map_option
       (\<lambda>m. let state = TrimSpace (md_State m);
                m1 = m\<lparr>md_State := (if state = [] then ''active'' else state)\<rparr>;
                m2 = (if md_Sequence m1 \<le> 0 then m1\<lparr>md_Sequence := 1\<rparr> else m1)
            in Normalize m2)
       metadata"

definition crlf :: string where
  "crlf = [CHR 0x0D, CHR 0x0A]"

text \<open>The boundary is built on the UUID the code draws, the argument \<open>uuid\<close>.\<close>

definition CreateMultipartResponse :: "string \<Rightarrow> string \<Rightarrow> string \<Rightarrow> string \<times> string" where
  "CreateMultipartResponse uuid sdp metadata =
     (let boundary = ''boundary_'' @ uuid
      in (''multipart/mixed;boundary='' @ [CHR 0x22] @ boundary @ [CHR 0x22],
          ''--'' @ boundary @ crlf @
          ''Content-Type: application/sdp'' @ crlf @
          ''Content-Disposition: session;handling=required'' @ crlf @
          crlf @
          sdp @ crlf @
          ''--'' @ boundary @ crlf @
          ''Content-Type: application/rs-metadata+xml'' @ crlf @
          ''Content-Disposition: recording-session;handling=required'' @ crlf @
          crlf @
          metadata @ crlf @
          ''--'' @ boundary @ ''--'' @ crlf))"

section \<open>What is accepted\<close>

text \<open>
  The declarative reading of the checks, one predicate per element of the document. It is written
  over the whole collections, with no order of traversal and no table of identifiers seen so far.
\<close>

definition state_reason_ok :: "string \<Rightarrow> string \<Rightarrow> bool" where
  "state_reason_ok state reason \<longleftrightarrow>
     (state = [] \<or> state \<in> set allowedRecordingStates) \<and>
     (if reason = [] then state \<noteq> ''terminated'' \<and> state \<noteq> ''error''
      else reason \<in> set allowedRecordingReasons \<and>
           (\<forall>allowed. stateReasonMatrix state = Some allowed \<longrightarrow> reason \<in> set allowed))"

definition participant_ok :: "RSParticipant \<Rightarrow> bool" where
  "participant_ok p \<longleftrightarrow>
     normalizedParticipantID p \<noteq> [] \<and>
     (\<forall>a \<in> set (rsp_Aor p). TrimSpace (aor_Value a) \<noteq> []) \<and>
     has_contact p \<and>
     ToLower (TrimSpace (rsp_Role p)) \<in> insert [] (set allowedParticipantRoles)"

definition stream_ok :: "Stream \<Rightarrow> bool" where
  "stream_ok s \<longleftrightarrow> normalizedStreamID s \<noteq> [] \<and> st_Type s \<in> insert [] (set allowedStreamTypes)"

definition group_assoc_ok :: "SessionGroupAssociation \<Rightarrow> bool" where
  "group_assoc_ok a \<longleftrightarrow> TrimSpace (sga_SessionGroupID a) \<noteq> [] \<and> TrimSpace (sga_SessionID a) \<noteq> []"

definition policy_ok :: "PolicyUpdate \<Rightarrow> bool" where
  "policy_ok u \<longleftrightarrow>
     TrimSpace (pu_PolicyID u) \<noteq> [] \<and>
     ToLower (TrimSpace (pu_Status u)) \<in> set allowedPolicyStatuses \<and>
     (TrimSpace (pu_Timestamp u) = [] \<or> parseRFC3339 (TrimSpace (pu_Timestamp u)) \<noteq> None)"

text \<open>A reference resolves when its table is empty or holds it.\<close>

definition resolves :: "string set \<Rightarrow> string \<Rightarrow> bool" where
  "resolves ids r \<longleftrightarrow> ids = {} \<or> r \<in> ids"

definition session_ok :: "string set \<Rightarrow> string set \<Rightarrow> RSSession \<Rightarrow> bool" where
  "session_ok pids sids s \<longleftrightarrow>
     session_elem_id s \<noteq> [] \<and>
     (\<forall>r \<in> set (ses_ParticipantRefs s). resolves pids (TrimSpace r)) \<and>
     (\<forall>r \<in> set (ses_StreamRefs s). resolves sids (TrimSpace r))"

definition participant_session_ok :: "string set \<Rightarrow> RSParticipantSessionAssoc \<Rightarrow> bool" where
  "participant_session_ok pids a \<longleftrightarrow> TrimSpace (pxa_ParticipantID a) \<in> pids \<and> TrimSpace (pxa_SessionID a) \<noteq> []"

definition participant_stream_ok :: "string set \<Rightarrow> string set \<Rightarrow> RSParticipantStreamAssoc \<Rightarrow> bool" where
  "participant_stream_ok pids sids a \<longleftrightarrow>
     first_nonblank [psa_Participant a, psa_ParticipantID a] \<in> pids \<and>
     assoc_stream_refs a \<noteq> [] \<and> (\<forall>r \<in> set (assoc_stream_refs a). resolves sids r)"

definition siprec_acceptable :: "ValidationOptions \<Rightarrow> RSMetadata \<Rightarrow> bool" where
  "siprec_acceptable opts m \<longleftrightarrow>
     TrimSpace (md_XMLLocal m) \<in> {[], ''recording''} \<and>
     0 < length (TrimSpace (md_SessionID m)) \<and> length (TrimSpace (md_SessionID m)) \<le> 255 \<and>
     state_reason_ok (ToLower (TrimSpace (md_State m))) (ToLower (TrimSpace (md_Reason m))) \<and>
     0 \<le> md_Sequence m \<and>
     (md_Participants m = [] \<longrightarrow> vo_AllowMissingParticipants opts) \<and>
     distinct (map normalizedParticipantID (md_Participants m)) \<and>
     (\<forall>p \<in> set (md_Participants m). participant_ok p) \<and>
     (\<forall>g \<in> set (md_Group m). TrimSpace (grp_ID g) \<noteq> []) \<and>
     distinct (map normalizedStreamID (md_Streams m)) \<and>
     (\<forall>s \<in> set (md_Streams m). stream_ok s) \<and>
     (\<forall>a \<in> set (md_SessionGroupAssociations m). group_assoc_ok a) \<and>
     (\<forall>u \<in> set (md_PolicyUpdates m). policy_ok u) \<and>
     (md_SessionRecordingAssoc m = RSAssociation_zero \<or>
        normalizedAssocSessionID (md_SessionRecordingAssoc m) \<noteq> []) \<and>
     (\<forall>s \<in> set (md_Sessions m). session_ok (participantIDs m) (streamIDs m) s) \<and>
     (\<exists>s \<in> set (md_Sessions m). session_elem_id s = TrimSpace (md_SessionID m)) \<and>
     (\<forall>a \<in> set (md_ParticipantSessionAssoc m). participant_session_ok (participantIDs m) a) \<and>
     (\<forall>a \<in> set (md_ParticipantStreamAssoc m). participant_stream_ok (participantIDs m) (streamIDs m) a)"

section \<open>The checks, one by one\<close>

lemma errors_of_simps [simp]:
  "errors_of [] = []"
  "errors_of (Err e # is) = e # errors_of is"
  "errors_of (Warn w # is) = errors_of is"
  "errors_of (is @ js) = errors_of is @ errors_of js"
  by (simp_all add: errors_of_def)

lemma errors_of_concat: "errors_of (concat (map f xs)) = concat (map (\<lambda>x. errors_of (f x)) xs)"
  by (induction xs) simp_all

lemma errors_of_concat_Nil [simp]: "errors_of (concat (map f xs)) = [] \<longleftrightarrow> (\<forall>x\<in>set xs. errors_of (f x) = [])"
  by (simp add: errors_of_concat)

lemma matrix_not_empty: "stateReasonMatrix state = Some allowed \<Longrightarrow> allowed \<noteq> []"
  by (auto simp: stateReasonMatrix_def split: if_splits)

lemma errors_check_root: "errors_of (check_root m) = [] \<longleftrightarrow> TrimSpace (md_XMLLocal m) \<in> {[], ''recording''}"
  by (simp add: check_root_def Let_def)

lemma errors_check_session_id:
  "errors_of (check_session_id i) = [] \<longleftrightarrow> 0 < length i \<and> length i \<le> 255"
  by (simp add: check_session_id_def)

lemma errors_check_state_reason:
  "errors_of (check_state_reason m) = [] \<longleftrightarrow>
     state_reason_ok (ToLower (TrimSpace (md_State m))) (ToLower (TrimSpace (md_Reason m)))"
  using matrix_not_empty
  by (cases "stateReasonMatrix (ToLower (TrimSpace (md_State m)))")
    (auto simp: check_state_reason_def state_reason_ok_def Let_def)

lemma errors_check_reason_ref: "errors_of (check_reason_ref m) = []"
  by (simp add: check_reason_ref_def Let_def)

lemma errors_check_sequence_expires: "errors_of (check_sequence_expires m) = [] \<longleftrightarrow> 0 \<le> md_Sequence m"
  by (simp add: check_sequence_expires_def Let_def linorder_not_less)

lemma errors_check_aor: "errors_of (check_aor i a) = [] \<longleftrightarrow> TrimSpace (aor_Value a) \<noteq> []"
  by (simp add: check_aor_def Let_def)

lemma errors_check_participants:
  "errors_of (check_participants seen ps) = [] \<longleftrightarrow>
     distinct (map normalizedParticipantID ps) \<and> (\<forall>p\<in>set ps. participant_ok p) \<and>
     seen \<inter> set (map normalizedParticipantID ps) = {}"
proof (induction seen ps rule: check_participants.induct)
  case (2 seen p ps)
  show ?case
  proof (cases "normalizedParticipantID p = []")
    case True
    then show ?thesis by (simp add: participant_ok_def)
  next
    case False
    then show ?thesis
      using 2(2)[OF refl False]
      by (auto simp: participant_ok_def errors_check_aor Let_def)
  qed
qed simp

lemma errors_check_streams:
  "errors_of (check_streams seen ss) = [] \<longleftrightarrow>
     distinct (map normalizedStreamID ss) \<and> (\<forall>s\<in>set ss. stream_ok s) \<and>
     seen \<inter> set (map normalizedStreamID ss) = {}"
proof (induction seen ss rule: check_streams.induct)
  case (2 seen s ss)
  have label: "normalizedStreamID s \<noteq> [] \<Longrightarrow> normalizedStreamLabel s \<noteq> []"
    by (auto simp: normalizedStreamLabel_def normalizedStreamID_def first_nonblank_Cons split: if_splits)
  show ?case
    using 2[OF refl] label
    by (cases "normalizedStreamID s = []") (auto simp: stream_ok_def Let_def)
qed simp

lemma errors_check_group: "errors_of (check_group pids g) = [] \<longleftrightarrow> TrimSpace (grp_ID g) \<noteq> []"
  by (simp add: check_group_def Let_def)

lemma errors_check_group_assocs:
  "errors_of (check_group_assocs sid seen as) = [] \<longleftrightarrow> (\<forall>a\<in>set as. group_assoc_ok a)"
  by (induction sid seen as rule: check_group_assocs.induct) (auto simp: group_assoc_ok_def Let_def)

lemma errors_check_policies:
  "errors_of (check_policies seen us) = [] \<longleftrightarrow> (\<forall>u\<in>set us. policy_ok u)"
proof (induction seen us rule: check_policies.induct)
  case (2 seen u us)
  have "[] \<notin> set allowedPolicyStatuses"
    by (simp add: allowedPolicyStatuses_def)
  then show ?case
    using 2[OF refl refl refl] by (auto simp: policy_ok_def Let_def)
qed simp

lemma errors_check_assoc:
  "errors_of (check_assoc sid a) = [] \<longleftrightarrow> a = RSAssociation_zero \<or> normalizedAssocSessionID a \<noteq> []"
  by (simp add: check_assoc_def Let_def)

lemma errors_check_session_elem:
  "errors_of (check_session_elem pids sids s) = [] \<longleftrightarrow> session_ok pids sids s"
  by (auto simp: check_session_elem_def session_ok_def resolves_def Let_def)

lemma errors_check_sessions:
  "sid \<noteq> [] \<Longrightarrow> errors_of (check_sessions sid pids sids ss) = [] \<longleftrightarrow>
     (\<forall>s\<in>set ss. session_ok pids sids s) \<and> (\<exists>s\<in>set ss. session_elem_id s = sid)"
  by (auto simp: check_sessions_def errors_check_session_elem list_ex_iff)

lemma errors_recheck_group_assoc: "errors_of (recheck_group_assoc a) = [] \<longleftrightarrow> group_assoc_ok a"
  by (simp add: recheck_group_assoc_def group_assoc_ok_def)

lemma errors_recheck_policy: "policy_ok u \<Longrightarrow> errors_of (recheck_policy u) = []"
  by (auto simp: recheck_policy_def policy_ok_def allowedPolicyStatuses_def ToLower_def)

lemma errors_check_participant_session:
  "[] \<notin> pids \<Longrightarrow>
     errors_of (check_participant_session sid pids a) = [] \<longleftrightarrow> participant_session_ok pids a"
  by (auto simp: check_participant_session_def participant_session_ok_def Let_def)

lemma errors_check_participant_stream:
  "[] \<notin> pids \<Longrightarrow>
     errors_of (check_participant_stream pids sids a) = [] \<longleftrightarrow> participant_stream_ok pids sids a"
  by (auto simp: check_participant_stream_def participant_stream_ok_def resolves_def first_nonblank_Cons Let_def)

lemma participantIDs_not_blank: "[] \<notin> participantIDs m"
  by (simp add: participantIDs_def)

lemmas check_errors =
  errors_check_root errors_check_session_id errors_check_state_reason errors_check_reason_ref
  errors_check_sequence_expires errors_check_participants errors_check_group errors_check_streams
  errors_check_group_assocs errors_check_policies errors_check_assoc errors_check_sessions
  errors_recheck_group_assoc errors_check_participant_session errors_check_participant_stream

lemma errors_check_all_participants:
  "errors_of (check_all_participants opts m) = [] \<longleftrightarrow>
     (md_Participants m = [] \<longrightarrow> vo_AllowMissingParticipants opts) \<and>
     distinct (map normalizedParticipantID (md_Participants m)) \<and>
     (\<forall>p\<in>set (md_Participants m). participant_ok p)"
  by (simp add: check_all_participants_def errors_check_participants)

lemma errors_validation_issues: "errors_of (validation_issues opts m) = [] \<longleftrightarrow> siprec_acceptable opts m"
  using errors_recheck_policy participantIDs_not_blank[of m]
  by (cases "TrimSpace (md_SessionID m) = []")
    (auto simp: validation_issues_def siprec_acceptable_def Let_def check_errors errors_check_all_participants)

lemma warnings_of_simps [simp]:
  "warnings_of [] = []"
  "warnings_of (Err e # is) = warnings_of is"
  "warnings_of (Warn w # is) = w # warnings_of is"
  "warnings_of (is @ js) = warnings_of is @ warnings_of js"
  by (simp_all add: warnings_of_def)

section \<open>The properties of the validator\<close>

text \<open>C2: the validator reports no error exactly for a document that is there and acceptable: the
  loops with their tables of seen identifiers, the early \<open>continue\<close>s and the repeated checks
  decide the declarative definition, with the relaxation of the options.\<close>

theorem Validate_iff_acceptable:
  "vr_Errors (ValidateSiprecMessageWithOptions rsMetadata opts) = [] \<longleftrightarrow>
     (case rsMetadata of None \<Rightarrow> False | Some m \<Rightarrow> siprec_acceptable opts m)"
  by (simp add: ValidateSiprecMessageWithOptions_def errors_validation_issues Let_def split: option.split)

text \<open>The option to allow missing participants moves one message from the errors to the
  warnings when the document has no participants, and changes nothing else.\<close>

theorem Validate_options_relax:
  "let strict = ValidateSiprecMessageWithOptions (Some m) \<lparr>vo_AllowMissingParticipants = False\<rparr>;
       relaxed = ValidateSiprecMessageWithOptions (Some m) \<lparr>vo_AllowMissingParticipants = True\<rparr>
   in if md_Participants m = []
      then mset (vr_Errors strict) = mset (vr_Errors relaxed) + {#PartMsg NoParticipants#} \<and>
           mset (vr_Warnings relaxed) = mset (vr_Warnings strict) + {#PartMsg NoParticipantsContinuing#}
      else strict = relaxed"
  by (simp add: ValidateSiprecMessageWithOptions_def validation_issues_def check_all_participants_def Let_def)

lemma Normalize_response:
  assumes "s \<noteq> []"
  shows "Normalize ((Normalize m)\<lparr>md_State := s, md_Sequence := q\<rparr>) = (Normalize m)\<lparr>md_State := s, md_Sequence := q\<rparr>"
proof (rule RSMetadata.equality)
  show "md_Reason (Normalize ((Normalize m)\<lparr>md_State := s, md_Sequence := q\<rparr>)) =
        md_Reason ((Normalize m)\<lparr>md_State := s, md_Sequence := q\<rparr>)"
    using first_present_recs_idem [of "md_Reason m" "map rcs_Reason (md_RecordingSessions m)"]
    by (simp add: comp_def)
  show "md_SessionID (Normalize ((Normalize m)\<lparr>md_State := s, md_Sequence := q\<rparr>)) =
        md_SessionID ((Normalize m)\<lparr>md_State := s, md_Sequence := q\<rparr>)"
    by (cases "md_Sessions m"; cases "md_RecordingSessions m") auto
qed (use assms in \<open>simp_all add: comp_def\<close>)

definition response_state :: "string \<Rightarrow> string" where
  "response_state s = (if TrimSpace s = [] then ''active'' else TrimSpace s)"

lemma TrimSpace_active: "TrimSpace ''active'' = ''active''"
  by code_simp

lemma response_state_trimmed [simp]: "TrimSpace (response_state s) = response_state s" "response_state s \<noteq> []"
  by (simp_all add: response_state_def TrimSpace_active)

lemma CreateMetadataResponse_eq:
  "CreateMetadataResponse (Some n) =
     Some (Normalize (n\<lparr>md_State := response_state (md_State n), md_Sequence := max 1 (md_Sequence n)\<rparr>))"
  by (cases n) (simp add: CreateMetadataResponse_def response_state_def Let_def max_def)

lemma CreateMetadataResponse_normalized:
  "CreateMetadataResponse (Some (Normalize m)) =
     Some ((Normalize m)\<lparr>md_State := response_state (md_State (Normalize m)), md_Sequence := max 1 (md_Sequence m)\<rparr>)"
  unfolding CreateMetadataResponse_eq by (subst Normalize_response) simp_all

lemma acceptable_update:
  "siprec_acceptable opts n \<Longrightarrow> 0 \<le> q \<Longrightarrow>
     siprec_acceptable opts (n\<lparr>md_State := s, md_Sequence := q\<rparr>) \<longleftrightarrow>
     state_reason_ok (ToLower (TrimSpace s)) (ToLower (TrimSpace (md_Reason n)))"
  by (simp add: siprec_acceptable_def participantIDs_def streamIDs_def)

lemma active_table:
  "ToLower ''active'' = ''active''" "''active'' \<in> set allowedRecordingStates"
  "stateReasonMatrix ''active'' = Some [''normal'', ''manual'', ''policy'', ''emergency'']"
  "set [''normal'', ''manual'', ''policy'', ''emergency''] \<subseteq> set allowedRecordingReasons"
  by code_simp+

lemma response_state_reason:
  assumes "state_reason_ok (ToLower (TrimSpace s)) reason"
  shows "state_reason_ok (ToLower (response_state s)) reason \<longleftrightarrow>
    (TrimSpace s = [] \<longrightarrow> reason \<in> insert [] (set [''normal'', ''manual'', ''policy'', ''emergency'']))"
proof (cases "TrimSpace s = []")
  case True
  then show ?thesis
    using assms active_table unfolding response_state_def state_reason_ok_def by (auto simp del: set_simps)
qed (use assms in \<open>simp add: response_state_def\<close>)

text \<open>The response to an acceptable normalised document has a state and a positive sequence
  number, and the validator accepts it, except where the document has no state and its reason is
  none of those of an active recording: the response then claims the state \<open>active\<close> with a reason
  that the state does not allow.\<close>

theorem CreateMetadataResponse_acceptable:
  assumes "vr_Errors (ValidateSiprecMessageWithOptions (Some (Normalize m)) opts) = []"
  shows "\<exists>r. CreateMetadataResponse (Some (Normalize m)) = Some r \<and>
     TrimSpace (md_State r) \<noteq> [] \<and> 1 \<le> md_Sequence r \<and>
     (vr_Errors (ValidateSiprecMessageWithOptions (Some r) opts) = [] \<longleftrightarrow>
       (TrimSpace (md_State (Normalize m)) = [] \<longrightarrow>
        ToLower (TrimSpace (md_Reason (Normalize m))) \<in> {[], ''normal'', ''manual'', ''policy'', ''emergency''}))"
proof -
  have acc: "siprec_acceptable opts (Normalize m)"
    using assms by (simp add: ValidateSiprecMessageWithOptions_def errors_validation_issues Let_def)
  then have sr: "state_reason_ok (ToLower (TrimSpace (md_State (Normalize m)))) (ToLower (TrimSpace (md_Reason (Normalize m))))"
    by (simp add: siprec_acceptable_def)
  show ?thesis
    unfolding CreateMetadataResponse_normalized ValidateSiprecMessageWithOptions_def
    using acceptable_update[OF acc, of "max 1 (md_Sequence m)" "response_state (md_State (Normalize m))"]
      response_state_reason[OF sr]
    by (simp add: errors_validation_issues Let_def del: Normalize_fields)
qed

text \<open>A call whose document gives a reason and no state: accepted, and its response is not.\<close>

definition stateless_call :: RSMetadata where
  "stateless_call =
     RSMetadata_zero
       \<lparr>md_SessionID := ''s1'', md_Reason := ''timeout'',
        md_Participants :=
          [RSParticipant_zero\<lparr>rsp_ID := ''p1'', rsp_Aor := [Aor_zero\<lparr>aor_Value := ''sip:a@x''\<rparr>]\<rparr>],
        md_Streams := [Stream_zero\<lparr>st_StreamID := ''m1'', st_Label := ''1'', st_Type := ''audio''\<rparr>],
        md_Sessions := [RSSession_zero\<lparr>ses_ID := ''s1'', ses_ParticipantRefs := [''p1''], ses_StreamRefs := [''m1'']\<rparr>]\<rparr>"

lemma stateless_call_accepted:
  "vr_Errors (ValidateSiprecMessageWithOptions (Some (Normalize stateless_call)) \<lparr>vo_AllowMissingParticipants = False\<rparr>) = []"
  by code_simp

lemma stateless_call_state:
  "TrimSpace (md_State (Normalize stateless_call)) = []" "ToLower (TrimSpace (md_Reason (Normalize stateless_call))) = ''timeout''"
  by code_simp+

theorem CreateMetadataResponse_acceptable_witness:
  "\<exists>r. CreateMetadataResponse (Some (Normalize stateless_call)) = Some r \<and>
     vr_Errors (ValidateSiprecMessageWithOptions (Some r) \<lparr>vo_AllowMissingParticipants = False\<rparr>) \<noteq> []"
  using CreateMetadataResponse_acceptable[OF stateless_call_accepted] stateless_call_state by auto

end
