(* ===== verification/SiprecSession.thy ===== *)
theory SiprecSession
  imports SiprecValidation
begin

text \<open>
  \<^verbatim>\<open>pkg/siprec/session.go\<close>: merging new metadata into a recording session, the changes between
  two participant lists, the failover metadata of RFC 7245 and the recovery from it, the Replaces
  header, and the notifications of state changes. \<open>now\<close> is what \<open>time.Now\<close> returns during the
  call, \<open>uuid\<close> the identifier drawn by the UUID library, \<open>ks\<close> the order in which the runtime
  ranges over a map. A nil pointer is \<open>None\<close>. \<open>time.Format\<close> depends on the zone of its argument
  and is the argument \<open>format\<close>. The code's \<open>int\<close> is unbounded here.
\<close>

section \<open>Participants\<close>

definition aor_comm :: "Aor \<Rightarrow> CommunicationID" where
  "aor_comm a = CommunicationID_zero\<lparr>com_Type := ''sip'', com_Value := aor_Value a\<rparr>"

text \<open>The update of a known participant, which \<open>updateParticipants\<close> and
  \<open>DetectParticipantChanges\<close> share.\<close>

definition merge_participant :: "Participant \<Rightarrow> RSParticipant \<Rightarrow> Participant" where
  "merge_participant existing np =
     existing\<lparr>part_Name := (if rsp_Name np \<noteq> [] then rsp_Name np else part_Name existing),
              part_DisplayName := (if rsp_NameID np \<noteq> [] then rsp_NameID np else part_DisplayName existing),
              part_CommunicationIDs :=
                (if rsp_Aor np \<noteq> [] then map aor_comm (rsp_Aor np) else part_CommunicationIDs existing)\<rparr>"

definition new_participant :: "RSParticipant \<Rightarrow> Participant" where
  "new_participant np =
     Participant_zero\<lparr>part_ID := rsp_ID np, part_Name := rsp_Name np, part_DisplayName := rsp_DisplayName np,
       part_Role := rsp_Role np, part_CommunicationIDs := map aor_comm (rsp_Aor np)\<rparr>"

text \<open>The loop over the new participants; known ones are deleted from the map as they are met.\<close>

fun merge_loop ::
  "(string \<rightharpoonup> Participant) \<Rightarrow> RSParticipant list \<Rightarrow> Participant list \<times> (string \<rightharpoonup> Participant)" where
  "merge_loop existingMap [] = ([], existingMap)"
| "merge_loop existingMap (np # nps) =
     (case existingMap (rsp_ID np) of
        Some existing \<Rightarrow>
          (let (result, rest) = merge_loop (existingMap(rsp_ID np := None)) nps
           in (merge_participant existing np # result, rest))
      | None \<Rightarrow>
          (let (result, rest) = merge_loop existingMap nps in (new_participant np # result, rest)))"

definition updateParticipants :: "string list \<Rightarrow> Participant list \<Rightarrow> RSParticipant list \<Rightarrow> Participant list" where
  "updateParticipants ks existingParticipants newParticipants =
     (let (result, rest) = merge_loop (index_by part_ID existingParticipants) newParticipants
      in result @ List.map_filter rest ks)"

definition nameinfo_comms :: "RSNameID list \<Rightarrow> CommunicationID list" where
  "nameinfo_comms nis =
     map (\<lambda>v. CommunicationID_zero\<lparr>com_Type := ''sip'', com_Value := v\<rparr>)
       (filter (\<lambda>v. TrimSpace v \<noteq> []) (map (\<lambda>ni. if ni_AOR ni = [] then ni_URI ni else ni_AOR ni) nis))"

definition ConvertRSParticipantToParticipant :: "RSParticipant \<Rightarrow> Participant" where
  "ConvertRSParticipantToParticipant p =
     Participant_zero
       \<lparr>part_ID := rsp_ID p, part_Name := rsp_Name p,
        part_DisplayName :=
          (if rsp_DisplayName p \<noteq> [] then rsp_DisplayName p
           else if rsp_NameID p \<noteq> [] then rsp_NameID p
           else if rsp_Name p \<noteq> [] then rsp_Name p
           else (case rsp_NameInfos p of [] \<Rightarrow> [] | ni # _ \<Rightarrow> TrimSpace (ni_Display ni))),
        part_Role := rsp_Role p,
        part_CommunicationIDs :=
          (if rsp_Aor p \<noteq> [] then map aor_comm (rsp_Aor p) else nameinfo_comms (rsp_NameInfos p))\<rparr>"

definition GetParticipantIDs :: "Participant list \<Rightarrow> string list" where
  "GetParticipantIDs participants = map part_ID participants"

section \<open>Changes\<close>

definition participant_changed :: "Participant \<Rightarrow> RSParticipant \<Rightarrow> bool" where
  "participant_changed existingP newP \<longleftrightarrow>
     (rsp_Name newP \<noteq> [] \<and> rsp_Name newP \<noteq> part_Name existingP) \<or>
     (rsp_NameID newP \<noteq> [] \<and> rsp_NameID newP \<noteq> part_DisplayName existingP) \<or>
     (rsp_Aor newP \<noteq> [] \<and>
        (length (rsp_Aor newP) \<noteq> length (part_CommunicationIDs existingP) \<or>
         list_ex (\<lambda>c. com_Value c \<notin> set (map aor_Value (rsp_Aor newP))) (part_CommunicationIDs existingP)))"

text \<open>\<open>kn\<close> is the order of the new IDs, \<open>kr\<close> and \<open>km\<close> those of the two loops over the known IDs.\<close>

definition DetectParticipantChanges ::
  "string list \<Rightarrow> string list \<Rightarrow> string list \<Rightarrow> RecordingSession \<Rightarrow> RSMetadata \<Rightarrow>
     Participant list \<times> Participant list \<times> Participant list" where
  "DetectParticipantChanges kn kr km existing rsMetadata =
     (let existingMap = index_by part_ID (rec_Participants existing);
          newMap = index_by rsp_ID (md_Participants rsMetadata);
          added = List.map_filter (\<lambda>i. case newMap i of None \<Rightarrow> None
            | Some np \<Rightarrow> (case existingMap i of None \<Rightarrow> Some (ConvertRSParticipantToParticipant np) | Some _ \<Rightarrow> None)) kn;
          removed = List.map_filter (\<lambda>i. case existingMap i of None \<Rightarrow> None
            | Some ep \<Rightarrow> (case newMap i of None \<Rightarrow> Some ep | Some _ \<Rightarrow> None)) kr;
          modified = List.map_filter (\<lambda>i. case existingMap i of None \<Rightarrow> None
            | Some ep \<Rightarrow> (case newMap i of None \<Rightarrow> None
                 | Some np \<Rightarrow> if participant_changed ep np then Some (merge_participant ep np) else None)) km
      in (added, removed, modified))"

section \<open>Merging metadata into a session\<close>

definition put2 :: "string \<Rightarrow> string \<Rightarrow> string \<Rightarrow> (string \<rightharpoonup> string) \<Rightarrow> (string \<rightharpoonup> string)" where
  "put2 k1 k2 v m = (if v \<noteq> [] then m(k1 \<mapsto> v, k2 \<mapsto> v) else m)"

definition group_roles :: "SessionGroupAssociation list \<Rightarrow> (string \<rightharpoonup> string)" where
  "group_roles gs = fold (\<lambda>a m. m(sga_SessionGroupID a \<mapsto> sga_Role a)) gs Map.empty"

definition group_metadata :: "SessionGroupAssociation list \<Rightarrow> (string \<rightharpoonup> string) \<Rightarrow> (string \<rightharpoonup> string)" where
  "group_metadata gs m = fold (\<lambda>a m. m(''session_group_'' @ sga_SessionGroupID a \<mapsto> sga_Role a)) gs m"

definition FormatBool :: "bool \<Rightarrow> string" where
  "FormatBool b = (if b then ''true'' else ''false'')"

definition policy_state :: "go_time \<Rightarrow> PolicyUpdate \<Rightarrow> PolicyAckStatus" where
  "policy_state now u =
     (let raw = TrimSpace (pu_Timestamp u)
      in \<lparr>pas_Status = ToLower (TrimSpace (pu_Status u)), pas_Acknowledged = pu_Acknowledged u,
          pas_ReportedAt = (if raw \<noteq> [] then case parseRFC3339 raw of Some t \<Rightarrow> t | None \<Rightarrow> now else now),
          pas_RawTimestamp = raw\<rparr>)"

definition policy_states :: "go_time \<Rightarrow> PolicyUpdate list \<Rightarrow> (string \<rightharpoonup> PolicyAckStatus)" where
  "policy_states now us = fold (\<lambda>u m. m(pu_PolicyID u \<mapsto> policy_state now u)) us Map.empty"

definition policy_metadata1 :: "PolicyUpdate \<Rightarrow> (string \<rightharpoonup> string) \<Rightarrow> (string \<rightharpoonup> string)" where
  "policy_metadata1 u m =
     (let statusKey = ''policy_'' @ pu_PolicyID u @ ''_status'';
          raw = TrimSpace (pu_Timestamp u);
          m1 = m(statusKey \<mapsto> ToLower (TrimSpace (pu_Status u)),
                 statusKey @ ''_ack'' \<mapsto> FormatBool (pu_Acknowledged u))
      in m1(statusKey @ ''_timestamp'' := (if raw \<noteq> [] then Some raw else None)))"

definition next_sequence :: "int \<Rightarrow> int \<Rightarrow> int" where
  "next_sequence old new = (if new > 0 then (if new \<ge> old then new else old) else if old = 0 then 1 else old)"

definition update_session :: "go_time \<Rightarrow> string list \<Rightarrow> RecordingSession \<Rightarrow> RSMetadata \<Rightarrow> RecordingSession" where
  "update_session now ks s m =
     (let reason = TrimSpace (md_Reason m); reasonRef = TrimSpace (md_ReasonRef m); expires = TrimSpace (md_Expires m);
          gs = md_SessionGroupAssociations m; us = md_PolicyUpdates m
      in s\<lparr>rec_RecordingState := (if md_State m \<noteq> [] then md_State m else rec_RecordingState s),
           rec_StateReason := (if reason \<noteq> [] then reason else rec_StateReason s),
           rec_StateReasonRef := (if reasonRef \<noteq> [] then reasonRef else rec_StateReasonRef s),
           rec_StateExpires :=
             (if expires \<noteq> [] then case parseRFC3339 expires of Some t \<Rightarrow> t | None \<Rightarrow> rec_StateExpires s
              else rec_StateExpires s),
           rec_Participants := updateParticipants ks (rec_Participants s) (md_Participants m),
           rec_SessionGroups := (if gs \<noteq> [] then gs else rec_SessionGroups s),
           rec_SessionGroupRoles := (if gs \<noteq> [] then group_roles gs else rec_SessionGroupRoles s),
           rec_PolicyUpdates := (if us \<noteq> [] then us else rec_PolicyUpdates s),
           rec_PolicyStates := (if us \<noteq> [] then policy_states now us else rec_PolicyStates s),
           rec_ExtendedMetadata :=
             fold policy_metadata1 us
               (group_metadata gs
                 (put2 ''state_expires'' ''expires'' expires
                   (put2 ''state_reason_ref'' ''reason_ref'' reasonRef
                     (put2 ''state_reason'' ''reason'' reason (rec_ExtendedMetadata s))))),
           rec_SequenceNumber := next_sequence (rec_SequenceNumber s) (md_Sequence m),
           rec_AssociatedTime := now,
           rec_UpdatedAt := now\<rparr>)"

definition UpdateRecordingSession ::
  "go_time \<Rightarrow> string list \<Rightarrow> RecordingSession option \<Rightarrow> RSMetadata option \<Rightarrow> RecordingSession option" where
  "UpdateRecordingSession now ks existing rsMetadata =
     (case existing of
        None \<Rightarrow> None
      | Some s \<Rightarrow> (case rsMetadata of None \<Rightarrow> Some s | Some m \<Rightarrow> Some (update_session now ks s m)))"

section \<open>Documents built from a session\<close>

definition NormalizeCommunicationURI :: "CommunicationID \<Rightarrow> string" where
  "NormalizeCommunicationURI commID =
     (let value = TrimSpace (com_Value commID); t = ToLower (TrimSpace (com_Type commID))
      in if value = [] then []
         else if t = ''sip'' then (if \<not> HasPrefix (ToLower value) ''sip:'' then ''sip:'' @ value else value)
         else if t = ''tel'' then (if \<not> HasPrefix (ToLower value) ''tel:'' then ''tel:'' @ value else value)
         else value)"

definition participant_display :: "Participant \<Rightarrow> string" where
  "participant_display p = (if part_DisplayName p = [] then part_Name p else part_DisplayName p)"

definition name_entry :: "Participant \<Rightarrow> string \<Rightarrow> RSNameID" where
  "name_entry p uri =
     RSNameID_zero\<lparr>ni_AOR := uri, ni_URI := uri, ni_Display := participant_display p,
       ni_Names := (if part_Name p \<noteq> [] then [\<lparr>ln_Lang = [], ln_Value = part_Name p\<rparr>] else [])\<rparr>"

definition full_aor :: "CommunicationID \<Rightarrow> Aor" where
  "full_aor c =
     \<lparr>aor_Value = NormalizeCommunicationURI c, aor_URI = NormalizeCommunicationURI c,
      aor_Display = com_DisplayName c, aor_Priority = com_Priority c\<rparr>"

definition failover_participant :: "Participant \<Rightarrow> RSParticipant" where
  "failover_participant p =
     (let infos = map (\<lambda>c. name_entry p (NormalizeCommunicationURI c)) (part_CommunicationIDs p)
      in RSParticipant_zero
           \<lparr>rsp_ID := part_ID p, rsp_Name := part_Name p, rsp_DisplayName := participant_display p,
            rsp_Role := part_Role p, rsp_Aor := map full_aor (part_CommunicationIDs p),
            rsp_NameInfos := (if infos = [] \<and> participant_display p \<noteq> [] then [name_entry p []] else infos)\<rparr>)"

definition failover_id :: "string \<Rightarrow> RecordingSession \<Rightarrow> string" where
  "failover_id uuid s = (if rec_FailoverID s = [] then uuid else rec_FailoverID s)"

definition CreateFailoverMetadata :: "string \<Rightarrow> RecordingSession \<Rightarrow> RSMetadata" where
  "CreateFailoverMetadata uuid originalSession =
     Normalize
       (RSMetadata_zero
          \<lparr>md_SessionID := rec_ID originalSession, md_State := rec_RecordingState originalSession,
           md_Sequence := rec_SequenceNumber originalSession + 1, md_Reason := ''failover'',
           md_ReasonRef := ''urn:ietf:params:xml:ns:recording:1:failover'',
           md_SessionRecordingAssoc :=
             RSAssociation_zero\<lparr>asc_SessionID := rec_ID originalSession, asc_FixedID := failover_id uuid originalSession,
               asc_CallID := rec_ID originalSession\<rparr>,
           md_Participants := map failover_participant (rec_Participants originalSession)\<rparr>)"

text \<open>A participant with its first communication identifier only, and the address built from it.\<close>

definition brief_participant :: "(CommunicationID \<Rightarrow> Aor) \<Rightarrow> Participant \<Rightarrow> RSParticipant" where
  "brief_participant mk p =
     RSParticipant_zero
       \<lparr>rsp_ID := part_ID p, rsp_Name := part_Name p, rsp_DisplayName := participant_display p,
        rsp_Role := part_Role p,
        rsp_Aor := map mk (take 1 (part_CommunicationIDs p)),
        rsp_NameInfos := map (\<lambda>c. name_entry p (NormalizeCommunicationURI c)) (take 1 (part_CommunicationIDs p))\<rparr>"

definition plain_aor :: "CommunicationID \<Rightarrow> Aor" where
  "plain_aor c = Aor_zero\<lparr>aor_Value := NormalizeCommunicationURI c, aor_URI := NormalizeCommunicationURI c\<rparr>"

definition GenerateStateChangeMetadata :: "RecordingSession \<Rightarrow> string \<Rightarrow> string \<Rightarrow> RSMetadata" where
  "GenerateStateChangeMetadata session newState reason =
     Normalize
       (RSMetadata_zero
          \<lparr>md_SessionID := rec_ID session, md_State := newState, md_Sequence := rec_SequenceNumber session + 1,
           md_Reason := reason,
           md_SessionRecordingAssoc :=
             RSAssociation_zero\<lparr>asc_SessionID := rec_ID session, asc_FixedID := rec_FailoverID session\<rparr>,
           md_Participants := map (brief_participant plain_aor) (rec_Participants session)\<rparr>)"

definition GenerateSessionUpdateNotification :: "(go_time \<Rightarrow> string) \<Rightarrow> RecordingSession \<Rightarrow> string \<Rightarrow> RSMetadata" where
  "GenerateSessionUpdateNotification format session updateReason =
     Normalize
       (RSMetadata_zero
          \<lparr>md_SessionID := rec_ID session, md_State := rec_RecordingState session,
           md_Sequence := rec_SequenceNumber session + 1, md_Reason := updateReason,
           md_Expires := (if rec_EndTime session \<noteq> 0 then format (rec_EndTime session) else []),
           md_SessionRecordingAssoc :=
             RSAssociation_zero\<lparr>asc_SessionID := rec_ID session, asc_FixedID := rec_FailoverID session\<rparr>,
           md_Participants := map (brief_participant full_aor) (rec_Participants session)\<rparr>)"

section \<open>Recovery\<close>

datatype session_error =
    NilMetadata
  | MissingFields bool bool
  | RecoveryFailed session_error
  | RecoveredWithoutParticipants string string
  | NilSessions
  | SessionIDMismatch string string
  | FailoverIDMismatch string string
  | MissingParticipants "string list"

definition ParseFailoverMetadata :: "RSMetadata option \<Rightarrow> session_error + string \<times> string" where
  "ParseFailoverMetadata metadata =
     (case metadata of
        None \<Rightarrow> Inl NilMetadata
      | Some m \<Rightarrow>
          (let originalSessionID = md_SessionID m; failoverID = asc_FixedID (md_SessionRecordingAssoc m)
           in if originalSessionID = [] \<or> failoverID = []
              then Inl (MissingFields (originalSessionID \<noteq> []) (failoverID \<noteq> []))
              else Inr (originalSessionID, failoverID)))"

text \<open>A session and an error, either of which may be nil, as the code returns them.\<close>

definition RecoverSession :: "go_time \<Rightarrow> RSMetadata option \<Rightarrow> RecordingSession option \<times> session_error option" where
  "RecoverSession now failoverMetadata =
     (case failoverMetadata of
        None \<Rightarrow> (None, Some NilMetadata)
      | Some m \<Rightarrow>
          (case ParseFailoverMetadata (Some m) of
             Inl e \<Rightarrow> (None, Some (RecoveryFailed e))
           | Inr (originalSessionID, failoverID) \<Rightarrow>
               (let session = RecordingSession_zero
                      \<lparr>rec_ID := originalSessionID, rec_FailoverID := failoverID, rec_RecordingState := md_State m,
                       rec_SequenceNumber := md_Sequence m, rec_AssociatedTime := now,
                       rec_ReplacesSessionID := originalSessionID, rec_CreatedAt := now, rec_UpdatedAt := now,
                       rec_IsValid := True\<rparr>
                in if md_Participants m \<noteq> []
                   then (Some (session\<lparr>rec_Participants := map ConvertRSParticipantToParticipant (md_Participants m)\<rparr>), None)
                   else (Some session, Some (RecoveredWithoutParticipants originalSessionID failoverID)))))"

definition add_stream_type :: "string \<Rightarrow> string list \<Rightarrow> string list" where
  "add_stream_type t ts = (if t \<noteq> [] \<and> t \<notin> set ts then ts @ [t] else ts)"

text \<open>Attach a stream to the first participant of the session with the ID.\<close>

fun attach_stream :: "string \<Rightarrow> string \<Rightarrow> Participant list \<Rightarrow> Participant list" where
  "attach_stream participantID streamID [] = []"
| "attach_stream participantID streamID (p # ps) =
     (if part_ID p = participantID
      then (if streamID \<in> set (part_MediaStreams p) then p
            else p\<lparr>part_MediaStreams := part_MediaStreams p @ [streamID]\<rparr>) # ps
      else p # attach_stream participantID streamID ps)"

definition recover_sender :: "Stream \<Rightarrow> RSParticipant \<Rightarrow> Participant list \<Rightarrow> Participant list" where
  "recover_sender stream participant ps =
     fold (\<lambda>sendLabel ps. if sendLabel = st_Label stream then attach_stream (rsp_ID participant) (st_StreamID stream) ps else ps)
       (rsp_Send participant) ps"

definition recover_stream :: "RSMetadata \<Rightarrow> Stream \<Rightarrow> RecordingSession \<Rightarrow> RecordingSession" where
  "recover_stream m stream s =
     s\<lparr>rec_MediaStreamTypes := add_stream_type (st_Type stream) (rec_MediaStreamTypes s),
       rec_Participants := fold (recover_sender stream) (md_Participants m) (rec_Participants s)\<rparr>"

definition ProcessStreamRecovery :: "RecordingSession option \<Rightarrow> RSMetadata option \<Rightarrow> RecordingSession option" where
  "ProcessStreamRecovery session metadata =
     (case session of
        None \<Rightarrow> None
      | Some s \<Rightarrow>
          (case metadata of
             None \<Rightarrow> Some s
           | Some m \<Rightarrow> Some (fold (recover_stream m) (md_Streams m) (s\<lparr>rec_MediaStreamTypes := []\<rparr>))))"

text \<open>The error for missing participants lists them in the order of a range over the original IDs.\<close>

definition ValidateSessionContinuity ::
  "string list \<Rightarrow> RecordingSession option \<Rightarrow> RecordingSession option \<Rightarrow> session_error option" where
  "ValidateSessionContinuity ks originalSession recoveredSession =
     (case (originalSession, recoveredSession) of
        (Some orig, Some recd) \<Rightarrow>
          if rec_ID orig \<noteq> rec_ID recd then Some (SessionIDMismatch (rec_ID orig) (rec_ID recd))
          else if rec_FailoverID orig \<noteq> [] \<and> rec_FailoverID recd \<noteq> [] \<and> rec_FailoverID orig \<noteq> rec_FailoverID recd
          then Some (FailoverIDMismatch (rec_FailoverID orig) (rec_FailoverID recd))
          else
            (let missing = filter (\<lambda>i. i \<notin> part_ID ` set (rec_Participants recd)) ks
             in if missing \<noteq> [] then Some (MissingParticipants missing) else None)
      | _ \<Rightarrow> Some NilSessions)"

definition SetSessionExpiration :: "go_time \<Rightarrow> RecordingSession option \<Rightarrow> go_duration \<Rightarrow> RecordingSession option" where
  "SetSessionExpiration now session duration =
     map_option
       (\<lambda>s. let start = (if rec_StartTime s \<noteq> 0 then rec_StartTime s else now)
            in s\<lparr>rec_RetentionPeriod := duration, rec_StartTime := start, rec_EndTime := start + duration\<rparr>)
       session"

definition GetEffectiveRTPTimeout :: "RecordingSession option \<Rightarrow> go_duration \<Rightarrow> go_duration" where
  "GetEffectiveRTPTimeout session globalTimeout =
     (case session of
        Some s \<Rightarrow>
          if rec_CustomRTPTimeout s > 0 then rec_CustomRTPTimeout s
          else if rec_Timeout s > 0 then rec_Timeout s else globalTimeout
      | None \<Rightarrow> globalTimeout)"

section \<open>The Replaces header\<close>

definition CreateReplacesHeader :: "RecordingSession \<Rightarrow> string \<Rightarrow> bool \<Rightarrow> string" where
  "CreateReplacesHeader session dialogID earlyFlag =
     rec_ID session @
     (if dialogID \<noteq> [] then concat (map (\<lambda>part. '';'' @ part) (tl (Split dialogID CHR '';''))) else []) @
     (if earlyFlag then '';early-only'' else [])"

datatype replaces_error = EmptyReplaces | MissingTags | MissingComponents

record Replaces =
  rpl_CallID :: string
  rpl_ToTag :: string
  rpl_FromTag :: string
  rpl_EarlyOnly :: bool

definition replaces_part :: "string \<Rightarrow> Replaces \<Rightarrow> Replaces" where
  "replaces_part part r =
     (if HasPrefix part ''to-tag='' then r\<lparr>rpl_ToTag := TrimPrefix part ''to-tag=''\<rparr>
      else if HasPrefix part ''from-tag='' then r\<lparr>rpl_FromTag := TrimPrefix part ''from-tag=''\<rparr>
      else if part = ''early-only'' then r\<lparr>rpl_EarlyOnly := True\<rparr>
      else r)"

definition ParseReplacesHeader :: "string \<Rightarrow> Replaces \<times> replaces_error option" where
  "ParseReplacesHeader replacesHeader =
     (let none = \<lparr>rpl_CallID = [], rpl_ToTag = [], rpl_FromTag = [], rpl_EarlyOnly = False\<rparr>
      in if replacesHeader = [] then (none, Some EmptyReplaces)
         else
           (let parts = Split replacesHeader CHR '';''
            in if length parts < 3 then (none, Some MissingTags)
               else
                 (let r = fold replaces_part (tl parts) (none\<lparr>rpl_CallID := hd parts\<rparr>)
                  in (r, if rpl_CallID r = [] \<or> rpl_ToTag r = [] \<or> rpl_FromTag r = []
                         then Some MissingComponents else None))))"

section \<open>Merging participants\<close>

lemma merge_keeps_ID [simp]: "part_ID (merge_participant e np) = part_ID e" "part_ID (new_participant np) = rsp_ID np"
  by (simp_all add: merge_participant_def new_participant_def)

text \<open>What the merge makes of one new participant.\<close>

definition merged :: "(string \<rightharpoonup> Participant) \<Rightarrow> RSParticipant \<Rightarrow> Participant" where
  "merged m np = (case m (rsp_ID np) of Some e \<Rightarrow> merge_participant e np | None \<Rightarrow> new_participant np)"

definition keyed :: "(string \<rightharpoonup> Participant) \<Rightarrow> bool" where
  "keyed m \<longleftrightarrow> (\<forall>i p. m i = Some p \<longrightarrow> part_ID p = i)"

lemma keyed_index [simp]: "keyed (index_by part_ID ps)"
  by (auto simp: keyed_def dest: index_by_Some)

lemma keyed_delete [simp]: "keyed m \<Longrightarrow> keyed (m(i := None))"
  by (simp add: keyed_def)

lemma merged_ID: "keyed m \<Longrightarrow> part_ID (merged m np) = rsp_ID np"
  by (auto simp: keyed_def merged_def split: option.split)

lemma merged_index:
  assumes "distinct (map part_ID eps)"
  shows "x = merged (index_by part_ID eps) np \<longleftrightarrow>
    (\<exists>e \<in> set eps. part_ID e = rsp_ID np \<and> x = merge_participant e np) \<or>
    (rsp_ID np \<notin> part_ID ` set eps \<and> x = new_participant np)"
proof (cases "index_by part_ID eps (rsp_ID np)")
  case None
  then have "rsp_ID np \<notin> part_ID ` set eps"
    by (metis index_by_None)
  with None show ?thesis by (auto simp: merged_def image_iff)
next
  case (Some e)
  have e: "e \<in> set eps" "part_ID e = rsp_ID np"
    using index_by_Some[OF Some] by simp_all
  have "\<And>e'. e' \<in> set eps \<Longrightarrow> part_ID e' = rsp_ID np \<Longrightarrow> e' = e"
    using Some index_by_distinct[OF assms] by (metis option.inject)
  moreover have "merged (index_by part_ID eps) np = merge_participant e np"
    using Some by (simp add: merged_def)
  ultimately show ?thesis
    using e by (metis image_eqI)
qed

lemma merge_loop_spec:
  assumes "distinct (map rsp_ID nps)"
  shows "merge_loop m nps = (map (merged m) nps, m |` (- set (map rsp_ID nps)))"
  using assms
proof (induction nps arbitrary: m)
  case (Cons np nps)
  define m' where "m' = m(rsp_ID np := None)"
  have "\<forall>x \<in> set nps. rsp_ID x \<noteq> rsp_ID np"
    using Cons.prems by (metis distinct.simps(2) image_eqI list.set_map list.simps(9))
  then have same: "map (merged m') nps = map (merged m) nps"
    by (simp add: merged_def m'_def)
  have rest: "m' |` (- set (map rsp_ID nps)) = m |` (- set (map rsp_ID (np # nps)))"
    and rest': "m (rsp_ID np) = None \<Longrightarrow> m |` (- set (map rsp_ID nps)) = m |` (- set (map rsp_ID (np # nps)))"
    by (auto simp: restrict_map_def fun_eq_iff m'_def)
  have "merge_loop m nps = (map (merged m) nps, m |` (- set (map rsp_ID nps)))"
       "merge_loop m' nps = (map (merged m) nps, m |` (- set (map rsp_ID (np # nps))))"
    using Cons.IH[of m] Cons.IH[of m'] Cons.prems unfolding same rest by simp_all
  then show ?case
    using rest' by (simp add: merged_def m'_def[symmetric] split: option.split)
qed (simp add: restrict_map_def)

lemma merge_loop_IDs:
  "keyed m \<Longrightarrow>
     map part_ID (fst (merge_loop m nps)) = map rsp_ID nps \<and>
     dom (snd (merge_loop m nps)) = dom m - rsp_ID ` set nps \<and> keyed (snd (merge_loop m nps))"
proof (induction nps arbitrary: m)
  case (Cons np nps)
  define m' where "m' = m(rsp_ID np := None)"
  have m': "keyed m'" "dom m' = dom m - {rsp_ID np}"
    using Cons.prems by (auto simp: m'_def)
  have "\<And>e. m (rsp_ID np) = Some e \<Longrightarrow> part_ID e = rsp_ID np"
    using Cons.prems by (simp add: keyed_def)
  then show ?case
    using Cons.IH[OF Cons.prems] Cons.IH[OF m'(1)] m'(2)
    by (cases "m (rsp_ID np)") (auto simp: split_beta m'_def[symmetric])
qed simp

lemma updateParticipants_IDs:
  assumes "set ks = part_ID ` set eps"
  shows "part_ID ` set (updateParticipants ks eps nps) = part_ID ` set eps \<union> rsp_ID ` set nps"
proof -
  obtain r rest where m: "merge_loop (index_by part_ID eps) nps = (r, rest)"
    by fastforce
  have r: "part_ID ` set r = rsp_ID ` set nps" and d: "dom rest = part_ID ` set eps - rsp_ID ` set nps" and k: "keyed rest"
    using merge_loop_IDs[of "index_by part_ID eps" nps] m by (auto simp: index_by_dom simp flip: set_map)
  have "part_ID ` set (List.map_filter rest ks) = dom rest"
  proof (intro equalityI subsetI)
    fix i assume "i \<in> dom rest"
    then obtain p where "rest i = Some p" "part_ID p = i" "i \<in> set ks"
      using k d assms unfolding keyed_def by blast
    then show "i \<in> part_ID ` set (List.map_filter rest ks)"
      unfolding set_map_filter by blast
  qed (use k in \<open>auto simp: set_map_filter keyed_def\<close>)
  then show ?thesis
    using m r d by (auto simp: updateParticipants_def image_Un)
qed

text \<open>C3: merging metadata into a session's participants. With distinct identifiers on both sides and
  for every order of the map, the result has every known and every new identifier once; a new
  participant is added as the metadata gives it, a known one that the metadata names is updated
  field by field, and a known one that it does not name is kept as it is.\<close>

theorem updateParticipants_merges:
  assumes "distinct (map part_ID eps)" and "distinct (map rsp_ID nps)"
    and "distinct ks" and "set ks = part_ID ` set eps"
  shows "distinct (map part_ID (updateParticipants ks eps nps)) \<and>
    set (updateParticipants ks eps nps) =
      {merge_participant e np | e np. e \<in> set eps \<and> np \<in> set nps \<and> part_ID e = rsp_ID np} \<union>
      {new_participant np | np. np \<in> set nps \<and> rsp_ID np \<notin> part_ID ` set eps} \<union>
      {e \<in> set eps. part_ID e \<notin> rsp_ID ` set nps}"
proof -
  let ?m = "index_by part_ID eps"
  define new where "new = rsp_ID ` set nps"
  let ?rest = "List.map_filter (?m |` (- new)) ks"
  have u: "updateParticipants ks eps nps = map (merged ?m) nps @ ?rest"
    using merge_loop_spec[OF assms(2), of ?m] by (simp add: updateParticipants_def new_def)
  have rest: "set ?rest = {e \<in> set eps. part_ID e \<notin> new}"
    using assms(4) unfolding set_map_filter restrict_map_def
    by (auto simp: index_by_distinct[OF assms(1)] split: if_splits)
  have merged: "set (map (merged ?m) nps) =
      {merge_participant e np | e np. e \<in> set eps \<and> np \<in> set nps \<and> part_ID e = rsp_ID np} \<union>
      {new_participant np | np. np \<in> set nps \<and> rsp_ID np \<notin> part_ID ` set eps}" (is "_ = ?A \<union> ?B")
    using merged_index[OF assms(1)] by (simp add: image_def) blast
  have "distinct (map part_ID ?rest)"
    using assms(3) by (rule distinct_range_values) (auto simp: restrict_map_def dest: index_by_Some split: if_splits)
  moreover have "map part_ID (map (merged ?m) nps) = map rsp_ID nps" "set (map part_ID ?rest) \<inter> new = {}"
    using rest by (auto simp: merged_ID)
  ultimately have "distinct (map part_ID (updateParticipants ks eps nps))"
    using assms(2) unfolding u map_append distinct_append new_def by (simp add: comp_def merged_ID Int_commute)
  then show ?thesis
    using merged rest unfolding u new_def by simp
qed

definition known_caller :: Participant where
  "known_caller = Participant_zero\<lparr>part_ID := ''p1'', part_Name := ''Alice''\<rparr>"

definition two_callers :: "RSParticipant list" where
  "two_callers = [RSParticipant_zero\<lparr>rsp_ID := ''p1'', rsp_NameID := ''alice''\<rparr>, RSParticipant_zero\<lparr>rsp_ID := ''p2''\<rparr>]"

theorem updateParticipants_merges_witness:
  "distinct (map part_ID (updateParticipants [''p1''] [known_caller] two_callers)) \<and>
   merge_participant known_caller (hd two_callers) \<in> set (updateParticipants [''p1''] [known_caller] two_callers)"
  using updateParticipants_merges[of "[known_caller]" two_callers "[''p1'']"]
  by (auto simp: known_caller_def two_callers_def Participant_zero_def RSParticipant_zero_def)

text \<open>A history of metadata updates of a session; every step picks its own clock reading and its own
  order for the map of known participants.\<close>

inductive updated :: "RecordingSession \<Rightarrow> RSMetadata list \<Rightarrow> RecordingSession \<Rightarrow> bool" where
  updated_Nil: "updated s [] s"
| updated_Cons:
    "distinct ks \<Longrightarrow> set ks = part_ID ` set (rec_Participants s) \<Longrightarrow>
     UpdateRecordingSession now ks (Some s) (Some m) = Some s1 \<Longrightarrow> updated s1 ms s' \<Longrightarrow> updated s (m # ms) s'"

inductive_cases updated_NilE: "updated s [] s'"

lemma update_session_fields:
  "UpdateRecordingSession now ks (Some s) (Some m) = Some s1 \<Longrightarrow>
     rec_ID s1 = rec_ID s \<and> rec_SequenceNumber s1 = next_sequence (rec_SequenceNumber s) (md_Sequence m) \<and>
     rec_Participants s1 = updateParticipants ks (rec_Participants s) (md_Participants m)"
  by (auto simp: UpdateRecordingSession_def update_session_def Let_def)

lemma next_sequence_max: "0 \<le> old \<Longrightarrow> next_sequence old new = max (max 1 old) new"
  by (simp add: next_sequence_def max_def)

text \<open>However a series of notifications is ordered, a session ends with the highest sequence
  number it has seen, and has every participant it or a notification has named; its own ID never
  changes.\<close>

theorem updated_history:
  assumes "updated s ms s'" and "0 \<le> rec_SequenceNumber s" and "ms \<noteq> []"
  shows "rec_ID s' = rec_ID s \<and>
    rec_SequenceNumber s' = Max ({1, rec_SequenceNumber s} \<union> md_Sequence ` set ms) \<and>
    part_ID ` set (rec_Participants s') =
      part_ID ` set (rec_Participants s) \<union> (\<Union>m \<in> set ms. rsp_ID ` set (md_Participants m))"
  using assms
proof (induction rule: updated.induct)
  case (updated_Cons ks s now m s1 ms s')
  have f: "rec_ID s1 = rec_ID s" "rec_SequenceNumber s1 = max (max 1 (rec_SequenceNumber s)) (md_Sequence m)"
    "part_ID ` set (rec_Participants s1) = part_ID ` set (rec_Participants s) \<union> rsp_ID ` set (md_Participants m)"
    using update_session_fields[OF updated_Cons(3)] updateParticipants_IDs[OF updated_Cons(2)]
      next_sequence_max[OF updated_Cons.prems(1)] by simp_all
  show ?case
  proof (cases "ms = []")
    case True
    then have "s' = s1" using updated_Cons(4) by (auto elim: updated_NilE)
    then show ?thesis using f True by (simp add: ac_simps)
  next
    case False
    have "0 \<le> rec_SequenceNumber s1" using f(2) by simp
    from updated_Cons.IH[OF this False] show ?thesis
      using f False by (auto simp: ac_simps)
  qed
qed simp

theorem updated_history_witness:
  "\<exists>s'. updated (RecordingSession_zero\<lparr>rec_SequenceNumber := 3\<rparr>)
          [RSMetadata_zero\<lparr>md_Sequence := 7\<rparr>, RSMetadata_zero\<lparr>md_Sequence := 5\<rparr>] s' \<and> rec_SequenceNumber s' = 7"
proof -
  let ?s = "RecordingSession_zero\<lparr>rec_SequenceNumber := 3\<rparr>"
  let ?m = "\<lambda>n. RSMetadata_zero\<lparr>md_Sequence := n\<rparr>"
  let ?s1 = "update_session 0 [] ?s (?m 7)"
  have p: "rec_Participants ?s = []" "rec_Participants ?s1 = []"
    by (simp_all add: RecordingSession_zero_def RSMetadata_zero_def update_session_def updateParticipants_def
        List.map_filter_simps Let_def)
  have u: "UpdateRecordingSession 0 [] (Some s) (Some m) = Some (update_session 0 [] s m)" for s m
    by (simp add: UpdateRecordingSession_def)
  have "updated ?s [?m 7, ?m 5] (update_session 0 [] ?s1 (?m 5))"
    by (rule updated_Cons[OF _ _ u updated_Cons[OF _ _ u updated_Nil]]) (simp_all only: p, simp_all)
  moreover from updated_history[OF this] have "rec_SequenceNumber (update_session 0 [] ?s1 (?m 5)) = 7"
    by (simp add: RecordingSession_zero_def RSMetadata_zero_def)
  ultimately show ?thesis by blast
qed

section \<open>Failover\<close>

text \<open>A participant as a failover leaves it: its identity, and its addresses as SIP identifiers.\<close>

definition sip_comm :: "string \<Rightarrow> CommunicationID" where
  "sip_comm v = CommunicationID_zero\<lparr>com_Type := ''sip'', com_Value := v\<rparr>"

definition recovered_participant :: "Participant \<Rightarrow> Participant" where
  "recovered_participant p =
     Participant_zero
       \<lparr>part_ID := part_ID p, part_Name := part_Name p, part_DisplayName := participant_display p,
        part_Role := part_Role p,
        part_CommunicationIDs := map (\<lambda>c. sip_comm (NormalizeCommunicationURI c)) (part_CommunicationIDs p)\<rparr>"

lemma name_entry_fields [simp]:
  "ni_AOR (name_entry p u) = u" "ni_URI (name_entry p u) = u" "ni_Display (name_entry p u) = participant_display p"
  "map ln_Value (ni_Names (name_entry p u)) = (if part_Name p = [] then [] else [part_Name p])"
  by (simp_all add: name_entry_def RSNameID_zero_def)

lemma recover_failover_participant:
  "ConvertRSParticipantToParticipant (normalize_participant (failover_participant p)) = recovered_participant p"
proof -
  have names: "part_Name p = [] \<Longrightarrow> concat (map ((\<lambda>ni. map ln_Value (ni_Names ni)) \<circ> (\<lambda>c. name_entry p (f c))) cs) = []"
    for f :: "CommunicationID \<Rightarrow> string" and cs
    by (induction cs) simp_all
  have comms: "map aor_comm (map full_aor cs) = map (\<lambda>c. sip_comm (NormalizeCommunicationURI c)) cs" for cs
    by (simp add: aor_comm_def full_aor_def sip_comm_def)
  have disp: "participant_display p = [] \<Longrightarrow> part_Name p = []"
    by (simp add: participant_display_def split: if_splits)
  show ?thesis
    using comms[of "part_CommunicationIDs p"] disp
    by (cases "part_CommunicationIDs p"; cases "participant_display p = []"; cases "part_Name p = []")
      (simp_all add: ConvertRSParticipantToParticipant_def normalize_participant_def failover_participant_def
        recovered_participant_def RSParticipant_zero_def nameinfo_comms_def names first_nonblank_Cons Let_def)
qed

lemma failover_document:
  "md_SessionID (CreateFailoverMetadata uuid s) = rec_ID s"
  "asc_FixedID (md_SessionRecordingAssoc (CreateFailoverMetadata uuid s)) = failover_id uuid s"
  "md_State (CreateFailoverMetadata uuid s) = rec_RecordingState s"
  "md_Sequence (CreateFailoverMetadata uuid s) = rec_SequenceNumber s + 1"
  "md_Reason (CreateFailoverMetadata uuid s) = ''failover''"
  "md_Sessions (CreateFailoverMetadata uuid s) = []"
  "md_Participants (CreateFailoverMetadata uuid s) =
     map (\<lambda>p. normalize_participant (failover_participant p)) (rec_Participants s)"
  by (simp_all add: CreateFailoverMetadata_def RSMetadata_zero_def normalize_assoc_def RSAssociation_zero_def)

definition recovered_session :: "go_time \<Rightarrow> string \<Rightarrow> RecordingSession \<Rightarrow> RecordingSession" where
  "recovered_session now uuid s =
     RecordingSession_zero
       \<lparr>rec_ID := rec_ID s, rec_FailoverID := failover_id uuid s, rec_RecordingState := rec_RecordingState s,
        rec_SequenceNumber := rec_SequenceNumber s + 1, rec_AssociatedTime := now, rec_ReplacesSessionID := rec_ID s,
        rec_CreatedAt := now, rec_UpdatedAt := now, rec_IsValid := True,
        rec_Participants := map recovered_participant (rec_Participants s)\<rparr>"

lemma RecoverSession_failover:
  assumes "rec_ID s \<noteq> []" and "uuid \<noteq> []"
  shows "RecoverSession now (Some (CreateFailoverMetadata uuid s)) =
    (Some (recovered_session now uuid s),
     if rec_Participants s = [] then Some (RecoveredWithoutParticipants (rec_ID s) (failover_id uuid s)) else None)"
proof -
  have "failover_id uuid s \<noteq> []"
    using assms by (simp add: failover_id_def)
  then show ?thesis
    using assms by (simp add: RecoverSession_def ParseFailoverMetadata_def failover_document recovered_session_def
        recover_failover_participant comp_def RecordingSession_zero_def)
qed

text \<open>C4: failover. From the metadata a session writes for its successor, recovery always rebuilds a
  session that passes the continuity check: same session and failover ID, same state, the next
  sequence number, and the same participants in the same order, with their name, role and
  normalised addresses. The only warning is that of a session without participants.\<close>

theorem failover_roundtrip:
  assumes "rec_ID s \<noteq> []" and "uuid \<noteq> []" and "set ks = part_ID ` set (rec_Participants s)"
  shows "\<exists>r. RecoverSession now (Some (CreateFailoverMetadata uuid s)) =
      (Some r, if rec_Participants s = [] then Some (RecoveredWithoutParticipants (rec_ID s) (failover_id uuid s)) else None) \<and>
    ValidateSessionContinuity ks (Some s) (Some r) = None \<and>
    rec_ID r = rec_ID s \<and> rec_ReplacesSessionID r = rec_ID s \<and> rec_FailoverID r = failover_id uuid s \<and>
    rec_RecordingState r = rec_RecordingState s \<and> rec_SequenceNumber r = rec_SequenceNumber s + 1 \<and>
    rec_Participants r = map recovered_participant (rec_Participants s)"
proof -
  have "part_ID ` set (map recovered_participant ps) = part_ID ` set ps" for ps
    by (simp add: image_image recovered_participant_def)
  then show ?thesis
    using assms
    by (simp add: RecoverSession_failover ValidateSessionContinuity_def recovered_session_def failover_id_def
        RecordingSession_zero_def)
qed

definition phone_session :: RecordingSession where
  "phone_session =
     RecordingSession_zero
       \<lparr>rec_ID := ''s1'',
        rec_Participants :=
          [Participant_zero\<lparr>part_ID := ''p1'',
             part_CommunicationIDs := [CommunicationID_zero\<lparr>com_Type := ''tel'', com_Value := ''+1555''\<rparr>]\<rparr>]\<rparr>"

theorem failover_roundtrip_witness:
  "\<exists>r. RecoverSession 7 (Some (CreateFailoverMetadata ''u'' phone_session)) = (Some r, None) \<and>
     ValidateSessionContinuity [''p1''] (Some phone_session) (Some r) = None \<and> map part_ID (rec_Participants r) = [''p1'']"
  using failover_roundtrip[of phone_session "''u''" "[''p1'']" 7]
  by (auto simp: phone_session_def RecordingSession_zero_def recovered_participant_def Participant_zero_def)

lemma ws_tail_rev_colon:
  "ws_tail_rev r = None \<Longrightarrow> r \<noteq> [] \<Longrightarrow> ws_tail_rev (r @ CHR '':'' # t) = None"
  by (cases r; cases "tl r"; cases "tl (tl r)") (auto simp: ws2_def ws3_def split: if_splits list.splits)

lemma TrimSpace_tel: "TrimSpace v \<noteq> [] \<Longrightarrow> TrimSpace (''tel:'' @ TrimSpace v) = ''tel:'' @ TrimSpace v"
  using ws_tail_rev_colon[OF TrimSpace_ends(2), of v "''let''"]
  by (intro TrimSpace_id) (simp_all add: ascii_ws_def ws2_def ws3_def split: list.split)

lemma ToLower_append: "ToLower (a @ b) = ToLower a @ ToLower b"
  by (simp add: ToLower_def)

lemma NormalizeCommunicationURI_tel_sip:
  assumes "ToLower (TrimSpace (com_Type c)) = ''tel''" and "TrimSpace (com_Value c) \<noteq> []"
  shows "NormalizeCommunicationURI (sip_comm (NormalizeCommunicationURI c)) = ''sip:'' @ NormalizeCommunicationURI c"
proof -
  let ?n = "NormalizeCommunicationURI c"
  have n: "TrimSpace ?n = ?n" "?n \<noteq> []" "HasPrefix (ToLower ?n) ''tel:''"
    using assms TrimSpace_tel[OF assms(2)]
    by (simp_all add: NormalizeCommunicationURI_def Let_def) (simp_all add: HasPrefix_def ToLower_def lower_byte_def)
  then have "\<not> HasPrefix (ToLower ?n) ''sip:''"
    by (auto simp: HasPrefix_iff)
  moreover have "ToLower (TrimSpace ''sip'') = ''sip''"
    by code_simp
  ultimately show ?thesis
    using n(1,2) unfolding NormalizeCommunicationURI_def[of "sip_comm ?n"]
    by (simp add: sip_comm_def CommunicationID_zero_def Let_def)
qed

text \<open>Two failovers in a row corrupt telephone numbers. Recovery marks every address as a SIP
  address, so the failover after it puts a \<open>sip:\<close> in front of the \<open>tel:\<close> URI that the first one
  wrote.\<close>

theorem failover_twice_tel:
  assumes "rec_ID s \<noteq> []" and "uuid \<noteq> []" and "uuid' \<noteq> []"
    and "RecoverSession now (Some (CreateFailoverMetadata uuid s)) = (Some r, e)"
    and "RecoverSession now' (Some (CreateFailoverMetadata uuid' r)) = (Some r', e')"
    and "p \<in> set (rec_Participants s)" and "c \<in> set (part_CommunicationIDs p)"
    and "ToLower (TrimSpace (com_Type c)) = ''tel''" and "TrimSpace (com_Value c) \<noteq> []"
  shows "\<exists>p' \<in> set (rec_Participants r'). part_ID p' = part_ID p \<and>
    ''sip:'' @ NormalizeCommunicationURI c \<in> com_Value ` set (part_CommunicationIDs p')"
proof -
  have r: "r = recovered_session now uuid s"
    using assms(4) RecoverSession_failover[OF assms(1,2)] by simp
  then have "rec_ID r \<noteq> []"
    using assms(1) by (simp add: recovered_session_def RecordingSession_zero_def)
  then have "r' = recovered_session now' uuid' r"
    using assms(5) RecoverSession_failover[OF _ assms(3)] by simp
  then have "recovered_participant (recovered_participant p) \<in> set (rec_Participants r')"
    using assms(6) r by (simp add: recovered_session_def RecordingSession_zero_def)
  moreover have "''sip:'' @ NormalizeCommunicationURI c \<in>
      com_Value ` set (part_CommunicationIDs (recovered_participant (recovered_participant p)))"
    using assms(7) NormalizeCommunicationURI_tel_sip[OF assms(8,9)]
    by (force simp: recovered_participant_def Participant_zero_def sip_comm_def image_image)
  moreover have "part_ID (recovered_participant (recovered_participant p)) = part_ID p"
    by (simp add: recovered_participant_def)
  ultimately show ?thesis by blast
qed

theorem failover_twice_tel_witness:
  "\<exists>r' e'. RecoverSession 8 (Some (CreateFailoverMetadata ''v'' (recovered_session 7 ''u'' phone_session))) = (Some r', e') \<and>
     (\<exists>p' \<in> set (rec_Participants r'). ''sip:tel:+1555'' \<in> com_Value ` set (part_CommunicationIDs p'))"
proof -
  let ?r = "recovered_session 7 ''u'' phone_session"
  let ?p = "hd (rec_Participants phone_session)" and ?c = "hd (part_CommunicationIDs (hd (rec_Participants phone_session)))"
  have s: "rec_ID phone_session \<noteq> []" "?p \<in> set (rec_Participants phone_session)" "?c \<in> set (part_CommunicationIDs ?p)"
    by (simp_all add: phone_session_def)
  have r: "rec_ID ?r \<noteq> []"
    by (simp add: recovered_session_def phone_session_def)
  have c: "ToLower (TrimSpace (com_Type ?c)) = ''tel''" "TrimSpace (com_Value ?c) \<noteq> []"
    "NormalizeCommunicationURI ?c = ''tel:+1555''"
    by code_simp+
  have u: "''u'' \<noteq> []" "''v'' \<noteq> []"
    by simp_all
  note r1 = RecoverSession_failover[OF s(1) u(1), of 7] and r2 = RecoverSession_failover[OF r u(2), of 8]
  show ?thesis
    using failover_twice_tel[OF s(1) u r1 r2 s(2,3) c(1,2)] r2 by (auto simp: c(3))
qed

text \<open>C5: the documents the package generates for failover and for state changes carry no session
  element, and the failover document a reason that is not in the table of reasons: the package's
  own validator rejects every one of them.\<close>

theorem generated_metadata_rejected:
  "SessionMsg NoSessions \<in> set (vr_Errors (ValidateSiprecMessage (Some (CreateFailoverMetadata uuid s)))) \<and>
   DocMsg (UnsupportedReason ''failover'') \<in> set (vr_Errors (ValidateSiprecMessage (Some (CreateFailoverMetadata uuid s)))) \<and>
   SessionMsg NoSessions \<in> set (vr_Errors (ValidateSiprecMessage (Some (GenerateStateChangeMetadata s newState reason))))"
proof -
  have table: "ToLower (TrimSpace ''failover'') = ''failover''" "''failover'' \<notin> set allowedRecordingReasons"
    by code_simp+
  have state: "md_Sessions (GenerateStateChangeMetadata s newState reason) = []"
    by (simp add: GenerateStateChangeMetadata_def RSMetadata_zero_def)
  show ?thesis
    by (simp add: ValidateSiprecMessage_def ValidateSiprecMessageWithOptions_def validation_issues_def Let_def
        check_sessions_def check_state_reason_def failover_document state table)
qed

section \<open>Continuity\<close>

text \<open>The continuity check passes exactly when both sessions are there, have the same ID, do not
  have two different failover IDs, and no participant of the original is missing from the
  recovered one, in whatever order the participants are compared.\<close>

theorem ValidateSessionContinuity_iff:
  assumes "set ks = part_ID ` set (rec_Participants orig)"
  shows "ValidateSessionContinuity ks (Some orig) recd = None \<longleftrightarrow>
    (\<exists>r. recd = Some r \<and> rec_ID orig = rec_ID r \<and>
       (rec_FailoverID orig = rec_FailoverID r \<or> [] \<in> {rec_FailoverID orig, rec_FailoverID r}) \<and>
       part_ID ` set (rec_Participants orig) \<subseteq> part_ID ` set (rec_Participants r))"
  using assms by (auto simp: ValidateSessionContinuity_def filter_empty_conv subset_iff split: option.splits)

theorem ValidateSessionContinuity_iff_witness:
  "ValidateSessionContinuity [''p1''] (Some phone_session) (Some RecordingSession_zero) \<noteq> None"
  using ValidateSessionContinuity_iff[of "[''p1'']" phone_session "Some RecordingSession_zero"]
  by (simp add: phone_session_def RecordingSession_zero_def Participant_zero_def)

section \<open>The Replaces header\<close>

lemma CreateReplacesHeader_dialog:
  assumes "CHR '';'' \<notin> set callid" "CHR '';'' \<notin> set totag" "CHR '';'' \<notin> set fromtag"
  shows "CreateReplacesHeader s (callid @ '';to-tag='' @ totag @ '';from-tag='' @ fromtag) early =
    rec_ID s @ '';to-tag='' @ totag @ '';from-tag='' @ fromtag @ (if early then '';early-only'' else [])"
  using assms by (simp add: CreateReplacesHeader_def Split_append Split_no_sep)

text \<open>Parsing the Replaces header that the recorder writes for a dialog gives back the session's
  call ID, the two tags of the dialog and the early-only flag.\<close>

theorem Replaces_roundtrip:
  assumes "rec_ID s \<noteq> []" and "totag \<noteq> []" and "fromtag \<noteq> []"
    and "CHR '';'' \<notin> set (rec_ID s @ callid @ totag @ fromtag)"
  shows "ParseReplacesHeader (CreateReplacesHeader s (callid @ '';to-tag='' @ totag @ '';from-tag='' @ fromtag) early) =
    (\<lparr>rpl_CallID = rec_ID s, rpl_ToTag = totag, rpl_FromTag = fromtag, rpl_EarlyOnly = early\<rparr>, None)"
proof -
  let ?early = "if early then [''early-only''] else []"
  have split: "Split (rec_ID s @ '';to-tag='' @ totag @ '';from-tag='' @ fromtag @ (if early then '';early-only'' else [])) CHR '';'' =
      rec_ID s # (''to-tag='' @ totag) # (''from-tag='' @ fromtag) # ?early"
    using assms(4) by (simp add: Split_append Split_no_sep)
  have hdr: "CreateReplacesHeader s (callid @ '';to-tag='' @ totag @ '';from-tag='' @ fromtag) early =
      rec_ID s @ '';to-tag='' @ totag @ '';from-tag='' @ fromtag @ (if early then '';early-only'' else [])"
    using assms(4) by (intro CreateReplacesHeader_dialog) auto
  show ?thesis
    unfolding hdr ParseReplacesHeader_def Let_def split
    using assms(1-3) by (simp add: replaces_part_def HasPrefix_simps)
qed

theorem Replaces_roundtrip_witness:
  "ParseReplacesHeader (CreateReplacesHeader phone_session ''c1;to-tag=a;from-tag=b'' True) =
     (\<lparr>rpl_CallID = ''s1'', rpl_ToTag = ''a'', rpl_FromTag = ''b'', rpl_EarlyOnly = True\<rparr>, None)"
  using Replaces_roundtrip[of phone_session "''a''" "''b''" "''c1''" True] by (simp add: phone_session_def)

section \<open>Stream recovery\<close>

text \<open>\<open>attached A ps ps'\<close>: the participants \<open>ps'\<close> are \<open>ps\<close> with the streams \<open>A i\<close> added to the one
  with the ID \<open>i\<close>.\<close>

definition attached1 :: "(string \<Rightarrow> string set) \<Rightarrow> Participant \<Rightarrow> Participant \<Rightarrow> bool" where
  "attached1 A p p' \<longleftrightarrow>
     (\<exists>ms. p' = p\<lparr>part_MediaStreams := ms\<rparr> \<and> set ms = set (part_MediaStreams p) \<union> A (part_ID p) \<and>
        (distinct (part_MediaStreams p) \<longrightarrow> distinct ms))"

definition attached :: "(string \<Rightarrow> string set) \<Rightarrow> Participant list \<Rightarrow> Participant list \<Rightarrow> bool" where
  "attached A ps ps' \<longleftrightarrow> list_all2 (attached1 A) ps ps'"

lemma attached_same: "\<forall>p \<in> set ps. A (part_ID p) = {} \<Longrightarrow> attached A ps ps"
  by (induction ps) (auto simp: attached_def attached1_def intro!: exI[of _ "part_MediaStreams p" for p])

lemma attached_trans: "attached A ps qs \<Longrightarrow> attached B qs rs \<Longrightarrow> attached (\<lambda>i. A i \<union> B i) ps rs"
proof -
  have "attached1 A a b \<Longrightarrow> attached1 B b c \<Longrightarrow> attached1 (\<lambda>i. A i \<union> B i) a c" for a b c
    by (auto simp: attached1_def)
  then show "attached A ps qs \<Longrightarrow> attached B qs rs \<Longrightarrow> ?thesis"
    unfolding attached_def using list_all2_trans[of "attached1 A" "attached1 B"] by blast
qed

lemma attached_IDs: "attached A ps qs \<Longrightarrow> map part_ID qs = map part_ID ps"
  unfolding attached_def
  by (induction rule: list_all2_induct) (auto simp: attached1_def)

lemma attach_stream_attached:
  "distinct (map part_ID ps) \<Longrightarrow> attached (\<lambda>i. if i = pid then {sid} else {}) ps (attach_stream pid sid ps)"
proof (induction ps)
  case (Cons p ps)
  let ?A = "\<lambda>i. if i = pid then {sid} else {}"
  show ?case
  proof (cases "part_ID p = pid")
    case True
    then have "attached ?A ps ps"
      using Cons.prems by (intro attached_same) (auto simp: image_iff)
    moreover have "attached1 ?A p (if sid \<in> set (part_MediaStreams p) then p
        else p\<lparr>part_MediaStreams := part_MediaStreams p @ [sid]\<rparr>)"
      unfolding attached1_def using True
      by (intro exI[of _ "if sid \<in> set (part_MediaStreams p) then part_MediaStreams p else part_MediaStreams p @ [sid]"]) auto
    ultimately show ?thesis
      using True by (simp add: attached_def)
  next
    case False
    then show ?thesis
      using Cons by (auto simp: attached_def attached1_def intro!: exI[of _ "part_MediaStreams p"])
  qed
qed (simp add: attached_def)

lemma attached_fold:
  assumes step: "\<And>x ps. x \<in> set xs \<Longrightarrow> distinct (map part_ID ps) \<Longrightarrow> attached (A x) ps (f x ps)"
    and "distinct (map part_ID ps)"
  shows "attached (\<lambda>i. \<Union>x \<in> set xs. A x i) ps (fold f xs ps)"
  using assms
proof (induction xs arbitrary: ps)
  case (Cons x xs)
  have a: "attached (A x) ps (f x ps)"
    using Cons.prems by simp
  then have "distinct (map part_ID (f x ps))"
    using Cons.prems(2) by (simp add: attached_IDs)
  with Cons.IH Cons.prems(1) have "attached (\<lambda>i. \<Union>x \<in> set xs. A x i) (f x ps) (fold f xs (f x ps))"
    by simp
  from attached_trans[OF a this] show ?case by simp
qed (simp add: attached_same)


text \<open>The streams that a participant of the document sends.\<close>

definition sent_streams :: "RSMetadata \<Rightarrow> string \<Rightarrow> string set" where
  "sent_streams m i =
     {st_StreamID st | st p. st \<in> set (md_Streams m) \<and> p \<in> set (md_Participants m) \<and> rsp_ID p = i \<and>
        st_Label st \<in> set (rsp_Send p)}"

lemma recover_sender_attached:
  assumes "distinct (map part_ID ps)"
  shows "attached (\<lambda>i. if i = rsp_ID p \<and> st_Label st \<in> set (rsp_Send p) then {st_StreamID st} else {}) ps (recover_sender st p ps)"
proof -
  let ?A = "\<lambda>l i. if l = st_Label st \<and> i = rsp_ID p then {st_StreamID st} else {}"
  have "attached (\<lambda>i. \<Union>l \<in> set (rsp_Send p). ?A l i) ps (recover_sender st p ps)"
    unfolding recover_sender_def
    by (rule attached_fold) (use assms attach_stream_attached in \<open>auto simp: attached_same\<close>)
  moreover have "(\<lambda>i. \<Union>l \<in> set (rsp_Send p). ?A l i) =
      (\<lambda>i. if i = rsp_ID p \<and> st_Label st \<in> set (rsp_Send p) then {st_StreamID st} else {})"
    by (auto simp: fun_eq_iff)
  ultimately show ?thesis by simp
qed

lemma recover_stream_fold:
  "rec_Participants (fold (recover_stream m) sts s) =
     fold (\<lambda>st. fold (recover_sender st) (md_Participants m)) sts (rec_Participants s) \<and>
   rec_MediaStreamTypes (fold (recover_stream m) sts s) = fold add_stream_type (map st_Type sts) (rec_MediaStreamTypes s)"
  by (induction sts arbitrary: s) (simp_all add: recover_stream_def)

lemma add_stream_types:
  "distinct ts \<Longrightarrow> distinct (fold add_stream_type xs ts) \<and> set (fold add_stream_type xs ts) = set ts \<union> (set xs - {[]})"
  by (induction xs arbitrary: ts) (auto simp: add_stream_type_def)

text \<open>Stream recovery. The session's media types become the types of the document's streams,
  each once; its participants stay, in order and with all their other data, and the streams added
  to a participant are exactly those it sends according to the document.\<close>

theorem ProcessStreamRecovery_correct:
  assumes "distinct (map part_ID (rec_Participants s))"
  shows "\<exists>s'. ProcessStreamRecovery (Some s) (Some m) = Some s' \<and>
    distinct (rec_MediaStreamTypes s') \<and> set (rec_MediaStreamTypes s') = st_Type ` set (md_Streams m) - {[]} \<and>
    list_all2 (\<lambda>p p'. \<exists>ms. p' = p\<lparr>part_MediaStreams := ms\<rparr> \<and>
        set ms = set (part_MediaStreams p) \<union> sent_streams m (part_ID p) \<and>
        (distinct (part_MediaStreams p) \<longrightarrow> distinct ms))
      (rec_Participants s) (rec_Participants s')"
proof -
  let ?A = "\<lambda>st p i. if i = rsp_ID p \<and> st_Label st \<in> set (rsp_Send p) then {st_StreamID st} else {}"
  have "attached (\<lambda>i. \<Union>st \<in> set (md_Streams m). \<Union>p \<in> set (md_Participants m). ?A st p i) (rec_Participants s)
      (fold (\<lambda>st. fold (recover_sender st) (md_Participants m)) (md_Streams m) (rec_Participants s))"
    using assms by (intro attached_fold recover_sender_attached)
  moreover have "(\<Union>st \<in> set (md_Streams m). \<Union>p \<in> set (md_Participants m). ?A st p i) = sent_streams m i" for i
    by (auto simp: sent_streams_def split: if_splits)
  ultimately show ?thesis
    using recover_stream_fold[of m "md_Streams m" "s\<lparr>rec_MediaStreamTypes := []\<rparr>"]
      add_stream_types[of "[]" "map st_Type (md_Streams m)"]
    by (simp add: ProcessStreamRecovery_def attached_def attached1_def[abs_def])
qed

theorem ProcessStreamRecovery_correct_witness:
  "\<exists>s'. ProcessStreamRecovery (Some phone_session)
      (Some (RSMetadata_zero\<lparr>md_Streams := [Stream_zero\<lparr>st_Type := ''audio''\<rparr>, Stream_zero\<lparr>st_Type := ''audio''\<rparr>]\<rparr>)) = Some s' \<and>
    set (rec_MediaStreamTypes s') = {''audio''}"
  using ProcessStreamRecovery_correct[of phone_session
      "RSMetadata_zero\<lparr>md_Streams := [Stream_zero\<lparr>st_Type := ''audio''\<rparr>, Stream_zero\<lparr>st_Type := ''audio''\<rparr>]\<rparr>"]
  by (auto simp: phone_session_def)

section \<open>Changes and notifications\<close>

lemma case_option_Some:
  "(case a of None \<Rightarrow> None | Some x \<Rightarrow> f x) = Some y \<longleftrightarrow> (\<exists>x. a = Some x \<and> f x = Some y)"
  "(case a of None \<Rightarrow> b | Some x \<Rightarrow> None) = Some y \<longleftrightarrow> a = None \<and> b = Some y"
  "(if c then Some z else None) = Some y \<longleftrightarrow> c \<and> z = y"
  by (auto split: option.split)

lemma DetectParticipantChanges_sets:
  fixes s m
  defines "old \<equiv> index_by part_ID (rec_Participants s)" and "new \<equiv> index_by rsp_ID (md_Participants m)"
  assumes "DetectParticipantChanges kn kr km s m = (added, removed, modified)"
  shows "x \<in> set added \<longleftrightarrow> (\<exists>i \<in> set kn. \<exists>np. new i = Some np \<and> old i = None \<and> ConvertRSParticipantToParticipant np = x)"
    and "x \<in> set removed \<longleftrightarrow> (\<exists>i \<in> set kr. old i = Some x \<and> new i = None)"
    and "x \<in> set modified \<longleftrightarrow> (\<exists>i \<in> set km. \<exists>ep. old i = Some ep \<and> (\<exists>np. new i = Some np \<and>
       participant_changed ep np \<and> merge_participant ep np = x))"
proof -
  have eqs: "added = List.map_filter (\<lambda>i. case new i of None \<Rightarrow> None
        | Some np \<Rightarrow> (case old i of None \<Rightarrow> Some (ConvertRSParticipantToParticipant np) | Some _ \<Rightarrow> None)) kn"
    "removed = List.map_filter (\<lambda>i. case old i of None \<Rightarrow> None
        | Some ep \<Rightarrow> (case new i of None \<Rightarrow> Some ep | Some _ \<Rightarrow> None)) kr"
    "modified = List.map_filter (\<lambda>i. case old i of None \<Rightarrow> None
        | Some ep \<Rightarrow> (case new i of None \<Rightarrow> None
             | Some np \<Rightarrow> if participant_changed ep np then Some (merge_participant ep np) else None)) km"
    using assms(3) unfolding DetectParticipantChanges_def old_def[symmetric] new_def[symmetric]
    by (simp_all add: Let_def)
  show "x \<in> set added \<longleftrightarrow> (\<exists>i \<in> set kn. \<exists>np. new i = Some np \<and> old i = None \<and> ConvertRSParticipantToParticipant np = x)"
    unfolding eqs set_map_filter mem_Collect_eq case_option_Some option.inject by (rule refl)
  show "x \<in> set removed \<longleftrightarrow> (\<exists>i \<in> set kr. old i = Some x \<and> new i = None)"
    unfolding eqs set_map_filter mem_Collect_eq case_option_Some option.inject by blast
  show "x \<in> set modified \<longleftrightarrow> (\<exists>i \<in> set km. \<exists>ep. old i = Some ep \<and> (\<exists>np. new i = Some np \<and>
       participant_changed ep np \<and> merge_participant ep np = x))"
    unfolding eqs set_map_filter mem_Collect_eq case_option_Some by (rule refl)
qed

lemma DetectParticipantChanges_IDs:
  assumes "set kn = rsp_ID ` set (md_Participants m)" and "set kr = part_ID ` set (rec_Participants s)"
    and "DetectParticipantChanges kn kr km s m = (added, removed, modified)"
  shows "part_ID ` set added = set kn - set kr" and "part_ID ` set removed = set kr - set kn"
proof -
  let ?old = "index_by part_ID (rec_Participants s)" and ?new = "index_by rsp_ID (md_Participants m)"
  note sets = DetectParticipantChanges_sets[OF assms(3)]
  have conv: "part_ID (ConvertRSParticipantToParticipant np) = rsp_ID np" for np
    by (simp add: ConvertRSParticipantToParticipant_def)
  have new: "i \<notin> set kn \<longleftrightarrow> ?new i = None" and old: "i \<notin> set kr \<longleftrightarrow> ?old i = None" for i
    unfolding assms(1,2) index_by_None by (rule refl)+
  show "part_ID ` set added = set kn - set kr"
  proof (intro equalityI subsetI)
    fix i assume "i \<in> set kn - set kr"
    then obtain np where np: "?new i = Some np" "?old i = None" "i \<in> set kn"
      using new old by blast
    then have "ConvertRSParticipantToParticipant np \<in> set added" using sets(1) by blast
    then show "i \<in> part_ID ` set added" using index_by_Some[OF np(1)] conv by (metis image_eqI)
  qed (use old index_by_Some in \<open>fastforce simp: sets(1) conv\<close>)
  show "part_ID ` set removed = set kr - set kn"
  proof (intro equalityI subsetI)
    fix i assume "i \<in> set kr - set kn"
    then obtain p where p: "?old i = Some p" "?new i = None" "i \<in> set kr"
      using new old by blast
    then have "p \<in> set removed" using sets(2) by blast
    then show "i \<in> part_ID ` set removed" using index_by_Some[OF p(1)] by (metis image_eqI)
  qed (use new index_by_Some in \<open>fastforce simp: sets(2)\<close>)
qed

text \<open>The reported changes fit the merge. The added participants are those the session does not
  know, the removed ones those the document does not name, and both the removed and the modified
  ones are in the merged list as reported: a participant that leaves the document stays in the
  session.\<close>

theorem DetectParticipantChanges_correct:
  assumes "distinct (map rsp_ID (md_Participants m))"
    and "set kn = rsp_ID ` set (md_Participants m)"
    and "set kr = part_ID ` set (rec_Participants s)" and "set km = part_ID ` set (rec_Participants s)"
    and "set ks = part_ID ` set (rec_Participants s)"
    and "DetectParticipantChanges kn kr km s m = (added, removed, modified)"
  shows "part_ID ` set added = rsp_ID ` set (md_Participants m) - part_ID ` set (rec_Participants s) \<and>
    part_ID ` set removed = part_ID ` set (rec_Participants s) - rsp_ID ` set (md_Participants m) \<and>
    set removed \<union> set modified \<subseteq> set (updateParticipants ks (rec_Participants s) (md_Participants m))"
proof -
  let ?old = "index_by part_ID (rec_Participants s)" and ?new = "index_by rsp_ID (md_Participants m)"
  let ?u = "updateParticipants ks (rec_Participants s) (md_Participants m)" and ?ids = "rsp_ID ` set (md_Participants m)"
  note sets = DetectParticipantChanges_sets[OF assms(6)]
  have u: "set ?u = merged ?old ` set (md_Participants m) \<union> {x. \<exists>i \<in> set ks. (?old |` (- ?ids)) i = Some x}"
    using merge_loop_spec[OF assms(1), of ?old] by (simp add: updateParticipants_def set_map_filter)
  have "x \<in> set ?u" if removed: "x \<in> set removed" for x
  proof -
    obtain i where i: "?old i = Some x" "?new i = None" "i \<in> set kr" using removed sets(2) by blast
    then have "(?old |` (- ?ids)) i = Some x"
      using index_by_None[of rsp_ID "md_Participants m" i] by (simp add: restrict_map_def)
    then show ?thesis using i(3) assms(3,5) unfolding u by blast
  qed
  moreover have "x \<in> set ?u" if modified: "x \<in> set modified" for x
  proof -
    obtain i ep np where i: "?old i = Some ep" "?new i = Some np" "x = merge_participant ep np"
      using modified sets(3)[of x] by blast
    have np: "np \<in> set (md_Participants m)" "rsp_ID np = i"
      using index_by_Some[OF i(2)] by simp_all
    have "x = merged ?old np" unfolding merged_def np(2) i(1) i(3) by simp
    then show ?thesis unfolding u using np(1) by (intro UnI1 image_eqI)
  qed
  ultimately have "set removed \<union> set modified \<subseteq> set ?u"
    by (intro Un_least subsetI)
  then show ?thesis
    using DetectParticipantChanges_IDs[OF assms(2,3,6)] assms(2,3) by simp
qed

theorem DetectParticipantChanges_correct_witness:
  "part_ID ` set (fst (DetectParticipantChanges [''p1'', ''p2''] [''p1''] [''p1'']
      (RecordingSession_zero\<lparr>rec_Participants := [known_caller]\<rparr>)
      (RSMetadata_zero\<lparr>md_Participants := two_callers\<rparr>))) = {''p2''}"
proof -
  let ?s = "RecordingSession_zero\<lparr>rec_Participants := [known_caller]\<rparr>" and ?m = "RSMetadata_zero\<lparr>md_Participants := two_callers\<rparr>"
  obtain a r c where d: "DetectParticipantChanges [''p1'', ''p2''] [''p1''] [''p1''] ?s ?m = (a, r, c)"
    using prod_cases3 by blast
  have "part_ID ` set a = {''p2''}"
    using DetectParticipantChanges_correct[OF _ _ _ _ _ d, of "[''p1'']"]
    by (simp add: known_caller_def two_callers_def RSParticipant_zero_def Participant_zero_def insert_Diff_if)
  then show ?thesis unfolding d by simp
qed


lemma normalize_brief_participant:
  "merge_participant p (normalize_participant (brief_participant plain_aor p)) =
     p\<lparr>part_CommunicationIDs := map (\<lambda>c. sip_comm (NormalizeCommunicationURI c)) (take 1 (part_CommunicationIDs p))\<rparr>"
  "rsp_ID (normalize_participant (brief_participant plain_aor p)) = part_ID p"
proof -
  show "rsp_ID (normalize_participant (brief_participant plain_aor p)) = part_ID p"
    by (simp add: normalize_participant_def brief_participant_def RSParticipant_zero_def Let_def)
  show "merge_participant p (normalize_participant (brief_participant plain_aor p)) =
     p\<lparr>part_CommunicationIDs := map (\<lambda>c. sip_comm (NormalizeCommunicationURI c)) (take 1 (part_CommunicationIDs p))\<rparr>"
    by (cases "part_CommunicationIDs p"; cases "part_Name p = []")
      (simp_all add: merge_participant_def normalize_participant_def brief_participant_def RSParticipant_zero_def
        aor_comm_def plain_aor_def Aor_zero_def sip_comm_def Let_def)
qed

text \<open>A session that applies its own state-change notification takes over the state and the next
  sequence number and keeps its participants; but as the notification names only the first address
  of each, the others are lost.\<close>

theorem state_change_applied:
  assumes "0 \<le> rec_SequenceNumber s" and "distinct (map part_ID (rec_Participants s))"
    and "set ks = part_ID ` set (rec_Participants s)" and "newState \<noteq> []"
  shows "\<exists>s'. UpdateRecordingSession now ks (Some s) (Some (GenerateStateChangeMetadata s newState reason)) = Some s' \<and>
    rec_RecordingState s' = newState \<and> rec_SequenceNumber s' = rec_SequenceNumber s + 1 \<and>
    rec_Participants s' = map (\<lambda>p. p\<lparr>part_CommunicationIDs :=
      map (\<lambda>c. sip_comm (NormalizeCommunicationURI c)) (take 1 (part_CommunicationIDs p))\<rparr>) (rec_Participants s)"
proof -
  let ?np = "\<lambda>p. normalize_participant (brief_participant plain_aor p)" and ?ps = "rec_Participants s"
  let ?m = "index_by part_ID ?ps"
  have doc: "md_Participants (GenerateStateChangeMetadata s newState reason) = map ?np ?ps"
    "md_State (GenerateStateChangeMetadata s newState reason) = newState"
    "md_Sequence (GenerateStateChangeMetadata s newState reason) = rec_SequenceNumber s + 1"
    using assms(4) by (simp_all add: GenerateStateChangeMetadata_def RSMetadata_zero_def)
  have "?m (part_ID p) = Some p" if "p \<in> set ?ps" for p
    using that by (simp add: index_by_distinct[OF assms(2)])
  then have merged: "map (merged ?m) (map ?np ?ps) = map (\<lambda>p. merge_participant p (?np p)) ?ps"
    by (simp add: merged_def normalize_brief_participant(2))
  have "distinct (map rsp_ID (map ?np ?ps))"
    using assms(2) by (simp add: normalize_brief_participant(2) comp_def)
  from merge_loop_spec[OF this, of ?m] have loop: "merge_loop ?m (map ?np ?ps) =
      (map (\<lambda>p. merge_participant p (?np p)) ?ps, ?m |` (- part_ID ` set ?ps))"
    unfolding merged by (simp add: normalize_brief_participant(2) image_image)
  have none: "List.map_filter (?m |` (- part_ID ` set ?ps)) ks = []"
    using assms(3) by (simp add: List.map_filter_def restrict_map_def filter_empty_conv)
  show ?thesis
    using assms(1,4) loop none
    by (simp add: UpdateRecordingSession_def update_session_def updateParticipants_def doc next_sequence_def
        normalize_brief_participant(1) Let_def)
qed

theorem state_change_applied_witness:
  "\<exists>s'. UpdateRecordingSession 7 [''p1''] (Some phone_session)
      (Some (GenerateStateChangeMetadata phone_session ''paused'' ''manual'')) = Some s' \<and>
    rec_RecordingState s' = ''paused'' \<and> rec_SequenceNumber s' = 1"
  using state_change_applied[of phone_session "[''p1'']" "''paused''" 7 "''manual''"]
  by (auto simp: phone_session_def RecordingSession_zero_def Participant_zero_def)

end
