(* ===== verification/SiprecPolicy.thy ===== *)
theory SiprecPolicy
  imports SiprecMetadata "HOL-Library.Multiset"
begin

text \<open>
  \<^verbatim>\<open>pkg/siprec/policy.go\<close>: recording policies. A \<open>PolicyManager\<close> holds the rules, the decision it
  has cached for each session and the acknowledgement state of each policy in each session.
  \<open>EvaluateSession\<close> ranges over the rules in an order the runtime picks (\<open>ks\<close>), sorts the
  matching ones by exchange and decides by the first. The wall clock of a call is a \<open>clock\<close>: the
  time, and the hour and the weekday it has in the local time zone.
\<close>

section \<open>Types\<close>

datatype PolicyAction =
  PolicyActionRecord | PolicyActionNoRecord | PolicyActionSelective | PolicyActionPause | PolicyActionResume
  | PolicyActionOther string

record PolicyDecision =
  dec_Action :: PolicyAction
  dec_PolicyID :: string
  dec_Reason :: string
  dec_AllowAudio :: bool
  dec_AllowVideo :: bool
  dec_AllowText :: bool
  dec_RetentionDays :: int
  dec_Priority :: int
  dec_Timestamp :: go_time

record TimeRange =
  tr_StartHour :: int
  tr_EndHour :: int
  tr_Days :: "int list"

record PolicyCriteria =
  crit_ParticipantAOR :: "string list"
  crit_ParticipantRole :: "string list"
  crit_SessionType :: "string list"
  crit_Direction :: "string list"
  crit_TimeRanges :: "TimeRange list"
  crit_MetadataPatterns :: "string \<rightharpoonup> string"

record MediaFilter =
  mf_AllowAudio :: bool
  mf_AllowVideo :: bool
  mf_AllowText :: bool
  mf_AllowMessage :: bool

record PolicyRule =
  rule_ID :: string
  rule_Name :: string
  rule_Priority :: int
  rule_Action :: PolicyAction
  rule_MatchCriteria :: PolicyCriteria
  rule_MediaFilter :: MediaFilter
  rule_RetentionDays :: int
  rule_RequireConsent :: bool
  rule_NotifyOnRecord :: bool
  rule_Enabled :: bool
  rule_CreatedAt :: go_time
  rule_UpdatedAt :: go_time

record PolicyManager =
  pm_rules :: "string \<rightharpoonup> PolicyRule"
  pm_sessionPolicies :: "string \<rightharpoonup> PolicyDecision"
  pm_ackStates :: "string \<rightharpoonup> (string \<rightharpoonup> PolicyAckStatus)"
  pm_defaultAction :: PolicyAction

record clock =
  clk_Now :: go_time
  clk_Hour :: int
  clk_Weekday :: int

section \<open>Rules\<close>

text \<open>The empty action is \<open>PolicyActionOther []\<close>.\<close>

definition NewPolicyManager :: "PolicyAction \<Rightarrow> PolicyManager" where
  "NewPolicyManager defaultAction =
     \<lparr>pm_rules = Map.empty, pm_sessionPolicies = Map.empty, pm_ackStates = Map.empty,
      pm_defaultAction = (if defaultAction = PolicyActionOther [] then PolicyActionRecord else defaultAction)\<rparr>"

datatype policy_error = RuleNil | RuleIDEmpty

definition AddRule :: "clock \<Rightarrow> PolicyManager \<Rightarrow> PolicyRule option \<Rightarrow> policy_error + PolicyManager" where
  "AddRule clk pm rule =
     (case rule of
        None \<Rightarrow> Inl RuleNil
      | Some r \<Rightarrow>
          if rule_ID r = [] then Inl RuleIDEmpty
          else Inr (pm\<lparr>pm_rules := (pm_rules pm)(rule_ID r \<mapsto>
                 r\<lparr>rule_CreatedAt := clk_Now clk, rule_UpdatedAt := clk_Now clk\<rparr>)\<rparr>))"

definition RemoveRule :: "PolicyManager \<Rightarrow> string \<Rightarrow> PolicyManager" where
  "RemoveRule pm ruleID = pm\<lparr>pm_rules := (pm_rules pm)(ruleID := None)\<rparr>"

definition GetRule :: "PolicyManager \<Rightarrow> string \<Rightarrow> PolicyRule option" where
  "GetRule pm ruleID = pm_rules pm ruleID"

section \<open>Matching\<close>

definition isInTimeRange :: "clock \<Rightarrow> TimeRange \<Rightarrow> bool" where
  "isInTimeRange t tr =
     (if tr_Days tr \<noteq> [] \<and> clk_Weekday t \<notin> set (tr_Days tr) then False
      else if tr_StartHour tr \<le> tr_EndHour tr then clk_Hour t \<ge> tr_StartHour tr \<and> clk_Hour t < tr_EndHour tr
      else clk_Hour t \<ge> tr_StartHour tr \<or> clk_Hour t < tr_EndHour tr)"

definition matchPattern :: "string \<Rightarrow> string \<Rightarrow> bool" where
  "matchPattern value pattern =
     (if pattern = ''*'' then True
      else if HasPrefix pattern ''*'' \<and> HasSuffix pattern ''*'' then Contains value (butlast (tl pattern))
      else if HasPrefix pattern ''*'' then HasSuffix value (tl pattern)
      else if HasSuffix pattern ''*'' then HasPrefix value (butlast pattern)
      else EqualFold value pattern)"

definition ruleMatches :: "clock \<Rightarrow> PolicyRule \<Rightarrow> RecordingSession option \<Rightarrow> RSMetadata option \<Rightarrow> bool" where
  "ruleMatches clk rule session metadata =
     (let c = rule_MatchCriteria rule
      in if crit_TimeRanges c \<noteq> [] \<and> \<not> list_ex (isInTimeRange clk) (crit_TimeRanges c) then False
         else if crit_ParticipantAOR c \<noteq> [] \<and> (case metadata of None \<Rightarrow> False | Some m \<Rightarrow>
           \<not> list_ex (\<lambda>p. list_ex (\<lambda>a. list_ex (\<lambda>pat. matchPattern (aor_Value a) pat \<or> matchPattern (aor_URI a) pat)
                (crit_ParticipantAOR c)) (rsp_Aor p)) (md_Participants m)) then False
         else if crit_ParticipantRole c \<noteq> [] \<and> (case metadata of None \<Rightarrow> False | Some m \<Rightarrow>
           \<not> list_ex (\<lambda>p. list_ex (\<lambda>r. ToLower (TrimSpace (rsp_Role p)) = ToLower r) (crit_ParticipantRole c))
                (md_Participants m)) then False
         else if crit_Direction c \<noteq> [] \<and> (case session of None \<Rightarrow> False | Some s \<Rightarrow>
           \<not> list_ex (\<lambda>dir. EqualFold (rec_Direction s) dir \<or> dir = ''both'') (crit_Direction c)) then False
         else if crit_SessionType c \<noteq> [] \<and> (case session of None \<Rightarrow> False | Some s \<Rightarrow>
           \<not> list_ex (\<lambda>t. EqualFold (rec_RecordingType s) t) (crit_SessionType c)) then False
         else True)"

section \<open>Decisions\<close>

text \<open>The exchange sort, on the part of the slice that starts at the index of the outer loop: the inner
  loop compares the element there with each later one and exchanges them when the later one has a
  higher priority.\<close>

fun exchange :: "PolicyRule \<Rightarrow> PolicyRule list \<Rightarrow> PolicyRule \<times> PolicyRule list" where
  "exchange ri [] = (ri, [])"
| "exchange ri (rj # rs) =
     (if rule_Priority rj > rule_Priority ri
      then (let (r, rest) = exchange rj rs in (r, ri # rest))
      else (let (r, rest) = exchange ri rs in (r, rj # rest)))"

lemma exchange_length [simp]: "length (snd (exchange r rs)) = length rs"
  by (induction r rs rule: exchange.induct) (auto simp: split_beta)

function sort_rules :: "PolicyRule list \<Rightarrow> PolicyRule list" where
  "sort_rules [] = []"
| "sort_rules (r # rs) = (let (r', rest) = exchange r rs in r' # sort_rules rest)"
  by pat_completeness auto
termination
  by (relation "measure length") (auto, metis exchange_length less_Suc_eq snd_conv)

definition matching_rules ::
  "clock \<Rightarrow> string list \<Rightarrow> PolicyManager \<Rightarrow> RecordingSession option \<Rightarrow> RSMetadata option \<Rightarrow> PolicyRule list" where
  "matching_rules clk ks pm session metadata =
     filter (\<lambda>r. rule_Enabled r \<and> ruleMatches clk r session metadata) (List.map_filter (pm_rules pm) ks)"

definition decide ::
  "clock \<Rightarrow> string list \<Rightarrow> PolicyManager \<Rightarrow> RecordingSession option \<Rightarrow> RSMetadata option \<Rightarrow> PolicyDecision" where
  "decide clk ks pm session metadata =
     (case sort_rules (matching_rules clk ks pm session metadata) of
        [] \<Rightarrow> \<lparr>dec_Action = pm_defaultAction pm, dec_PolicyID = [], dec_Reason = [], dec_AllowAudio = True,
              dec_AllowVideo = True, dec_AllowText = True, dec_RetentionDays = 0, dec_Priority = 0,
              dec_Timestamp = clk_Now clk\<rparr>
      | r # _ \<Rightarrow> \<lparr>dec_Action = rule_Action r, dec_PolicyID = rule_ID r, dec_Reason = rule_Name r,
              dec_AllowAudio = mf_AllowAudio (rule_MediaFilter r), dec_AllowVideo = mf_AllowVideo (rule_MediaFilter r),
              dec_AllowText = mf_AllowText (rule_MediaFilter r), dec_RetentionDays = rule_RetentionDays r,
              dec_Priority = rule_Priority r, dec_Timestamp = clk_Now clk\<rparr>)"

text \<open>The ID under which a session's decision is cached.\<close>

definition cache_key :: "RecordingSession option \<Rightarrow> string option" where
  "cache_key session = (case session of Some s \<Rightarrow> if rec_ID s \<noteq> [] then Some (rec_ID s) else None | None \<Rightarrow> None)"

definition EvaluateSession ::
  "clock \<Rightarrow> string list \<Rightarrow> PolicyManager \<Rightarrow> RecordingSession option \<Rightarrow> RSMetadata option \<Rightarrow> PolicyDecision \<times> PolicyManager" where
  "EvaluateSession clk ks pm session metadata =
     (case cache_key session of
        None \<Rightarrow> (decide clk ks pm session metadata, pm)
      | Some k \<Rightarrow>
          (case pm_sessionPolicies pm k of
             Some cached \<Rightarrow> (cached, pm)
           | None \<Rightarrow>
               (let decision = decide clk ks pm session metadata
                in (decision, pm\<lparr>pm_sessionPolicies := (pm_sessionPolicies pm)(k \<mapsto> decision)\<rparr>))))"

definition ShouldRecord :: "PolicyDecision \<Rightarrow> bool" where
  "ShouldRecord d \<longleftrightarrow> dec_Action d = PolicyActionRecord \<or> dec_Action d = PolicyActionSelective"

definition ShouldPause :: "PolicyDecision \<Rightarrow> bool" where
  "ShouldPause d \<longleftrightarrow> dec_Action d = PolicyActionPause"

definition IsBlocked :: "PolicyDecision \<Rightarrow> bool" where
  "IsBlocked d \<longleftrightarrow> dec_Action d = PolicyActionNoRecord"

section \<open>Acknowledgements\<close>

definition session_acks :: "PolicyManager \<Rightarrow> string \<Rightarrow> (string \<rightharpoonup> PolicyAckStatus)" where
  "session_acks pm sessionID = (case pm_ackStates pm sessionID of None \<Rightarrow> Map.empty | Some m \<Rightarrow> m)"

definition store_ack :: "PolicyManager \<Rightarrow> string \<Rightarrow> string \<Rightarrow> PolicyAckStatus \<Rightarrow> PolicyManager" where
  "store_ack pm sessionID policyID ack =
     pm\<lparr>pm_ackStates := (pm_ackStates pm)(sessionID \<mapsto> (session_acks pm sessionID)(policyID \<mapsto> ack))\<rparr>"

definition ProcessPolicyUpdate :: "clock \<Rightarrow> PolicyManager \<Rightarrow> string \<Rightarrow> PolicyUpdate \<Rightarrow> PolicyAckStatus \<times> PolicyManager" where
  "ProcessPolicyUpdate clk pm sessionID update =
     (let ackStatus = \<lparr>pas_Status = pu_Status update, pas_Acknowledged = pu_Acknowledged update,
            pas_ReportedAt = clk_Now clk, pas_RawTimestamp = pu_Timestamp update\<rparr>
      in (ackStatus, store_ack pm sessionID (pu_PolicyID update) ackStatus))"

definition GetPolicyAckStatus :: "PolicyManager \<Rightarrow> string \<Rightarrow> string \<Rightarrow> PolicyAckStatus option" where
  "GetPolicyAckStatus pm sessionID policyID =
     (case pm_ackStates pm sessionID of Some sessionAcks \<Rightarrow> sessionAcks policyID | None \<Rightarrow> None)"

definition AcknowledgePolicy :: "clock \<Rightarrow> PolicyManager \<Rightarrow> string \<Rightarrow> string \<Rightarrow> string \<Rightarrow> PolicyManager" where
  "AcknowledgePolicy clk pm sessionID policyID status =
     store_ack pm sessionID policyID
       \<lparr>pas_Status = status, pas_Acknowledged = True, pas_ReportedAt = clk_Now clk, pas_RawTimestamp = []\<rparr>"

definition ClearSessionPolicies :: "PolicyManager \<Rightarrow> string \<Rightarrow> PolicyManager" where
  "ClearSessionPolicies pm sessionID =
     pm\<lparr>pm_sessionPolicies := (pm_sessionPolicies pm)(sessionID := None),
        pm_ackStates := (pm_ackStates pm)(sessionID := None)\<rparr>"

text \<open>\<open>format\<close> is the UTC rendering of a time in the RFC 3339 layout.\<close>

definition GeneratePolicyUpdateResponse ::
  "(go_time \<Rightarrow> string) \<Rightarrow> clock \<Rightarrow> PolicyManager \<Rightarrow> string \<Rightarrow> string list \<Rightarrow> PolicyUpdate list" where
  "GeneratePolicyUpdateResponse format clk pm sessionID policyIDs =
     map (\<lambda>policyID.
        case session_acks pm sessionID policyID of
          Some ack \<Rightarrow> \<lparr>pu_PolicyID = policyID, pu_Status = pas_Status ack, pu_Acknowledged = pas_Acknowledged ack,
                       pu_Timestamp = format (clk_Now clk)\<rparr>
        | None \<Rightarrow> \<lparr>pu_PolicyID = policyID, pu_Status = ''acknowledged'', pu_Acknowledged = True,
                   pu_Timestamp = format (clk_Now clk)\<rparr>)
       policyIDs"

text \<open>The IDs of the rules whose consent requirement is violated, in the order of the range.\<close>

definition ValidatePolicyRequirements ::
  "clock \<Rightarrow> string list \<Rightarrow> PolicyManager \<Rightarrow> RecordingSession option \<Rightarrow> RSMetadata option \<Rightarrow> string list" where
  "ValidatePolicyRequirements clk ks pm session metadata =
     map rule_ID
       (filter (\<lambda>r. rule_Enabled r \<and> rule_RequireConsent r \<and>
            (case session of None \<Rightarrow> False | Some s \<Rightarrow>
               \<not> list_ex part_ConsentObtained (rec_Participants s) \<and> ruleMatches clk r session metadata))
         (List.map_filter (pm_rules pm) ks))"

section \<open>The rule that decides\<close>

lemma exchange_spec:
  "mset (fst (exchange r rs) # snd (exchange r rs)) = mset (r # rs) \<and>
   (\<forall>x \<in> set (r # rs). rule_Priority x \<le> rule_Priority (fst (exchange r rs)))"
  by (induction r rs rule: exchange.induct) (auto simp: split_beta)

lemma sort_rules_mset: "mset (sort_rules rs) = mset rs"
proof (induction rs rule: sort_rules.induct)
  case (2 r rs)
  show ?case using exchange_spec[of r rs] 2[OF refl prod.collapse] by (simp add: split_beta)
qed simp

lemma sort_rules_sorted: "sorted_wrt (\<lambda>a b. rule_Priority a \<ge> rule_Priority b) (sort_rules rs)"
proof (induction rs rule: sort_rules.induct)
  case (2 r rs)
  let ?e = "exchange r rs"
  have "set (sort_rules (snd ?e)) \<subseteq> set (r # rs)"
    using exchange_spec[of r rs] sort_rules_mset[of "snd ?e"] by (metis mset_eq_setD set_subset_Cons)
  then show ?case
    using 2[OF refl prod.collapse] exchange_spec[of r rs] by (auto simp: split_beta)
qed simp

text \<open>The exchange sort sorts: it returns the matching rules, none lost or repeated, by falling
  priority.\<close>

theorem sort_rules_correct:
  "mset (sort_rules rs) = mset rs \<and> sorted_wrt (\<lambda>a b. rule_Priority a \<ge> rule_Priority b) (sort_rules rs)"
  using sort_rules_mset sort_rules_sorted by blast

definition rule_applies :: "clock \<Rightarrow> PolicyManager \<Rightarrow> RecordingSession option \<Rightarrow> RSMetadata option \<Rightarrow> PolicyRule \<Rightarrow> bool" where
  "rule_applies clk pm session metadata r \<longleftrightarrow>
     r \<in> ran (pm_rules pm) \<and> rule_Enabled r \<and> ruleMatches clk r session metadata"

lemma set_matching_rules:
  "set ks = dom (pm_rules pm) \<Longrightarrow> set (matching_rules clk ks pm session metadata) = {r. rule_applies clk pm session metadata r}"
  by (force simp: matching_rules_def rule_applies_def set_map_filter ran_def)



definition rule_all :: PolicyRule where
  "rule_all =
     \<lparr>rule_ID = ''r1'', rule_Name = ''no video'', rule_Priority = 5, rule_Action = PolicyActionSelective,
      rule_MatchCriteria = \<lparr>crit_ParticipantAOR = [], crit_ParticipantRole = [], crit_SessionType = [], crit_Direction = [],
        crit_TimeRanges = [], crit_MetadataPatterns = Map.empty\<rparr>,
      rule_MediaFilter = \<lparr>mf_AllowAudio = True, mf_AllowVideo = False, mf_AllowText = True, mf_AllowMessage = True\<rparr>,
      rule_RetentionDays = 30, rule_RequireConsent = True, rule_NotifyOnRecord = False, rule_Enabled = True,
      rule_CreatedAt = 0, rule_UpdatedAt = 0\<rparr>"

definition one_rule :: PolicyManager where
  "one_rule = (NewPolicyManager PolicyActionRecord)\<lparr>pm_rules := [''r1'' \<mapsto> rule_all]\<rparr>"


text \<open>A cached decision stands: once a session has been evaluated, adding, removing or
  re-evaluating rules does not change what it is told, until its policies are cleared; then the
  rules in force decide.\<close>

theorem EvaluateSession_cached:
  assumes "rec_ID s \<noteq> []" and "EvaluateSession clk ks pm (Some s) metadata = (d, pm1)"
    and "AddRule clk' pm1 (Some r) = Inr pm2"
  shows "fst (EvaluateSession clk'' ks' pm2 (Some s) metadata') = d \<and>
    fst (EvaluateSession clk'' ks' (RemoveRule pm1 rid) (Some s) metadata') = d \<and>
    fst (EvaluateSession clk'' ks' (ClearSessionPolicies pm2 (rec_ID s)) (Some s) metadata') =
      decide clk'' ks' pm2 (Some s) metadata'"
proof -
  have k: "cache_key (Some s) = Some (rec_ID s)"
    using assms(1) by (simp add: cache_key_def)
  have c: "pm_sessionPolicies pm1 (rec_ID s) = Some d"
    using assms(2) k by (auto simp: EvaluateSession_def Let_def split: option.splits)
  then have "pm_sessionPolicies pm2 (rec_ID s) = Some d"
    using assms(3) by (auto simp: AddRule_def split: if_splits)
  moreover have "decide clk'' ks' (ClearSessionPolicies pm2 (rec_ID s)) (Some s) metadata' = decide clk'' ks' pm2 (Some s) metadata'"
    by (simp add: decide_def matching_rules_def ClearSessionPolicies_def split: list.split)
  ultimately show ?thesis
    using c k by (simp add: EvaluateSession_def RemoveRule_def ClearSessionPolicies_def Let_def)
qed

theorem EvaluateSession_cached_witness:
  "fst (EvaluateSession \<lparr>clk_Now = 9, clk_Hour = 9, clk_Weekday = 1\<rparr> [''r1'']
      (one_rule\<lparr>pm_sessionPolicies := [''s1'' \<mapsto> decide \<lparr>clk_Now = 1, clk_Hour = 9, clk_Weekday = 1\<rparr> [''r1''] one_rule
          (Some (RecordingSession_zero\<lparr>rec_ID := ''s1''\<rparr>)) None],
        pm_rules := [''r1'' \<mapsto> rule_all, ''r2'' \<mapsto> rule_all\<lparr>rule_ID := ''r2''\<rparr>]\<rparr>)
      (Some (RecordingSession_zero\<lparr>rec_ID := ''s1''\<rparr>)) None) =
   decide \<lparr>clk_Now = 1, clk_Hour = 9, clk_Weekday = 1\<rparr> [''r1''] one_rule (Some (RecordingSession_zero\<lparr>rec_ID := ''s1''\<rparr>)) None"
proof -
  let ?clk = "\<lparr>clk_Now = 1, clk_Hour = 9, clk_Weekday = 1\<rparr>" and ?s = "RecordingSession_zero\<lparr>rec_ID := ''s1''\<rparr>"
  let ?d = "decide ?clk [''r1''] one_rule (Some ?s) None"
  let ?pm1 = "one_rule\<lparr>pm_sessionPolicies := [''s1'' \<mapsto> ?d]\<rparr>"
  have "EvaluateSession ?clk [''r1''] one_rule (Some ?s) None = (?d, ?pm1)"
    by (simp add: EvaluateSession_def cache_key_def one_rule_def NewPolicyManager_def Let_def)
  moreover have "AddRule \<lparr>clk_Now = 0, clk_Hour = 9, clk_Weekday = 1\<rparr> ?pm1 (Some (rule_all\<lparr>rule_ID := ''r2''\<rparr>)) =
      Inr (?pm1\<lparr>pm_rules := [''r1'' \<mapsto> rule_all, ''r2'' \<mapsto> rule_all\<lparr>rule_ID := ''r2''\<rparr>]\<rparr>)"
    by (simp add: AddRule_def one_rule_def rule_all_def)
  ultimately show ?thesis
    using EvaluateSession_cached[of ?s ?clk "[''r1'']" one_rule None ?d ?pm1] by simp
qed

section \<open>Matching\<close>

text \<open>A time range is the half-open window from its start to its end hour on the cycle of the 24
  hours, on one of its days or on any if it names none. The end hour itself is never in it, so no
  range with hours from 0 to 23, the values the type documents, covers a whole day.\<close>

theorem isInTimeRange_cyclic:
  assumes "0 \<le> tr_StartHour tr" "tr_StartHour tr < 24" "0 \<le> tr_EndHour tr" "tr_EndHour tr < 24"
    and "0 \<le> clk_Hour t" "clk_Hour t < 24"
  shows "(isInTimeRange t tr \<longleftrightarrow>
      (tr_Days tr = [] \<or> clk_Weekday t \<in> set (tr_Days tr)) \<and>
      (clk_Hour t - tr_StartHour tr) mod 24 < (tr_EndHour tr - tr_StartHour tr) mod 24) \<and>
    \<not> isInTimeRange (t\<lparr>clk_Hour := tr_EndHour tr\<rparr>) tr"
proof -
  have cyc: "x mod 24 = (if 0 \<le> x then x else x + 24)" if "-24 < x" "x < 24" for x :: int
    using that mod_add_self2[of x 24] mod_pos_pos_trivial[of "x + 24" 24] by (simp add: mod_pos_pos_trivial)
  show ?thesis
    using assms by (auto simp: isInTimeRange_def cyc)
qed

theorem isInTimeRange_cyclic_witness:
  "\<not> isInTimeRange \<lparr>clk_Now = 0, clk_Hour = 23, clk_Weekday = 1\<rparr> \<lparr>tr_StartHour = 0, tr_EndHour = 23, tr_Days = []\<rparr> \<and>
   isInTimeRange \<lparr>clk_Now = 0, clk_Hour = 22, clk_Weekday = 1\<rparr> \<lparr>tr_StartHour = 0, tr_EndHour = 23, tr_Days = []\<rparr>"
  using isInTimeRange_cyclic[of "\<lparr>tr_StartHour = 0, tr_EndHour = 23, tr_Days = []\<rparr>" "\<lparr>clk_Now = 0, clk_Hour = 22, clk_Weekday = 1\<rparr>"]
  by simp

text \<open>A rule's metadata patterns have no effect: whether it matches does not depend on them, and a
  rule with no other criterion matches every session.\<close>

theorem ruleMatches_ignores_metadata_patterns:
  "ruleMatches clk (r\<lparr>rule_MatchCriteria := (rule_MatchCriteria r)\<lparr>crit_MetadataPatterns := ps\<rparr>\<rparr>) session metadata =
     ruleMatches clk r session metadata \<and>
   ruleMatches clk (r\<lparr>rule_MatchCriteria := \<lparr>crit_ParticipantAOR = [], crit_ParticipantRole = [], crit_SessionType = [],
      crit_Direction = [], crit_TimeRanges = [], crit_MetadataPatterns = ps\<rparr>\<rparr>) session metadata"
  by (cases session; cases metadata) (simp_all add: ruleMatches_def Let_def)

section \<open>Acknowledgements\<close>

text \<open>The abstract view: one status per session and policy.\<close>

definition acks :: "PolicyManager \<Rightarrow> (string \<times> string \<rightharpoonup> PolicyAckStatus)" where
  "acks pm = (\<lambda>(sessionID, policyID). GetPolicyAckStatus pm sessionID policyID)"

lemma acks_store: "acks (store_ack pm sid pid a) = (acks pm)((sid, pid) \<mapsto> a)"
  by (auto simp: acks_def store_ack_def session_acks_def GetPolicyAckStatus_def fun_eq_iff split: option.splits)

text \<open>The acknowledgement store refines a table of one status per session and policy: an update
  and an acknowledgement write one entry, clearing a session removes its entries and no other,
  and evaluating and changing rules leaves the table alone.\<close>

theorem acks_refine:
  "acks (NewPolicyManager a) = Map.empty \<and>
   acks (snd (ProcessPolicyUpdate clk pm sid u)) = (acks pm)((sid, pu_PolicyID u) \<mapsto> fst (ProcessPolicyUpdate clk pm sid u)) \<and>
   acks (AcknowledgePolicy clk pm sid pid status) = (acks pm)((sid, pid) \<mapsto>
     \<lparr>pas_Status = status, pas_Acknowledged = True, pas_ReportedAt = clk_Now clk, pas_RawTimestamp = []\<rparr>) \<and>
   acks (ClearSessionPolicies pm sid) = (\<lambda>(s, p). if s = sid then None else acks pm (s, p)) \<and>
   acks (snd (EvaluateSession clk ks pm session metadata)) = acks pm \<and>
   acks (RemoveRule pm rid) = acks pm"
  by (simp add: acks_store ProcessPolicyUpdate_def AcknowledgePolicy_def Let_def)
    (auto simp: acks_def NewPolicyManager_def ClearSessionPolicies_def GetPolicyAckStatus_def EvaluateSession_def
      RemoveRule_def fun_eq_iff Let_def split: option.splits)

text \<open>The consent check reports exactly the enabled rules that require consent and match a session
  none of whose participants has consented, in any order of the rules.\<close>

theorem ValidatePolicyRequirements_correct:
  assumes "set ks = dom (pm_rules pm)"
  shows "set (ValidatePolicyRequirements clk ks pm session metadata) =
    {rule_ID r | r. rule_applies clk pm session metadata r \<and> rule_RequireConsent r \<and>
       (\<exists>s. session = Some s \<and> (\<forall>p \<in> set (rec_Participants s). \<not> part_ConsentObtained p))}"
  using assms
  by (cases session)
    (force simp: ValidatePolicyRequirements_def rule_applies_def set_map_filter ran_def list_ex_iff image_iff)+

theorem ValidatePolicyRequirements_correct_witness:
  "set (ValidatePolicyRequirements \<lparr>clk_Now = 1, clk_Hour = 9, clk_Weekday = 1\<rparr> [''r1''] one_rule
      (Some RecordingSession_zero) None) = {''r1''}"
  using ValidatePolicyRequirements_correct[of "[''r1'']" one_rule "\<lparr>clk_Now = 1, clk_Hour = 9, clk_Weekday = 1\<rparr>" "Some RecordingSession_zero" None]
  by (simp add: one_rule_def rule_applies_def NewPolicyManager_def ruleMatches_def rule_all_def RecordingSession_zero_def ran_def)

text \<open>The patterns: for a text that neither starts nor ends with a star, a star after it matches
  the values that start with it, a star before it those that end with it, one on either side
  those that contain it, and the text alone matches up to case; a lone star matches all.\<close>

theorem matchPattern_correct:
  assumes "core \<noteq> []" and "hd core \<noteq> CHR ''*''" and "last core \<noteq> CHR ''*''"
  shows "(matchPattern v (core @ ''*'') \<longleftrightarrow> (\<exists>b. v = core @ b)) \<and>
    (matchPattern v (''*'' @ core) \<longleftrightarrow> (\<exists>a. v = a @ core)) \<and>
    (matchPattern v (''*'' @ core @ ''*'') \<longleftrightarrow> (\<exists>a b. v = a @ core @ b)) \<and>
    (matchPattern v core \<longleftrightarrow> EqualFold v core) \<and> matchPattern v ''*''"
proof -
  obtain c cs where c: "core = c # cs" "c \<noteq> CHR ''*''"
    using assms by (cases core) auto
  have last: "\<not> HasSuffix core ''*''" "\<not> HasSuffix (CHR ''*'' # core) ''*''"
    using assms(1,3) by (auto simp: HasSuffix_iff) (metis append_eq_Cons_conv last_appendR last_snoc list.discI snoc_eq_iff_butlast last_ConsR)+
  have first: "\<not> HasPrefix core ''*''" "\<not> HasPrefix (core @ ''*'') ''*''"
    using c by (simp_all add: HasPrefix_def)
  show ?thesis
    unfolding matchPattern_def
    using assms(1) last first c by (auto simp: HasSuffix_iff HasPrefix_iff Contains_iff butlast_append)
qed

theorem matchPattern_correct_witness: "matchPattern ''sip:alice@x'' (''*'' @ ''alice'' @ ''*'')"
proof -
  have "\<exists>a b. ''sip:alice@x'' = a @ ''alice'' @ b"
    by (intro exI[of _ "''sip:''"] exI[of _ "''@x''"]) simp
  then show ?thesis
    using matchPattern_correct[of "''alice''" "''sip:alice@x''"] by simp
qed

end
