(* ===== verification/SiprecFill.thy ===== *)
theory SiprecFill
  imports SiprecValidation
begin

text \<open>
  \<^verbatim>\<open>pkg/siprec/fill.go\<close>: completing the metadata of a non-compliant recording client from the SIP
  signalling. \<open>parseNameAddr\<close>, which hands the header to the SIP library's address parser and
  rejects what is not one SIP, SIPS or global tel address, is an argument: the theorems hold for
  every such function.
\<close>

record FillContext =
  fc_CallID :: string
  fc_SessionID :: string
  fc_CallingParticipant :: string

definition CallingParticipantID :: string where
  "CallingParticipantID = ''calling-participant''"

definition FilledSessionID :: string where
  "FilledSessionID = ''session_id''"

definition FilledParticipant :: string where
  "FilledParticipant = ''participant''"

definition fill_id :: "FillContext \<Rightarrow> string" where
  "fill_id ctx = (if TrimSpace (fc_SessionID ctx) = [] then TrimSpace (fc_CallID ctx) else TrimSpace (fc_SessionID ctx))"

definition fill_sessions :: "string \<Rightarrow> RSSession list \<Rightarrow> RSSession list" where
  "fill_sessions callID ss =
     (case ss of
        [] \<Rightarrow> [RSSession_zero\<lparr>ses_ID := callID\<rparr>]
      | [s] \<Rightarrow> (if TrimSpace (ses_ID s) = [] then [s\<lparr>ses_ID := callID\<rparr>] else [s])
      | _ \<Rightarrow> ss)"

definition fill_assoc :: "FillContext \<Rightarrow> string \<Rightarrow> RSAssociation \<Rightarrow> RSAssociation" where
  "fill_assoc ctx callID a =
     (if TrimSpace (asc_SessionID a) = []
      then a\<lparr>asc_SessionID := callID,
             asc_CallID := (if TrimSpace (asc_CallID a) = [] then TrimSpace (fc_CallID ctx) else asc_CallID a)\<rparr>
      else a)"

definition fill_participant_session :: "string \<Rightarrow> RSParticipantSessionAssoc \<Rightarrow> RSParticipantSessionAssoc" where
  "fill_participant_session callID a = (if TrimSpace (pxa_SessionID a) = [] then a\<lparr>pxa_SessionID := callID\<rparr> else a)"

definition fill_session :: "FillContext \<Rightarrow> RSMetadata \<Rightarrow> RSMetadata" where
  "fill_session ctx m =
     (let callID = fill_id ctx
      in if TrimSpace (md_SessionID m) = [] \<and> callID \<noteq> [] \<and> length (md_Sessions m) \<le> 1
         then m\<lparr>md_SessionID := callID,
                md_Sessions := fill_sessions callID (md_Sessions m),
                md_SessionRecordingAssoc := fill_assoc ctx callID (md_SessionRecordingAssoc m),
                md_ParticipantSessionAssoc := map (fill_participant_session callID) (md_ParticipantSessionAssoc m),
                md_FilledFields := md_FilledFields m @ [FilledSessionID]\<rparr>
         else m)"

definition fill_participant :: "(string \<Rightarrow> string \<times> string) \<Rightarrow> FillContext \<Rightarrow> RSMetadata \<Rightarrow> RSMetadata" where
  "fill_participant parseNameAddr ctx m =
     (let (display, uri) = parseNameAddr (fc_CallingParticipant ctx)
      in if md_Participants m = [] \<and> uri \<noteq> []
         then m\<lparr>md_Participants :=
                  [RSParticipant_zero\<lparr>rsp_ID := CallingParticipantID, rsp_Name := display, rsp_DisplayName := display,
                     rsp_Aor := [Aor_zero\<lparr>aor_Value := uri\<rparr>]\<rparr>],
                md_FilledFields := md_FilledFields m @ [FilledParticipant]\<rparr>
         else m)"

definition FillMissing :: "(string \<Rightarrow> string \<times> string) \<Rightarrow> RSMetadata option \<Rightarrow> FillContext \<Rightarrow> RSMetadata option" where
  "FillMissing parseNameAddr m ctx =
     (case m of None \<Rightarrow> None | Some m \<Rightarrow> Some (fill_participant parseNameAddr ctx (fill_session ctx m)))"

definition ParticipantSynthesized :: "RSMetadata \<Rightarrow> string \<Rightarrow> bool" where
  "ParticipantSynthesized m ident \<longleftrightarrow> ident = CallingParticipantID \<and> FilledParticipant \<in> set (md_FilledFields m)"

section \<open>Nothing is overwritten\<close>

definition blank :: "string \<Rightarrow> bool" where
  "blank s \<longleftrightarrow> TrimSpace s = []"

text \<open>\<open>kept old new\<close>: a field that says something is not changed.\<close>

definition kept :: "string \<Rightarrow> string \<Rightarrow> bool" where
  "kept old new \<longleftrightarrow> blank old \<or> new = old"

lemma fill_id_trimmed [simp]: "TrimSpace (fill_id ctx) = fill_id ctx"
  by (simp add: fill_id_def)

lemma fill_session_other [simp]:
  "md_Participants (fill_session ctx m) = md_Participants m" "md_Streams (fill_session ctx m) = md_Streams m"
  "md_State (fill_session ctx m) = md_State m" "md_Group (fill_session ctx m) = md_Group m"
  by (simp_all add: fill_session_def Let_def)

lemma fill_participant_other [simp]:
  "md_SessionID (fill_participant f ctx m) = md_SessionID m" "md_Sessions (fill_participant f ctx m) = md_Sessions m"
  "md_SessionRecordingAssoc (fill_participant f ctx m) = md_SessionRecordingAssoc m"
  "md_ParticipantSessionAssoc (fill_participant f ctx m) = md_ParticipantSessionAssoc m"
  "md_Streams (fill_participant f ctx m) = md_Streams m" "md_Group (fill_participant f ctx m) = md_Group m"
  "md_State (fill_participant f ctx m) = md_State m"
  by (simp_all add: fill_participant_def split: prod.split)

lemma fill_session_again:
  "fill_session ctx (fill_participant f ctx (fill_session ctx m)) = fill_participant f ctx (fill_session ctx m)"
proof -
  have "\<not> (TrimSpace (md_SessionID (fill_session ctx m)) = [] \<and> fill_id ctx \<noteq> [] \<and> length (md_Sessions (fill_session ctx m)) \<le> 1)"
    by (simp add: fill_session_def Let_def)
  then show ?thesis
    by (auto simp: fill_session_def[of ctx "fill_participant f ctx (fill_session ctx m)"] Let_def)
qed

lemma fill_participant_again: "fill_participant f ctx (fill_participant f ctx m) = fill_participant f ctx m"
  by (simp add: fill_participant_def split: prod.split)

lemma fill_assoc_kept:
  "kept (asc_SessionID a) (asc_SessionID (fill_assoc ctx c a))" "kept (asc_CallID a) (asc_CallID (fill_assoc ctx c a))"
  by (simp_all add: fill_assoc_def kept_def blank_def)

lemma fill_sessions_kept:
  "list_all2 (\<lambda>s s'. kept (ses_ID s) (ses_ID s')) ss (take (length ss) (fill_sessions c ss))"
  by (auto simp: fill_sessions_def kept_def blank_def list_all2_same split: list.split)

lemma fill_session_kept:
  "kept (md_SessionID m) (md_SessionID (fill_session ctx m))"
  "list_all2 (\<lambda>s s'. kept (ses_ID s) (ses_ID s')) (md_Sessions m) (take (length (md_Sessions m)) (md_Sessions (fill_session ctx m)))"
  "kept (asc_SessionID (md_SessionRecordingAssoc m)) (asc_SessionID (md_SessionRecordingAssoc (fill_session ctx m)))"
  "kept (asc_CallID (md_SessionRecordingAssoc m)) (asc_CallID (md_SessionRecordingAssoc (fill_session ctx m)))"
  "list_all2 (\<lambda>a a'. kept (pxa_SessionID a) (pxa_SessionID a') \<and> pxa_ParticipantID a' = pxa_ParticipantID a)
      (md_ParticipantSessionAssoc m) (md_ParticipantSessionAssoc (fill_session ctx m))"
  using fill_sessions_kept[of "md_Sessions m" "fill_id ctx"] fill_assoc_kept[of "md_SessionRecordingAssoc m" ctx "fill_id ctx"]
  by (simp_all add: fill_session_def Let_def kept_def blank_def list_all2_same list_all2_map2 fill_participant_session_def)

text \<open>Completion never overwrites what the metadata says: a session ID, a session element's ID, an
  association's session or call ID that is not blank stays, participants that are there stay, the
  streams, groups and the state are not touched, and completing twice is completing once.\<close>

theorem FillMissing_preserves:
  assumes "FillMissing f (Some m) ctx = Some m'"
  shows "kept (md_SessionID m) (md_SessionID m') \<and>
    list_all2 (\<lambda>s s'. kept (ses_ID s) (ses_ID s')) (md_Sessions m) (take (length (md_Sessions m)) (md_Sessions m')) \<and>
    kept (asc_SessionID (md_SessionRecordingAssoc m)) (asc_SessionID (md_SessionRecordingAssoc m')) \<and>
    kept (asc_CallID (md_SessionRecordingAssoc m)) (asc_CallID (md_SessionRecordingAssoc m')) \<and>
    list_all2 (\<lambda>a a'. kept (pxa_SessionID a) (pxa_SessionID a') \<and> pxa_ParticipantID a' = pxa_ParticipantID a)
      (md_ParticipantSessionAssoc m) (md_ParticipantSessionAssoc m') \<and>
    (md_Participants m \<noteq> [] \<longrightarrow> md_Participants m' = md_Participants m) \<and>
    md_Streams m' = md_Streams m \<and> md_Group m' = md_Group m \<and> md_State m' = md_State m \<and>
    FillMissing f (Some m') ctx = Some m'"
proof -
  have m': "m' = fill_participant f ctx (fill_session ctx m)"
    using assms by (simp add: FillMissing_def)
  have "md_Participants m \<noteq> [] \<longrightarrow> md_Participants m' = md_Participants m"
    by (simp add: m' fill_participant_def split: prod.split)
  moreover have "FillMissing f (Some m') ctx = Some m'"
    by (simp add: FillMissing_def m' fill_session_again fill_participant_again)
  ultimately show ?thesis
    using fill_session_kept[of m ctx] by (simp add: m')
qed

text \<open>A call whose client sends neither a session ID nor a session element.\<close>

theorem FillMissing_preserves_witness:
  "\<exists>m'. FillMissing (\<lambda>_. ([], [])) (Some (RSMetadata_zero\<lparr>md_State := ''active''\<rparr>))
      \<lparr>fc_CallID = ''c1'', fc_SessionID = [], fc_CallingParticipant = []\<rparr> = Some m' \<and> md_State m' = ''active''"
proof -
  obtain m' where m': "FillMissing (\<lambda>_. ([], [])) (Some (RSMetadata_zero\<lparr>md_State := ''active''\<rparr>))
      \<lparr>fc_CallID = ''c1'', fc_SessionID = [], fc_CallingParticipant = []\<rparr> = Some m'"
    by (simp add: FillMissing_def)
  with FillMissing_preserves[OF m'] show ?thesis by auto
qed

section \<open>What completion repairs\<close>

lemma first_present_Nil: "first_present xs = [] \<longleftrightarrow> (\<forall>x \<in> set xs. x = [])"
  by (induction xs) auto

lemma session_elem_id_filled:
  assumes "length ss \<le> 1" and "\<forall>s \<in> set ss. ses_ID s = [] \<and> ses_LegacyID s = []"
  shows "\<exists>s. fill_sessions c ss = [s] \<and> ses_ID s = c"
  using assms by (cases ss) (auto simp: fill_sessions_def)

lemma check_sessions_single:
  assumes "ss = [s]" and "ses_ID s = c" and "TrimSpace c = c" and "c \<noteq> []"
  shows "e \<in> set (errors_of (check_sessions c pids sids ss)) \<Longrightarrow>
    (\<exists>a b. e = SessionMsg (SessionUnknownParticipant a b) \<or> e = SessionMsg (SessionUnknownStream a b))"
  using assms
  by (auto simp: check_sessions_def check_session_elem_def session_elem_id_def errors_of_concat Let_def split: if_splits)



end
