(* ===== verification/LRUCache.thy ===== *)
theory LRUCache
  imports GoLib "HOL-Library.AList"
begin

text \<open>
  \<^verbatim>\<open>pkg/util/session_cache.go\<close>: a cache of bounded size with expiry, which evicts the least
  recently used item. The map of items is an association list with one entry per key; the list of
  \<^verbatim>\<open>container/list\<close>, whose elements point to the items, is the list of their keys, most recent
  first. \<open>evictIfNeeded\<close> loops until the cache is small enough and may not end: \<open>None\<close>. The lock and
  the goroutine that calls \<open>removeExpired\<close> every minute are not modelled.
\<close>

record 'v CacheItem =
  ci_Key :: string
  ci_Value :: 'v
  ci_Expiration :: go_time

record 'v LRUCache =
  lru_items :: "(string \<times> 'v CacheItem) list"
  lru_list :: "string list"
  lru_maxSize :: int
  lru_defaultTTL :: go_duration

definition NewLRUCache :: "int \<Rightarrow> go_duration \<Rightarrow> 'v LRUCache" where
  "NewLRUCache maxSize defaultTTL = \<lparr>lru_items = [], lru_list = [], lru_maxSize = maxSize, lru_defaultTTL = defaultTTL\<rparr>"

definition MoveToFront :: "string \<Rightarrow> 'v LRUCache \<Rightarrow> 'v LRUCache" where
  "MoveToFront key c = c\<lparr>lru_list := key # remove1 key (lru_list c)\<rparr>"

definition removeItem :: "'v LRUCache \<Rightarrow> string \<Rightarrow> 'v LRUCache" where
  "removeItem c key = c\<lparr>lru_items := AList.delete key (lru_items c), lru_list := remove1 key (lru_list c)\<rparr>"

definition Get :: "go_time \<Rightarrow> string \<Rightarrow> 'v LRUCache \<Rightarrow> 'v option \<times> 'v LRUCache" where
  "Get now key c =
     (case map_of (lru_items c) key of
        None \<Rightarrow> (None, c)
      | Some item \<Rightarrow>
          if now > ci_Expiration item then (None, removeItem c key)
          else (Some (ci_Value item), MoveToFront key c))"

partial_function (option) evictIfNeeded :: "'v LRUCache \<Rightarrow> 'v LRUCache option" where
  "evictIfNeeded c =
     (if int (length (lru_items c)) > lru_maxSize c
      then (if lru_list c = [] then evictIfNeeded c else evictIfNeeded (removeItem c (last (lru_list c))))
      else Some c)"

declare evictIfNeeded.simps [code]

definition SetWithTTL :: "go_time \<Rightarrow> string \<Rightarrow> 'v \<Rightarrow> go_duration \<Rightarrow> 'v LRUCache \<Rightarrow> 'v LRUCache option" where
  "SetWithTTL now key v ttl c =
     (let item = \<lparr>ci_Key = key, ci_Value = v, ci_Expiration = now + ttl\<rparr>
      in case map_of (lru_items c) key of
           Some existing \<Rightarrow>
             Some (MoveToFront key (c\<lparr>lru_items :=
               AList.update key (existing\<lparr>ci_Value := v, ci_Expiration := now + ttl\<rparr>) (lru_items c)\<rparr>))
         | None \<Rightarrow>
             evictIfNeeded (c\<lparr>lru_items := AList.update key item (lru_items c), lru_list := key # lru_list c\<rparr>))"

definition Set :: "go_time \<Rightarrow> string \<Rightarrow> 'v \<Rightarrow> 'v LRUCache \<Rightarrow> 'v LRUCache option" where
  "Set now key v c = SetWithTTL now key v (lru_defaultTTL c) c"

definition Delete :: "string \<Rightarrow> 'v LRUCache \<Rightarrow> 'v LRUCache" where
  "Delete key c = (case map_of (lru_items c) key of None \<Rightarrow> c | Some _ \<Rightarrow> removeItem c key)"

definition Clear :: "'v LRUCache \<Rightarrow> 'v LRUCache" where
  "Clear c = c\<lparr>lru_items := [], lru_list := []\<rparr>"

definition Size :: "'v LRUCache \<Rightarrow> int" where
  "Size c = int (length (lru_items c))"

text \<open>\<open>Keys\<close> returns the keys in the order of a range over the map: any such list.\<close>

definition Keys :: "'v LRUCache \<Rightarrow> string list \<Rightarrow> bool" where
  "Keys c keys \<longleftrightarrow> distinct keys \<and> set keys = fst ` set (lru_items c)"

definition removeExpired :: "go_time \<Rightarrow> 'v LRUCache \<Rightarrow> 'v LRUCache" where
  "removeExpired now c =
     fold (\<lambda>key c. removeItem c key) (map fst (filter (\<lambda>(k, i). now > ci_Expiration i) (lru_items c))) c"

section \<open>The invariant\<close>

definition lru_ok :: "'v LRUCache \<Rightarrow> bool" where
  "lru_ok c \<longleftrightarrow>
     distinct (map fst (lru_items c)) \<and> distinct (lru_list c) \<and> set (lru_list c) = fst ` set (lru_items c) \<and>
     (\<forall>(k, i) \<in> set (lru_items c). ci_Key i = k)"

text \<open>The abstract cache: the entries, most recently used first.\<close>

definition lru_abs :: "'v LRUCache \<Rightarrow> (string \<times> 'v CacheItem) list" where
  "lru_abs c = map (\<lambda>k. (k, the (map_of (lru_items c) k))) (lru_list c)"

lemma lru_ok_length: "lru_ok c \<Longrightarrow> length (lru_items c) = length (lru_list c)"
  unfolding lru_ok_def using distinct_card[of "map fst (lru_items c)"] distinct_card[of "lru_list c"] by simp

lemma lru_abs_keys [simp]: "map fst (lru_abs c) = lru_list c"
  by (simp add: lru_abs_def comp_def)

lemma lru_abs_map_of:
  assumes "lru_ok c"
  shows "map_of (lru_abs c) = map_of (lru_items c)"
proof
  fix k
  have "map_of (lru_abs c) k = (if k \<in> set (lru_list c) then Some (the (map_of (lru_items c) k)) else None)"
    unfolding lru_abs_def by (induction "lru_list c" rule: list.induct) (auto simp: map_of_map_restrict restrict_map_def)
  also have "... = map_of (lru_items c) k"
    using assms by (auto simp: lru_ok_def dest: weak_map_of_SomeI) (metis map_of_eq_None_iff)
  finally show "map_of (lru_abs c) k = map_of (lru_items c) k" .
qed

lemma lru_ok_removeItem [simp]: "lru_ok c \<Longrightarrow> lru_ok (removeItem c k)"
  by (auto simp: lru_ok_def removeItem_def AList.delete_eq distinct_remove1 image_iff intro: distinct_map_filter)

lemma lru_ok_MoveToFront: "lru_ok c \<Longrightarrow> k \<in> fst ` set (lru_items c) \<Longrightarrow> lru_ok (MoveToFront k c)"
  by (auto simp: lru_ok_def MoveToFront_def)


lemma remove1_filter: "distinct xs \<Longrightarrow> remove1 k xs = filter (\<lambda>x. x \<noteq> k) xs"
proof (induction xs)
  case (Cons x xs)
  have "k \<notin> set xs \<Longrightarrow> filter (\<lambda>x. x \<noteq> k) xs = xs"
    by (intro filter_True) auto
  then show ?case using Cons by (cases "x = k") simp_all
qed simp

lemma lru_abs_removeItem: "lru_ok c \<Longrightarrow> lru_abs (removeItem c k) = filter (\<lambda>p. fst p \<noteq> k) (lru_abs c)"
  by (auto simp: lru_abs_def removeItem_def lru_ok_def remove1_filter filter_map comp_def delete_conv')

lemma lru_abs_MoveToFront:
  "lru_ok c \<Longrightarrow> lru_abs (MoveToFront k c) = (k, the (map_of (lru_items c) k)) # filter (\<lambda>p. fst p \<noteq> k) (lru_abs c)"
  by (auto simp: lru_abs_def MoveToFront_def lru_ok_def remove1_filter filter_map comp_def)

lemma lru_abs_length: "length (lru_abs c) = length (lru_list c)"
  by (simp add: lru_abs_def)

lemma removeItem_maxSize [simp]:
  "lru_maxSize (removeItem c k) = lru_maxSize c" "lru_defaultTTL (removeItem c k) = lru_defaultTTL c"
  by (simp_all add: removeItem_def)

lemma filter_last:
  "distinct (map fst xs) \<Longrightarrow> xs \<noteq> [] \<Longrightarrow> filter (\<lambda>p. fst p \<noteq> fst (last xs)) xs = butlast xs"
  by (induction xs rule: rev_induct) (auto simp: filter_id_conv image_iff)

lemma evictIfNeeded_ok:
  assumes "lru_ok c" and "0 \<le> lru_maxSize c"
  shows "\<exists>c'. evictIfNeeded c = Some c' \<and> lru_ok c' \<and> lru_maxSize c' = lru_maxSize c \<and> lru_defaultTTL c' = lru_defaultTTL c \<and>
    lru_abs c' = take (nat (lru_maxSize c)) (lru_abs c)"
  using assms
proof (induction "length (lru_list c)" arbitrary: c rule: less_induct)
  case less
  show ?case
  proof (cases "int (length (lru_items c)) > lru_maxSize c")
    case True
    let ?d = "removeItem c (last (lru_list c))"
    have ne: "lru_list c \<noteq> []"
      using True less.prems lru_ok_length[OF less.prems(1)] by auto
    have len: "length (lru_list ?d) < length (lru_list c)"
      using ne by (simp add: removeItem_def length_remove1)
    obtain c' where c': "evictIfNeeded ?d = Some c'" "lru_ok c'" "lru_maxSize c' = lru_maxSize c"
        "lru_defaultTTL c' = lru_defaultTTL c" "lru_abs c' = take (nat (lru_maxSize c)) (lru_abs ?d)"
      using less.hyps[OF len lru_ok_removeItem[OF less.prems(1)]] less.prems(2) unfolding removeItem_maxSize by blast
    have ne': "lru_abs c \<noteq> []" "last (lru_list c) = fst (last (lru_abs c))"
      using ne by (auto simp: lru_abs_def last_map)
    have "lru_abs ?d = butlast (lru_abs c)"
      using filter_last[of "lru_abs c"] less.prems(1) ne'(1)
      unfolding lru_abs_removeItem[OF less.prems(1)] ne'(2) by (simp add: lru_ok_def)
    moreover have "nat (lru_maxSize c) < length (lru_abs c)"
      using True lru_ok_length[OF less.prems(1)] less.prems(2) by (simp add: lru_abs_length)
    ultimately have "lru_abs c' = take (nat (lru_maxSize c)) (lru_abs c)"
      using c'(5) by (simp add: take_butlast)
    moreover have "evictIfNeeded c = evictIfNeeded ?d"
      using True ne by (subst evictIfNeeded.simps) simp
    ultimately show ?thesis
      using c' by simp
  next
    case False
    then show ?thesis
      using less.prems lru_ok_length[OF less.prems(1)]
      by (subst evictIfNeeded.simps) (simp add: lru_abs_length)
  qed
qed

lemma evictIfNeeded_bound:
  assumes "evictIfNeeded c = Some c'"
  shows "int (length (lru_items c')) \<le> lru_maxSize c' \<and> lru_maxSize c' = lru_maxSize c"
proof (rule evictIfNeeded.raw_induct[OF _ assms])
  fix f :: "'a LRUCache \<Rightarrow> 'a LRUCache option" and c c'
  assume IH: "\<And>c c'. f c = Some c' \<Longrightarrow> int (length (lru_items c')) \<le> lru_maxSize c' \<and> lru_maxSize c' = lru_maxSize c"
    and step: "(if lru_maxSize c < int (length (lru_items c))
      then if lru_list c = [] then f c else f (removeItem c (last (lru_list c))) else Some c) = Some c'"
  show "int (length (lru_items c')) \<le> lru_maxSize c' \<and> lru_maxSize c' = lru_maxSize c"
    using step IH[of c c'] IH[of "removeItem c (last (lru_list c))" c'] by (auto split: if_splits)
qed

section \<open>The cache as an interface\<close>

text \<open>What a client relies on: the stored values only come from \<open>set\<close>, a value read is a stored one,
  storing returns, and every operation keeps the invariant. The capacity and the expiry are the
  provider's affair.\<close>

locale value_cache =
  fixes inv :: "'c \<Rightarrow> bool" and vals :: "'c \<Rightarrow> 'v set"
    and cget :: "go_time \<Rightarrow> 'k \<Rightarrow> 'c \<Rightarrow> 'v option \<times> 'c" and cset :: "go_time \<Rightarrow> 'k \<Rightarrow> 'v \<Rightarrow> 'c \<Rightarrow> 'c option"
  assumes get_inv: "inv c \<Longrightarrow> inv (snd (cget now k c))"
    and get_vals: "inv c \<Longrightarrow> vals (snd (cget now k c)) \<subseteq> vals c"
    and get_val: "inv c \<Longrightarrow> fst (cget now k c) = Some v \<Longrightarrow> v \<in> vals c"
    and set_returns: "inv c \<Longrightarrow> \<exists>c'. cset now k v c = Some c'"
    and set_inv: "inv c \<Longrightarrow> cset now k v c = Some c' \<Longrightarrow> inv c'"
    and set_vals: "inv c \<Longrightarrow> cset now k v c = Some c' \<Longrightarrow> vals c' \<subseteq> insert v (vals c)"

text \<open>Reading a list of keys and keeping what is found: the loop of a client.\<close>

fun collect :: "('k \<Rightarrow> 'c \<Rightarrow> 'v option \<times> 'c) \<Rightarrow> 'k list \<Rightarrow> 'c \<Rightarrow> 'v list \<times> 'c" where
  "collect get [] c = ([], c)"
| "collect get (k # ks) c =
     (let (v, c1) = get k c; (vs, c2) = collect get ks c1
      in ((case v of Some x \<Rightarrow> x # vs | None \<Rightarrow> vs), c2))"

context value_cache
begin

lemma collect_ok:
  "inv c \<Longrightarrow>
     inv (snd (collect (cget now) ks c)) \<and> vals (snd (collect (cget now) ks c)) \<subseteq> vals c \<and>
     set (fst (collect (cget now) ks c)) \<subseteq> vals c"
proof (induction ks arbitrary: c)
  case (Cons k ks)
  have "inv (snd (cget now k c))" "vals (snd (cget now k c)) \<subseteq> vals c"
    using Cons.prems get_inv get_vals by blast+
  with Cons.IH[of "snd (cget now k c)"] get_val[OF Cons.prems, of now k] show ?case
    by (auto simp: split_beta split: option.splits)
qed simp

end

text \<open>A cache that keeps what was stored for a while: a value held until some time is read until
  then, reading another key does not disturb it, and storing holds the value where there is room.\<close>

locale holding_cache = value_cache +
  fixes holds :: "'a \<Rightarrow> 'c \<Rightarrow> 'b \<Rightarrow> go_time \<Rightarrow> bool" and room :: "'a \<Rightarrow> bool" and ttl :: "'a \<Rightarrow> go_duration"
  assumes get_hit: "inv c \<Longrightarrow> holds c k v e \<Longrightarrow> now \<le> e \<Longrightarrow> fst (cget now k c) = Some v"
    and get_keeps: "inv c \<Longrightarrow> holds c k v e \<Longrightarrow> k \<noteq> k' \<Longrightarrow> holds (snd (cget now k' c)) k v e"
    and set_holds: "inv c \<Longrightarrow> cset now k v c = Some c' \<Longrightarrow> room c \<Longrightarrow> holds c' k v (now + ttl c)"

context holding_cache
begin

lemma collect_finds:
  "inv c \<Longrightarrow> holds c k v e \<Longrightarrow> now \<le> e \<Longrightarrow> k \<in> set ks \<Longrightarrow> v \<in> set (fst (collect (cget now) ks c))"
proof (induction ks arbitrary: c)
  case (Cons k' ks)
  show ?case
  proof (cases "k = k'")
    case True
    then show ?thesis
      using get_hit[OF Cons.prems(1-3)] by (simp add: split_beta)
  next
    case False
    then have "k \<in> set ks"
      using Cons.prems(4) by simp
    then have "v \<in> set (fst (collect (cget now) ks (snd (cget now k' c))))"
      using Cons.prems(1-3) False by (intro Cons.IH get_inv get_keeps)
    then show ?thesis
      by (simp add: split_beta split: option.splits)
  qed
qed simp

end

definition lru_inv :: "'v LRUCache \<Rightarrow> bool" where
  "lru_inv c \<longleftrightarrow> lru_ok c \<and> 0 \<le> lru_maxSize c \<and> Size c \<le> lru_maxSize c"

definition lru_vals :: "'v LRUCache \<Rightarrow> 'v set" where
  "lru_vals c = (\<lambda>p. ci_Value (snd p)) ` set (lru_abs c)"

section \<open>Refinement of a recency list\<close>

definition abs_get :: "go_time \<Rightarrow> string \<Rightarrow> (string \<times> 'v CacheItem) list \<Rightarrow> 'v option \<times> (string \<times> 'v CacheItem) list" where
  "abs_get now k es =
     (case map_of es k of
        None \<Rightarrow> (None, es)
      | Some i \<Rightarrow>
          if now > ci_Expiration i then (None, filter (\<lambda>p. fst p \<noteq> k) es)
          else (Some (ci_Value i), (k, i) # filter (\<lambda>p. fst p \<noteq> k) es))"

definition abs_set :: "nat \<Rightarrow> go_time \<Rightarrow> string \<Rightarrow> 'v \<Rightarrow> (string \<times> 'v CacheItem) list \<Rightarrow> (string \<times> 'v CacheItem) list" where
  "abs_set n expiration k v es =
     take n ((k, \<lparr>ci_Key = k, ci_Value = v, ci_Expiration = expiration\<rparr>) # filter (\<lambda>p. fst p \<noteq> k) es)"

lemma lru_inv_abs: "lru_inv c \<longleftrightarrow> lru_ok c \<and> 0 \<le> lru_maxSize c \<and> length (lru_abs c) \<le> nat (lru_maxSize c)"
  by (auto simp: lru_inv_def Size_def lru_abs_length lru_ok_length)

lemma MoveToFront_maxSize [simp]: "lru_maxSize (MoveToFront k c) = lru_maxSize c" "lru_items (MoveToFront k c) = lru_items c"
  by (simp_all add: MoveToFront_def)

lemma lru_key:
  assumes "lru_ok c" and "map_of (lru_items c) k = Some i"
  shows "ci_Key i = k \<and> k \<in> fst ` set (lru_items c)"
proof
  have "(k, i) \<in> set (lru_items c)" using assms(2) by (rule map_of_SomeD)
  then show "ci_Key i = k" "k \<in> fst ` set (lru_items c)"
    using assms(1) by (auto simp: lru_ok_def) (metis fst_conv image_eqI)
qed

lemma length_filter_key: "map_of es k = Some i \<Longrightarrow> length (filter (\<lambda>p. fst p \<noteq> k) es) < length es"
  by (rule length_filter_less[of "(k, i)"]) (auto dest: map_of_SomeD)

lemma Get_refines:
  assumes "lru_inv c"
  shows "lru_inv (snd (Get now k c)) \<and> (fst (Get now k c), lru_abs (snd (Get now k c))) = abs_get now k (lru_abs c)"
proof -
  have ok: "lru_ok c" using assms by (simp add: lru_inv_def)
  note lookup = lru_abs_map_of[OF ok, THEN fun_cong, of k]
  show ?thesis
  proof (cases "map_of (lru_items c) k")
    case None
    then show ?thesis using assms lookup by (simp add: Get_def abs_get_def)
  next
    case (Some i)
    then have "length (filter (\<lambda>p. fst p \<noteq> k) (lru_abs c)) < length (lru_abs c)"
      using lookup by (intro length_filter_key) simp
    moreover have "lru_ok (MoveToFront k c)"
      using lru_ok_MoveToFront[OF ok] lru_key[OF ok Some] by simp
    ultimately show ?thesis
      using assms Some lookup lru_ok_removeItem[OF ok, of k]
      by (simp add: Get_def abs_get_def lru_inv_abs lru_abs_removeItem[OF ok] lru_abs_MoveToFront[OF ok])
  qed
qed

lemma lru_abs_insert:
  assumes "lru_ok c" and "map_of (lru_items c) k = None" and "ci_Key i = k"
  shows "lru_ok (c\<lparr>lru_items := AList.update k i (lru_items c), lru_list := k # lru_list c\<rparr>)"
    and "lru_abs (c\<lparr>lru_items := AList.update k i (lru_items c), lru_list := k # lru_list c\<rparr>) = (k, i) # lru_abs c"
proof -
  have k: "k \<notin> fst ` set (lru_items c)" using assms(2) by (simp add: map_of_eq_None_iff)
  then have kl: "k \<notin> set (lru_list c)" using assms(1) by (simp add: lru_ok_def)
  have upd: "AList.update k i xs = xs @ [(k, i)]" if "k \<notin> fst ` set xs" for xs
    using that by (induction xs) auto
  show "lru_ok (c\<lparr>lru_items := AList.update k i (lru_items c), lru_list := k # lru_list c\<rparr>)"
    using assms(1,3) k kl unfolding lru_ok_def by (simp add: upd[OF k])
  show "lru_abs (c\<lparr>lru_items := AList.update k i (lru_items c), lru_list := k # lru_list c\<rparr>) = (k, i) # lru_abs c"
    using kl by (auto simp: lru_abs_def update_conv')
qed

lemma lru_abs_update:
  assumes "lru_ok c" and "map_of (lru_items c) k = Some j" and "ci_Key i = k"
  shows "lru_ok (MoveToFront k (c\<lparr>lru_items := AList.update k i (lru_items c)\<rparr>))"
    and "lru_abs (MoveToFront k (c\<lparr>lru_items := AList.update k i (lru_items c)\<rparr>)) =
      (k, i) # filter (\<lambda>p. fst p \<noteq> k) (lru_abs c)"
proof -
  have dist: "distinct (lru_list c)" using assms(1) by (simp add: lru_ok_def)
  have keys: "map fst (AList.update k i (lru_items c)) = map fst (lru_items c)"
    using lru_key[OF assms(1,2)] by (simp add: update_keys)
  then have keys': "fst ` set (AList.update k i (lru_items c)) = fst ` set (lru_items c)"
    by (metis set_map)
  have "set (AList.update k i xs) \<subseteq> insert (k, i) (set xs)" for xs
    by (induction xs) auto
  then have "\<forall>(k', i') \<in> set (AList.update k i (lru_items c)). ci_Key i' = k'"
    using assms(1,3) by (fastforce simp: lru_ok_def)
  then show "lru_ok (MoveToFront k (c\<lparr>lru_items := AList.update k i (lru_items c)\<rparr>))"
    using assms(1) keys keys' lru_key[OF assms(1,2)] dist unfolding lru_ok_def MoveToFront_def
    by (simp add: insert_absorb)
  show "lru_abs (MoveToFront k (c\<lparr>lru_items := AList.update k i (lru_items c)\<rparr>)) =
      (k, i) # filter (\<lambda>p. fst p \<noteq> k) (lru_abs c)"
    by (auto simp: lru_abs_def MoveToFront_def remove1_filter[OF dist] filter_map comp_def update_conv')
qed

lemma SetWithTTL_refines:
  assumes "lru_inv c"
  shows "\<exists>c'. SetWithTTL now k v ttl c = Some c' \<and> lru_inv c' \<and> lru_maxSize c' = lru_maxSize c \<and>
    lru_abs c' = abs_set (nat (lru_maxSize c)) (now + ttl) k v (lru_abs c)"
proof -
  let ?i = "\<lparr>ci_Key = k, ci_Value = v, ci_Expiration = now + ttl\<rparr>"
  have ok: "lru_ok c" and max: "0 \<le> lru_maxSize c" and len: "length (lru_abs c) \<le> nat (lru_maxSize c)"
    using assms by (simp_all add: lru_inv_abs)
  note lookup = lru_abs_map_of[OF ok, THEN fun_cong, of k]
  show ?thesis
  proof (cases "map_of (lru_items c) k")
    case None
    let ?d = "c\<lparr>lru_items := AList.update k ?i (lru_items c), lru_list := k # lru_list c\<rparr>"
    have d: "lru_ok ?d" "lru_abs ?d = (k, ?i) # lru_abs c"
      using lru_abs_insert[OF ok None] by simp_all
    have "filter (\<lambda>p. fst p \<noteq> k) (lru_abs c) = lru_abs c"
      using None lookup by (intro filter_True ballI) (metis option.distinct(1) weak_map_of_SomeI prod.collapse)
    then show ?thesis
      using evictIfNeeded_ok[OF d(1)] max None
      by (auto simp: SetWithTTL_def abs_set_def d(2) lru_inv_abs)
  next
    case (Some j)
    have j: "j\<lparr>ci_Value := v, ci_Expiration := now + ttl\<rparr> = ?i"
      using lru_key[OF ok Some] by (cases j) simp
    have "length (filter (\<lambda>p. fst p \<noteq> k) (lru_abs c)) < length (lru_abs c)"
      using Some lookup by (intro length_filter_key) simp
    then show ?thesis
      using lru_abs_update[OF ok Some, of ?i] Some len max
      by (simp add: SetWithTTL_def abs_set_def j lru_inv_abs)
  qed
qed

lemma lru_vals_lookup: "map_of (lru_abs c) k = Some i \<Longrightarrow> ci_Value i \<in> lru_vals c"
  by (drule map_of_SomeD) (force simp: lru_vals_def)

interpretation lru: value_cache lru_inv lru_vals Get Set
proof
  fix c :: "'a LRUCache" and now k v c'
  assume c: "lru_inv c"
  have g: "lru_inv (snd (Get now k c))" "(fst (Get now k c), lru_abs (snd (Get now k c))) = abs_get now k (lru_abs c)"
    using Get_refines[OF c] by simp_all
  show "lru_inv (snd (Get now k c))"
    by (rule g)
  show "lru_vals (snd (Get now k c)) \<subseteq> lru_vals c"
    using g(2) by (auto simp: lru_vals_def abs_get_def split: option.splits if_splits dest: lru_vals_lookup[unfolded lru_vals_def])
  show "v \<in> lru_vals c" if "fst (Get now k c) = Some v"
    using g(2) that by (auto simp: abs_get_def split: option.splits if_splits dest: lru_vals_lookup)
  obtain d where d: "Set now k v c = Some d" "lru_inv d"
      "lru_abs d = abs_set (nat (lru_maxSize c)) (now + lru_defaultTTL c) k v (lru_abs c)"
    using SetWithTTL_refines[OF c] unfolding Set_def by blast
  show "\<exists>c'. Set now k v c = Some c'"
    using d(1) by blast
  show "lru_inv c'" if "Set now k v c = Some c'"
    using that d by simp
  show "lru_vals c' \<subseteq> insert v (lru_vals c)" if "Set now k v c = Some c'"
    using that d by (force simp: lru_vals_def abs_set_def dest!: in_set_takeD)
qed

definition lru_holds :: "'v LRUCache \<Rightarrow> string \<Rightarrow> 'v \<Rightarrow> go_time \<Rightarrow> bool" where
  "lru_holds c k v e \<longleftrightarrow> map_option (\<lambda>i. (ci_Value i, ci_Expiration i)) (map_of (lru_abs c) k) = Some (v, e)"

definition lru_room :: "'v LRUCache \<Rightarrow> bool" where
  "lru_room c \<longleftrightarrow> 1 \<le> lru_maxSize c"

lemma map_of_filter_other: "k \<noteq> k' \<Longrightarrow> map_of (filter (\<lambda>p. fst p \<noteq> k') es) k = map_of es k"
  by (induction es) auto

interpretation lru: holding_cache lru_inv lru_vals Get Set lru_holds lru_room lru_defaultTTL
proof
  fix c :: "'a LRUCache" and now k k' v e c'
  assume c: "lru_inv c"
  have g: "(fst (Get now k c), lru_abs (snd (Get now k c))) = abs_get now k (lru_abs c)" for k
    using Get_refines[OF c] by simp
  show "fst (Get now k c) = Some v" if "lru_holds c k v e" "now \<le> e"
    using g[of k] that by (auto simp: lru_holds_def abs_get_def)
  show "lru_holds (snd (Get now k' c)) k v e" if "lru_holds c k v e" "k \<noteq> k'"
    using g[of k'] that by (auto simp: lru_holds_def abs_get_def map_of_filter_other split: option.splits if_splits)
  obtain d where d: "Set now k v c = Some d" "lru_abs d = abs_set (nat (lru_maxSize c)) (now + lru_defaultTTL c) k v (lru_abs c)"
    using SetWithTTL_refines[OF c] unfolding Set_def by blast
  show "lru_holds c' k v (now + lru_defaultTTL c)" if "Set now k v c = Some c'" "lru_room c"
    using that d by (cases "nat (lru_maxSize c)") (auto simp: lru_holds_def lru_room_def abs_set_def)
qed

lemma removeItems_refine:
  "lru_ok d \<Longrightarrow> lru_ok (fold (\<lambda>k c. removeItem c k) ks d) \<and>
     lru_maxSize (fold (\<lambda>k c. removeItem c k) ks d) = lru_maxSize d \<and>
     lru_abs (fold (\<lambda>k c. removeItem c k) ks d) = filter (\<lambda>p. fst p \<notin> set ks) (lru_abs d)"
proof (induction ks arbitrary: d)
  case (Cons k ks)
  have "filter (\<lambda>p. fst p \<notin> set ks) (filter (\<lambda>p. fst p \<noteq> k) xs) = filter (\<lambda>p. fst p \<notin> set (k # ks)) xs"
    for xs :: "(string \<times> 'a CacheItem) list"
    by (induction xs) simp_all
  then show ?case
    using Cons.IH[OF lru_ok_removeItem[OF Cons.prems]] by (simp add: lru_abs_removeItem[OF Cons.prems])
qed simp

lemma lru_abs_lookup: "lru_ok c \<Longrightarrow> p \<in> set (lru_abs c) \<Longrightarrow> map_of (lru_items c) (fst p) = Some (snd p)"
  by (auto simp: lru_abs_def lru_ok_def)

lemma removeExpired_refines:
  assumes "lru_inv c"
  shows "lru_inv (removeExpired now c) \<and>
    lru_abs (removeExpired now c) = filter (\<lambda>p. \<not> now > ci_Expiration (snd p)) (lru_abs c)"
proof -
  have ok: "lru_ok c" using assms by (simp add: lru_inv_abs)
  then have dist: "distinct (map fst (lru_items c))" by (simp add: lru_ok_def)
  let ?ks = "map fst (filter (\<lambda>(k, i). now > ci_Expiration i) (lru_items c))"
  have "fst p \<in> set ?ks \<longleftrightarrow> now > ci_Expiration (snd p)" if p: "p \<in> set (lru_abs c)" for p
  proof
    assume "fst p \<in> set ?ks"
    then obtain i where i: "(fst p, i) \<in> set (lru_items c)" "now > ci_Expiration i" by auto
    then have "map_of (lru_items c) (fst p) = Some i" using dist by simp
    then show "now > ci_Expiration (snd p)" using i(2) lru_abs_lookup[OF ok p] by simp
  next
    assume e: "now > ci_Expiration (snd p)"
    have "(fst p, snd p) \<in> set (lru_items c)" using lru_abs_lookup[OF ok p] by (rule map_of_SomeD)
    then have "(fst p, snd p) \<in> set (filter (\<lambda>(k, i). now > ci_Expiration i) (lru_items c))" using e by (simp add: split_beta)
    then show "fst p \<in> set ?ks" unfolding set_map by (metis fst_conv image_eqI)
  qed
  then have "filter (\<lambda>p. fst p \<notin> set ?ks) (lru_abs c) = filter (\<lambda>p. \<not> now > ci_Expiration (snd p)) (lru_abs c)"
    by (intro filter_cong refl) simp
  then show ?thesis
    using removeItems_refine[OF ok, of ?ks] assms length_filter_le[of "\<lambda>p. \<not> now > ci_Expiration (snd p)" "lru_abs c"]
    unfolding removeExpired_def lru_inv_abs by (auto intro: le_trans [OF length_filter_le])
qed

text \<open>C8: the cache refines a list of entries by recency. With a capacity that is not negative, every
  operation keeps the invariant and the bound; storing always returns and leaves the new entry
  first and of the others the most recent that fit, one entry per key; reading returns the value
  that has not expired and makes it the most recent; deletion, the expiry sweep and clearing
  remove exactly what they should.\<close>

theorem LRUCache_refines:
  assumes "lru_inv c"
  shows "(let (v', c') = Get now k c in lru_inv c' \<and> (v', lru_abs c') = abs_get now k (lru_abs c)) \<and>
    (\<exists>c'. SetWithTTL now k v ttl c = Some c' \<and> lru_inv c' \<and>
       lru_abs c' = abs_set (nat (lru_maxSize c)) (now + ttl) k v (lru_abs c)) \<and>
    lru_inv (Delete k c) \<and> lru_abs (Delete k c) = filter (\<lambda>p. fst p \<noteq> k) (lru_abs c) \<and>
    lru_inv (removeExpired now c) \<and>
    lru_abs (removeExpired now c) = filter (\<lambda>p. \<not> now > ci_Expiration (snd p)) (lru_abs c) \<and>
    lru_inv (Clear c) \<and> lru_abs (Clear c) = [] \<and> Size c = int (length (lru_abs c))"
proof -
  have ok: "lru_ok c" and bound: "0 \<le> lru_maxSize c" "length (lru_abs c) \<le> nat (lru_maxSize c)"
    using assms by (simp_all add: lru_inv_abs)
  have "lru_inv (Delete k c) \<and> lru_abs (Delete k c) = filter (\<lambda>p. fst p \<noteq> k) (lru_abs c)"
  proof (cases "map_of (lru_items c) k")
    case None
    have "filter (\<lambda>p. fst p \<noteq> k) (lru_abs c) = lru_abs c"
      using None lru_abs_map_of[OF ok, THEN fun_cong, of k]
      by (intro filter_True ballI) (metis option.distinct(1) weak_map_of_SomeI prod.collapse)
    then show ?thesis using None assms by (simp add: Delete_def)
  next
    case (Some i)
    then show ?thesis
      using bound ok by (simp add: Delete_def lru_inv_abs lru_abs_removeItem[OF ok] le_trans[OF length_filter_le])
  qed
  moreover have "lru_inv (Clear c) \<and> lru_abs (Clear c) = []"
    using bound by (simp add: lru_inv_abs lru_ok_def Clear_def lru_abs_def)
  moreover have "Size c = int (length (lru_abs c))"
    using ok by (simp add: Size_def lru_abs_length lru_ok_length)
  ultimately show ?thesis
    using Get_refines[OF assms, of now k] SetWithTTL_refines[OF assms, of now k v ttl] removeExpired_refines[OF assms, of now]
    by (auto simp: split_beta)
qed

lemma NewLRUCache_inv: "0 \<le> n \<Longrightarrow> lru_inv (NewLRUCache n ttl) \<and> lru_abs (NewLRUCache n ttl) = [] \<and> lru_maxSize (NewLRUCache n ttl) = n"
  by (simp add: lru_inv_abs lru_ok_def NewLRUCache_def lru_abs_def)

theorem LRUCache_refines_witness:
  "\<exists>c'. SetWithTTL 0 ''a'' (1::int) 5 (NewLRUCache 2 9) = Some c' \<and>
     lru_abs c' = [(''a'', \<lparr>ci_Key = ''a'', ci_Value = 1, ci_Expiration = 5\<rparr>)]"
proof -
  let ?c = "NewLRUCache 2 9 :: int LRUCache"
  have n: "lru_inv ?c" "lru_abs ?c = []" "lru_maxSize ?c = 2"
    by (simp_all add: NewLRUCache_inv)
  obtain c' where "SetWithTTL 0 ''a'' 1 5 ?c = Some c'" "lru_abs c' = abs_set (nat (lru_maxSize ?c)) (0 + 5) ''a'' 1 (lru_abs ?c)"
    using LRUCache_refines[OF n(1), of 0 "''a''" 1 5] by (elim conjE exE)
  then show ?thesis unfolding n by (simp add: abs_set_def)
qed

text \<open>With a negative capacity, storing a new key never returns: the eviction loop empties the
  cache and goes on for ever.\<close>

theorem SetWithTTL_negative_capacity:
  assumes "lru_maxSize c < 0" and "map_of (lru_items c) k = None"
  shows "SetWithTTL now k v ttl c = None"
proof (rule ccontr)
  let ?d = "c\<lparr>lru_items := AList.update k \<lparr>ci_Key = k, ci_Value = v, ci_Expiration = now + ttl\<rparr> (lru_items c),
      lru_list := k # lru_list c\<rparr>"
  assume "SetWithTTL now k v ttl c \<noteq> None"
  then obtain c' where "evictIfNeeded ?d = Some c'"
    using assms(2) by (auto simp: SetWithTTL_def)
  from evictIfNeeded_bound[OF this] show False
    using assms(1) by simp
qed

theorem SetWithTTL_negative_capacity_witness: "SetWithTTL 0 ''a'' (1::int) 5 (NewLRUCache (-1) 9) = None"
  using SetWithTTL_negative_capacity[of "NewLRUCache (-1) 9 :: int LRUCache" "''a''" 0 1 5] by (simp add: NewLRUCache_def)

end
