(* ===== verification/PortManager.thy ===== *)
theory PortManager
  imports LRUCache
begin

text \<open>
  \<^verbatim>\<open>pkg/media/port_manager.go\<close>: allocation of RTP ports and of RTP/RTCP port pairs from a range.
  Freed ports go through the LRU cache, so that a port is not handed out again at once. The map
  of used ports only ever holds true, so it is the set of its keys. \<open>avail\<close> is the answer of the
  operating system to binding a port during the call, \<open>ks\<close> the order in which the cache lists its
  keys, \<open>os\<close> the order of the range over the cooling ports. \<open>None\<close> of an allocation is its error;
  a release is \<open>None\<close> where storing in the cache does not return.
\<close>

section \<open>State\<close>

record PortPair =
  RTPPort :: int
  RTCPPort :: int

record PortManagerStats =
  stat_TotalPorts :: int
  stat_UsedPorts :: int
  stat_AvailablePorts :: int
  stat_AllocationCount :: int
  stat_DeallocationCount :: int
  stat_ReuseHits :: int

record PortManager =
  pmg_minPort :: int
  pmg_maxPort :: int
  pmg_usedPorts :: "int set"
  pmg_recentlyUsed :: "int LRUCache"
  pmg_stats :: PortManagerStats

text \<open>Five minutes, in nanoseconds.\<close>

definition cooldownTTL :: go_duration where
  "cooldownTTL = 5 * 60 * 1000000000"

definition NewPortManager :: "int \<Rightarrow> int \<Rightarrow> PortManager" where
  "NewPortManager minPort maxPort =
     (let (lo1, hi1) = (if minPort \<le> 0 \<or> maxPort \<le> 0 then (10000, 20000) else (minPort, maxPort));
          (lo, hi) = (if lo1 \<ge> hi1 then (10000, 20000) else (lo1, hi1));
          totalPorts = (hi - lo + 1) div 2; cacheSize = totalPorts div 4
      in \<lparr>pmg_minPort = lo, pmg_maxPort = hi, pmg_usedPorts = {}, pmg_recentlyUsed = NewLRUCache cacheSize cooldownTTL,
          pmg_stats = \<lparr>stat_TotalPorts = totalPorts, stat_UsedPorts = 0, stat_AvailablePorts = 0, stat_AllocationCount = 0,
            stat_DeallocationCount = 0, stat_ReuseHits = 0\<rparr>\<rparr>)"

text \<open>The ports that a loop from \<open>lo\<close> to \<open>hi\<close> in steps of two visits.\<close>

function step2 :: "int \<Rightarrow> int \<Rightarrow> int list" where
  "step2 lo hi = (if lo \<le> hi then lo # step2 (lo + 2) hi else [])"
  by pat_completeness auto
termination
  by (relation "measure (\<lambda>(lo, hi). nat (hi + 1 - lo))") auto

declare step2.simps [simp del]

definition updateStats :: "PortManager \<Rightarrow> PortManager" where
  "updateStats pm =
     pm\<lparr>pmg_stats := (pmg_stats pm)
         \<lparr>stat_UsedPorts := int (card (pmg_usedPorts pm)),
          stat_AvailablePorts := stat_TotalPorts (pmg_stats pm) - int (card (pmg_usedPorts pm))\<rparr>\<rparr>"

section \<open>Allocation\<close>

definition getRecentlyFreedPorts :: "go_time \<Rightarrow> string list \<Rightarrow> PortManager \<Rightarrow> int list \<times> PortManager" where
  "getRecentlyFreedPorts now ks pm =
     (let (ports, c) = collect (Get now) ks (pmg_recentlyUsed pm) in (ports, pm\<lparr>pmg_recentlyUsed := c\<rparr>))"

definition take_ports :: "int list \<Rightarrow> int \<Rightarrow> PortManager \<Rightarrow> PortManager" where
  "take_ports ports reuse pm =
     updateStats
       (pm\<lparr>pmg_usedPorts := set ports \<union> pmg_usedPorts pm,
           pmg_stats := (pmg_stats pm)
             \<lparr>stat_AllocationCount := stat_AllocationCount (pmg_stats pm) + int (length ports),
              stat_ReuseHits := stat_ReuseHits (pmg_stats pm) + reuse\<rparr>\<rparr>)"

definition AllocatePort ::
  "(int \<Rightarrow> bool) \<Rightarrow> go_time \<Rightarrow> string list \<Rightarrow> (int list \<Rightarrow> int list) \<Rightarrow> PortManager \<Rightarrow> int option \<times> PortManager" where
  "AllocatePort avail now ks os pm0 =
     (let (cooling, pm) = getRecentlyFreedPorts now ks pm0; ports = step2 (pmg_minPort pm) (pmg_maxPort pm)
      in case find (\<lambda>p. p \<notin> pmg_usedPorts pm \<and> p \<notin> set cooling \<and> avail p) ports of
           Some p \<Rightarrow> (Some p, take_ports [p] 0 pm)
         | None \<Rightarrow>
             (case find (\<lambda>p. p \<notin> pmg_usedPorts pm \<and> avail p) (os cooling) of
                Some p \<Rightarrow> (Some p, take_ports [p] 1 pm)
              | None \<Rightarrow>
                  (case find avail ports of
                     Some p \<Rightarrow> (Some p, take_ports [p] 0 pm)
                   | None \<Rightarrow> (None, pm))))"

definition pair_free :: "PortManager \<Rightarrow> int \<Rightarrow> bool" where
  "pair_free pm p \<longleftrightarrow> p \<notin> pmg_usedPorts pm \<and> p + 1 \<notin> pmg_usedPorts pm"

definition AllocatePortPair ::
  "(int \<Rightarrow> bool) \<Rightarrow> go_time \<Rightarrow> string list \<Rightarrow> (int list \<Rightarrow> int list) \<Rightarrow> PortManager \<Rightarrow> PortPair option \<times> PortManager" where
  "AllocatePortPair avail now ks os pm0 =
     (let (cooling, pm) = getRecentlyFreedPorts now ks pm0; ports = step2 (pmg_minPort pm) (pmg_maxPort pm - 1);
          both = (\<lambda>p. avail p \<and> avail (p + 1));
          pair = (\<lambda>p. \<lparr>RTPPort = p, RTCPPort = p + 1\<rparr>)
      in case find (\<lambda>p. even p \<and> pair_free pm p \<and> p \<notin> set cooling \<and> both p) ports of
           Some p \<Rightarrow> (Some (pair p), take_ports [p, p + 1] 0 pm)
         | None \<Rightarrow>
             (case find (\<lambda>p. even p \<and> p + 1 \<le> pmg_maxPort pm \<and> pair_free pm p \<and> both p) (os cooling) of
                Some p \<Rightarrow> (Some (pair p), take_ports [p, p + 1] 1 pm)
              | None \<Rightarrow>
                  (case find (\<lambda>p. even p \<and> both p) ports of
                     Some p \<Rightarrow> (Some (pair p), take_ports [p, p + 1] 0 pm)
                   | None \<Rightarrow> (None, pm))))"

section \<open>Release\<close>

definition port_key :: "int \<Rightarrow> string" where
  "port_key p = ''port_'' @ Itoa p"

definition free_port :: "int \<Rightarrow> PortManager \<Rightarrow> PortManager" where
  "free_port p pm =
     pm\<lparr>pmg_usedPorts := pmg_usedPorts pm - {p},
        pmg_stats := (pmg_stats pm)\<lparr>stat_DeallocationCount := stat_DeallocationCount (pmg_stats pm) + 1\<rparr>\<rparr>"

definition cache_port :: "go_time \<Rightarrow> int \<Rightarrow> PortManager \<Rightarrow> PortManager option" where
  "cache_port now p pm =
     map_option (\<lambda>c. pm\<lparr>pmg_recentlyUsed := c\<rparr>) (Set now (port_key p) p (pmg_recentlyUsed pm))"

definition ReleasePort :: "go_time \<Rightarrow> int \<Rightarrow> PortManager \<Rightarrow> PortManager option" where
  "ReleasePort now port pm =
     (if port \<in> pmg_usedPorts pm then map_option updateStats (cache_port now port (free_port port pm)) else Some pm)"

definition ReleasePortPair :: "go_time \<Rightarrow> PortPair option \<Rightarrow> PortManager \<Rightarrow> PortManager option" where
  "ReleasePortPair now pair pm =
     (case pair of
        None \<Rightarrow> Some pm
      | Some pr \<Rightarrow>
          do {
            pm1 \<leftarrow> (if RTPPort pr \<in> pmg_usedPorts pm then cache_port now (RTPPort pr) (free_port (RTPPort pr) pm) else Some pm);
            let pm2 = (if RTCPPort pr \<in> pmg_usedPorts pm1 then free_port (RTCPPort pr) pm1 else pm1);
            Some (updateStats pm2)
          })"

definition GetPortRange :: "PortManager \<Rightarrow> int \<times> int" where
  "GetPortRange pm = (pmg_minPort pm, pmg_maxPort pm)"

definition GetUsedPortCount :: "PortManager \<Rightarrow> int" where
  "GetUsedPortCount pm = int (card (pmg_usedPorts pm))"

definition GetStats :: "PortManager \<Rightarrow> PortManagerStats" where
  "GetStats pm =
     (pmg_stats pm)\<lparr>stat_UsedPorts := int (card (pmg_usedPorts pm)),
       stat_AvailablePorts := stat_TotalPorts (pmg_stats pm) - int (card (pmg_usedPorts pm))\<rparr>"

section \<open>The invariant\<close>

text \<open>The range is proper; every used and every cached port lies in it; the cache is sound; and
  every used port is accounted for by an allocation that has not been undone.\<close>

definition pm_inv :: "PortManager \<Rightarrow> bool" where
  "pm_inv pm \<longleftrightarrow>
     0 < pmg_minPort pm \<and> pmg_minPort pm < pmg_maxPort pm \<and>
     pmg_usedPorts pm \<subseteq> {pmg_minPort pm .. pmg_maxPort pm} \<and>
     lru_inv (pmg_recentlyUsed pm) \<and> lru_vals (pmg_recentlyUsed pm) \<subseteq> {pmg_minPort pm .. pmg_maxPort pm} \<and>
     int (card (pmg_usedPorts pm)) + stat_DeallocationCount (pmg_stats pm) \<le> stat_AllocationCount (pmg_stats pm)"

lemma step2_set: "set (step2 lo hi) = {p. lo \<le> p \<and> p \<le> hi \<and> even (p - lo)}"
proof (induction lo hi rule: step2.induct)
  case (1 lo hi)
  have "{p. lo \<le> p \<and> p \<le> hi \<and> even (p - lo)} = insert lo {p. lo + 2 \<le> p \<and> p \<le> hi \<and> even (p - (lo + 2))}" if "lo \<le> hi"
    using that by (auto, presburger+)
  then show ?case
    using 1 by (subst step2.simps) auto
qed

lemma find_SomeD: "find P xs = Some x \<Longrightarrow> x \<in> set xs \<and> P x"
  by (auto simp: find_Some_iff)

lemma getRecentlyFreedPorts_inv:
  assumes "pm_inv pm"
  shows "pm_inv (snd (getRecentlyFreedPorts now ks pm)) \<and>
    set (fst (getRecentlyFreedPorts now ks pm)) \<subseteq> {pmg_minPort pm .. pmg_maxPort pm} \<and>
    PortManager.more (snd (getRecentlyFreedPorts now ks pm)) = PortManager.more pm"
  using assms lru.collect_ok[of "pmg_recentlyUsed pm" now ks]
  by (auto simp: getRecentlyFreedPorts_def pm_inv_def split_beta)

lemma getRecentlyFreedPorts_frame [simp]:
  "pmg_minPort (snd (getRecentlyFreedPorts now ks pm)) = pmg_minPort pm"
  "pmg_maxPort (snd (getRecentlyFreedPorts now ks pm)) = pmg_maxPort pm"
  "pmg_usedPorts (snd (getRecentlyFreedPorts now ks pm)) = pmg_usedPorts pm"
  "pmg_stats (snd (getRecentlyFreedPorts now ks pm)) = pmg_stats pm"
  by (simp_all add: getRecentlyFreedPorts_def split_beta)

lemma take_ports_frame [simp]:
  "pmg_minPort (take_ports ps r pm) = pmg_minPort pm"
  "pmg_maxPort (take_ports ps r pm) = pmg_maxPort pm"
  "pmg_usedPorts (take_ports ps r pm) = set ps \<union> pmg_usedPorts pm"
  by (simp_all add: take_ports_def updateStats_def)

lemma pm_inv_finite: "pm_inv pm \<Longrightarrow> finite (pmg_usedPorts pm)"
  unfolding pm_inv_def by (metis finite_atLeastAtMost_int finite_subset)

lemma take_ports_inv:
  assumes "pm_inv pm" and "set ps \<subseteq> {pmg_minPort pm .. pmg_maxPort pm}"
  shows "pm_inv (take_ports ps r pm)"
proof -
  have "card (set ps \<union> pmg_usedPorts pm) \<le> length ps + card (pmg_usedPorts pm)"
    by (rule le_trans[OF card_Un_le]) (simp add: card_length)
  then show ?thesis
    using assms by (auto simp: pm_inv_def take_ports_def updateStats_def)
qed

lemma pair_free_frame [simp]: "pair_free (snd (getRecentlyFreedPorts now ks pm)) = pair_free pm"
  by (simp add: pair_free_def fun_eq_iff)

text \<open>The outcome of the three passes of a pair allocation.\<close>

lemma AllocatePortPair_cases:
  assumes "\<And>xs. set (os xs) = set xs"
  obtains (fresh) p where "AllocatePortPair avail now ks os pm =
        (Some \<lparr>RTPPort = p, RTCPPort = p + 1\<rparr>, take_ports [p, p + 1] 0 (snd (getRecentlyFreedPorts now ks pm)))"
      "even p" "even (p - pmg_minPort pm)" "pmg_minPort pm \<le> p" "p + 1 \<le> pmg_maxPort pm" "pair_free pm p"
      "p \<notin> set (fst (getRecentlyFreedPorts now ks pm))" "avail p" "avail (p + 1)"
  | (cooling) p where "AllocatePortPair avail now ks os pm =
        (Some \<lparr>RTPPort = p, RTCPPort = p + 1\<rparr>, take_ports [p, p + 1] 1 (snd (getRecentlyFreedPorts now ks pm)))"
      "even p" "p \<in> set (fst (getRecentlyFreedPorts now ks pm))" "p + 1 \<le> pmg_maxPort pm" "pair_free pm p" "avail p" "avail (p + 1)"
      "\<And>q. even q \<Longrightarrow> q \<in> set (step2 (pmg_minPort pm) (pmg_maxPort pm - 1)) \<Longrightarrow> pair_free pm q \<Longrightarrow>
         q \<notin> set (fst (getRecentlyFreedPorts now ks pm)) \<Longrightarrow> avail q \<Longrightarrow> \<not> avail (q + 1)"
  | (forced) p where "AllocatePortPair avail now ks os pm =
        (Some \<lparr>RTPPort = p, RTCPPort = p + 1\<rparr>, take_ports [p, p + 1] 0 (snd (getRecentlyFreedPorts now ks pm)))"
      "even p" "even (p - pmg_minPort pm)" "pmg_minPort pm \<le> p" "p + 1 \<le> pmg_maxPort pm" "avail p" "avail (p + 1)"
      "\<And>q. even q \<Longrightarrow> q \<in> set (step2 (pmg_minPort pm) (pmg_maxPort pm - 1)) \<Longrightarrow> pair_free pm q \<Longrightarrow> avail q \<Longrightarrow> \<not> avail (q + 1)"
  | (none) "AllocatePortPair avail now ks os pm = (None, snd (getRecentlyFreedPorts now ks pm))"
      "\<And>q. even q \<Longrightarrow> q \<in> set (step2 (pmg_minPort pm) (pmg_maxPort pm - 1)) \<Longrightarrow> avail q \<Longrightarrow> \<not> avail (q + 1)"
      "\<And>q. even q \<Longrightarrow> q \<in> set (fst (getRecentlyFreedPorts now ks pm)) \<Longrightarrow> q + 1 \<le> pmg_maxPort pm \<Longrightarrow> pair_free pm q \<Longrightarrow>
         avail q \<Longrightarrow> \<not> avail (q + 1)"
proof -
  let ?g = "getRecentlyFreedPorts now ks pm"
  let ?ports = "step2 (pmg_minPort pm) (pmg_maxPort pm - 1)"
  let ?f1 = "find (\<lambda>p. even p \<and> pair_free pm p \<and> p \<notin> set (fst ?g) \<and> avail p \<and> avail (p + 1)) ?ports"
  let ?f2 = "find (\<lambda>p. even p \<and> p + 1 \<le> pmg_maxPort pm \<and> pair_free pm p \<and> avail p \<and> avail (p + 1)) (os (fst ?g))"
  let ?f3 = "find (\<lambda>p. even p \<and> avail p \<and> avail (p + 1)) ?ports"
  note alloc = AllocatePortPair_def[of avail now ks os pm, unfolded Let_def split_beta getRecentlyFreedPorts_frame pair_free_frame]
  show ?thesis
  proof (cases ?f1)
    case (Some p)
    then have "AllocatePortPair avail now ks os pm =
        (Some \<lparr>RTPPort = p, RTCPPort = p + 1\<rparr>, take_ports [p, p + 1] 0 (snd ?g))"
      unfolding alloc by simp
    then show ?thesis
      using find_SomeD[OF Some] by (intro fresh[of p]) (auto simp: step2_set)
  next
    case f1: None
    show ?thesis
    proof (cases ?f2)
      case (Some p)
      then have "AllocatePortPair avail now ks os pm =
          (Some \<lparr>RTPPort = p, RTCPPort = p + 1\<rparr>, take_ports [p, p + 1] 1 (snd ?g))"
        unfolding alloc f1 by simp
      then show ?thesis
        using find_SomeD[OF Some] f1 assms by (intro cooling[of p]) (auto simp: find_None_iff)
    next
      case f2: None
      show ?thesis
      proof (cases ?f3)
        case (Some p)
        then have "AllocatePortPair avail now ks os pm =
            (Some \<lparr>RTPPort = p, RTCPPort = p + 1\<rparr>, take_ports [p, p + 1] 0 (snd ?g))"
          unfolding alloc f1 f2 by simp
        then show ?thesis
          using find_SomeD[OF Some] f1 f2 assms by (intro forced[of p]) (auto simp: find_None_iff step2_set)
      next
        case None
        then have "AllocatePortPair avail now ks os pm = (None, snd ?g)"
          unfolding alloc f1 f2 by simp
        then show ?thesis
          using None f2 assms by (intro none) (auto simp: find_None_iff)
      qed
    qed
  qed
qed

section \<open>Pair allocation\<close>

text \<open>C9: a pair that is handed out is an even RTP port of the range and its successor, both can be
  bound, both are recorded, and the invariant is kept. A pair already recorded is handed out
  again only if no free pair of the range can be bound.\<close>

theorem AllocatePortPair_sound:
  assumes inv: "pm_inv pm" and os: "\<And>xs. set (os xs) = set xs"
    and alloc: "AllocatePortPair avail now ks os pm = (Some pr, pm')"
  shows "even (RTPPort pr) \<and> RTCPPort pr = RTPPort pr + 1 \<and> pmg_minPort pm \<le> RTPPort pr \<and> RTCPPort pr \<le> pmg_maxPort pm \<and>
    avail (RTPPort pr) \<and> avail (RTCPPort pr) \<and>
    pmg_usedPorts pm' = {RTPPort pr, RTCPPort pr} \<union> pmg_usedPorts pm \<and> pm_inv pm' \<and>
    (pair_free pm (RTPPort pr) \<or>
     \<not> (\<exists>q \<in> set (step2 (pmg_minPort pm) (pmg_maxPort pm - 1)). even q \<and> pair_free pm q \<and> avail q \<and> avail (q + 1)))"
proof -
  let ?g = "getRecentlyFreedPorts now ks pm"
  have g: "pm_inv (snd ?g)" "set (fst ?g) \<subseteq> {pmg_minPort pm .. pmg_maxPort pm}"
    using getRecentlyFreedPorts_inv[OF inv] by auto
  have take: "pm_inv (take_ports [p, p + 1] r (snd ?g))" if "pmg_minPort pm \<le> p" "p + 1 \<le> pmg_maxPort pm" for p r
    using that by (intro take_ports_inv g) auto
  from os show ?thesis
  proof (cases rule: AllocatePortPair_cases[where avail = avail and now = now and ks = ks and pm = pm])
    case (fresh p)
    then show ?thesis using alloc take by auto
  next
    case (cooling p)
    then have "pmg_minPort pm \<le> p" using g(2) by auto
    with cooling show ?thesis using alloc take by auto
  next
    case (forced p)
    then show ?thesis using alloc take by auto
  next
    case none
    then show ?thesis using alloc by simp
  qed
qed

lemma NewPortManager_inv: "pm_inv (NewPortManager lo hi)"
  by (auto simp: pm_inv_def NewPortManager_def Let_def NewLRUCache_inv lru_vals_def pos_imp_zdiv_nonneg_iff)

theorem AllocatePortPair_sound_witness:
  "\<exists>pr pm'. AllocatePortPair (\<lambda>_. True) 0 [] id (NewPortManager 10000 10010) = (Some pr, pm') \<and> even (RTPPort pr) \<and> pm_inv pm'"
proof -
  let ?pm = "NewPortManager 10000 10010"
  have "AllocatePortPair (\<lambda>_. True) 0 [] id ?pm =
      (Some \<lparr>RTPPort = 10000, RTCPPort = 10001\<rparr>, take_ports [10000, 10001] 0 ?pm)"
    by (simp add: AllocatePortPair_def getRecentlyFreedPorts_def NewPortManager_def pair_free_def step2.simps[of 10000])
  from AllocatePortPair_sound[OF NewPortManager_inv _ this] this show ?thesis
    by simp
qed

text \<open>With an even lower bound, allocation fails exactly when no pair of the range can be bound,
  whatever is recorded as used or cooling down.\<close>

theorem AllocatePortPair_fails_iff:
  assumes "even (pmg_minPort pm)" and "pm_inv pm" and "\<And>xs. set (os xs) = set xs"
  shows "fst (AllocatePortPair avail now ks os pm) = None \<longleftrightarrow>
    \<not> (\<exists>q. even q \<and> pmg_minPort pm \<le> q \<and> q + 1 \<le> pmg_maxPort pm \<and> avail q \<and> avail (q + 1))"
  using assms(3)
proof (cases rule: AllocatePortPair_cases[where avail = avail and now = now and ks = ks and pm = pm])
  case (cooling p)
  then have "pmg_minPort pm \<le> p" using getRecentlyFreedPorts_inv[OF assms(2), of now ks] by auto
  with cooling show ?thesis by auto
next
  case none
  then show ?thesis using assms(1) by (auto simp: step2_set)
qed auto

theorem AllocatePortPair_fails_iff_witness:
  "fst (AllocatePortPair (\<lambda>p. p < 10003) 0 [] id (NewPortManager 10000 10010)) \<noteq> None \<and>
   fst (AllocatePortPair odd 0 [] id (NewPortManager 10000 10010)) = None"
proof -
  let ?pm = "NewPortManager 10000 10010"
  have pm: "even (pmg_minPort ?pm)" "pmg_minPort ?pm = 10000" "pmg_maxPort ?pm = 10010"
    by (simp_all add: NewPortManager_def)
  have "\<exists>q::int. even q \<and> 10000 \<le> q \<and> q + 1 \<le> 10010 \<and> q < 10003 \<and> q + 1 < 10003"
    by (rule exI[of _ 10000]) simp
  then show ?thesis
    using AllocatePortPair_fails_iff[OF pm(1) NewPortManager_inv, of id "\<lambda>p. p < 10003" 0 "[]"]
      AllocatePortPair_fails_iff[OF pm(1) NewPortManager_inv, of id odd 0 "[]"] pm(2,3)
    by simp
qed

text \<open>With an odd lower bound, a new manager never hands out a pair: the loops step by two from
  the lower bound and skip every odd port.\<close>

theorem AllocatePortPair_odd_range:
  assumes "odd lo" and "0 < lo" and "lo < hi"
  shows "fst (AllocatePortPair avail now [] (\<lambda>xs. xs) (NewPortManager lo hi)) = None"
proof -
  let ?pm = "NewPortManager lo hi"
  have pm: "pmg_minPort ?pm = lo" "fst (getRecentlyFreedPorts now [] ?pm) = []"
    using assms by (simp_all add: NewPortManager_def getRecentlyFreedPorts_def Let_def)
  have "\<And>xs. set ((\<lambda>xs. xs) xs) = set xs" by simp
  then show ?thesis
    using assms(1) pm
    by (cases rule: AllocatePortPair_cases[where avail = avail and now = now and ks = "[]" and pm = ?pm]) auto
qed

theorem AllocatePortPair_odd_range_witness:
  "fst (AllocatePortPair (\<lambda>_. True) 0 [] (\<lambda>xs. xs) (NewPortManager 10001 20000)) = None"
  by (rule AllocatePortPair_odd_range) simp_all

section \<open>Release and the life of a manager\<close>

lemma cache_port_inv:
  assumes "pm_inv pm" and "pmg_minPort pm \<le> p" and "p \<le> pmg_maxPort pm"
  shows "\<exists>c. cache_port now p pm = Some (pm\<lparr>pmg_recentlyUsed := c\<rparr>) \<and> pm_inv (pm\<lparr>pmg_recentlyUsed := c\<rparr>) \<and>
    Set now (port_key p) p (pmg_recentlyUsed pm) = Some c"
proof -
  have c: "lru_inv (pmg_recentlyUsed pm)" using assms(1) by (simp add: pm_inv_def)
  obtain c' where s: "Set now (port_key p) p (pmg_recentlyUsed pm) = Some c'"
    using lru.set_returns[OF c] by blast
  then show ?thesis
    using lru.set_inv[OF c s] lru.set_vals[OF c s] assms by (auto simp: cache_port_def pm_inv_def)
qed

lemma free_port_inv:
  assumes "pm_inv pm" and "p \<in> pmg_usedPorts pm"
  shows "pm_inv (free_port p pm)"
proof -
  have "card (pmg_usedPorts pm) = Suc (card (pmg_usedPorts pm - {p}))"
    using card.remove[OF pm_inv_finite[OF assms(1)] assms(2)] .
  then show ?thesis
    using assms(1) by (auto simp: pm_inv_def free_port_def)
qed

lemma updateStats_inv [simp]: "pm_inv (updateStats pm) = pm_inv pm"
  by (simp add: pm_inv_def updateStats_def)

lemma free_port_frame [simp]:
  "pmg_minPort (free_port p pm) = pmg_minPort pm" "pmg_maxPort (free_port p pm) = pmg_maxPort pm"
  "pmg_usedPorts (free_port p pm) = pmg_usedPorts pm - {p}" "pmg_recentlyUsed (free_port p pm) = pmg_recentlyUsed pm"
  by (simp_all add: free_port_def)

lemma updateStats_frame [simp]:
  "pmg_minPort (updateStats pm) = pmg_minPort pm" "pmg_maxPort (updateStats pm) = pmg_maxPort pm"
  "pmg_usedPorts (updateStats pm) = pmg_usedPorts pm" "pmg_recentlyUsed (updateStats pm) = pmg_recentlyUsed pm"
  by (simp_all add: updateStats_def)

lemma release_cached:
  assumes "pm_inv pm" and "p \<in> pmg_usedPorts pm"
  shows "\<exists>c. cache_port now p (free_port p pm) = Some ((free_port p pm)\<lparr>pmg_recentlyUsed := c\<rparr>) \<and>
    pm_inv ((free_port p pm)\<lparr>pmg_recentlyUsed := c\<rparr>) \<and> Set now (port_key p) p (pmg_recentlyUsed pm) = Some c"
proof -
  have "pmg_minPort pm \<le> p" "p \<le> pmg_maxPort pm" using assms by (auto simp: pm_inv_def)
  then show ?thesis
    using cache_port_inv[OF free_port_inv[OF assms], of p now] by simp
qed

lemma ReleasePort_inv:
  assumes "pm_inv pm"
  shows "\<exists>pm'. ReleasePort now p pm = Some pm' \<and> pm_inv pm' \<and> pmg_usedPorts pm' = pmg_usedPorts pm - {p}"
proof (cases "p \<in> pmg_usedPorts pm")
  case True
  then show ?thesis using release_cached[OF assms True, of now] by (auto simp: ReleasePort_def)
qed (use assms in \<open>simp add: ReleasePort_def\<close>)

lemma ReleasePortPair_inv:
  assumes "pm_inv pm"
  shows "\<exists>pm'. ReleasePortPair now (Some pr) pm = Some pm' \<and> pm_inv pm' \<and>
    pmg_usedPorts pm' = pmg_usedPorts pm - {RTPPort pr, RTCPPort pr}"
proof -
  let ?rtp = "if RTPPort pr \<in> pmg_usedPorts pm then cache_port now (RTPPort pr) (free_port (RTPPort pr) pm) else Some pm"
  have "\<exists>pm1. ?rtp = Some pm1 \<and> pm_inv pm1 \<and> pmg_usedPorts pm1 = pmg_usedPorts pm - {RTPPort pr}"
  proof (cases "RTPPort pr \<in> pmg_usedPorts pm")
    case True
    then show ?thesis using release_cached[OF assms True, of now] by auto
  qed (use assms in simp)
  then obtain pm1 where pm1: "?rtp = Some pm1" "pm_inv pm1" "pmg_usedPorts pm1 = pmg_usedPorts pm - {RTPPort pr}"
    by blast
  show ?thesis
  proof (cases "RTCPPort pr \<in> pmg_usedPorts pm1")
    case True
    then show ?thesis
      using pm1(2,3) free_port_inv[OF pm1(2) True]
      unfolding ReleasePortPair_def option.case pm1(1) by auto
  next
    case False
    then show ?thesis
      using pm1(2,3) unfolding ReleasePortPair_def option.case pm1(1) by auto
  qed
qed

lemma AllocatePort_inv:
  assumes "pm_inv pm" and os: "\<And>xs. set (os xs) = set xs"
  shows "pm_inv (snd (AllocatePort avail now ks os pm))"
proof -
  let ?g = "getRecentlyFreedPorts now ks pm"
  have g: "pm_inv (snd ?g)" "set (fst ?g) \<subseteq> {pmg_minPort pm .. pmg_maxPort pm}"
    using getRecentlyFreedPorts_inv[OF assms(1)] by auto
  have take: "pm_inv (take_ports [p] r (snd ?g))" if "pmg_minPort pm \<le> p" "p \<le> pmg_maxPort pm" for p r
    using that by (intro take_ports_inv g) auto
  have range: "pmg_minPort pm \<le> p \<and> p \<le> pmg_maxPort pm"
    if "find P (step2 (pmg_minPort pm) (pmg_maxPort pm)) = Some p \<or> find P (os (fst ?g)) = Some p" for P p
    using that g(2) os by (auto dest!: find_SomeD simp: step2_set)
  show ?thesis
    unfolding AllocatePort_def using g(1) take range by (auto simp: split_beta Let_def split: option.splits)
qed

text \<open>The managers that a history of calls can give. The system's answers, the time and the orders
  of the maps are arbitrary at each call.\<close>

inductive pm_reach :: "PortManager \<Rightarrow> bool" where
  reach_New: "pm_reach (NewPortManager lo hi)"
| reach_AllocatePort: "pm_reach pm \<Longrightarrow> (\<And>xs. set (os xs) = set xs) \<Longrightarrow> pm_reach (snd (AllocatePort avail now ks os pm))"
| reach_AllocatePortPair: "pm_reach pm \<Longrightarrow> (\<And>xs. set (os xs) = set xs) \<Longrightarrow> pm_reach (snd (AllocatePortPair avail now ks os pm))"
| reach_ReleasePort: "pm_reach pm \<Longrightarrow> ReleasePort now p pm = Some pm' \<Longrightarrow> pm_reach pm'"
| reach_ReleasePortPair: "pm_reach pm \<Longrightarrow> ReleasePortPair now pr pm = Some pm' \<Longrightarrow> pm_reach pm'"

lemma AllocatePortPair_inv:
  assumes "pm_inv pm" and "\<And>xs. set (os xs) = set xs"
  shows "pm_inv (snd (AllocatePortPair avail now ks os pm))"
proof -
  have g: "pm_inv (snd (getRecentlyFreedPorts now ks pm))"
      "set (fst (getRecentlyFreedPorts now ks pm)) \<subseteq> {pmg_minPort pm .. pmg_maxPort pm}"
    using getRecentlyFreedPorts_inv[OF assms(1)] by auto
  from assms(2) show ?thesis
  proof (cases rule: AllocatePortPair_cases[where avail = avail and now = now and ks = ks and pm = pm])
    case (cooling p)
    then have "pmg_minPort pm \<le> p" using g(2) by auto
    then show ?thesis unfolding cooling(1) snd_conv using cooling(4) by (intro take_ports_inv g(1)) simp
  next
    case (fresh p)
    show ?thesis unfolding fresh(1) snd_conv using fresh(4,5) by (intro take_ports_inv g(1)) simp
  next
    case (forced p)
    show ?thesis unfolding forced(1) snd_conv using forced(4,5) by (intro take_ports_inv g(1)) simp
  qed (simp add: g(1))
qed

text \<open>C10: whatever the history of calls, the used and the cooling ports lie in the range, the books
  balance, and a release returns: it removes exactly the released ports from the record.\<close>

theorem pm_reach_invariant:
  assumes "pm_reach pm"
  shows "pm_inv pm \<and>
    (\<exists>pm'. ReleasePort now p pm = Some pm' \<and> pmg_usedPorts pm' = pmg_usedPorts pm - {p}) \<and>
    (\<exists>pm'. ReleasePortPair now (Some pr) pm = Some pm' \<and> pmg_usedPorts pm' = pmg_usedPorts pm - {RTPPort pr, RTCPPort pr})"
proof -
  from assms have "pm_inv pm"
  proof induction
    case (reach_ReleasePort pm now p pm')
    then show ?case using ReleasePort_inv[of pm now p] by auto
  next
    case (reach_ReleasePortPair pm now pr pm')
    then show ?case using ReleasePortPair_inv[of pm now "the pr"] by (cases "pr = None") (auto simp: ReleasePortPair_def[of now None])
  qed (simp_all add: NewPortManager_inv AllocatePort_inv AllocatePortPair_inv)
  then show ?thesis
    using ReleasePort_inv[of pm now p] ReleasePortPair_inv[of pm now pr] by auto
qed

theorem pm_reach_invariant_witness:
  "pm_inv (snd (AllocatePort (\<lambda>_. True) 0 [] id (NewPortManager 10000 10010)))"
proof -
  have "pm_reach (snd (AllocatePort (\<lambda>_. True) 0 [] id (NewPortManager 10000 10010)))"
    by (intro reach_AllocatePort reach_New) simp
  then show ?thesis using pm_reach_invariant by blast
qed

text \<open>A released pair cools down. If the cache has room for an entry, then for five minutes
  after the release a pair allocation does not hand out the same RTP port as long as
  another free pair that is not cooling down can be bound.\<close>

theorem released_pair_cools_down:
  assumes inv: "pm_inv pm" and "RTPPort pr \<in> pmg_usedPorts pm" and room: "1 \<le> lru_maxSize (pmg_recentlyUsed pm)"
    and rel: "ReleasePortPair now (Some pr) pm = Some pm1"
    and later: "now' \<le> now + lru_defaultTTL (pmg_recentlyUsed pm)"
    and keys: "Keys (pmg_recentlyUsed pm1) ks" and os: "\<And>xs. set (os xs) = set xs"
    and q: "q \<in> set (step2 (pmg_minPort pm) (pmg_maxPort pm - 1))" "even q" "pair_free pm1 q"
      "q \<notin> set (fst (getRecentlyFreedPorts now' ks pm1))" "avail q" "avail (q + 1)"
    and alloc: "AllocatePortPair avail now' ks os pm1 = (Some pr', pm2)"
  shows "RTPPort pr' \<noteq> RTPPort pr"
proof -
  let ?p = "RTPPort pr"
  obtain c where c: "cache_port now ?p (free_port ?p pm) = Some ((free_port ?p pm)\<lparr>pmg_recentlyUsed := c\<rparr>)"
      "pm_inv ((free_port ?p pm)\<lparr>pmg_recentlyUsed := c\<rparr>)" "Set now (port_key ?p) ?p (pmg_recentlyUsed pm) = Some c"
    using release_cached[OF inv assms(2)] by blast
  have pm1: "pmg_recentlyUsed pm1 = c" "pmg_minPort pm1 = pmg_minPort pm" "pmg_maxPort pm1 = pmg_maxPort pm"
    using rel assms(2) c(1) by (auto simp: ReleasePortPair_def split: if_splits)
  have lru: "lru_inv (pmg_recentlyUsed pm)" "lru_inv c"
    using inv c(2) by (simp_all add: pm_inv_def)
  have holds: "lru_holds c (port_key ?p) ?p (now + lru_defaultTTL (pmg_recentlyUsed pm))"
    using lru.set_holds[OF lru(1) c(3)] room by (simp add: lru_room_def)
  have "port_key ?p \<in> fst ` set (lru_abs c)"
    using holds by (auto simp: lru_holds_def dest!: map_of_SomeD) (metis fst_conv image_eqI)
  then have "port_key ?p \<in> set ks"
    using keys lru(2) unfolding Keys_def pm1(1) by (simp add: lru_inv_def lru_ok_def flip: set_map)
  then have cooling: "?p \<in> set (fst (getRecentlyFreedPorts now' ks pm1))"
    using lru.collect_finds[OF lru(2) holds later] by (simp add: getRecentlyFreedPorts_def split_beta pm1(1))
  from os show ?thesis
  proof (cases rule: AllocatePortPair_cases[where avail = avail and now = now' and ks = ks and pm = pm1])
    case (fresh p)
    then show ?thesis using alloc cooling by auto
  next
    case (cooling p)
    then show ?thesis using q pm1 by auto
  next
    case (forced p)
    then show ?thesis using q pm1 by auto
  next
    case none
    then show ?thesis using alloc by simp
  qed
qed

theorem released_pair_cools_down_witness:
  "\<exists>pm1 pr'. ReleasePortPair 0 (Some \<lparr>RTPPort = 10000, RTCPPort = 10001\<rparr>) (take_ports [10000, 10001] 0 (NewPortManager 10000 10040)) = Some pm1 \<and>
     fst (AllocatePortPair (\<lambda>_. True) 1 [port_key 10000] (\<lambda>xs. xs) pm1) = Some pr' \<and> RTPPort pr' \<noteq> 10000"
proof -
  let ?pm = "take_ports [10000, 10001] 0 (NewPortManager 10000 10040)"
  let ?k = "port_key 10000"
  let ?c = "\<lparr>lru_items = [(?k, \<lparr>ci_Key = ?k, ci_Value = 10000, ci_Expiration = cooldownTTL\<rparr>)], lru_list = [?k],
     lru_maxSize = 5, lru_defaultTTL = cooldownTTL\<rparr>"
  have new: "pmg_recentlyUsed ?pm = NewLRUCache 5 cooldownTTL" "pmg_minPort ?pm = 10000" "pmg_maxPort ?pm = 10040"
      "pmg_usedPorts ?pm = {10000, 10001}"
      "pmg_minPort (NewPortManager 10000 10040) = 10000" "pmg_maxPort (NewPortManager 10000 10040) = 10040"
    by (simp_all add: take_ports_def updateStats_def NewPortManager_def)
  have inv: "pm_inv ?pm"
    by (intro take_ports_inv NewPortManager_inv) (simp add: NewPortManager_def)
  have set: "Set 0 ?k 10000 (pmg_recentlyUsed ?pm) = Some ?c"
    unfolding new(1) by (simp add: Set_def SetWithTTL_def NewLRUCache_def) (subst evictIfNeeded.simps, simp)
  obtain pm1 where rel: "ReleasePortPair 0 (Some \<lparr>RTPPort = 10000, RTCPPort = 10001\<rparr>) ?pm = Some pm1"
    using ReleasePortPair_inv[OF inv] by blast
  then have pm1: "pmg_recentlyUsed pm1 = ?c" "pmg_usedPorts pm1 = {}" "pmg_minPort pm1 = 10000" "pmg_maxPort pm1 = 10040"
    using set new by (auto simp: ReleasePortPair_def cache_port_def free_port_def insert_Diff_if)
  have cool: "fst (getRecentlyFreedPorts 1 [?k] pm1) = [10000]"
    by (simp add: getRecentlyFreedPorts_def pm1(1) Get_def cooldownTTL_def)
  have "fst (AllocatePortPair (\<lambda>_. True) 1 [?k] (\<lambda>xs. xs) pm1) \<noteq> None"
    by (simp add: AllocatePortPair_def split_beta Let_def cool pm1 pair_free_def step2.simps[of 10000] step2.simps[of 10002])
  then obtain pr' pm2 where alloc: "AllocatePortPair (\<lambda>_. True) 1 [?k] (\<lambda>xs. xs) pm1 = (Some pr', pm2)"
    by (metis not_None_eq prod.collapse)
  have "RTPPort pr' \<noteq> RTPPort \<lparr>RTPPort = 10000, RTCPPort = 10001\<rparr>"
    by (rule released_pair_cools_down[OF inv _ _ rel _ _ _ _ _ _ _ _ _ alloc, of 10002])
      (simp_all add: new NewLRUCache_def cooldownTTL_def pm1 Keys_def step2_set cool pair_free_def)
  then show ?thesis using rel alloc by simp
qed

end
