(* ===== verification/BufferedPipe.thy ===== *)
theory BufferedPipe
  imports GoLib
begin

text \<open>
  \<^verbatim>\<open>pkg/media/buffered_pipe.go\<close>: the ring buffer between the RTP handler and the transcription.
  The indices are natural numbers. The loops of reading and writing are \<open>partial_function\<close>s: not
  returning is \<open>None\<close>. A read that finds no data on an open pipe waits on the condition variable:
  it is \<open>Blocked\<close> and changes nothing; the woken reader starts again with the same test.
\<close>

datatype pipe_error = ErrClosedPipe | IoEOF | PipeError string

record BufferedPipe =
  bp_buffer :: "byte list"
  bp_size :: nat
  bp_start :: nat
  bp_end :: nat
  bp_count :: nat
  bp_closed :: bool
  bp_writeErr :: "pipe_error option"
  bp_readErr :: "pipe_error option"

definition NewBufferedPipe :: "int \<Rightarrow> BufferedPipe" where
  "NewBufferedPipe bufferSize =
     (let n = nat (if bufferSize \<le> 0 then 4096 else bufferSize)
      in \<lparr>bp_buffer = replicate n 0, bp_size = n, bp_start = 0, bp_end = 0, bp_count = 0, bp_closed = False,
          bp_writeErr = None, bp_readErr = None\<rparr>)"

text \<open>\<open>copy (buf[i:], xs)\<close>, for a source that fits.\<close>

definition splice :: "nat \<Rightarrow> 'a list \<Rightarrow> 'a list \<Rightarrow> 'a list" where
  "splice i xs buf = take i buf @ xs @ drop (i + length xs) buf"

section \<open>Reading\<close>

datatype read_result = Blocked | ReadFailed pipe_error | ReadBytes "byte list"

text \<open>The loop that fills the remaining \<open>room\<close> bytes of the caller's slice.\<close>

partial_function (option) read_loop :: "nat \<Rightarrow> BufferedPipe \<Rightarrow> (byte list \<times> BufferedPipe) option" where
  "read_loop room p =
     (if room > 0 \<and> bp_count p > 0
      then
        let available = min (min (bp_size p - bp_start p) (bp_count p)) room;
            chunk = take available (drop (bp_start p) (bp_buffer p))
        in do {
             (rest, p') \<leftarrow> read_loop (room - available)
               (p\<lparr>bp_start := (bp_start p + available) mod bp_size p, bp_count := bp_count p - available\<rparr>);
             Some (chunk @ rest, p')
           }
      else Some ([], p))"

declare read_loop.simps [code]

definition Read :: "nat \<Rightarrow> BufferedPipe \<Rightarrow> (read_result \<times> BufferedPipe) option" where
  "Read room p =
     (if bp_count p = 0 \<and> \<not> bp_closed p \<and> bp_writeErr p = None then Some (Blocked, p)
      else if bp_count p = 0 \<and> bp_writeErr p \<noteq> None then Some (ReadFailed (the (bp_writeErr p)), p)
      else if bp_count p = 0 \<and> bp_closed p then Some (ReadFailed IoEOF, p)
      else map_option (\<lambda>(bs, p'). (ReadBytes bs, p')) (read_loop room p))"

definition reader_CloseWithError :: "pipe_error option \<Rightarrow> BufferedPipe \<Rightarrow> BufferedPipe" where
  "reader_CloseWithError err p = p\<lparr>bp_readErr := Some (case err of None \<Rightarrow> ErrClosedPipe | Some e \<Rightarrow> e)\<rparr>"

section \<open>Writing\<close>

text \<open>One iteration of the loop of \<open>Write\<close> on the bytes still to write: the bytes it writes and the
  pipe after it.\<close>

definition make_room :: "nat \<Rightarrow> BufferedPipe \<Rightarrow> BufferedPipe" where
  "make_room todo p =
     (if bp_size p - bp_count p = 0
      then let dropSize = min todo (bp_size p div 2)
           in p\<lparr>bp_start := (bp_start p + dropSize) mod bp_size p, bp_count := bp_count p - dropSize\<rparr>
      else p)"

definition put :: "byte list \<Rightarrow> BufferedPipe \<Rightarrow> BufferedPipe" where
  "put xs p =
     (let endSpace = bp_size p - bp_end p;
          buf = (if length xs > endSpace
                 then splice 0 (drop endSpace xs) (splice (bp_end p) (take endSpace xs) (bp_buffer p))
                 else splice (bp_end p) xs (bp_buffer p))
      in p\<lparr>bp_buffer := buf, bp_end := (bp_end p + length xs) mod bp_size p, bp_count := bp_count p + length xs\<rparr>)"

partial_function (option) write_loop :: "byte list \<Rightarrow> BufferedPipe \<Rightarrow> BufferedPipe option" where
  "write_loop xs p =
     (if xs = [] then Some p
      else let p1 = make_room (length xs) p; toWrite = min (length xs) (bp_size p1 - bp_count p1)
           in write_loop (drop toWrite xs) (put (take toWrite xs) p1))"

declare write_loop.simps [code]

definition Write :: "byte list \<Rightarrow> BufferedPipe \<Rightarrow> ((pipe_error + nat) \<times> BufferedPipe) option" where
  "Write xs p =
     (if bp_closed p \<or> bp_readErr p \<noteq> None then Some (Inl ErrClosedPipe, p)
      else map_option (Pair (Inr (length xs))) (write_loop xs p))"

definition writer_CloseWithError :: "pipe_error option \<Rightarrow> BufferedPipe \<Rightarrow> BufferedPipe" where
  "writer_CloseWithError err p = p\<lparr>bp_closed := True, bp_writeErr := (case err of None \<Rightarrow> bp_writeErr p | Some e \<Rightarrow> Some e)\<rparr>"

definition Buffered :: "BufferedPipe \<Rightarrow> nat" where
  "Buffered p = bp_count p"

section \<open>The bytes in the pipe\<close>

definition contents :: "BufferedPipe \<Rightarrow> byte list" where
  "contents p = map (\<lambda>i. bp_buffer p ! ((bp_start p + i) mod bp_size p)) [0..<bp_count p]"

definition pipe_inv :: "BufferedPipe \<Rightarrow> bool" where
  "pipe_inv p \<longleftrightarrow>
     0 < bp_size p \<and> length (bp_buffer p) = bp_size p \<and> bp_start p < bp_size p \<and> bp_count p \<le> bp_size p \<and>
     bp_end p = (bp_start p + bp_count p) mod bp_size p"

text \<open>The last \<open>n\<close> elements.\<close>

definition last_n :: "nat \<Rightarrow> 'a list \<Rightarrow> 'a list" where
  "last_n n xs = drop (length xs - n) xs"

lemma last_n_append: "last_n n (last_n n xs @ ys) = last_n n (xs @ ys)"
  by (cases "length xs \<le> n") (auto simp: last_n_def intro: arg_cong[where f = "\<lambda>k. drop k xs"])

lemma last_n_short: "length xs \<le> n \<Longrightarrow> last_n n xs = xs"
  by (simp add: last_n_def)

lemma length_last_n: "length (last_n n xs) = min n (length xs)"
  by (simp add: last_n_def)

lemma length_splice [simp]: "i + length xs \<le> length buf \<Longrightarrow> length (splice i xs buf) = length buf"
  by (simp add: splice_def)

lemma nth_splice:
  "i + length xs \<le> length buf \<Longrightarrow> j < length buf \<Longrightarrow>
     splice i xs buf ! j = (if i \<le> j \<and> j < i + length xs then xs ! (j - i) else buf ! j)"
  by (auto simp: splice_def nth_append not_less)

lemma mod_ring_inj:
  fixes n :: nat
  assumes "a < n" "b < n" "(s + a) mod n = (s + b) mod n"
  shows "a = b"
proof -
  have "a mod n = b mod n" using assms(3) by (simp add: mod_add_left_eq nat_mod_eq_iff)
  then show ?thesis using assms(1,2) by simp
qed

lemma mod_ring: 
  fixes n :: nat
  assumes "e < n" "j < n"
  shows "(e + j) mod n = (if e + j < n then e + j else e + j - n)"
  using assms by (simp add: mod_if)

lemma put_ring:
  assumes "pipe_inv p" and "length xs \<le> bp_size p"
  shows "length (bp_buffer (put xs p)) = bp_size p"
    and "j < length xs \<Longrightarrow> bp_buffer (put xs p) ! ((bp_end p + j) mod bp_size p) = xs ! j"
    and "length xs \<le> j \<Longrightarrow> j < bp_size p \<Longrightarrow>
      bp_buffer (put xs p) ! ((bp_end p + j) mod bp_size p) = bp_buffer p ! ((bp_end p + j) mod bp_size p)"
proof -
  have e: "bp_end p < bp_size p" "length (bp_buffer p) = bp_size p" using assms(1) by (auto simp: pipe_inv_def)
  show "length (bp_buffer (put xs p)) = bp_size p"
    using e assms(2) by (simp add: put_def Let_def)
  show "bp_buffer (put xs p) ! ((bp_end p + j) mod bp_size p) = xs ! j" if "j < length xs"
    using that e assms(2) by (auto simp: put_def Let_def nth_splice mod_ring)
  show "bp_buffer (put xs p) ! ((bp_end p + j) mod bp_size p) = bp_buffer p ! ((bp_end p + j) mod bp_size p)"
    if "length xs \<le> j" "j < bp_size p"
    using that e assms(2) by (auto simp: put_def Let_def nth_splice mod_ring)
qed

lemma length_contents [simp]: "length (contents p) = bp_count p"
  by (simp add: contents_def)

lemma put_contents:
  assumes "pipe_inv p" and "bp_count p + length xs \<le> bp_size p"
  shows "pipe_inv (put xs p) \<and> contents (put xs p) = contents p @ xs \<and> bp_size (put xs p) = bp_size p"
proof -
  let ?n = "bp_size p"
  have size: "bp_size (put xs p) = ?n" "bp_start (put xs p) = bp_start p" "bp_count (put xs p) = bp_count p + length xs"
      "bp_end (put xs p) = (bp_end p + length xs) mod ?n"
    by (simp_all add: put_def Let_def)
  have fits: "length xs \<le> ?n" using assms(2) by simp
  have e: "(bp_end p + j) mod ?n = (bp_start p + (bp_count p + j)) mod ?n" for j
    using assms(1) by (simp add: pipe_inv_def mod_add_left_eq add.assoc)
  have "pipe_inv (put xs p)"
    using assms put_ring(1)[OF assms(1) fits] e[of "length xs"] unfolding pipe_inv_def size by simp
  moreover have "contents (put xs p) = contents p @ xs"
  proof (rule nth_equalityI)
    fix i assume "i < length (contents (put xs p))"
    then have i: "i < bp_count p + length xs" by (simp add: size)
    show "contents (put xs p) ! i = (contents p @ xs) ! i"
    proof (cases "i < bp_count p")
      case True
      define j where "j = ?n - bp_count p + i"
      have j: "length xs \<le> j" "j < ?n" using True assms(2) by (auto simp: j_def)
      have pos: "(bp_end p + j) mod ?n = (bp_start p + i) mod ?n"
      proof -
        have "bp_start p + (bp_count p + j) = (bp_start p + i) + ?n" using assms(2) by (simp add: j_def)
        then show ?thesis unfolding e by (simp only: mod_add_self2)
      qed
      show ?thesis
        using put_ring(3)[OF assms(1) fits j] i True unfolding pos by (simp add: contents_def size nth_append)
    next
      case False
      then have j: "i - bp_count p < length xs" using i by simp
      show ?thesis
        using put_ring(2)[OF assms(1) fits j] i False unfolding e by (simp add: contents_def size nth_append)
    qed
  qed (simp add: size)
  ultimately show ?thesis using size(1) by simp
qed

text \<open>Skipping \<open>k\<close> bytes at the front, as a reader and the overflow handling do.\<close>

lemma skip_contents:
  assumes "pipe_inv p" and "k \<le> bp_count p"
    and q: "q = p\<lparr>bp_start := (bp_start p + k) mod bp_size p, bp_count := bp_count p - k\<rparr>"
  shows "pipe_inv q \<and> contents q = drop k (contents p) \<and> bp_size q = bp_size p"
proof -
  have "contents q = drop k (contents p)"
    using assms(2) by (intro nth_equalityI) (auto simp: q contents_def mod_add_left_eq add.assoc)
  moreover have "((bp_start p + k) mod bp_size p + (bp_count p - k)) mod bp_size p = (bp_start p + bp_count p) mod bp_size p"
    unfolding mod_add_left_eq using assms(2) by simp
  then have "pipe_inv q"
    using assms(1,2) by (auto simp: q pipe_inv_def)
  ultimately show ?thesis by (simp add: q)
qed

lemma make_room_contents:
  assumes "pipe_inv p" and "2 \<le> bp_size p" and "0 < todo"
  shows "pipe_inv (make_room todo p) \<and> bp_size (make_room todo p) = bp_size p \<and> bp_count (make_room todo p) < bp_size p \<and>
    (\<exists>k. contents (make_room todo p) = drop k (contents p) \<and> bp_count p \<le> bp_size p - (if k = 0 then 1 else 0) \<and>
      k \<le> todo \<and> (k > 0 \<longrightarrow> bp_count p = bp_size p) \<and> k \<le> bp_count p)"
proof (cases "bp_size p - bp_count p = 0")
  case True
  let ?k = "min todo (bp_size p div 2)"
  have full: "bp_count p = bp_size p" using True assms(1) by (simp add: pipe_inv_def)
  have k: "?k \<le> bp_count p" "0 < ?k" using full assms(2,3) by auto
  from skip_contents[OF assms(1) k(1)] have
    "pipe_inv (make_room todo p) \<and> contents (make_room todo p) = drop ?k (contents p) \<and> bp_size (make_room todo p) = bp_size p"
    using True by (simp add: make_room_def Let_def)
  moreover have "bp_count (make_room todo p) < bp_size p"
    using True full diff_less[OF k(2), of "bp_size p"] assms(2) by (simp add: make_room_def Let_def)
  ultimately show ?thesis
    using k full by (intro conjI exI[of _ ?k]) auto
next
  case False
  then have "make_room todo p = p" "bp_count p < bp_size p" by (auto simp: make_room_def)
  then show ?thesis using assms(1) by (auto intro!: exI[of _ 0])
qed

lemma write_loop_ok:
  assumes "pipe_inv p" and "2 \<le> bp_size p"
  shows "\<exists>q. write_loop xs p = Some q \<and> pipe_inv q \<and> bp_size q = bp_size p \<and>
    contents q = last_n (bp_size p) (contents p @ xs)"
  using assms
proof (induction "length xs" arbitrary: xs p rule: less_induct)
  case less
  show ?case
  proof (cases "xs = []")
    case True
    have "write_loop xs p = Some p" by (subst write_loop.simps) (simp add: True)
    then show ?thesis using less.prems True by (simp add: last_n_short pipe_inv_def)
  next
    case False
    define p1 where "p1 = make_room (length xs) p"
    define k where "k = min (length xs) (bp_size p1 - bp_count p1)"
    obtain d where p1: "pipe_inv p1" "bp_size p1 = bp_size p" "bp_count p1 < bp_size p" "contents p1 = drop d (contents p)"
        "d \<le> length xs" "d > 0 \<longrightarrow> bp_count p = bp_size p" "d \<le> bp_count p"
      using make_room_contents[OF less.prems, of "length xs"] False unfolding p1_def by auto
    have k: "0 < k" "k \<le> length xs" "bp_count p1 + k \<le> bp_size p1"
      using False p1 by (auto simp: k_def)
    have q1: "pipe_inv (put (take k xs) p1)" "contents (put (take k xs) p1) = contents p1 @ take k xs"
        "bp_size (put (take k xs) p1) = bp_size p"
      using put_contents[OF p1(1), of "take k xs"] k p1(2) by simp_all
    have "length (drop k xs) < length xs" using k False by simp
    then obtain q where q: "write_loop (drop k xs) (put (take k xs) p1) = Some q" "pipe_inv q" "bp_size q = bp_size p"
        "contents q = last_n (bp_size p) (contents p1 @ take k xs @ drop k xs)"
      using less.hyps[of "drop k xs" "put (take k xs) p1"] q1 less.prems(2) by auto
    have "write_loop xs p = Some q"
      using q(1) False by (subst write_loop.simps) (simp add: Let_def flip: p1_def k_def)
    moreover have "last_n (bp_size p) (contents p1 @ xs) = last_n (bp_size p) (contents p @ xs)"
      using p1(4-7) by (cases "d = 0") (auto simp: last_n_def)
    ultimately show ?thesis using q by simp
  qed
qed

lemma read_loop_ok:
  assumes "pipe_inv p"
  shows "\<exists>q. read_loop room p = Some (take room (contents p), q) \<and> pipe_inv q \<and> bp_size q = bp_size p \<and>
    contents q = drop room (contents p)"
  using assms
proof (induction "bp_count p" arbitrary: room p rule: less_induct)
  case less
  show ?case
  proof (cases "room > 0 \<and> bp_count p > 0")
    case False
    have "read_loop room p = Some ([], p)" by (subst read_loop.simps) (simp only: False if_False)
    moreover have "contents p = [] \<or> room = 0" using False length_contents[of p] by (cases "contents p") auto
    ultimately show ?thesis using less.prems by auto
  next
    case True
    define k where "k = min (min (bp_size p - bp_start p) (bp_count p)) room"
    define p1 where "p1 = p\<lparr>bp_start := (bp_start p + k) mod bp_size p, bp_count := bp_count p - k\<rparr>"
    have k: "0 < k" "k \<le> bp_count p" "k \<le> room" "bp_start p + k \<le> bp_size p"
      using True less.prems by (auto simp: k_def pipe_inv_def)
    have p1: "pipe_inv p1" "contents p1 = drop k (contents p)" "bp_size p1 = bp_size p"
      using skip_contents[OF less.prems k(2) p1_def] by simp_all
    have "bp_count p1 < bp_count p" using k True by (simp add: p1_def)
    from less.hyps[OF this p1(1), of "room - k"] obtain q where
      q: "read_loop (room - k) p1 = Some (take (room - k) (contents p1), q)" "pipe_inv q" "bp_size q = bp_size p"
        "contents q = drop (room - k) (contents p1)"
      using p1(3) by auto
    have chunk: "take k (drop (bp_start p) (bp_buffer p)) = take k (contents p)"
      using k less.prems by (intro nth_equalityI) (auto simp: pipe_inv_def contents_def)
    have "read_loop room p = Some (take k (contents p) @ take (room - k) (contents p1), q)"
      using True q(1) by (subst read_loop.simps) (simp add: Let_def chunk flip: k_def p1_def)
    moreover have "take k (contents p) @ take (room - k) (contents p1) = take room (contents p)"
      using k(3) take_add[of k "room - k" "contents p"] by (simp add: p1(2))
    moreover have "drop (room - k) (contents p1) = drop room (contents p)"
      using k(3) by (simp add: p1(2))
    ultimately show ?thesis using q by simp
  qed
qed

text \<open>C11: the ring buffer is a queue of bytes that forgets the oldest ones. On a sound pipe of at
  least two bytes, writing returns, accepts every byte and leaves the last \<open>size\<close> bytes of what
  was there followed by what was written; reading returns the oldest bytes, in order, as many as
  fit, and removes exactly them; it waits exactly when the pipe is empty and open.\<close>

theorem pipe_refines_queue:
  assumes "pipe_inv p" and "2 \<le> bp_size p"
  shows "(bp_closed p \<or> bp_readErr p \<noteq> None \<longrightarrow> Write xs p = Some (Inl ErrClosedPipe, p)) \<and>
    (\<not> bp_closed p \<and> bp_readErr p = None \<longrightarrow>
       (\<exists>q. Write xs p = Some (Inr (length xs), q) \<and> pipe_inv q \<and> contents q = last_n (bp_size p) (contents p @ xs))) \<and>
    (contents p \<noteq> [] \<longrightarrow>
       (\<exists>q. Read room p = Some (ReadBytes (take room (contents p)), q) \<and> pipe_inv q \<and> contents q = drop room (contents p))) \<and>
    ((\<exists>q. Read room p = Some (Blocked, q)) \<longleftrightarrow> contents p = [] \<and> \<not> bp_closed p \<and> bp_writeErr p = None)"
proof -
  obtain q r where q: "write_loop xs p = Some q" "pipe_inv q" "contents q = last_n (bp_size p) (contents p @ xs)"
    and r: "read_loop room p = Some (take room (contents p), r)" "pipe_inv r" "contents r = drop room (contents p)"
    using write_loop_ok[OF assms] read_loop_ok[OF assms(1)] by blast
  have empty: "contents p = [] \<longleftrightarrow> bp_count p = 0"
    using length_contents[of p] by (metis length_0_conv)
  show ?thesis
    using q r by (auto simp: Write_def Read_def empty)
qed

lemma NewBufferedPipe_inv: "pipe_inv (NewBufferedPipe n) \<and> contents (NewBufferedPipe n) = []"
  by (simp add: NewBufferedPipe_def Let_def pipe_inv_def contents_def)

theorem pipe_refines_queue_witness:
  "\<exists>q. Write [1, 2, 3, 4, 5] (NewBufferedPipe 3) = Some (Inr 5, q) \<and> contents q = [3, 4, 5]"
proof -
  let ?p = "NewBufferedPipe 3"
  have p: "pipe_inv ?p" "contents ?p = []" "2 \<le> bp_size ?p" "bp_size ?p = 3" "\<not> bp_closed ?p" "bp_readErr ?p = None"
    using NewBufferedPipe_inv[of 3] by (auto simp: NewBufferedPipe_def)
  obtain q where "Write [1, 2, 3, 4, 5] ?p = Some (Inr 5, q)" "contents q = last_n (bp_size ?p) (contents ?p @ [1, 2, 3, 4, 5])"
    using pipe_refines_queue[OF p(1,3), of "[1, 2, 3, 4, 5]" 0] p(5,6) by auto
  then show ?thesis using p by (simp add: last_n_def)
qed

lemma write_loop_stuck:
  assumes "write_loop xs p = Some q"
  shows "bp_size p = 1 \<and> bp_count p = 1 \<and> xs \<noteq> [] \<longrightarrow> False"
proof (rule write_loop.raw_induct[OF _ assms])
  fix f :: "byte list \<Rightarrow> BufferedPipe \<Rightarrow> BufferedPipe option" and xs p q
  assume IH: "\<And>xs p q. f xs p = Some q \<Longrightarrow> bp_size p = 1 \<and> bp_count p = 1 \<and> xs \<noteq> [] \<longrightarrow> False"
    and step: "(if xs = [] then Some p
      else let p1 = make_room (length xs) p; toWrite = min (length xs) (bp_size p1 - bp_count p1)
           in f (drop toWrite xs) (put (take toWrite xs) p1)) = Some q"
  show "bp_size p = 1 \<and> bp_count p = 1 \<and> xs \<noteq> [] \<longrightarrow> False"
  proof
    assume a: "bp_size p = 1 \<and> bp_count p = 1 \<and> xs \<noteq> []"
    then have room: "bp_size (make_room (length xs) p) = 1" "bp_count (make_room (length xs) p) = 1"
      by (simp_all add: make_room_def Let_def)
    then have "f xs (put [] (make_room (length xs) p)) = Some q" using step a by (simp add: Let_def)
    from IH[OF this] show False using a room by (simp add: put_def Let_def)
  qed
qed

text \<open>C12: A pipe of one byte: once the byte is there, writing anything never returns, since half
  of the size is no byte and nothing is dropped.\<close>

theorem pipe_size_one_stuck:
  assumes "bp_size p = 1" and "bp_count p = 1" and "xs \<noteq> []" and "\<not> bp_closed p" and "bp_readErr p = None"
  shows "Write xs p = None"
proof (rule ccontr)
  assume "Write xs p \<noteq> None"
  then obtain q where "write_loop xs p = Some q"
    using assms(4,5) by (auto simp: Write_def)
  from write_loop_stuck[OF this] show False using assms by simp
qed

theorem pipe_size_one_stuck_witness: "Write [2] (put [1] (NewBufferedPipe 1)) = None"
  by (rule pipe_size_one_stuck) (simp_all add: put_def NewBufferedPipe_def Let_def)

end
