(* ===== verification/PauseWriter.thy ===== *)
theory PauseWriter
  imports BufferedPipe
begin

text \<open>
  \<^verbatim>\<open>pkg/media/pause_writer.go\<close>. The writer wraps any \<^verbatim>\<open>io.Writer\<close>: its writing function is an
  argument, and the callbacks are the events they stand for. The reader blocks on two unbuffered
  channels; its calls interleave with those of the controlling goroutine, so it is a step relation
  over the states of both.
\<close>

section \<open>The pausable writer\<close>

record 'w PausableWriter =
  pw_writer :: 'w
  pw_paused :: bool
  pw_events :: "bool list"

definition NewPausableWriter :: "'w \<Rightarrow> 'w PausableWriter" where
  "NewPausableWriter w = \<lparr>pw_writer = w, pw_paused = False, pw_events = []\<rparr>"

definition pw_Write ::
  "('b list \<Rightarrow> 'w \<Rightarrow> (('e + nat) \<times> 'w) option) \<Rightarrow> 'b list \<Rightarrow> 'w PausableWriter \<Rightarrow> (('e + nat) \<times> 'w PausableWriter) option" where
  "pw_Write sink p pw =
     (if pw_paused pw then Some (Inr (length p), pw)
      else map_option (\<lambda>(r, w). (r, pw\<lparr>pw_writer := w\<rparr>)) (sink p (pw_writer pw)))"

text \<open>An event True is a call of \<open>onPause\<close>, False one of \<open>onResume\<close>.\<close>

definition pw_Pause :: "'w PausableWriter \<Rightarrow> 'w PausableWriter" where
  "pw_Pause pw = (if \<not> pw_paused pw then pw\<lparr>pw_paused := True, pw_events := pw_events pw @ [True]\<rparr> else pw)"

definition pw_Resume :: "'w PausableWriter \<Rightarrow> 'w PausableWriter" where
  "pw_Resume pw = (if pw_paused pw then pw\<lparr>pw_paused := False, pw_events := pw_events pw @ [False]\<rparr> else pw)"

datatype 'b pw_call = CallWrite "'b list" | CallPause | CallResume

fun pw_run ::
  "('b list \<Rightarrow> 'w \<Rightarrow> (('e + nat) \<times> 'w) option) \<Rightarrow> 'b pw_call list \<Rightarrow> 'w PausableWriter \<Rightarrow> (('e + nat) list \<times> 'w PausableWriter) option" where
  "pw_run sink [] pw = Some ([], pw)"
| "pw_run sink (CallWrite p # cs) pw =
     do { (r, pw') \<leftarrow> pw_Write sink p pw; (rs, pw'') \<leftarrow> pw_run sink cs pw'; Some (r # rs, pw'') }"
| "pw_run sink (CallPause # cs) pw = pw_run sink cs (pw_Pause pw)"
| "pw_run sink (CallResume # cs) pw = pw_run sink cs (pw_Resume pw)"

text \<open>What should reach the writer: the bytes written while recording.\<close>

fun recorded :: "bool \<Rightarrow> 'b pw_call list \<Rightarrow> 'b list" where
  "recorded paused [] = []"
| "recorded paused (CallWrite p # cs) = (if paused then [] else p) @ recorded paused cs"
| "recorded paused (CallPause # cs) = recorded True cs"
| "recorded paused (CallResume # cs) = recorded False cs"

fun offered :: "'b pw_call list \<Rightarrow> nat list" where
  "offered [] = []"
| "offered (CallWrite p # cs) = length p # offered cs"
| "offered (CallPause # cs) = offered cs"
| "offered (CallResume # cs) = offered cs"

text \<open>What the pausable writer relies on: a sink that accepts every write and then holds the last
  bytes, up to its capacity, of all it was given.\<close>

locale byte_sink =
  fixes inv :: "'w \<Rightarrow> bool" and held :: "'w \<Rightarrow> 'b list" and cap :: "'w \<Rightarrow> nat"
    and sink :: "'b list \<Rightarrow> 'w \<Rightarrow> (('e + nat) \<times> 'w) option"
  assumes sink_accepts: "inv w \<Longrightarrow> \<exists>w'. sink p w = Some (Inr (length p), w') \<and> inv w' \<and> cap w' = cap w \<and>
    held w' = last_n (cap w) (held w @ p)"
    and held_bound: "inv w \<Longrightarrow> length (held w) \<le> cap w"
begin

lemma run_records:
  "inv (pw_writer pw) \<Longrightarrow>
     \<exists>pw'. pw_run sink cs pw = Some (map Inr (offered cs), pw') \<and> inv (pw_writer pw') \<and>
       held (pw_writer pw') = last_n (cap (pw_writer pw)) (held (pw_writer pw) @ recorded (pw_paused pw) cs)"
proof (induction cs arbitrary: pw)
  case Nil
  then show ?case by (simp add: last_n_short held_bound)
next
  case (Cons c cs)
  show ?case
  proof (cases c)
    case (CallWrite p)
    show ?thesis
    proof (cases "pw_paused pw")
      case True
      then show ?thesis using Cons.IH[OF Cons.prems] by (auto simp: CallWrite pw_Write_def)
    next
      case False
      obtain w where w: "sink p (pw_writer pw) = Some (Inr (length p), w)" "inv w" "cap w = cap (pw_writer pw)"
          "held w = last_n (cap (pw_writer pw)) (held (pw_writer pw) @ p)"
        using sink_accepts[OF Cons.prems] by blast
      obtain pw' where "pw_run sink cs (pw\<lparr>pw_writer := w\<rparr>) = Some (map Inr (offered cs), pw')" "inv (pw_writer pw')"
          "held (pw_writer pw') = last_n (cap w) (held w @ recorded (pw_paused pw) cs)"
        using Cons.IH[of "pw\<lparr>pw_writer := w\<rparr>"] w(2) by auto
      then show ?thesis using w False by (auto simp: CallWrite pw_Write_def last_n_append)
    qed
  next
    case CallPause
    then show ?thesis using Cons.IH[of "pw_Pause pw"] Cons.prems by (auto simp: pw_Pause_def split: if_splits)
  next
    case CallResume
    then show ?thesis using Cons.IH[of "pw_Resume pw"] Cons.prems by (auto simp: pw_Resume_def split: if_splits)
  qed
qed

end

definition sink_inv :: "BufferedPipe \<Rightarrow> bool" where
  "sink_inv p \<longleftrightarrow> pipe_inv p \<and> 2 \<le> bp_size p \<and> \<not> bp_closed p \<and> bp_readErr p = None"

lemma put_frame: "bp_closed (put xs p) = bp_closed p" "bp_readErr (put xs p) = bp_readErr p"
  by (simp_all add: put_def Let_def)

lemma make_room_frame: "bp_closed (make_room n p) = bp_closed p" "bp_readErr (make_room n p) = bp_readErr p"
  by (simp_all add: make_room_def Let_def)

lemma write_loop_frame:
  assumes "write_loop xs p = Some q"
  shows "bp_closed q = bp_closed p \<and> bp_readErr q = bp_readErr p"
proof (rule write_loop.raw_induct[OF _ assms])
  fix f :: "byte list \<Rightarrow> BufferedPipe \<Rightarrow> BufferedPipe option" and xs p q
  assume IH: "\<And>xs p q. f xs p = Some q \<Longrightarrow> bp_closed q = bp_closed p \<and> bp_readErr q = bp_readErr p"
    and step: "(if xs = [] then Some p
      else let p1 = make_room (length xs) p; toWrite = min (length xs) (bp_size p1 - bp_count p1)
           in f (drop toWrite xs) (put (take toWrite xs) p1)) = Some q"
  show "bp_closed q = bp_closed p \<and> bp_readErr q = bp_readErr p"
  proof (cases "xs = []")
    case False
    let ?p = "make_room (length xs) p"
    let ?k = "min (length xs) (bp_size ?p - bp_count ?p)"
    have "f (drop ?k xs) (put (take ?k xs) ?p) = Some q" using step False by (simp add: Let_def)
    from IH[OF this] show ?thesis by (simp only: put_frame make_room_frame)
  qed (use step in simp)
qed

interpretation pipe_sink: byte_sink sink_inv contents bp_size Write
proof
  fix w p assume w: "sink_inv w"
  then obtain q where "write_loop p w = Some q" "pipe_inv q" "bp_size q = bp_size w" "contents q = last_n (bp_size w) (contents w @ p)"
    using write_loop_ok unfolding sink_inv_def by blast
  then show "\<exists>w'. Write p w = Some (Inr (length p), w') \<and> sink_inv w' \<and> bp_size w' = bp_size w \<and>
      contents w' = last_n (bp_size w) (contents w @ p)"
    using w write_loop_frame[of p w q] by (auto simp: Write_def sink_inv_def)
  show "length (contents w) \<le> bp_size w"
    using w by (simp add: sink_inv_def pipe_inv_def)
qed



section \<open>The pausable reader\<close>

text \<open>The reading goroutine: before the test of the flag, after it found the flag set, in the select
  statement, reading. The controller sends only if the reader is in the select statement, because the
  channels are unbuffered and the sends are non-blocking.\<close>

datatype reader_pc = AtCheck | BeforeSelect | InSelect | Reading

record PausableReader =
  pr_paused :: bool
  pr_pc :: reader_pc

definition pr_Pause :: "PausableReader \<Rightarrow> PausableReader" where
  "pr_Pause s =
     (if \<not> pr_paused s then s\<lparr>pr_paused := True, pr_pc := (if pr_pc s = InSelect then AtCheck else pr_pc s)\<rparr> else s)"

definition pr_Resume :: "PausableReader \<Rightarrow> PausableReader" where
  "pr_Resume s =
     (if pr_paused s then s\<lparr>pr_paused := False, pr_pc := (if pr_pc s = InSelect then AtCheck else pr_pc s)\<rparr> else s)"

text \<open>A step of the reader; in the select statement it has none of its own.\<close>

fun reader_step :: "PausableReader \<Rightarrow> PausableReader option" where
  "reader_step s =
     (case pr_pc s of
        AtCheck \<Rightarrow> Some (s\<lparr>pr_pc := (if pr_paused s then BeforeSelect else Reading)\<rparr>)
      | BeforeSelect \<Rightarrow> Some (s\<lparr>pr_pc := InSelect\<rparr>)
      | InSelect \<Rightarrow> None
      | Reading \<Rightarrow> Some (s\<lparr>pr_pc := AtCheck\<rparr>))"

inductive pr_step :: "PausableReader \<Rightarrow> PausableReader \<Rightarrow> bool" where
  step_reader: "reader_step s = Some s' \<Longrightarrow> pr_step s s'"
| step_pause: "pr_step s (pr_Pause s)"
| step_resume: "pr_step s (pr_Resume s)"

definition NewPausableReader :: PausableReader where
  "NewPausableReader = \<lparr>pr_paused = False, pr_pc = AtCheck\<rparr>"

inductive pr_reach :: "PausableReader \<Rightarrow> bool" where
  init: "pr_reach NewPausableReader"
| step: "pr_reach s \<Longrightarrow> pr_step s s' \<Longrightarrow> pr_reach s'"

text \<open>A wake-up can be lost. There is a schedule after which the reader waits although it is not
  paused: the controller resumes between the reader's test and its select statement, the signal
  is dropped, and from then on neither the reader itself nor a further resume can wake it.\<close>

theorem PausableReader_lost_wakeup:
  "\<exists>s. pr_reach s \<and> \<not> pr_paused s \<and> pr_pc s = InSelect \<and> reader_step s = None \<and> pr_Resume s = s"
proof -
  have "pr_reach (pr_Pause NewPausableReader)"
    by (intro step[OF init] step_pause)
  then have "pr_reach \<lparr>pr_paused = True, pr_pc = BeforeSelect\<rparr>"
    by (rule step, intro step_reader) (simp add: pr_Pause_def NewPausableReader_def)
  then have "pr_reach (pr_Resume \<lparr>pr_paused = True, pr_pc = BeforeSelect\<rparr>)"
    by (rule step, intro step_resume)
  then have "pr_reach \<lparr>pr_paused = False, pr_pc = InSelect\<rparr>"
    by (rule step, intro step_reader) (simp add: pr_Resume_def)
  then show ?thesis
    by (intro exI[of _ "\<lparr>pr_paused = False, pr_pc = InSelect\<rparr>"]) (simp add: pr_Resume_def)
qed

end
