(* ===== verification/GoHeap.thy ===== *)
theory GoHeap
  imports GoLib "HOL-Library.Multiset"
begin

text \<open>
  The binary heap of \<^verbatim>\<open>container/heap\<close> over a slice, as the Go library implements it, and its
  laws for an order that is only a weak order on some set of elements.
\<close>

definition swap :: "nat \<Rightarrow> nat \<Rightarrow> 'a list \<Rightarrow> 'a list" where
  "swap i j xs = xs[i := xs ! j, j := xs ! i]"

fun up :: "('a \<Rightarrow> 'a \<Rightarrow> bool) \<Rightarrow> 'a list \<Rightarrow> nat \<Rightarrow> 'a list" where
  "up lt xs j =
     (if j = 0 then xs
      else let i = (j - 1) div 2 in if lt (xs ! j) (xs ! i) then up lt (swap i j xs) i else xs)"

declare up.simps [simp del]

definition smaller_child :: "('a \<Rightarrow> 'a \<Rightarrow> bool) \<Rightarrow> 'a list \<Rightarrow> nat \<Rightarrow> nat \<Rightarrow> nat" where
  "smaller_child lt xs i n =
     (if 2 * i + 2 < n \<and> lt (xs ! (2 * i + 2)) (xs ! (2 * i + 1)) then 2 * i + 2 else 2 * i + 1)"

function down :: "('a \<Rightarrow> 'a \<Rightarrow> bool) \<Rightarrow> 'a list \<Rightarrow> nat \<Rightarrow> nat \<Rightarrow> 'a list" where
  "down lt xs i n =
     (if 2 * i + 1 \<ge> n then xs
      else let j = smaller_child lt xs i n in if lt (xs ! j) (xs ! i) then down lt (swap i j xs) j n else xs)"
  by pat_completeness auto
termination
  by (relation "measure (\<lambda>(lt, xs, i, n). n - i)") (auto simp: smaller_child_def)

declare down.simps [simp del]

definition heap_Push :: "('a \<Rightarrow> 'a \<Rightarrow> bool) \<Rightarrow> 'a \<Rightarrow> 'a list \<Rightarrow> 'a list" where
  "heap_Push lt x h = up lt (h @ [x]) (length h)"

definition heap_Pop :: "('a \<Rightarrow> 'a \<Rightarrow> bool) \<Rightarrow> 'a list \<Rightarrow> 'a \<times> 'a list" where
  "heap_Pop lt h =
     (let n = length h - 1; h' = down lt (swap 0 n h) 0 n in (h' ! n, take n h'))"

section \<open>Indices and permutations\<close>

definition par :: "nat \<Rightarrow> nat" where
  "par k = (k - 1) div 2"

lemma up_step:
  "up lt xs j = (if j = 0 \<or> \<not> lt (xs ! j) (xs ! par j) then xs else up lt (swap (par j) j xs) (par j))"
  by (subst up.simps) (simp add: par_def Let_def)

lemma par_child: "0 < k \<Longrightarrow> par k = i \<longleftrightarrow> k = 2 * i + 1 \<or> k = 2 * i + 2"
  unfolding par_def by presburger

lemma par_less: "0 < k \<Longrightarrow> par k < k"
  unfolding par_def by presburger

lemma length_swap [simp]: "length (swap i j xs) = length xs"
  by (simp add: swap_def)

lemma nth_swap:
  "i < length xs \<Longrightarrow> j < length xs \<Longrightarrow> k < length xs \<Longrightarrow>
     swap i j xs ! k = (if k = i then xs ! j else if k = j then xs ! i else xs ! k)"
  by (auto simp: swap_def nth_list_update)

lemma mset_swap [simp]: "i < length xs \<Longrightarrow> j < length xs \<Longrightarrow> mset (swap i j xs) = mset xs"
  unfolding swap_def by (rule mset_swap)

lemma set_swap: "i < length xs \<Longrightarrow> j < length xs \<Longrightarrow> set (swap i j xs) = set xs"
  using mset_swap mset_eq_setD by blast

lemma length_up [simp]: "length (up lt xs j) = length xs"
  by (induction lt xs j rule: up.induct) (subst up.simps, simp add: Let_def)

lemma mset_up [simp]: "j < length xs \<Longrightarrow> mset (up lt xs j) = mset xs"
proof (induction lt xs j rule: up.induct)
  case (1 lt xs j)
  then show ?case
    by (subst up.simps) (auto simp: Let_def)
qed

lemma smaller_child_less: "2 * i + 1 < n \<Longrightarrow> smaller_child lt xs i n < n \<and> i < smaller_child lt xs i n"
  by (auto simp: smaller_child_def)

lemma down_permutes:
  "i < n \<or> n = 0 \<Longrightarrow> n \<le> length xs \<Longrightarrow>
     length (down lt xs i n) = length xs \<and> mset (down lt xs i n) = mset xs \<and> drop n (down lt xs i n) = drop n xs"
proof (induction lt xs i n rule: down.induct)
  case (1 lt xs i n)
  show ?case
  proof (cases "2 * i + 1 \<ge> n")
    case True
    then show ?thesis by (subst (1 2 3) down.simps) simp
  next
    case False
    let ?j = "smaller_child lt xs i n"
    have j: "?j < n" "i < ?j" "?j < length xs" "i < length xs"
      using False smaller_child_less[of i n lt xs] 1(3) by auto
    have drop: "drop n (swap i ?j xs) = drop n xs"
      using j by (simp add: swap_def)
    show ?thesis
    proof (cases "lt (xs ! ?j) (xs ! i)")
      case True
      then have "down lt xs i n = down lt (swap i ?j xs) ?j n"
        using False by (subst down.simps) (simp add: Let_def)
      then show ?thesis
        using 1(1)[OF False refl True] j 1(3) drop by simp
    next
      case nless: False
      then have "down lt xs i n = xs"
        using False by (subst down.simps) (simp add: Let_def)
      then show ?thesis by simp
    qed
  qed
qed

section \<open>Heaps over a weak order\<close>

definition heap_on :: "('a \<Rightarrow> 'a \<Rightarrow> bool) \<Rightarrow> nat \<Rightarrow> 'a list \<Rightarrow> bool" where
  "heap_on lt n xs \<longleftrightarrow> list_all (\<lambda>k. \<not> lt (xs ! k) (xs ! par k)) [1..<n]"

lemma heap_on_iff: "heap_on lt n xs \<longleftrightarrow> (\<forall>k. 0 < k \<and> k < n \<longrightarrow> \<not> lt (xs ! k) (xs ! par k))"
  by (auto simp: heap_on_def list_all_iff)

lemma heap_on_take: "heap_on lt n xs \<Longrightarrow> heap_on lt n (take n xs)"
  unfolding heap_on_iff using par_less by (metis nth_take order.strict_trans)

locale heap_order =
  fixes lt :: "'a \<Rightarrow> 'a \<Rightarrow> bool" and S :: "'a set"
  assumes less_asym: "a \<in> S \<Longrightarrow> b \<in> S \<Longrightarrow> lt a b \<Longrightarrow> \<not> lt b a"
    and not_less_trans: "a \<in> S \<Longrightarrow> b \<in> S \<Longrightarrow> c \<in> S \<Longrightarrow> \<not> lt b a \<Longrightarrow> \<not> lt c b \<Longrightarrow> \<not> lt c a"
begin

lemma heap_root_min:
  assumes "heap_on lt n xs" and "n \<le> length xs" and "set xs \<subseteq> S"
  shows "k < n \<Longrightarrow> \<not> lt (xs ! k) (xs ! 0)"
proof (induction k rule: less_induct)
  case (less k)
  have el: "j < n \<Longrightarrow> xs ! j \<in> S" for j using assms(2,3) by (meson nth_mem order_less_le_trans subsetD)
  show ?case
  proof (cases "k = 0")
    case True
    then show ?thesis using less_asym el less.prems by blast
  next
    case False
    then have "par k < k" "par k < n" using less.prems par_less[of k] by simp_all
    then show ?thesis
      using not_less_trans[OF el el el] less.IH[of "par k"] assms(1) False less.prems
      unfolding heap_on_iff by blast
  qed
qed

lemma up_heap:
  assumes "j < length xs" and "set xs \<subseteq> S"
    and "\<And>k. 0 < k \<Longrightarrow> k < length xs \<Longrightarrow> k \<noteq> j \<Longrightarrow> \<not> lt (xs ! k) (xs ! par k)"
    and "\<And>k. 0 < j \<Longrightarrow> 0 < k \<Longrightarrow> k < length xs \<Longrightarrow> par k = j \<Longrightarrow> \<not> lt (xs ! k) (xs ! par j)"
  shows "heap_on lt (length xs) (up lt xs j)"
  using assms
proof (induction j arbitrary: xs rule: less_induct)
  case (less j)
  note below = less.prems(3) and skip = less.prems(4)
  have el: "k < length xs \<Longrightarrow> xs ! k \<in> S" for k using less.prems(2) by auto
  show ?case
  proof (cases "j = 0 \<or> \<not> lt (xs ! j) (xs ! par j)")
    case True
    have "up lt xs j = xs" using True by (simp add: up_step)
    moreover have "heap_on lt (length xs) xs"
      unfolding heap_on_iff using True below by blast
    ultimately show ?thesis by simp
  next
    case False
    let ?i = "par j" and ?ys = "swap (par j) j xs"
    have j: "0 < j" "lt (xs ! j) (xs ! ?i)" using False by simp_all
    then have j: "0 < j" "lt (xs ! j) (xs ! ?i)" "?i < j" "?i < length xs" using par_less[of j] less.prems(1) by simp_all
    have ys: "k < length xs \<Longrightarrow> ?ys ! k = (if k = ?i then xs ! j else if k = j then xs ! ?i else xs ! k)" for k
      using nth_swap[of ?i xs j k] j(4) less.prems(1) by simp
    have ji: "\<not> lt (xs ! ?i) (xs ! j)" using less_asym[OF el el j(2)] j(4) less.prems(1) by simp
    have "heap_on lt (length ?ys) (up lt ?ys ?i)"
    proof (rule less.IH[OF j(3)])
      show "?i < length ?ys" using j by simp
      show "set ?ys \<subseteq> S" using less.prems(2) set_swap[OF j(4) less.prems(1)] by simp
    next
      fix k assume k: "0 < k" "k < length ?ys" "k \<noteq> ?i"
      have pk: "par k < length xs" "par k < k" using k par_less[of k] by simp_all
      consider "k = j" | "k \<noteq> j" "par k = j" | "k \<noteq> j" "par k = ?i" | "k \<noteq> j" "par k \<noteq> j" "par k \<noteq> ?i" by blast
      then show "\<not> lt (?ys ! k) (?ys ! par k)"
      proof cases
        case 1
        then show ?thesis using ys[of k] ys[of ?i] k j ji by simp
      next
        case 2
        then show ?thesis using ys[of k] ys[of "par k"] k pk j skip[of k] by simp
      next
        case 3
        have "\<not> lt (xs ! k) (xs ! ?i)" using below[of k] 3 k by simp
        then have "\<not> lt (xs ! k) (xs ! j)" using not_less_trans[OF el el el, of j ?i k] ji j k less.prems(1) by simp
        then show ?thesis using ys[of k] ys[of "par k"] k pk 3 by simp
      next
        case 4
        then show ?thesis using ys[of k] ys[of "par k"] k pk below[of k] by simp
      qed
    next
      fix k assume k: "0 < ?i" "0 < k" "k < length ?ys" "par k = ?i"
      have pi: "par ?i < ?i" "par ?i < length xs" using par_less[OF k(1)] j(4) by linarith+
      have up_i: "\<not> lt (xs ! ?i) (xs ! par ?i)" using below[of ?i] k(1) j by simp
      have ki: "k \<noteq> ?i" using par_less[OF k(2)] k(4) by simp
      have "\<not> lt (xs ! k) (xs ! par ?i)" if "k \<noteq> j"
        using not_less_trans[OF el el el up_i, of k] below[of k] that k pi(2) j(4) by simp
      then show "\<not> lt (?ys ! k) (?ys ! par ?i)"
        using ys[of k] ys[of "par ?i"] k(3) pi j ki up_i by (cases "k = j") simp_all
    qed
    moreover have "up lt xs j = up lt ?ys ?i" using False by (simp add: up_step[of lt xs j])
    ultimately show ?thesis by simp
  qed
qed

lemma down_heap:
  assumes "i < n \<or> n = 0" and "n \<le> length xs" and "set xs \<subseteq> S"
    and "\<And>k. 0 < k \<Longrightarrow> k < n \<Longrightarrow> par k \<noteq> i \<Longrightarrow> \<not> lt (xs ! k) (xs ! par k)"
    and "\<And>k. 0 < i \<Longrightarrow> 0 < k \<Longrightarrow> k < n \<Longrightarrow> par k = i \<Longrightarrow> \<not> lt (xs ! k) (xs ! par i)"
  shows "heap_on lt n (down lt xs i n)"
  using assms
proof (induction "n - i" arbitrary: xs i rule: less_induct)
  case less
  note above = less.prems(4) and skip = less.prems(5)
  have el: "k < n \<Longrightarrow> xs ! k \<in> S" for k using less.prems(2,3) by (meson nth_mem order_less_le_trans subsetD)
  let ?j = "smaller_child lt xs i n"
  show ?case
  proof (cases "2 * i + 1 \<ge> n")
    case True
    then have "down lt xs i n = xs" by (subst down.simps) simp
    moreover have "heap_on lt n xs"
      unfolding heap_on_iff
    proof (intro allI impI)
      fix k assume k: "0 < k \<and> k < n"
      have "par k \<noteq> i" using k True par_child[of k i] by auto
      then show "\<not> lt (xs ! k) (xs ! par k)" using above k by blast
    qed
    ultimately show ?thesis by simp
  next
    case False
    have j: "?j < n" "i < ?j" "0 < ?j" "par ?j = i"
      using False par_child[of ?j i] by (auto simp: smaller_child_def)
    have min: "\<not> lt (xs ! k) (xs ! ?j)" if "0 < k" "k < n" "par k = i" for k
    proof -
      have "k = 2 * i + 1 \<or> k = 2 * i + 2" using par_child[OF that(1), of i] that(3) by simp
      then show ?thesis using less_asym[OF el el] that(2) by (auto simp: smaller_child_def)
    qed
    show ?thesis
    proof (cases "lt (xs ! ?j) (xs ! i)")
      case nless: False
      then have "down lt xs i n = xs" using False by (subst down.simps) (simp add: Let_def)
      moreover have "heap_on lt n xs"
        unfolding heap_on_iff
      proof (intro allI impI)
        fix k assume k: "0 < k \<and> k < n"
        show "\<not> lt (xs ! k) (xs ! par k)"
        proof (cases "par k = i")
          case True
          then show ?thesis using not_less_trans[OF el el el nless min, of k] k j by simp
        qed (use above k in blast)
      qed
      ultimately show ?thesis by simp
    next
      case True
      let ?ys = "swap i ?j xs"
      have ys: "k < n \<Longrightarrow> ?ys ! k = (if k = i then xs ! ?j else if k = ?j then xs ! i else xs ! k)" for k
        using nth_swap[of i xs ?j k] j less.prems(2) by simp
      have ij: "\<not> lt (xs ! i) (xs ! ?j)" using less_asym[OF el el True] j by simp
      have "heap_on lt n (down lt ?ys ?j n)"
      proof (rule less.hyps)
        show "n - ?j < n - i" "?j < n \<or> n = 0" "n \<le> length ?ys" using j less.prems(2) by auto
        show "set ?ys \<subseteq> S" using less.prems(2,3) j set_swap[of i xs ?j] by simp
      next
        fix k assume k: "0 < k" "k < n" "par k \<noteq> ?j"
        have pk: "par k < n" "par k < k" using k par_less[of k] by auto
        consider "k = i" | "k \<noteq> i" "par k = i" | "k \<noteq> i" "par k \<noteq> i" by blast
        then show "\<not> lt (?ys ! k) (?ys ! par k)"
        proof cases
          case 1
          then show ?thesis using ys[of k] ys[of "par k"] k pk j skip[of ?j] by simp
        next
          case 2
          then show ?thesis using ys[of k] ys[of "par k"] k pk j min[of k] ij by simp
        next
          case 3
          then have "k \<noteq> ?j" using j by auto
          then show ?thesis using ys[of k] ys[of "par k"] k pk 3 above[of k] by simp
        qed
      next
        fix k assume k: "0 < ?j" "0 < k" "k < n" "par k = ?j"
        have "k \<noteq> i" "k \<noteq> ?j" using par_less[OF k(2)] k(4) j by auto
        then show "\<not> lt (?ys ! k) (?ys ! par ?j)"
          using ys[of k] ys[of i] k j above[of k] by simp
      qed
      moreover have "down lt xs i n = down lt ?ys ?j n" using False True by (subst down.simps) (simp add: Let_def)
      ultimately show ?thesis by simp
    qed
  qed
qed

lemma heap_Push_ok:
  assumes "heap_on lt (length h) h" and "set h \<subseteq> S" and "x \<in> S"
  shows "heap_on lt (length (heap_Push lt x h)) (heap_Push lt x h) \<and> mset (heap_Push lt x h) = add_mset x (mset h)"
proof -
  have "heap_on lt (length (h @ [x])) (up lt (h @ [x]) (length h))"
  proof (rule up_heap)
    fix k assume k: "0 < k" "k < length (h @ [x])" "k \<noteq> length h"
    then show "\<not> lt ((h @ [x]) ! k) ((h @ [x]) ! par k)"
      using assms(1) par_less[OF k(1)] by (simp add: heap_on_iff nth_append)
  next
    fix k assume "0 < k" "k < length (h @ [x])" "par k = length h"
    then show "\<not> lt ((h @ [x]) ! k) ((h @ [x]) ! par (length h))"
      using par_less[of k] by simp
  qed (use assms(2,3) in auto)
  then show ?thesis by (simp add: heap_Push_def)
qed

lemma heap_Pop_ok:
  assumes "heap_on lt (length h) h" and "set h \<subseteq> S" and "h \<noteq> []"
  shows "heap_on lt (length (snd (heap_Pop lt h))) (snd (heap_Pop lt h)) \<and> mset h = add_mset (fst (heap_Pop lt h)) (mset (snd (heap_Pop lt h))) \<and>
    (\<forall>x \<in> set h. \<not> lt x (fst (heap_Pop lt h))) \<and> fst (heap_Pop lt h) = hd h"
proof -
  let ?n = "length h - 1"
  let ?d = "down lt (swap 0 ?n h) 0 ?n"
  have n: "?n < length h" "0 < length h" using assms(3) by simp_all
  have n0: "0 < ?n \<or> ?n = 0" by blast
  have perm: "length ?d = length h" "mset ?d = mset h" "drop ?n ?d = drop ?n (swap 0 ?n h)"
    using down_permutes[OF n0, of "swap 0 ?n h" lt] n by simp_all
  have last: "?d ! ?n = h ! 0"
  proof -
    have "?d ! ?n = hd (drop ?n ?d)" "swap 0 ?n h ! ?n = hd (drop ?n (swap 0 ?n h))"
      using perm(1) n by (simp_all add: hd_drop_conv_nth)
    then have "?d ! ?n = swap 0 ?n h ! ?n" using perm(3) by simp
    also have "... = h ! 0" using nth_swap[of 0 h ?n ?n] n by (simp split: if_splits)
    finally show ?thesis .
  qed
  have pop: "heap_Pop lt h = (h ! 0, take ?n ?d)" unfolding heap_Pop_def Let_def last ..
  have "heap_on lt ?n ?d"
  proof (rule down_heap)
    show "set (swap 0 ?n h) \<subseteq> S" using assms(2) set_swap[of 0 h ?n] n by simp
    fix k assume k: "0 < k" "k < ?n" "par k \<noteq> 0"
    then have "\<not> lt (h ! k) (h ! par k)" using assms(1) by (simp add: heap_on_iff)
    then show "\<not> lt (swap 0 ?n h ! k) (swap 0 ?n h ! par k)"
      using nth_swap[of 0 h ?n k] nth_swap[of 0 h ?n "par k"] k n par_less[OF k(1)] by simp
  qed (use n in auto)
  then have "heap_on lt (length (take ?n ?d)) (take ?n ?d)"
    using heap_on_take perm(1) by (simp add: min_absorb2)
  moreover have "mset h = add_mset (h ! 0) (mset (take ?n ?d))"
  proof -
    have "?d = take ?n ?d @ [?d ! ?n]" using perm(1) n take_Suc_conv_app_nth[of ?n ?d] by simp
    then have "mset ?d = mset (take ?n ?d) + mset [?d ! ?n]" by (metis mset_append)
    then show ?thesis using perm(2) last by simp
  qed
  moreover have "\<forall>x \<in> set h. \<not> lt x (h ! 0)"
    using heap_root_min[OF assms(1) _ assms(2)] by (metis in_set_conv_nth order_refl)
  ultimately show ?thesis using assms(3) by (simp add: pop hd_conv_nth)
qed

end

end
