(* ===== verification/JitterBuffer.thy ===== *)
theory JitterBuffer
  imports GoHeap
begin

text \<open>
  \<^verbatim>\<open>pkg/media/jitter_buffer.go\<close>: reordering of RTP packets by sequence number. A packet of the RTP
  library is the record of the fields the program reads. The heap index of a buffered packet is
  written and never read, and is left out. A call of the concealment callback is part of the result
  of \<open>Pop\<close>: the number of lost packets it is given.
\<close>

type_synonym seqno = "16 word"

record RtpPacket =
  SequenceNumber :: seqno
  Timestamp :: "32 word"
  SSRC :: "32 word"
  PayloadType :: "8 word"
  Payload :: "8 word list"

record BufferedPacket =
  bpk_Packet :: RtpPacket
  bpk_Arrival :: go_time
  bpk_PCMData :: "8 word list"

record JitterBuffer =
  jb_packets :: "BufferedPacket list"
  jb_maxSize :: int
  jb_maxDelay :: go_duration
  jb_lastEmitted :: seqno
  jb_hasEmitted :: bool
  jb_sampleRate :: int
  jb_codecName :: string
  jb_plcCallback :: bool

record JitterBufferConfig =
  jbc_MaxSize :: int
  jbc_MaxDelay :: go_duration
  jbc_SampleRate :: int
  jbc_CodecName :: string

abbreviation seq_of :: "BufferedPacket \<Rightarrow> seqno" where
  "seq_of p \<equiv> SequenceNumber (bpk_Packet p)"

text \<open>The comparison of sequence numbers: the signed 16-bit difference is negative.\<close>

definition Less :: "BufferedPacket \<Rightarrow> BufferedPacket \<Rightarrow> bool" where
  "Less p q \<longleftrightarrow> sint (seq_of p - seq_of q) < 0"

definition NewJitterBuffer :: "JitterBufferConfig \<Rightarrow> JitterBuffer" where
  "NewJitterBuffer cfg =
     \<lparr>jb_packets = [], jb_maxSize = (if jbc_MaxSize cfg \<le> 0 then 5 else jbc_MaxSize cfg),
      jb_maxDelay = (if jbc_MaxDelay cfg \<le> 0 then 60000000 else jbc_MaxDelay cfg), jb_lastEmitted = 0, jb_hasEmitted = False,
      jb_sampleRate = (if jbc_SampleRate cfg \<le> 0 then 8000 else jbc_SampleRate cfg), jb_codecName = jbc_CodecName cfg,
      jb_plcCallback = False\<rparr>"

definition SetPLCCallback :: "bool \<Rightarrow> JitterBuffer \<Rightarrow> JitterBuffer" where
  "SetPLCCallback cb jb = jb\<lparr>jb_plcCallback := cb\<rparr>"

definition emitOldest :: "JitterBuffer \<Rightarrow> BufferedPacket option \<times> JitterBuffer" where
  "emitOldest jb =
     (if jb_packets jb = [] then (None, jb)
      else let (pkt, h) = heap_Pop Less (jb_packets jb)
           in (Some pkt, jb\<lparr>jb_packets := h, jb_lastEmitted := seq_of pkt, jb_hasEmitted := True\<rparr>))"

definition Push :: "RtpPacket \<Rightarrow> 8 word list \<Rightarrow> go_time \<Rightarrow> JitterBuffer \<Rightarrow> JitterBuffer" where
  "Push pkt pcmData arrival jb =
     (if list_ex (\<lambda>p. seq_of p = SequenceNumber pkt) (jb_packets jb) then jb
      else
        let bp = \<lparr>bpk_Packet = pkt, bpk_Arrival = arrival, bpk_PCMData = pcmData\<rparr>;
            jb1 = jb\<lparr>jb_packets := heap_Push Less bp (jb_packets jb)\<rparr>
        in if int (length (jb_packets jb1)) > jb_maxSize jb1 then snd (emitOldest jb1) else jb1)"

definition lost_packets :: "seqno \<Rightarrow> seqno \<Rightarrow> JitterBuffer \<Rightarrow> int option" where
  "lost_packets oldestSeq expectedSeq jb =
     (if oldestSeq > expectedSeq
      then let lost = min 10 (uint (oldestSeq - expectedSeq)) in if jb_plcCallback jb \<and> lost > 0 then Some lost else None
      else None)"

text \<open>The packet, the argument of the concealment callback if it is called, and the new state.\<close>

definition Pop :: "go_time \<Rightarrow> JitterBuffer \<Rightarrow> BufferedPacket option \<times> int option \<times> JitterBuffer" where
  "Pop now jb =
     (if jb_packets jb = [] then (None, None, jb)
      else
        let oldest = hd (jb_packets jb); emitted = emitOldest jb
        in if \<not> jb_hasEmitted jb then (fst emitted, None, snd emitted)
           else
             let expectedSeq = jb_lastEmitted jb + 1; oldestSeq = seq_of oldest
             in if oldestSeq = expectedSeq then (fst emitted, None, snd emitted)
                else if now - bpk_Arrival oldest \<ge> jb_maxDelay jb
                  then (fst emitted, lost_packets oldestSeq expectedSeq jb, snd emitted)
                  else (None, None, jb))"

fun flush_loop :: "nat \<Rightarrow> BufferedPacket list \<Rightarrow> BufferedPacket list" where
  "flush_loop 0 h = []"
| "flush_loop (Suc n) h = (let (pkt, h') = heap_Pop Less h in pkt # flush_loop n h')"

text \<open>The loop of \<open>Flush\<close> runs once per buffered packet.\<close>

definition Flush :: "JitterBuffer \<Rightarrow> BufferedPacket list \<times> JitterBuffer" where
  "Flush jb = (flush_loop (length (jb_packets jb)) (jb_packets jb), jb\<lparr>jb_packets := []\<rparr>)"

definition Len :: "JitterBuffer \<Rightarrow> int" where
  "Len jb = int (length (jb_packets jb))"

definition jb_Clear :: "JitterBuffer \<Rightarrow> JitterBuffer" where
  "jb_Clear jb = jb\<lparr>jb_packets := [], jb_hasEmitted := False\<rparr>"

section \<open>The sequence order\<close>

text \<open>The packets at most half the sequence space ahead of a base. There the comparison is the order of
  the distances from the base, wrap-around included.\<close>

definition in_window :: "seqno \<Rightarrow> BufferedPacket \<Rightarrow> bool" where
  "in_window base p \<longleftrightarrow> uint (seq_of p - base) < 2 ^ 15"

abbreviation window :: "seqno \<Rightarrow> BufferedPacket set" where
  "window base \<equiv> Collect (in_window base)"

lemma Less_window:
  assumes "p \<in> window base" and "q \<in> window base"
  shows "Less p q \<longleftrightarrow> uint (seq_of p - base) < uint (seq_of q - base)"
proof -
  let ?u = "uint (seq_of p - base)" and ?v = "uint (seq_of q - base)"
  have b: "0 \<le> ?u" "?u < 2 ^ 15" "0 \<le> ?v" "?v < 2 ^ 15" using assms by (auto simp: in_window_def)
  have "seq_of p - seq_of q = word_of_int (?u - ?v)"
    by (simp add: wi_hom_syms)
  then have "sint (seq_of p - seq_of q) = signed_take_bit 15 (?u - ?v)"
    by (simp only: sint_sbintrunc') simp
  also have "... = ?u - ?v"
    by (rule signed_take_bit_int_eq_self) (use b in linarith)+
  finally show ?thesis by (simp add: Less_def)
qed

interpretation seq_heap: heap_order Less "window base" for base
  by unfold_locales (auto simp: Less_window)

definition jb_inv :: "seqno \<Rightarrow> JitterBuffer \<Rightarrow> bool" where
  "jb_inv base jb \<longleftrightarrow>
     0 < jb_maxSize jb \<and> int (length (jb_packets jb)) \<le> jb_maxSize jb \<and> list_all (in_window base) (jb_packets jb) \<and>
     distinct (map seq_of (jb_packets jb)) \<and> heap_on Less (length (jb_packets jb)) (jb_packets jb)"

section \<open>Operations\<close>

lemma emitOldest_ok:
  assumes "jb_packets jb \<noteq> []" and "set (jb_packets jb) \<subseteq> window base" and "heap_on Less (length (jb_packets jb)) (jb_packets jb)"
  obtains pkt h where "emitOldest jb = (Some pkt, jb\<lparr>jb_packets := h, jb_lastEmitted := seq_of pkt, jb_hasEmitted := True\<rparr>)"
    "mset (jb_packets jb) = add_mset pkt (mset h)" "heap_on Less (length h) h" "pkt \<in> window base" "set h \<subseteq> window base"
    "\<And>p. p \<in> set (jb_packets jb) \<Longrightarrow> uint (seq_of pkt - base) \<le> uint (seq_of p - base)" "pkt = hd (jb_packets jb)"
proof -
  let ?pop = "heap_Pop Less (jb_packets jb)"
  note pop = seq_heap.heap_Pop_ok[OF assms(3,2,1)]
  have perm: "set (jb_packets jb) = insert (fst ?pop) (set (snd ?pop))"
    using pop by (metis set_mset_add_mset_insert set_mset_mset)
  have "fst ?pop = hd (jb_packets jb)" using pop by simp
  moreover have "uint (seq_of (fst ?pop) - base) \<le> uint (seq_of p - base)" if "p \<in> set (jb_packets jb)" for p
    using pop that assms(2) perm Less_window[of p base "fst ?pop"] by auto
  ultimately show thesis
    using that[of "fst ?pop" "snd ?pop"] pop perm assms(1,2) by (simp add: emitOldest_def split_beta Let_def)
qed

lemma flush_loop_sorted:
  assumes "set h \<subseteq> window base" and "heap_on Less (length h) h"
  shows "mset (flush_loop (length h) h) = mset h \<and> sorted (map (\<lambda>p. uint (seq_of p - base)) (flush_loop (length h) h))"
  using assms
proof (induction "length h" arbitrary: h)
  case (Suc n)
  let ?pop = "heap_Pop Less h"
  have ne: "h \<noteq> []" using Suc.hyps(2) by auto
  note pop = seq_heap.heap_Pop_ok[OF Suc.prems(2,1) ne]
  have perm: "set h = insert (fst ?pop) (set (snd ?pop))" "length h = Suc (length (snd ?pop))"
    using pop by (metis set_mset_add_mset_insert set_mset_mset) (metis pop size_add_mset size_mset)
  have IH: "mset (flush_loop n (snd ?pop)) = mset (snd ?pop)" "sorted (map (\<lambda>p. uint (seq_of p - base)) (flush_loop n (snd ?pop)))"
    using Suc.hyps(1)[of "snd ?pop"] perm Suc.hyps(2) Suc.prems(1) pop by auto
  have "uint (seq_of (fst ?pop) - base) \<le> uint (seq_of p - base)" if "p \<in> set h" for p
    using pop that Suc.prems(1) perm Less_window[of p base "fst ?pop"] by auto
  moreover have "set (flush_loop n (snd ?pop)) = set (snd ?pop)"
    using IH(1) by (metis set_mset_mset)
  ultimately have "sorted (map (\<lambda>p. uint (seq_of p - base)) (fst ?pop # flush_loop n (snd ?pop)))"
    using IH(2) perm(1) by simp
  moreover have "flush_loop (length h) h = fst ?pop # flush_loop n (snd ?pop)"
    by (simp add: split_beta Let_def flip: Suc.hyps(2))
  ultimately show ?case
    using IH(1) pop by simp
qed simp

text \<open>Flushing returns the buffered packets, each once, in the order of their sequence numbers
  from the base, wrap-around included, and empties the buffer.\<close>

theorem Flush_sorted:
  assumes "jb_inv base jb"
  shows "mset (fst (Flush jb)) = mset (jb_packets jb) \<and> sorted (map (\<lambda>p. uint (seq_of p - base)) (fst (Flush jb))) \<and>
    jb_packets (snd (Flush jb)) = []"
  using flush_loop_sorted[of "jb_packets jb" base] assms by (auto simp: Flush_def jb_inv_def list_all_iff)

definition four_packets :: "BufferedPacket list" where
  "four_packets = map (\<lambda>n. \<lparr>bpk_Packet = \<lparr>SequenceNumber = n, Timestamp = 0, SSRC = 0, PayloadType = 0, Payload = []\<rparr>, bpk_Arrival = 0, bpk_PCMData = []\<rparr>) [65535, 65534, 1, 0]"

definition four_buffer :: JitterBuffer where
  "four_buffer = fold (\<lambda>p. Push (bpk_Packet p) [] 0) four_packets
     (NewJitterBuffer \<lparr>jbc_MaxSize = 4, jbc_MaxDelay = 0, jbc_SampleRate = 0, jbc_CodecName = ''PCMU''\<rparr>)"

lemma four_buffer_inv: "jb_inv 65534 four_buffer"
  by code_simp

theorem Flush_sorted_witness: "length (fst (Flush four_buffer)) = 4 \<and> sorted (map (\<lambda>p. uint (seq_of p - 65534)) (fst (Flush four_buffer)))"
proof -
  have "length (jb_packets four_buffer) = 4" by code_simp
  then show ?thesis using Flush_sorted[OF four_buffer_inv] mset_eq_length by fastforce
qed

lemma Push_new:
  assumes inv: "jb_inv base jb" and bp: "bp = \<lparr>bpk_Packet = pkt, bpk_Arrival = arrival, bpk_PCMData = pcm\<rparr>"
    and new: "SequenceNumber pkt \<notin> set (map seq_of (jb_packets jb))" and win: "bp \<in> window base"
  obtains (kept) h where "int (length (jb_packets jb)) < jb_maxSize jb" "Push pkt pcm arrival jb = jb\<lparr>jb_packets := h\<rparr>"
      "mset h = add_mset bp (mset (jb_packets jb))" "heap_on Less (length h) h"
  | (dropped) d h where "int (length (jb_packets jb)) = jb_maxSize jb"
      "Push pkt pcm arrival jb = jb\<lparr>jb_packets := h, jb_lastEmitted := seq_of d, jb_hasEmitted := True\<rparr>"
      "add_mset d (mset h) = add_mset bp (mset (jb_packets jb))" "heap_on Less (length h) h"
      "\<And>p. p \<in> insert bp (set (jb_packets jb)) \<Longrightarrow> uint (seq_of d - base) \<le> uint (seq_of p - base)"
proof -
  let ?h = "heap_Push Less bp (jb_packets jb)"
  have heap: "heap_on Less (length (jb_packets jb)) (jb_packets jb)" "set (jb_packets jb) \<subseteq> window base"
      "int (length (jb_packets jb)) \<le> jb_maxSize jb"
    using inv by (auto simp: jb_inv_def list_all_iff)
  have h: "heap_on Less (length ?h) ?h" "mset ?h = add_mset bp (mset (jb_packets jb))"
    using seq_heap.heap_Push_ok[OF heap(1,2) win] by simp_all
  have set: "set ?h = insert bp (set (jb_packets jb))" using h(2) by (metis set_mset_add_mset_insert set_mset_mset)
  have len: "length ?h = Suc (length (jb_packets jb))" using h(2) by (metis size_add_mset size_mset)
  have push: "Push pkt pcm arrival jb =
      (if int (length ?h) > jb_maxSize jb then snd (emitOldest (jb\<lparr>jb_packets := ?h\<rparr>)) else jb\<lparr>jb_packets := ?h\<rparr>)"
  proof -
    have "\<not> list_ex (\<lambda>p. seq_of p = SequenceNumber pkt) (jb_packets jb)" using new by (auto simp: list_ex_iff image_iff)
    then show ?thesis by (simp add: Push_def bp Let_def)
  qed
  show thesis
  proof (cases "int (length ?h) > jb_maxSize jb")
    case False
    then show thesis using kept[OF _ _ h(2,1)] push len by simp
  next
    case True
    let ?jb = "jb\<lparr>jb_packets := ?h\<rparr>"
    have pre: "jb_packets ?jb \<noteq> []" "set (jb_packets ?jb) \<subseteq> window base" "heap_on Less (length (jb_packets ?jb)) (jb_packets ?jb)"
      using len set h(1) heap(2) win by auto
    from pre show thesis
    proof (rule emitOldest_ok)
      fix d h'
      assume e: "emitOldest ?jb = (Some d, ?jb\<lparr>jb_packets := h', jb_lastEmitted := seq_of d, jb_hasEmitted := True\<rparr>)"
        "mset (jb_packets ?jb) = add_mset d (mset h')" "heap_on Less (length h') h'"
        "\<And>p. p \<in> set (jb_packets ?jb) \<Longrightarrow> uint (seq_of d - base) \<le> uint (seq_of p - base)"
      show thesis
      proof (rule dropped[of d h'])
        show "int (length (jb_packets jb)) = jb_maxSize jb" using True len heap(3) by simp
        show "Push pkt pcm arrival jb = jb\<lparr>jb_packets := h', jb_lastEmitted := seq_of d, jb_hasEmitted := True\<rparr>"
          using push True e(1) by simp
        show "add_mset d (mset h') = add_mset bp (mset (jb_packets jb))" using e(2) h(2) by simp
        show "heap_on Less (length h') h'" by (rule e)
        show "uint (seq_of d - base) \<le> uint (seq_of p - base)" if "p \<in> insert bp (set (jb_packets jb))" for p
          using e(4) that set by simp
      qed
    qed
  qed
qed

lemma distinct_submset:
  assumes "mset ys \<subseteq># mset xs" and "distinct xs"
  shows "distinct ys"
  unfolding distinct_count_atmost_1
proof
  fix a
  have "count (mset ys) a \<le> count (mset xs) a" using assms(1) by (rule mset_subset_eq_count)
  also have "... \<le> 1" using assms(2) by (simp add: distinct_count_atmost_1)
  finally have "count (mset ys) a \<le> 1" .
  moreover have "a \<in> set ys \<longleftrightarrow> count (mset ys) a > 0" by simp
  ultimately show "count (mset ys) a = (if a \<in> set ys then 1 else 0)"
    by (metis One_nat_def le_Suc_eq le_zero_eq neq0_conv)
qed

lemma jb_inv_sub:
  assumes "jb_inv base jb" and sub: "mset h \<subseteq># mset (bp # jb_packets jb)"
    and "seq_of bp \<notin> set (map seq_of (jb_packets jb))" and "in_window base bp" and "int (length h) \<le> jb_maxSize jb"
    and "heap_on Less (length h) h" and "jb_packets jb' = h" and "jb_maxSize jb' = jb_maxSize jb"
  shows "jb_inv base jb'"
proof -
  have "set h \<subseteq> insert bp (set (jb_packets jb))" using set_mset_mono[OF sub] by simp
  then have "list_all (in_window base) h" using assms(1,4) by (auto simp: jb_inv_def list_all_iff)
  moreover have "distinct (map seq_of h)"
    using distinct_submset[of "map seq_of h" "map seq_of (bp # jb_packets jb)"] image_mset_subseteq_mono[OF sub, of seq_of] assms(1,3)
    by (simp add: jb_inv_def)
  ultimately show ?thesis using assms(1,5-8) by (simp add: jb_inv_def)
qed

text \<open>C14: a packet with a new sequence number is buffered and the invariant kept. In a full buffer the
  oldest packet, possibly the new one, is discarded: it is neither in the buffer nor returned, though it
  counts as emitted.\<close>

theorem Push_correct:
  assumes inv: "jb_inv base jb" and bp: "bp = \<lparr>bpk_Packet = pkt, bpk_Arrival = arrival, bpk_PCMData = pcm\<rparr>"
    and new: "SequenceNumber pkt \<notin> set (map seq_of (jb_packets jb))" and win: "in_window base bp"
  shows "jb_inv base (Push pkt pcm arrival jb) \<and>
    (Len jb < jb_maxSize jb \<longrightarrow>
       mset (jb_packets (Push pkt pcm arrival jb)) = add_mset bp (mset (jb_packets jb)) \<and>
       jb_lastEmitted (Push pkt pcm arrival jb) = jb_lastEmitted jb) \<and>
    (Len jb = jb_maxSize jb \<longrightarrow>
       (\<exists>d. add_mset d (mset (jb_packets (Push pkt pcm arrival jb))) = add_mset bp (mset (jb_packets jb)) \<and>
          d \<notin> set (jb_packets (Push pkt pcm arrival jb)) \<and> jb_lastEmitted (Push pkt pcm arrival jb) = seq_of d \<and>
          (\<forall>p \<in> set (jb_packets (Push pkt pcm arrival jb)). uint (seq_of d - base) < uint (seq_of p - base))))"
proof -
  have bpnew: "seq_of bp \<notin> set (map seq_of (jb_packets jb))" "bp \<in> window base" using new win by (simp_all add: bp)
  from inv bp new bpnew(2) show ?thesis
  proof (cases rule: Push_new)
    case (kept h)
    have "length h = Suc (length (jb_packets jb))" using kept(3) by (metis size_add_mset size_mset)
    moreover have "mset h \<subseteq># mset (bp # jb_packets jb)" using kept(3) by simp
    ultimately have "jb_inv base (Push pkt pcm arrival jb)"
      using kept(1) by (intro jb_inv_sub[OF inv _ bpnew(1) win _ kept(4)]) (simp_all add: kept(2))
    then show ?thesis using kept(1,3) unfolding kept(2) by (simp add: Len_def)
  next
    case (dropped d h)
    have len: "length h = length (jb_packets jb)" using dropped(3) by (metis size_add_mset size_mset nat.inject)
    have "mset h \<subseteq># mset (bp # jb_packets jb)" unfolding mset.simps dropped(3)[symmetric] by simp
    then have inv': "jb_inv base (Push pkt pcm arrival jb)"
      using dropped(1) len by (intro jb_inv_sub[OF inv _ bpnew(1) win _ dropped(4)]) (simp_all add: dropped(2))
    have perm: "insert d (set h) = insert bp (set (jb_packets jb))" using dropped(3) by (metis set_mset_add_mset_insert set_mset_mset)
    have "mset (map seq_of (d # h)) = mset (map seq_of (bp # jb_packets jb))"
      using arg_cong[OF dropped(3), of "image_mset seq_of"] by simp
    moreover have "distinct (map seq_of (bp # jb_packets jb))" using inv bpnew(1) by (simp add: jb_inv_def)
    ultimately have dist: "distinct (map seq_of (d # h))" using mset_eq_imp_distinct_iff by blast
    have "uint (seq_of d - base) < uint (seq_of p - base)" if "p \<in> set h" for p
    proof -
      have "uint (seq_of d - base) \<le> uint (seq_of p - base)" using dropped(5) that perm by blast
      moreover have "seq_of d \<noteq> seq_of p" using dist that by (auto simp: image_iff)
      then have "uint (seq_of d - base) \<noteq> uint (seq_of p - base)" by (simp only: word_uint_eq_iff[symmetric]) simp
      ultimately show ?thesis by simp
    qed
    moreover have "d \<notin> set h" using dist by auto
    ultimately have "\<exists>d. add_mset d (mset (jb_packets (Push pkt pcm arrival jb))) = add_mset bp (mset (jb_packets jb)) \<and>
          d \<notin> set (jb_packets (Push pkt pcm arrival jb)) \<and> jb_lastEmitted (Push pkt pcm arrival jb) = seq_of d \<and>
          (\<forall>p \<in> set (jb_packets (Push pkt pcm arrival jb)). uint (seq_of d - base) < uint (seq_of p - base))"
      using dropped(3) unfolding dropped(2) by (intro exI[of _ d]) simp
    then show ?thesis using inv' dropped(1) by (simp add: Len_def)
  qed
qed

lemma four_buffer_new: "SequenceNumber \<lparr>SequenceNumber = 2, Timestamp = 0, SSRC = 0, PayloadType = 0, Payload = []\<rparr> \<notin> set (map seq_of (jb_packets four_buffer))" "Len four_buffer = jb_maxSize four_buffer"
  by code_simp+

theorem Push_correct_witness:
  "jb_inv 65534 (Push \<lparr>SequenceNumber = 2, Timestamp = 0, SSRC = 0, PayloadType = 0, Payload = []\<rparr> [] 0 four_buffer) \<and> Len four_buffer = jb_maxSize four_buffer"
  using Push_correct[OF four_buffer_inv refl four_buffer_new(1), of 0 "[]"] four_buffer_new(2) by (simp add: in_window_def)

text \<open>C15: what \<open>Pop\<close> does on a buffer that holds packets. It waits exactly when a packet was emitted
  before, the oldest one is not its successor, and the oldest has not waited for the maximum delay.
  Otherwise it returns the packet with the lowest sequence number from the base and removes it.\<close>

theorem Pop_correct:
  assumes inv: "jb_inv base jb" and ne: "jb_packets jb \<noteq> []" and oldest: "oldest = hd (jb_packets jb)"
  shows "(\<forall>p \<in> set (jb_packets jb). uint (seq_of oldest - base) \<le> uint (seq_of p - base)) \<and>
    (if jb_hasEmitted jb \<and> seq_of oldest \<noteq> jb_lastEmitted jb + 1 \<and> now - bpk_Arrival oldest < jb_maxDelay jb
     then Pop now jb = (None, None, jb)
     else fst (Pop now jb) = Some oldest \<and> jb_inv base (snd (snd (Pop now jb))) \<and>
       mset (jb_packets jb) = add_mset oldest (mset (jb_packets (snd (snd (Pop now jb))))) \<and>
       jb_lastEmitted (snd (snd (Pop now jb))) = seq_of oldest)"
proof -
  have pre: "set (jb_packets jb) \<subseteq> window base" "heap_on Less (length (jb_packets jb)) (jb_packets jb)"
    using inv by (auto simp: jb_inv_def list_all_iff)
  from ne pre show ?thesis
  proof (rule emitOldest_ok)
    fix pkt h
    assume e: "emitOldest jb = (Some pkt, jb\<lparr>jb_packets := h, jb_lastEmitted := seq_of pkt, jb_hasEmitted := True\<rparr>)"
      "mset (jb_packets jb) = add_mset pkt (mset h)" "heap_on Less (length h) h" "set h \<subseteq> window base"
      "\<And>p. p \<in> set (jb_packets jb) \<Longrightarrow> uint (seq_of pkt - base) \<le> uint (seq_of p - base)" "pkt = hd (jb_packets jb)"
    have len: "length (jb_packets jb) = Suc (length h)" using e(2) by (metis size_add_mset size_mset)
    have "distinct (map seq_of h)"
      using inv distinct_submset[of "map seq_of h" "map seq_of (jb_packets jb)"] by (simp add: jb_inv_def e(2))
    then have "jb_inv base (snd (emitOldest jb))"
      using inv e(3,4) len by (auto simp: e(1) jb_inv_def list_all_iff)
    then show ?thesis
      using e ne by (auto simp: Pop_def Let_def oldest)
  qed
qed

text \<open>Concealment. When the oldest packet has waited long enough and packets before it are missing,
  the callback is given their number, at most ten, provided the gap does not cross the wrap-around of
  the sequence numbers; if it does, nothing is concealed.\<close>

theorem Pop_conceals:
  assumes "jb_packets jb \<noteq> []" and "jb_hasEmitted jb" and "jb_plcCallback jb" and "oldest = hd (jb_packets jb)"
    and "now - bpk_Arrival oldest \<ge> jb_maxDelay jb"
    and gap: "seq_of oldest = jb_lastEmitted jb + 1 + word_of_int g" "0 < g" "g < 2 ^ 15"
  shows "fst (snd (Pop now jb)) = (if uint (jb_lastEmitted jb + 1) + g < 2 ^ 16 then Some (min 10 g) else None)"
proof -
  let ?e = "jb_lastEmitted jb + 1"
  have g: "uint (word_of_int g :: seqno) = g" using gap(2,3) by (simp add: uint_word_of_int)
  have diff: "uint (seq_of oldest - ?e) = g" using gap(1) g by simp
  then have ne: "seq_of oldest \<noteq> ?e" using gap(2) by auto
  have "?e < seq_of oldest \<longleftrightarrow> uint ?e + g < 2 ^ 16"
  proof -
    have u: "uint (seq_of oldest) = (uint ?e + g) mod 2 ^ 16" using gap(1) g by (simp add: uint_word_ariths)
    have e: "0 \<le> uint ?e" "uint ?e < 2 ^ 16" using uint_lt2p[of ?e] by simp_all
    show ?thesis
    proof (cases "uint ?e + g < 2 ^ 16")
      case True
      then have "uint (seq_of oldest) = uint ?e + g" using u e gap(2) by simp
      then show ?thesis using True gap(2) by (simp add: word_less_def)
    next
      case False
      then have "uint (seq_of oldest) = uint ?e + g - 2 ^ 16"
        using u e gap(3) minus_mod_self2[of "uint ?e + g" "2 ^ 16"] mod_pos_pos_trivial[of "uint ?e + g - 2 ^ 16" "2 ^ 16"] by simp
      then show ?thesis using False gap(3) by (simp add: word_less_def)
    qed
  qed
  then show ?thesis
    using assms(1-5) ne diff gap(2) by (auto simp: Pop_def Let_def lost_packets_def)
qed

definition gap_buffer :: "seqno \<Rightarrow> seqno \<Rightarrow> JitterBuffer" where
  "gap_buffer l n =
     \<lparr>jb_packets = [\<lparr>bpk_Packet = \<lparr>SequenceNumber = n, Timestamp = 0, SSRC = 0, PayloadType = 0, Payload = []\<rparr>, bpk_Arrival = 0, bpk_PCMData = []\<rparr>], jb_maxSize = 5,
      jb_maxDelay = 60000000, jb_lastEmitted = l, jb_hasEmitted = True, jb_sampleRate = 8000, jb_codecName = ''PCMU'', jb_plcCallback = True\<rparr>"

theorem Pop_correct_witness: "Pop 0 (gap_buffer 10 14) = (None, None, gap_buffer 10 14)"
proof -
  have "jb_inv 0 (gap_buffer 10 14)" by code_simp
  from Pop_correct[OF this _ refl, of 0] show ?thesis by (simp add: gap_buffer_def)
qed

theorem Pop_conceals_witness:
  "fst (snd (Pop 60000000 (gap_buffer 10 14))) = Some 3 \<and> fst (snd (Pop 60000000 (gap_buffer 65534 2))) = None"
  using Pop_conceals[of "gap_buffer 10 14" "hd (jb_packets (gap_buffer 10 14))" 60000000 3]
    Pop_conceals[of "gap_buffer 65534 2" "hd (jb_packets (gap_buffer 65534 2))" 60000000 3]
  by (simp add: gap_buffer_def)

end
