(* ===== verification/RtpStats.thy ===== *)
theory RtpStats
  imports JitterBuffer
begin

unbundle bit_operations_syntax

text \<open>
  \<^verbatim>\<open>pkg/media/rtp_stats.go\<close>: the receiver statistics of an RTP stream. The counters are 32-bit
  words and wrap as in the code. The floating-point fields are real numbers: the rounding of float64 is
  not modelled, and no property here depends on them but through the loss ratio.
\<close>

record rtpStreamStats =
  rs_clockRate :: real
  rs_baseSeq :: "32 word"
  rs_maxSeq :: "32 word"
  rs_cycles :: "32 word"
  rs_expectedPrior :: "32 word"
  rs_receivedPrior :: "32 word"
  rs_received :: "32 word"
  rs_lastArrival :: go_time
  rs_lastTimestamp :: "32 word"
  rs_lastTransit :: real
  rs_jitter :: real
  rs_initialized :: bool

definition newRTPStreamStats :: rtpStreamStats where
  "newRTPStreamStats =
     \<lparr>rs_clockRate = 8000, rs_baseSeq = 0, rs_maxSeq = 0, rs_cycles = 0, rs_expectedPrior = 0, rs_receivedPrior = 0,
      rs_received = 0, rs_lastArrival = 0, rs_lastTimestamp = 0, rs_lastTransit = 0, rs_jitter = 0, rs_initialized = False\<rparr>"

definition SetClockRate :: "int \<Rightarrow> rtpStreamStats \<Rightarrow> rtpStreamStats" where
  "SetClockRate rate s = (if rate \<le> 0 then s else s\<lparr>rs_clockRate := of_int rate\<rparr>)"

definition update_jitter :: "RtpPacket \<Rightarrow> go_time \<Rightarrow> rtpStreamStats \<Rightarrow> rtpStreamStats" where
  "update_jitter pkt arrival s =
     (if rs_lastArrival s \<noteq> 0 \<and> rs_clockRate s > 0
      then
        let arrivalDiff = of_int (arrival - rs_lastArrival s) / 1000000000;
            rtpTimestampDiff = sint (Timestamp pkt - rs_lastTimestamp s);
            transit = \<bar>arrivalDiff - of_int rtpTimestampDiff / rs_clockRate s\<bar>
        in s\<lparr>rs_jitter := rs_jitter s + (transit - rs_jitter s) / 16, rs_lastTransit := transit\<rparr>
      else s)"

definition update_seq :: "32 word \<Rightarrow> rtpStreamStats \<Rightarrow> rtpStreamStats" where
  "update_seq seq s =
     (let low = rs_maxSeq s AND 0xFFFF;
          cycles = (if seq < low \<and> low - seq > 0x8000 then rs_cycles s + 0x10000 else rs_cycles s);
          extendedSeq = cycles OR seq
      in s\<lparr>rs_cycles := cycles, rs_maxSeq := (if extendedSeq > rs_maxSeq s then extendedSeq else rs_maxSeq s),
           rs_received := rs_received s + 1\<rparr>)"

text \<open>A missing packet, a nil pointer, is \<open>None\<close>.\<close>

definition Update :: "RtpPacket option \<Rightarrow> go_time \<Rightarrow> rtpStreamStats \<Rightarrow> rtpStreamStats" where
  "Update p arrival s =
     (case p of
        None \<Rightarrow> s
      | Some pkt \<Rightarrow>
          let seq = ucast (SequenceNumber pkt)
          in if \<not> rs_initialized s
             then s\<lparr>rs_baseSeq := seq, rs_maxSeq := seq, rs_received := 1, rs_initialized := True, rs_lastArrival := arrival,
                    rs_lastTimestamp := Timestamp pkt, rs_lastTransit := 0, rs_jitter := 0\<rparr>
             else (update_jitter pkt arrival (update_seq seq s))\<lparr>rs_lastArrival := arrival, rs_lastTimestamp := Timestamp pkt\<rparr>)"

text \<open>The reception report of the RTCP library, the fields that are set.\<close>

record ReceptionReport =
  rr_SSRC :: "32 word"
  rr_FractionLost :: "8 word"
  rr_TotalLost :: "32 word"
  rr_LastSequenceNumber :: "32 word"
  rr_Jitter :: "32 word"

text \<open>\<^verbatim>\<open>math.Round\<close>: half away from zero.\<close>

definition go_Round :: "real \<Rightarrow> int" where
  "go_Round x = (if x < 0 then \<lceil>x - 1/2\<rceil> else \<lfloor>x + 1/2\<rfloor>)"

definition expected_packets :: "rtpStreamStats \<Rightarrow> 32 word" where
  "expected_packets s = (rs_maxSeq s - rs_baseSeq s) + 1"

definition fraction_lost :: "32 word \<Rightarrow> 32 word \<Rightarrow> 8 word" where
  "fraction_lost expectedInterval receivedInterval =
     (let lostInterval = expectedInterval - receivedInterval
      in if expectedInterval \<noteq> 0 \<and> lostInterval > 0 then ucast (push_bit 8 lostInterval div expectedInterval) else 0)"

definition buildReceptionReport :: "32 word \<Rightarrow> rtpStreamStats \<Rightarrow> ReceptionReport option \<times> rtpStreamStats" where
  "buildReceptionReport ssrc s =
     (if \<not> rs_initialized s then (None, s)
      else
        let expected = expected_packets s;
            lost = max 0 (uint expected - uint (rs_received s));
            fraction = fraction_lost (expected - rs_expectedPrior s) (rs_received s - rs_receivedPrior s);
            totalLost = (word_of_int lost :: 32 word)
        in (Some \<lparr>rr_SSRC = ssrc, rr_FractionLost = fraction, rr_TotalLost = (if totalLost > 0xFFFFFF then 0xFFFFFF else totalLost),
                  rr_LastSequenceNumber = rs_maxSeq s, rr_Jitter = word_of_int (go_Round (rs_jitter s * rs_clockRate s))\<rparr>,
            s\<lparr>rs_expectedPrior := expected, rs_receivedPrior := rs_received s\<rparr>))"

text \<open>The loss ratio, the jitter and the number of packets.\<close>

definition Snapshot :: "rtpStreamStats \<Rightarrow> real \<times> real \<times> 32 word" where
  "Snapshot s =
     (if \<not> rs_initialized s then (0, 0, 0)
      else
        let expected = (if expected_packets s = 0 then 1 else expected_packets s);
            lost = of_int (uint (expected - rs_received s)) / of_int (uint expected)
        in (if lost < 0 then 0 else lost, rs_jitter s, rs_received s))"

section \<open>Sequence numbers\<close>

text \<open>The cycles are the highest sequence number with the low sixteen bits cleared.\<close>

definition seq_ok :: "rtpStreamStats \<Rightarrow> bool" where
  "seq_ok s \<longleftrightarrow> rs_initialized s \<and> rs_cycles s = rs_maxSeq s - (rs_maxSeq s AND 0xFFFF)"

lemma and_FFFF: "w AND 0xFFFF = take_bit 16 w" for w :: "32 word"
proof -
  have "(0xFFFF :: 32 word) = mask 16" by (simp add: mask_eq_exp_minus_1)
  then show ?thesis by (simp only: take_bit_eq_mask)
qed

lemma uint_low: "uint (take_bit 16 w) = uint w mod 65536" for w :: "32 word"
  by (subst unsigned_take_bit_eq) (simp add: take_bit_eq_mod)

lemma uint_high: "uint (w - take_bit 16 w) = uint w - uint w mod 65536" for w :: "32 word"
proof -
  have "uint (take_bit 16 w) \<le> uint w" by (simp add: uint_low zmod_le_nonneg_dividend)
  then show ?thesis using uint_sub_lem[of "take_bit 16 w" w] by (simp add: uint_low)
qed

lemma or_seq: "take_bit 16 c = 0 \<Longrightarrow> c OR ucast (q :: seqno) = c + ucast q" for c :: "32 word"
proof -
  assume c: "take_bit 16 c = 0"
  have "c AND ucast q = 0"
  proof (rule bit_eqI)
    fix n
    have "\<not> bit c n" if "n < 16" using c that by (metis bit_0_eq bit_take_bit_iff bot_apply bot_bool_def)
    then show "bit (c AND ucast q) n = bit 0 n" by (auto simp: bit_simps dest: bit_imp_le_length)
  qed
  then show ?thesis by (simp add: disjunctive_add_eq_or)
qed

lemma take_bit_high: "take_bit 16 (w - take_bit 16 w) = 0" for w :: "32 word"
  by (simp add: word_uint_eq_iff uint_low uint_high mod_diff_right_eq)

lemma take_bit_next: "take_bit 16 c = 0 \<Longrightarrow> take_bit 16 (c + 0x10000) = 0" for c :: "32 word"
  by (simp add: word_uint_eq_iff uint_low uint_word_ariths mod_mod_cancel mod_add_eq)

text \<open>One packet in integers: the low part, the test for a wrap, and the new maximum.\<close>

lemma update_seq_int:
  assumes ok: "seq_ok s" and M: "M = uint (rs_maxSeq s)" and S: "S = uint (q :: seqno)"
    and wrap: "wrap \<longleftrightarrow> S < M mod 65536 \<and> M mod 65536 - S > 0x8000" and room: "wrap \<Longrightarrow> M < 2 ^ 32 - 65536"
  shows "uint (rs_maxSeq (update_seq (ucast q) s)) = max M (M - M mod 65536 + (if wrap then 65536 else 0) + S) \<and>
    uint (rs_cycles (update_seq (ucast q) s)) = M - M mod 65536 + (if wrap then 65536 else 0)"
proof -
  let ?low = "take_bit 16 (rs_maxSeq s)"
  define c where "c = (if wrap then rs_maxSeq s - ?low + 0x10000 else rs_maxSeq s - ?low)"
  have S2: "0 \<le> S" "S < 65536" "uint (ucast q :: 32 word) = S" using uint_lt2p[of q] by (simp_all add: S unsigned_ucast_eq take_bit_int_eq_self)
  have M2: "0 \<le> M" "M < 2 ^ 32" "0 \<le> M mod 65536" "M mod 65536 \<le> M" "M mod 65536 < 65536"
    using uint_lt2p[of "rs_maxSeq s"] by (simp_all add: M zmod_le_nonneg_dividend)
  have low: "uint ?low = M mod 65536" by (simp add: M uint_low)
  have test: "ucast q < ?low \<and> ?low - ucast q > 0x8000 \<longleftrightarrow> wrap"
  proof (cases "S < M mod 65536")
    case True
    then have "uint (?low - ucast q) = M mod 65536 - S"
      using uint_sub_lem[of "ucast q" ?low] by (simp add: S2 low)
    then show ?thesis using True by (simp add: word_less_def S2 low wrap)
  qed (simp add: word_less_def S2 low wrap)
  have c_uint: "uint c = M - M mod 65536 + (if wrap then 65536 else 0)"
  proof (cases wrap)
    case True
    then have "(M - M mod 65536 + 65536) mod 4294967296 = M - M mod 65536 + 65536"
      using room M2 by (intro mod_pos_pos_trivial) simp_all
    then show ?thesis using True by (simp add: c_def uint_word_ariths(1) uint_high flip: M)
  qed (simp add: c_def uint_high uint_low flip: M)
  have "take_bit 16 c = 0" by (simp add: c_def take_bit_high take_bit_next)
  then have "c OR ucast q = c + ucast q" by (rule or_seq)
  moreover have "uint (c + ucast q) = uint c + S"
  proof -
    define k where "k = M div 65536"
    have k: "M - M mod 65536 = 65536 * k" by (simp add: k_def minus_mod_eq_mult_div)
    have "65536 * k \<le> M" using k M2 by linarith
    then have "k \<le> 65535" "wrap \<Longrightarrow> k \<le> 65534" using M2(2) room by auto
    then have "uint c + S < 2 ^ 32" unfolding c_uint k using S2(1,2) by (cases wrap) auto
    then show ?thesis using S2 by (simp add: uint_word_ariths)
  qed
  ultimately show ?thesis
    using ok test c_uint
    by (auto simp: update_seq_def Let_def and_FFFF seq_ok_def c_def word_less_def M split: if_splits)
qed

lemma Update_seq:
  assumes "rs_initialized s"
  shows "rs_maxSeq (Update (Some pkt) t s) = rs_maxSeq (update_seq (ucast (SequenceNumber pkt)) s)"
    and "rs_cycles (Update (Some pkt) t s) = rs_cycles (update_seq (ucast (SequenceNumber pkt)) s)"
    and "rs_initialized (Update (Some pkt) t s)" and "rs_received (Update (Some pkt) t s) = rs_received s + 1"
  using assms by (simp_all add: Update_def update_jitter_def Let_def update_seq_def)

text \<open>C16: a packet ahead of the highest one by less than half of the sequence space advances the highest
  sequence number by exactly its distance, through the wrap-around of the 16-bit numbers, and keeps
  the cycles in step.\<close>

theorem Update_tracks:
  assumes ok: "seq_ok s" and seq: "SequenceNumber pkt = ucast (rs_maxSeq s) + word_of_int d"
    and d: "0 < d" "d < 2 ^ 15" and room: "uint (rs_maxSeq s) + d < 2 ^ 32 - 2 ^ 16"
  shows "uint (rs_maxSeq (Update (Some pkt) t s)) = uint (rs_maxSeq s) + d \<and> seq_ok (Update (Some pkt) t s)"
proof -
  define M where "M = uint (rs_maxSeq s)"
  define S where "S = uint (SequenceNumber pkt)"
  have S: "S = (M mod 65536 + d) mod 65536"
    unfolding S_def seq by (simp add: M_def uint_word_ariths uint_word_of_int unsigned_ucast_eq take_bit_eq_mod mod_add_left_eq mod_add_right_eq)
  have L: "0 \<le> M mod 65536" "M mod 65536 < 65536" by simp_all
  let ?wrap = "S < M mod 65536 \<and> M mod 65536 - S > 0x8000"
  have room': "?wrap \<Longrightarrow> M < 2 ^ 32 - 65536" using room d by (simp add: M_def)
  have step: "?wrap \<longleftrightarrow> M mod 65536 + d \<ge> 65536" "S = M mod 65536 + d - (if M mod 65536 + d \<ge> 65536 then 65536 else 0)"
  proof -
    show S': "S = M mod 65536 + d - (if M mod 65536 + d \<ge> 65536 then 65536 else 0)"
      using minus_mod_self2[of "M mod 65536 + d" 65536] mod_pos_pos_trivial[of "M mod 65536 + d - 65536" 65536]
        mod_pos_pos_trivial[of "M mod 65536 + d" 65536] L d unfolding S by (simp split: if_split)
    show "?wrap \<longleftrightarrow> M mod 65536 + d \<ge> 65536" using L d unfolding S' by (simp split: if_split)
  qed
  have init: "rs_initialized s" using ok by (simp add: seq_ok_def)
  note upd = update_seq_int[OF ok M_def S_def refl room']
  have max: "uint (rs_maxSeq (Update (Some pkt) t s)) = M + d"
    and cycles: "uint (rs_cycles (Update (Some pkt) t s)) = M - M mod 65536 + (if M mod 65536 + d \<ge> 65536 then 65536 else 0)"
    using upd step d by (simp_all add: Update_seq[OF init])
  have "(M + d) mod 65536 = S" using S by (simp add: mod_add_left_eq)
  then have "uint (rs_maxSeq (Update (Some pkt) t s) - take_bit 16 (rs_maxSeq (Update (Some pkt) t s))) =
      uint (rs_cycles (Update (Some pkt) t s))"
    unfolding uint_high max cycles using step(2) by simp
  then show ?thesis
    using max Update_seq(3)[OF init, of pkt t] by (simp add: seq_ok_def and_FFFF M_def word_uint_eq_iff)
qed

theorem Update_tracks_witness:
  "uint (rs_maxSeq (Update (Some \<lparr>SequenceNumber = 1, Timestamp = 0, SSRC = 0, PayloadType = 0, Payload = []\<rparr>) 1 (Update (Some \<lparr>SequenceNumber = 65534, Timestamp = 0, SSRC = 0, PayloadType = 0, Payload = []\<rparr>) 1 newRTPStreamStats))) =
     65534 + 3"
proof -
  let ?s = "Update (Some \<lparr>SequenceNumber = 65534, Timestamp = 0, SSRC = 0, PayloadType = 0, Payload = []\<rparr>) 1 newRTPStreamStats"
  have s: "seq_ok ?s" "rs_maxSeq ?s = 65534"
    by (simp_all add: seq_ok_def Update_def newRTPStreamStats_def and_FFFF word_uint_eq_iff uint_low uint_word_ariths)
  show ?thesis
    using Update_tracks[OF s(1), of "\<lparr>SequenceNumber = 1, Timestamp = 0, SSRC = 0, PayloadType = 0, Payload = []\<rparr>" 3 1] s(2) by simp
qed

text \<open>A late packet, one that is behind the highest by less than half of the sequence space. It leaves
  the highest sequence number alone, unless it was sent before the last wrap-around: then the
  highest sequence number jumps ahead by a whole cycle less the delay.\<close>

theorem Update_late:
  assumes ok: "seq_ok s" and seq: "SequenceNumber pkt = ucast (rs_maxSeq s) - word_of_int d" and d: "0 < d" "d < 2 ^ 15"
  shows "uint (rs_maxSeq (Update (Some pkt) t s)) =
    (if d \<le> uint (rs_maxSeq s) mod 65536 then uint (rs_maxSeq s) else uint (rs_maxSeq s) + (65536 - d))"
proof -
  define M where "M = uint (rs_maxSeq s)"
  define S where "S = uint (SequenceNumber pkt)"
  have "S = (M mod 65536 - d) mod 65536"
    unfolding S_def seq by (simp add: M_def uint_word_ariths uint_word_of_int unsigned_ucast_eq take_bit_eq_mod mod_diff_left_eq mod_diff_right_eq)
  moreover have L: "0 \<le> M mod 65536" "M mod 65536 < 65536" by simp_all
  ultimately have S: "S = M mod 65536 - d + (if d \<le> M mod 65536 then 0 else 65536)"
    using mod_add_self2[of "M mod 65536 - d" 65536] mod_pos_pos_trivial[of "M mod 65536 - d + 65536" 65536]
      mod_pos_pos_trivial[of "M mod 65536 - d" 65536] d by (simp split: if_split)
  let ?wrap = "S < M mod 65536 \<and> M mod 65536 - S > 0x8000"
  have nowrap: "\<not> ?wrap" using d L unfolding S by (simp split: if_split)
  have init: "rs_initialized s" using ok by (simp add: seq_ok_def)
  have "uint (rs_maxSeq (Update (Some pkt) t s)) = max M (M - M mod 65536 + S)"
    using update_seq_int[OF ok M_def S_def refl] nowrap by (simp add: Update_seq[OF init])
  then show ?thesis using d L unfolding S M_def[symmetric] by (simp split: if_split)
qed

theorem Update_late_witness:
  "uint (rs_maxSeq (Update (Some \<lparr>SequenceNumber = 65535, Timestamp = 0, SSRC = 0, PayloadType = 0, Payload = []\<rparr>) 1 (Update (Some \<lparr>SequenceNumber = 1, Timestamp = 0, SSRC = 0, PayloadType = 0, Payload = []\<rparr>) 1 newRTPStreamStats))) =
     65535"
proof -
  let ?s = "Update (Some \<lparr>SequenceNumber = 1, Timestamp = 0, SSRC = 0, PayloadType = 0, Payload = []\<rparr>) 1 newRTPStreamStats"
  have s: "seq_ok ?s" "rs_maxSeq ?s = 1"
    by (simp_all add: seq_ok_def Update_def newRTPStreamStats_def and_FFFF word_uint_eq_iff uint_low uint_word_ariths)
  show ?thesis
    using Update_late[OF s(1), of "\<lparr>SequenceNumber = 65535, Timestamp = 0, SSRC = 0, PayloadType = 0, Payload = []\<rparr>" 2 1] s(2) by simp
qed

section \<open>Loss\<close>

text \<open>The fraction lost of an interval in which not more packets arrived than were expected: the
  lost share in units of 1/256, rounded down, and 0 when all are lost (256 does not fit in a
  byte).\<close>

theorem fraction_lost_correct:
  assumes "uint r \<le> uint e" and "uint e < 2 ^ 24"
  shows "uint (fraction_lost e r) = (if e = 0 then 0 else (256 * (uint e - uint r) div uint e) mod 256)"
proof -
  have diff: "uint (e - r) = uint e - uint r" using assms(1) uint_sub_lem[of r e] by simp
  have "uint e - uint r < 2 ^ 24" using assms(2) uint_nonnegative[of r] by linarith
  then have shift: "uint (push_bit 8 (e - r)) = 256 * (uint e - uint r)"
    using assms(1) uint_mult_lem[of "e - r" 256] by (simp add: push_bit_eq_mult diff)
  show ?thesis
  proof (cases "e = 0 \<or> e = r")
    case True
    then show ?thesis by (auto simp: fraction_lost_def Let_def)
  next
    case False
    then have "e \<noteq> 0" "e - r > 0" by (auto simp: word_neq_0_conv[symmetric])
    then show ?thesis
      by (simp add: fraction_lost_def Let_def unsigned_ucast_eq take_bit_eq_mod uint_div shift)
  qed
qed

text \<open>One duplicate and no loss: ten packets expected and eleven received are reported as half of
  the packets lost, and the loss ratio of the snapshot is about 429 million. The unsigned subtraction
  wraps, and the test for a negative loss never holds.\<close>

theorem duplicate_reported_as_loss:
  assumes "rs_initialized s" and "expected_packets s = 10" and "rs_received s = 11"
    and "rs_expectedPrior s = 0" and "rs_receivedPrior s = 0"
  shows "map_option rr_FractionLost (fst (buildReceptionReport ssrc s)) = Some 128 \<and> fst (Snapshot s) = 429496729.5"
proof -
  have "fraction_lost 10 11 = 128" by code_simp
  moreover have "uint (10 - 11 :: 32 word) = 4294967295" by (simp add: uint_word_ariths)
  ultimately show ?thesis using assms by (simp add: buildReceptionReport_def Snapshot_def Let_def del: of_int_uint)
qed

theorem duplicate_reported_as_loss_witness:
  "fst (Snapshot (newRTPStreamStats\<lparr>rs_initialized := True, rs_baseSeq := 1, rs_maxSeq := 10, rs_received := 11\<rparr>)) = 429496729.5"
  using duplicate_reported_as_loss[of "newRTPStreamStats\<lparr>rs_initialized := True, rs_baseSeq := 1, rs_maxSeq := 10, rs_received := 11\<rparr>" 0]
  by (simp add: expected_packets_def newRTPStreamStats_def)

theorem fraction_lost_correct_witness: "uint (fraction_lost 10 7) = 76"
  using fraction_lost_correct[of 7 10] by simp

end
