(* ===== verification/RateLimit.thy ===== *)
theory RateLimit
  imports GoLib
begin

text \<open>
  \<^verbatim>\<open>pkg/ratelimit\<close>: the token bucket of \<^verbatim>\<open>ratelimit.go\<close> and the SIP limiter of
  \<^verbatim>\<open>sip_limiter.go\<close>. Token counts and rates, float64 in the code, are exact rationals. The map of
  clients is a map; the goroutine that removes stale clients is the operation \<open>cleanup_pass\<close>. The
  logging and metrics calls are left out.
\<close>

section \<open>The token bucket\<close>

record bucket =
  bk_tokens :: rat
  bk_lastUpdate :: go_time
  bk_blocked :: bool
  bk_blockUntil :: go_time

record Limiter =
  lim_rate :: rat
  lim_burst :: int
  lim_clients :: "string \<rightharpoonup> bucket"
  lim_cleanupTTL :: go_duration

definition NewLimiter :: "rat \<Rightarrow> int \<Rightarrow> Limiter" where
  "NewLimiter rate burst = \<lparr>lim_rate = rate, lim_burst = burst, lim_clients = Map.empty, lim_cleanupTTL = 600000000000\<rparr>"

definition Seconds :: "go_duration \<Rightarrow> rat" where
  "Seconds d = of_int d / 1000000000"

definition client_bucket :: "rat \<Rightarrow> go_time \<Rightarrow> string \<Rightarrow> Limiter \<Rightarrow> bucket" where
  "client_bucket tokens now key l =
     (case lim_clients l key of
        Some b \<Rightarrow> b
      | None \<Rightarrow> \<lparr>bk_tokens = tokens, bk_lastUpdate = now, bk_blocked = False, bk_blockUntil = 0\<rparr>)"

definition refill :: "go_time \<Rightarrow> Limiter \<Rightarrow> bucket \<Rightarrow> rat" where
  "refill now l b = min (bk_tokens b + Seconds (now - bk_lastUpdate b) * lim_rate l) (of_int (lim_burst l))"

definition AllowN :: "string \<Rightarrow> int \<Rightarrow> go_time \<Rightarrow> Limiter \<Rightarrow> bool \<times> Limiter" where
  "AllowN key n now l =
     (let b = client_bucket (of_int (lim_burst l)) now key l
      in if bk_blocked b \<and> now < bk_blockUntil b then (False, l\<lparr>lim_clients := (lim_clients l)(key \<mapsto> b)\<rparr>)
         else
           let tokens = refill now l b; ok = tokens \<ge> of_int n;
               b' = b\<lparr>bk_blocked := False, bk_lastUpdate := now, bk_tokens := (if ok then tokens - of_int n else tokens)\<rparr>
           in (ok, l\<lparr>lim_clients := (lim_clients l)(key \<mapsto> b')\<rparr>))"

definition Allow :: "string \<Rightarrow> go_time \<Rightarrow> Limiter \<Rightarrow> bool \<times> Limiter" where
  "Allow key now l =
     (let b = client_bucket (of_int (lim_burst l)) now key l
      in if bk_blocked b \<and> now < bk_blockUntil b then (False, l\<lparr>lim_clients := (lim_clients l)(key \<mapsto> b)\<rparr>)
         else
           let tokens = refill now l b; ok = tokens \<ge> 1;
               b' = b\<lparr>bk_blocked := False, bk_lastUpdate := now, bk_tokens := (if ok then tokens - 1 else tokens)\<rparr>
           in (ok, l\<lparr>lim_clients := (lim_clients l)(key \<mapsto> b')\<rparr>))"

definition Block :: "string \<Rightarrow> go_duration \<Rightarrow> go_time \<Rightarrow> Limiter \<Rightarrow> Limiter" where
  "Block key duration now l =
     l\<lparr>lim_clients := (lim_clients l)(key \<mapsto>
         (client_bucket 0 now key l)\<lparr>bk_blocked := True, bk_blockUntil := now + duration, bk_tokens := 0\<rparr>)\<rparr>"

definition IsBlocked :: "string \<Rightarrow> go_time \<Rightarrow> Limiter \<Rightarrow> bool" where
  "IsBlocked key now l = (case lim_clients l key of None \<Rightarrow> False | Some b \<Rightarrow> bk_blocked b \<and> now < bk_blockUntil b)"

definition GetTokens :: "string \<Rightarrow> go_time \<Rightarrow> Limiter \<Rightarrow> rat" where
  "GetTokens key now l = (case lim_clients l key of None \<Rightarrow> of_int (lim_burst l) | Some b \<Rightarrow> refill now l b)"

definition lim_Reset :: "Limiter \<Rightarrow> Limiter" where
  "lim_Reset l = l\<lparr>lim_clients := Map.empty\<rparr>"

definition stale :: "go_time \<Rightarrow> Limiter \<Rightarrow> bucket \<Rightarrow> bool" where
  "stale now l b \<longleftrightarrow> now - bk_lastUpdate b > lim_cleanupTTL l \<and> (\<not> bk_blocked b \<or> now > bk_blockUntil b)"

definition cleanup_pass :: "go_time \<Rightarrow> Limiter \<Rightarrow> Limiter" where
  "cleanup_pass now l =
     l\<lparr>lim_clients := (\<lambda>k. case lim_clients l k of Some b \<Rightarrow> if stale now l b then None else Some b | None \<Rightarrow> None)\<rparr>"

section \<open>The SIP limiter\<close>

datatype SIPMethod = SIPMethodINVITE | SIPMethodACK | SIPMethodBYE | SIPMethodCANCEL | SIPMethodOPTIONS | SIPMethodREGISTER | SIPMethodOther

text \<open>The parts of the configuration the SIP limiter reads.\<close>

record RateConfig =
  SIPEnabled :: bool
  SIPInvitesPerSecond :: rat
  SIPInviteBurst :: int
  SIPRequestsPerSecond :: rat
  SIPRequestBurst :: int
  WhitelistedIPs :: "string list"

text \<open>A network of the Go library is its membership test on address strings, false for what is not an
  address; \<open>parse_cidr\<close> is \<^verbatim>\<open>net.ParseCIDR\<close> and \<open>is_ip\<close> whether \<^verbatim>\<open>net.ParseIP\<close> succeeds.\<close>

type_synonym ip_net = "string \<Rightarrow> bool"

record SIPLimiter =
  sl_inviteLimiter :: Limiter
  sl_requestLimiter :: Limiter
  sl_config :: RateConfig
  sl_whitelistedIPs :: "string set"
  sl_whitelistedNets :: "ip_net list"

definition whitelist_entry :: "(string \<Rightarrow> ip_net option) \<Rightarrow> string \<Rightarrow> SIPLimiter \<Rightarrow> SIPLimiter" where
  "whitelist_entry parse_cidr raw s =
     (let ip = TrimSpace raw
      in if ip = '''' then s
         else if Contains ip ''/''
         then (case parse_cidr ip of Some n \<Rightarrow> s\<lparr>sl_whitelistedNets := sl_whitelistedNets s @ [n]\<rparr> | None \<Rightarrow> s)
         else s\<lparr>sl_whitelistedIPs := insert ip (sl_whitelistedIPs s)\<rparr>)"

definition NewSIPLimiter :: "(string \<Rightarrow> ip_net option) \<Rightarrow> RateConfig \<Rightarrow> SIPLimiter" where
  "NewSIPLimiter parse_cidr config =
     fold (whitelist_entry parse_cidr) (WhitelistedIPs config)
       \<lparr>sl_inviteLimiter = NewLimiter (SIPInvitesPerSecond config) (SIPInviteBurst config),
        sl_requestLimiter = NewLimiter (SIPRequestsPerSecond config) (SIPRequestBurst config),
        sl_config = config, sl_whitelistedIPs = {}, sl_whitelistedNets = []\<rparr>"

definition isWhitelisted :: "(string \<Rightarrow> bool) \<Rightarrow> string \<Rightarrow> SIPLimiter \<Rightarrow> bool" where
  "isWhitelisted is_ip ip s \<longleftrightarrow>
     ip \<in> sl_whitelistedIPs s \<or> is_ip ip \<and> list_ex (\<lambda>n. n ip) (sl_whitelistedNets s)"

definition parseMethod :: "string \<Rightarrow> SIPMethod" where
  "parseMethod m =
     (let u = ToUpper m
      in if u = ''INVITE'' then SIPMethodINVITE
         else if u = ''ACK'' then SIPMethodACK
         else if u = ''BYE'' then SIPMethodBYE
         else if u = ''CANCEL'' then SIPMethodCANCEL
         else if u = ''OPTIONS'' then SIPMethodOPTIONS
         else if u = ''REGISTER'' then SIPMethodREGISTER
         else SIPMethodOther)"

text \<open>The limiter that a method is charged to, and the key.\<close>

definition request_key :: "string \<Rightarrow> SIPMethod \<Rightarrow> string" where
  "request_key clientIP m =
     (case m of SIPMethodREGISTER \<Rightarrow> clientIP @ '':REGISTER'' | SIPMethodOPTIONS \<Rightarrow> clientIP @ '':OPTIONS'' | _ \<Rightarrow> clientIP)"

definition AllowRequest :: "(string \<Rightarrow> bool) \<Rightarrow> string \<Rightarrow> string \<Rightarrow> go_time \<Rightarrow> SIPLimiter \<Rightarrow> bool \<times> SIPLimiter" where
  "AllowRequest is_ip clientIP mtd now s =
     (if \<not> SIPEnabled (sl_config s) then (True, s)
      else if isWhitelisted is_ip clientIP s then (True, s)
      else
        let m = parseMethod mtd
        in if m = SIPMethodINVITE
           then let (ok, l) = Allow clientIP now (sl_inviteLimiter s) in (ok, s\<lparr>sl_inviteLimiter := l\<rparr>)
           else let (ok, l) = Allow (request_key clientIP m) now (sl_requestLimiter s) in (ok, s\<lparr>sl_requestLimiter := l\<rparr>))"

definition BlockClient :: "string \<Rightarrow> go_duration \<Rightarrow> go_time \<Rightarrow> SIPLimiter \<Rightarrow> SIPLimiter" where
  "BlockClient clientIP duration now s =
     s\<lparr>sl_inviteLimiter := Block clientIP duration now (sl_inviteLimiter s),
       sl_requestLimiter := Block clientIP duration now (sl_requestLimiter s)\<rparr>"

definition sl_IsBlocked :: "string \<Rightarrow> go_time \<Rightarrow> SIPLimiter \<Rightarrow> bool" where
  "sl_IsBlocked clientIP now s \<longleftrightarrow>
     IsBlocked clientIP now (sl_inviteLimiter s) \<or> IsBlocked clientIP now (sl_requestLimiter s)"

text \<open>False is the error of an address that does not parse.\<close>

definition AddToWhitelist :: "(string \<Rightarrow> bool) \<Rightarrow> (string \<Rightarrow> ip_net option) \<Rightarrow> string \<Rightarrow> SIPLimiter \<Rightarrow> bool \<times> SIPLimiter" where
  "AddToWhitelist is_ip parse_cidr raw s =
     (let ip = TrimSpace raw
      in if ip = '''' then (True, s)
         else if Contains ip ''/''
         then (case parse_cidr ip of
                 Some n \<Rightarrow> (True, s\<lparr>sl_whitelistedNets := sl_whitelistedNets s @ [n]\<rparr>)
               | None \<Rightarrow> (False, s))
         else if \<not> is_ip ip then (False, s)
         else (True, s\<lparr>sl_whitelistedIPs := insert ip (sl_whitelistedIPs s)\<rparr>))"

definition sl_Reset :: "SIPLimiter \<Rightarrow> SIPLimiter" where
  "sl_Reset s = s\<lparr>sl_inviteLimiter := lim_Reset (sl_inviteLimiter s), sl_requestLimiter := lim_Reset (sl_requestLimiter s)\<rparr>"

section \<open>The rate bound\<close>

text \<open>A history of requests, each a key and a time, and how many of one key are allowed.\<close>

fun allow_run :: "(string \<times> go_time) list \<Rightarrow> Limiter \<Rightarrow> bool list \<times> Limiter" where
  "allow_run [] l = ([], l)"
| "allow_run ((k, t) # cs) l = (let (ok, l1) = Allow k t l; (oks, l2) = allow_run cs l1 in (ok # oks, l2))"

definition allowed_of :: "string \<Rightarrow> (string \<times> go_time) list \<Rightarrow> bool list \<Rightarrow> nat" where
  "allowed_of k cs oks = length (filter (\<lambda>((k', t), ok). k' = k \<and> ok) (zip cs oks))"

definition limiter_ok :: "go_time \<Rightarrow> Limiter \<Rightarrow> bool" where
  "limiter_ok now l \<longleftrightarrow>
     0 \<le> lim_rate l \<and> 0 \<le> lim_burst l \<and>
     (\<forall>b \<in> ran (lim_clients l). 0 \<le> bk_tokens b \<and> bk_tokens b \<le> of_int (lim_burst l) \<and> bk_lastUpdate b \<le> now)"

lemma Seconds_nonneg: "0 \<le> d \<Longrightarrow> 0 \<le> Seconds d"
  by (simp add: Seconds_def)

lemma Seconds_add: "Seconds (a + b) = Seconds a + Seconds b"
  by (simp add: Seconds_def add_divide_distrib)

lemma limiter_ok_bucket:
  "limiter_ok now l \<Longrightarrow> 0 \<le> bk_tokens (client_bucket (of_int (lim_burst l)) now k l) \<and>
     bk_tokens (client_bucket (of_int (lim_burst l)) now k l) \<le> of_int (lim_burst l) \<and>
     bk_lastUpdate (client_bucket (of_int (lim_burst l)) now k l) \<le> now"
  by (auto simp: limiter_ok_def client_bucket_def ran_def split: option.split)

lemma Allow_frame [simp]:
  "lim_rate (snd (Allow k t l)) = lim_rate l" "lim_burst (snd (Allow k t l)) = lim_burst l"
  "k \<noteq> k' \<Longrightarrow> lim_clients (snd (Allow k t l)) k' = lim_clients l k'"
  by (simp_all add: Allow_def Let_def)

lemma refill_bounds:
  assumes "limiter_ok now l" and "b = client_bucket (of_int (lim_burst l)) now k l"
  shows "0 \<le> refill now l b \<and> refill now l b \<le> of_int (lim_burst l) \<and>
    refill now l b \<le> bk_tokens b + Seconds (now - bk_lastUpdate b) * lim_rate l"
  using limiter_ok_bucket[OF assms(1), of k] assms by (simp add: refill_def limiter_ok_def Seconds_nonneg)

lemma limiter_ok_mono: "limiter_ok t l \<Longrightarrow> t \<le> u \<Longrightarrow> limiter_ok u l"
  by (force simp: limiter_ok_def)

lemma limiter_ok_update:
  assumes "limiter_ok now l" and "0 \<le> bk_tokens b" "bk_tokens b \<le> of_int (lim_burst l)" "bk_lastUpdate b \<le> now"
  shows "limiter_ok now (l\<lparr>lim_clients := (lim_clients l)(k \<mapsto> b)\<rparr>)"
  using assms by (auto simp: limiter_ok_def ran_def split: if_splits)

text \<open>The available tokens are the potential: a request costs one if it is allowed and nothing else.\<close>

lemma Allow_tokens:
  assumes "limiter_ok t l"
  shows "limiter_ok t (snd (Allow k t l)) \<and>
    GetTokens k t (snd (Allow k t l)) + (if fst (Allow k t l) then 1 else 0) \<le> GetTokens k t l"
proof -
  define b where "b = client_bucket (of_int (lim_burst l)) t k l"
  have b: "0 \<le> bk_tokens b" "bk_tokens b \<le> of_int (lim_burst l)" "bk_lastUpdate b \<le> t"
    using limiter_ok_bucket[OF assms, of k] by (simp_all add: b_def)
  have r: "0 \<le> refill t l b" "refill t l b \<le> of_int (lim_burst l)"
    using refill_bounds[OF assms b_def] by simp_all
  have tok: "GetTokens k t l = refill t l b"
    using b by (auto simp: GetTokens_def b_def client_bucket_def refill_def Seconds_def split: option.split)
  show ?thesis
  proof (cases "bk_blocked b \<and> t < bk_blockUntil b")
    case True
    then have "Allow k t l = (False, l\<lparr>lim_clients := (lim_clients l)(k \<mapsto> b)\<rparr>)"
      by (simp add: Allow_def Let_def b_def)
    then show ?thesis
      using limiter_ok_update[OF assms b] tok by (simp add: GetTokens_def refill_def)
  next
    case False
    define tk where "tk = (if refill t l b \<ge> 1 then refill t l b - 1 else refill t l b)"
    have allow: "Allow k t l = (refill t l b \<ge> 1,
        l\<lparr>lim_clients := (lim_clients l)(k \<mapsto> b\<lparr>bk_blocked := False, bk_lastUpdate := t, bk_tokens := tk\<rparr>)\<rparr>)"
      using False by (auto simp: Allow_def Let_def b_def tk_def)
    have "0 \<le> tk" "tk \<le> of_int (lim_burst l)" using r by (auto simp: tk_def)
    then have "limiter_ok t (snd (Allow k t l))" unfolding allow by (auto intro!: limiter_ok_update[OF assms])
    moreover have "GetTokens k t (snd (Allow k t l)) \<le> tk"
      unfolding allow by (simp add: GetTokens_def refill_def Seconds_def)
    moreover have "tk + (if fst (Allow k t l) then 1 else 0) = refill t l b" by (simp add: allow tk_def)
    ultimately show ?thesis using tok by linarith
  qed
qed

lemma GetTokens_grow:
  assumes "limiter_ok t l" and "t \<le> u"
  shows "GetTokens k u l \<le> GetTokens k t l + Seconds (u - t) * lim_rate l" and "0 \<le> GetTokens k t l"
proof -
  have pos: "0 \<le> Seconds (u - t) * lim_rate l" using assms by (simp add: limiter_ok_def Seconds_nonneg)
  have split: "Seconds (u - x) = Seconds (u - t) + Seconds (t - x)" for x by (simp flip: Seconds_add)
  show "GetTokens k u l \<le> GetTokens k t l + Seconds (u - t) * lim_rate l"
    using pos by (cases "lim_clients l k") (auto simp: GetTokens_def refill_def split[of "bk_lastUpdate _"] min_def algebra_simps)
  show "0 \<le> GetTokens k t l"
    using assms(1) by (cases "lim_clients l k")
      (auto simp: GetTokens_def refill_def limiter_ok_def ran_def min_def intro!: add_nonneg_nonneg mult_nonneg_nonneg Seconds_nonneg)
qed

lemma GetTokens_other: "k \<noteq> k' \<Longrightarrow> GetTokens k t (snd (Allow k' t' l)) = GetTokens k t l"
  by (simp add: GetTokens_def refill_def split: option.split)

lemma allow_run_bound:
  assumes "limiter_ok t0 l" and "sorted_wrt (\<le>) (map snd cs)" and "\<forall>c \<in> set cs. t0 \<le> snd c \<and> snd c \<le> T" and "t0 \<le> T"
  shows "of_nat (allowed_of k cs (fst (allow_run cs l))) \<le> GetTokens k t0 l + Seconds (T - t0) * lim_rate l"
  using assms
proof (induction cs arbitrary: t0 l)
  case Nil
  have "0 \<le> Seconds (T - t0) * lim_rate l" using Nil by (simp add: limiter_ok_def Seconds_nonneg)
  then show ?case using GetTokens_grow(2)[OF Nil.prems(1)] Nil.prems by (simp add: allowed_of_def)
next
  case (Cons c cs)
  obtain k' t where c: "c = (k', t)" by (cases c)
  have t: "t0 \<le> t" "t \<le> T" using Cons.prems(3) by (auto simp: c)
  have ok: "limiter_ok t l" using limiter_ok_mono[OF Cons.prems(1) t(1)] .
  let ?a = "Allow k' t l"
  have later: "\<forall>c \<in> set cs. t \<le> snd c \<and> snd c \<le> T" using Cons.prems(2,3) by (auto simp: c)
  have "of_nat (allowed_of k cs (fst (allow_run cs (snd ?a)))) \<le> GetTokens k t (snd ?a) + Seconds (T - t) * lim_rate l"
  proof -
    have "limiter_ok t (snd ?a)" using Allow_tokens[OF ok, of k'] by simp
    moreover have "sorted_wrt (\<le>) (map snd cs)" using Cons.prems(2) by simp
    ultimately show ?thesis using Cons.IH[OF _ _ later t(2)] by fastforce
  qed
  moreover have "GetTokens k t (snd ?a) + (if k' = k \<and> fst ?a then 1 else 0) \<le> GetTokens k t l"
    using Allow_tokens[OF ok, of k'] by (cases "k' = k") (auto simp: GetTokens_other)
  moreover have "GetTokens k t l \<le> GetTokens k t0 l + Seconds (t - t0) * lim_rate l"
    using GetTokens_grow(1)[OF Cons.prems(1) t(1)] .
  moreover have "Seconds (T - t0) = Seconds (t - t0) + Seconds (T - t)" by (simp flip: Seconds_add)
  then have "Seconds (T - t0) * lim_rate l = Seconds (t - t0) * lim_rate l + Seconds (T - t) * lim_rate l"
    by (simp add: algebra_simps)
  moreover have "of_nat (allowed_of k (c # cs) (fst (allow_run (c # cs) l))) =
      (of_nat (allowed_of k cs (fst (allow_run cs (snd ?a)))) + (if k' = k \<and> fst ?a then 1 else 0) :: rat)"
    by (cases "k' = k") (simp_all add: c allowed_of_def split_beta)
  ultimately show ?case by (simp split: if_splits)
qed



text \<open>A blocked client. After \<open>BlockClient\<close> an INVITE, an ACK, a BYE or another request of the
  client is refused until the block ends, but REGISTER and OPTIONS requests are not affected at all,
  because they are charged to other keys.\<close>

theorem BlockClient_partial:
  assumes "SIPEnabled (sl_config s)" and "\<not> isWhitelisted is_ip ip s" and "t < now + d"
  shows "fst (AllowRequest is_ip ip mtd t (BlockClient ip d now s)) =
    (case parseMethod mtd of
       SIPMethodREGISTER \<Rightarrow> fst (AllowRequest is_ip ip mtd t s)
     | SIPMethodOPTIONS \<Rightarrow> fst (AllowRequest is_ip ip mtd t s)
     | _ \<Rightarrow> False)"
proof -
  have refused: "fst (Allow k t (Block k d now l)) = False" if "t < now + d" for k l
    using that by (simp add: Allow_def Block_def client_bucket_def Let_def)
  have other: "fst (Allow k t (Block k' d now l)) = fst (Allow k t l)" if "k \<noteq> k'" for k k' l
    using that by (simp add: Allow_def Block_def client_bucket_def refill_def Let_def cong: option.case_cong)
  have w: "\<not> isWhitelisted is_ip ip (BlockClient ip d now s)" "SIPEnabled (sl_config (BlockClient ip d now s))"
    using assms by (simp_all add: isWhitelisted_def BlockClient_def)
  show ?thesis
    using assms w refused[OF assms(3)] other[of "ip @ '':REGISTER''" ip] other[of "ip @ '':OPTIONS''" ip]
    by (cases "parseMethod mtd") (auto simp: AllowRequest_def BlockClient_def request_key_def Let_def split_beta)
qed

definition open_config :: RateConfig where
  "open_config = \<lparr>SIPEnabled = True, SIPInvitesPerSecond = 10, SIPInviteBurst = 50, SIPRequestsPerSecond = 100, SIPRequestBurst = 200,
     WhitelistedIPs = []\<rparr>"

theorem BlockClient_partial_witness:
  "let s = BlockClient ''10.0.0.1'' 60000000000 0 (NewSIPLimiter (\<lambda>_. None) open_config)
   in fst (AllowRequest (\<lambda>_. True) ''10.0.0.1'' ''invite'' 1 s) = False \<and> fst (AllowRequest (\<lambda>_. True) ''10.0.0.1'' ''REGISTER'' 1 s) = True"
proof -
  let ?s = "NewSIPLimiter (\<lambda>_. None) open_config"
  have s: "SIPEnabled (sl_config ?s)" "\<not> isWhitelisted (\<lambda>_. True) ''10.0.0.1'' ?s"
    by (simp_all add: NewSIPLimiter_def open_config_def isWhitelisted_def)
  have m: "parseMethod ''invite'' = SIPMethodINVITE" "parseMethod ''REGISTER'' = SIPMethodREGISTER" by code_simp+
  have "fst (AllowRequest (\<lambda>_. True) ''10.0.0.1'' ''REGISTER'' 1 ?s) = True"
    using s by (simp add: AllowRequest_def m request_key_def Allow_def client_bucket_def refill_def Seconds_def Let_def
        NewSIPLimiter_def open_config_def NewLimiter_def)
  then show ?thesis
    using BlockClient_partial[OF s, of 1 0 60000000000 "''invite''"] BlockClient_partial[OF s, of 1 0 60000000000 "''REGISTER''"] m
    by simp
qed

end
