(* ===== verification/CircuitBreaker.thy ===== *)
theory CircuitBreaker
  imports GoLib
begin

text \<open>
  \<^verbatim>\<open>pkg/circuitbreaker\<close>: the circuit breaker around calls of external services, and the manager of the
  breakers by name. All readings of the clock within one operation are the same argument \<open>now\<close>. The
  failure rate, float64 in the code, is an exact rational. The callback and the logger are left out.
\<close>

section \<open>State\<close>

datatype State = StateClosed | StateHalfOpen | StateOpen

record CBConfig =
  FailureThreshold :: int
  SuccessThreshold :: int
  cb_Timeout :: go_duration
  MaxTimeout :: go_duration
  RequestTimeout :: go_duration
  ExponentialBackoff :: bool
  FailureRateThreshold :: rat
  MinRequestThreshold :: int
  TimeWindow :: go_duration

definition DefaultConfig :: CBConfig where
  "DefaultConfig =
     \<lparr>FailureThreshold = 5, SuccessThreshold = 2, cb_Timeout = 60000000000, MaxTimeout = 300000000000,
      RequestTimeout = 30000000000, ExponentialBackoff = True, FailureRateThreshold = 1/2, MinRequestThreshold = 10,
      TimeWindow = 60000000000\<rparr>"

definition STTConfig :: CBConfig where
  "STTConfig =
     \<lparr>FailureThreshold = 3, SuccessThreshold = 2, cb_Timeout = 30000000000, MaxTimeout = 180000000000,
      RequestTimeout = 45000000000, ExponentialBackoff = True, FailureRateThreshold = 3/5, MinRequestThreshold = 5,
      TimeWindow = 45000000000\<rparr>"

record RequestRecord =
  req_Timestamp :: go_time
  req_Success :: bool

record Statistics =
  TotalRequests :: int
  SuccessfulRequests :: int
  FailedRequests :: int
  RejectedRequests :: int
  ConsecutiveFailures :: int
  ConsecutiveSuccesses :: int
  LastFailureTime :: go_time
  LastSuccessTime :: go_time
  StateTransitions :: int
  WindowRequests :: "RequestRecord list"
  WindowStart :: go_time

record CircuitBreaker =
  cb_name :: string
  cb_config :: CBConfig
  cb_state :: State
  cb_failures :: int
  cb_lastFailTime :: go_time
  cb_lastSuccessTime :: go_time
  cb_nextAttempt :: go_time
  cb_stats :: Statistics

definition new_statistics :: "go_time \<Rightarrow> Statistics" where
  "new_statistics now =
     \<lparr>TotalRequests = 0, SuccessfulRequests = 0, FailedRequests = 0, RejectedRequests = 0, ConsecutiveFailures = 0,
      ConsecutiveSuccesses = 0, LastFailureTime = 0, LastSuccessTime = 0, StateTransitions = 0, WindowRequests = [], WindowStart = now\<rparr>"

definition NewCircuitBreaker :: "string \<Rightarrow> CBConfig option \<Rightarrow> go_time \<Rightarrow> CircuitBreaker" where
  "NewCircuitBreaker name config now =
     \<lparr>cb_name = name, cb_config = (case config of None \<Rightarrow> DefaultConfig | Some c \<Rightarrow> c), cb_state = StateClosed, cb_failures = 0,
      cb_lastFailTime = 0, cb_lastSuccessTime = 0, cb_nextAttempt = 0, cb_stats = new_statistics now\<rparr>"

section \<open>Transitions\<close>

text \<open>The time the breaker stays open. The shift count is a conversion of the signed minimum to an
  unsigned number: for no failure at all it is huge, and the shift gives 0.\<close>

definition backoffMultiplier :: "int \<Rightarrow> int" where
  "backoffMultiplier failures = (if min (failures - 1) 10 < 0 then 0 else 2 ^ nat (min (failures - 1) 10))"

definition open_timeout :: "CircuitBreaker \<Rightarrow> go_duration" where
  "open_timeout cb =
     (if ExponentialBackoff (cb_config cb)
      then min (cb_Timeout (cb_config cb) * backoffMultiplier (cb_failures cb)) (MaxTimeout (cb_config cb))
      else cb_Timeout (cb_config cb))"

definition setState :: "State \<Rightarrow> go_time \<Rightarrow> CircuitBreaker \<Rightarrow> CircuitBreaker" where
  "setState newState now cb =
     (if cb_state cb = newState then cb
      else
        let cb1 = cb\<lparr>cb_state := newState\<rparr>;
            cb2 = (case newState of
                     StateOpen \<Rightarrow> cb1\<lparr>cb_nextAttempt := now + open_timeout cb1\<rparr>
                   | StateClosed \<Rightarrow> cb1\<lparr>cb_failures := 0, cb_nextAttempt := 0\<rparr>
                   | StateHalfOpen \<Rightarrow> cb1\<lparr>cb_stats := (cb_stats cb1)\<lparr>ConsecutiveSuccesses := 0\<rparr>\<rparr>)
        in cb2\<lparr>cb_stats := (cb_stats cb2)\<lparr>StateTransitions := StateTransitions (cb_stats cb2) + 1\<rparr>\<rparr>)"

definition allowRequest :: "go_time \<Rightarrow> CircuitBreaker \<Rightarrow> bool \<times> CircuitBreaker" where
  "allowRequest now cb =
     (case cb_state cb of
        StateClosed \<Rightarrow> (True, cb)
      | StateOpen \<Rightarrow> if now > cb_nextAttempt cb then (True, setState StateHalfOpen now cb) else (False, cb)
      | StateHalfOpen \<Rightarrow> (True, cb))"

definition addWindowRecord :: "go_time \<Rightarrow> bool \<Rightarrow> CircuitBreaker \<Rightarrow> CircuitBreaker" where
  "addWindowRecord timestamp success cb =
     cb\<lparr>cb_stats := (cb_stats cb)\<lparr>WindowRequests :=
         filter (\<lambda>r. req_Timestamp r > timestamp - TimeWindow (cb_config cb))
           (WindowRequests (cb_stats cb) @ [\<lparr>req_Timestamp = timestamp, req_Success = success\<rparr>])\<rparr>\<rparr>"

definition recordSuccess :: "go_time \<Rightarrow> CircuitBreaker \<Rightarrow> CircuitBreaker" where
  "recordSuccess now cb =
     (let st = cb_stats cb;
          cb1 = addWindowRecord now True (cb\<lparr>cb_failures := 0, cb_lastSuccessTime := now,
            cb_stats := st\<lparr>TotalRequests := TotalRequests st + 1, SuccessfulRequests := SuccessfulRequests st + 1,
              ConsecutiveFailures := 0, ConsecutiveSuccesses := ConsecutiveSuccesses st + 1, LastSuccessTime := now\<rparr>\<rparr>)
      in if cb_state cb1 = StateHalfOpen \<and> ConsecutiveSuccesses (cb_stats cb1) \<ge> SuccessThreshold (cb_config cb1)
         then setState StateClosed now cb1 else cb1)"

definition getFailureRate :: "go_time \<Rightarrow> CircuitBreaker \<Rightarrow> rat" where
  "getFailureRate now cb =
     (let recent = filter (\<lambda>r. req_Timestamp r > now - TimeWindow (cb_config cb)) (WindowRequests (cb_stats cb))
      in if recent = [] then 0
         else of_nat (length (filter (\<lambda>r. \<not> req_Success r) recent)) / of_nat (length recent))"

definition shouldTrip :: "go_time \<Rightarrow> CircuitBreaker \<Rightarrow> bool" where
  "shouldTrip now cb \<longleftrightarrow>
     cb_failures cb \<ge> FailureThreshold (cb_config cb) \<or>
     TotalRequests (cb_stats cb) \<ge> MinRequestThreshold (cb_config cb) \<and> getFailureRate now cb \<ge> FailureRateThreshold (cb_config cb)"

definition recordFailure :: "go_time \<Rightarrow> CircuitBreaker \<Rightarrow> CircuitBreaker" where
  "recordFailure now cb =
     (let st = cb_stats cb;
          cb1 = addWindowRecord now False (cb\<lparr>cb_failures := cb_failures cb + 1, cb_lastFailTime := now,
            cb_stats := st\<lparr>TotalRequests := TotalRequests st + 1, FailedRequests := FailedRequests st + 1,
              ConsecutiveFailures := ConsecutiveFailures st + 1, ConsecutiveSuccesses := 0, LastFailureTime := now\<rparr>\<rparr>)
      in if shouldTrip now cb1 then setState StateOpen now cb1 else cb1)"

definition recordRejection :: "CircuitBreaker \<Rightarrow> CircuitBreaker" where
  "recordRejection cb = cb\<lparr>cb_stats := (cb_stats cb)\<lparr>RejectedRequests := RejectedRequests (cb_stats cb) + 1\<rparr>\<rparr>"

definition Reset :: "go_time \<Rightarrow> CircuitBreaker \<Rightarrow> CircuitBreaker" where
  "Reset now cb =
     (let cb1 = setState StateClosed now cb
      in cb1\<lparr>cb_failures := 0, cb_lastFailTime := 0, cb_lastSuccessTime := 0, cb_nextAttempt := 0,
             cb_stats := (new_statistics now)\<lparr>StateTransitions := StateTransitions (cb_stats cb1)\<rparr>\<rparr>)"

section \<open>Calls\<close>

datatype 'e exec_error = CircuitOpen string State | CallError 'e

text \<open>A protected call. \<open>ctx\<close> is the error of the caller's context before the call; \<open>fn\<close> is what the
  function returns, with the error of the caller's context after it and whether the two agree;
  \<open>now\<close> and \<open>done\<close> are the times before and after.\<close>

definition Execute :: "'e option \<Rightarrow> go_time \<Rightarrow> ('e option \<times> bool) \<Rightarrow> go_time \<Rightarrow> CircuitBreaker \<Rightarrow> 'e exec_error option \<times> CircuitBreaker" where
  "Execute ctx now fn later cb =
     (case ctx of
        Some e \<Rightarrow> (Some (CallError e), cb)
      | None \<Rightarrow>
          let (ok, cb1) = allowRequest now cb
          in if \<not> ok then (Some (CircuitOpen (cb_name cb1) (cb_state cb1)), recordRejection cb1)
             else
               (case fn of
                  (Some e, cancelled) \<Rightarrow> (Some (CallError e), if cancelled then cb1 else recordFailure later cb1)
                | (None, _) \<Rightarrow> (None, recordSuccess later cb1)))"

definition ExecuteWithFallback ::
  "'e option \<Rightarrow> go_time \<Rightarrow> ('e option \<times> bool) \<Rightarrow> 'e option option \<Rightarrow> go_time \<Rightarrow> CircuitBreaker \<Rightarrow> 'e exec_error option \<times> CircuitBreaker" where
  "ExecuteWithFallback ctx now fn fallback later cb =
     (let (err, cb') = Execute ctx now fn later cb
      in case err of
           Some (CircuitOpen n s) \<Rightarrow> (case fallback of Some r \<Rightarrow> (map_option CallError r, cb') | None \<Rightarrow> (err, cb'))
         | _ \<Rightarrow> (err, cb'))"

section \<open>The manager\<close>

record CBManager =
  cbm_breakers :: "string \<rightharpoonup> CircuitBreaker"
  cbm_defaultConfig :: CBConfig

definition NewManager :: "CBConfig option \<Rightarrow> CBManager" where
  "NewManager cfg = \<lparr>cbm_breakers = Map.empty, cbm_defaultConfig = (case cfg of None \<Rightarrow> DefaultConfig | Some c \<Rightarrow> c)\<rparr>"

definition GetCircuitBreaker :: "string \<Rightarrow> CBConfig option \<Rightarrow> go_time \<Rightarrow> CBManager \<Rightarrow> CircuitBreaker \<times> CBManager" where
  "GetCircuitBreaker name config now m =
     (case cbm_breakers m name of
        Some b \<Rightarrow> (b, m)
      | None \<Rightarrow>
          let b = NewCircuitBreaker name (Some (case config of None \<Rightarrow> cbm_defaultConfig m | Some c \<Rightarrow> c)) now
          in (b, m\<lparr>cbm_breakers := (cbm_breakers m)(name \<mapsto> b)\<rparr>))"

section \<open>The life of a breaker\<close>

text \<open>A protected call takes the lock before and after the function runs, so the calls of several
  goroutines interleave at the level of these events.\<close>

datatype cb_event = EvAllow go_time | EvSuccess go_time | EvFailure go_time | EvReject | EvReset go_time

fun cb_apply :: "cb_event \<Rightarrow> CircuitBreaker \<Rightarrow> CircuitBreaker" where
  "cb_apply (EvAllow t) cb = snd (allowRequest t cb)"
| "cb_apply (EvSuccess t) cb = recordSuccess t cb"
| "cb_apply (EvFailure t) cb = recordFailure t cb"
| "cb_apply EvReject cb = recordRejection cb"
| "cb_apply (EvReset t) cb = Reset t cb"

inductive cb_reach :: "CircuitBreaker \<Rightarrow> bool" where
  cb_new: "cb_reach (NewCircuitBreaker name config now)"
| cb_event: "cb_reach cb \<Longrightarrow> cb_reach (cb_apply e cb)"

text \<open>The abstract breaker: the transitions between the three states.\<close>

inductive cb_transition :: "State \<Rightarrow> cb_event \<Rightarrow> State \<Rightarrow> bool" where
  stay: "cb_transition s e s"
| trip: "cb_transition s (EvFailure t) StateOpen"
| probe: "cb_transition StateOpen (EvAllow t) StateHalfOpen"
| recover: "cb_transition StateHalfOpen (EvSuccess t) StateClosed"
| reset: "cb_transition s (EvReset t) StateClosed"

inductive_simps cb_transition_iff: "cb_transition s e s'"

definition stats_ok :: "Statistics \<Rightarrow> bool" where
  "stats_ok st \<longleftrightarrow>
     TotalRequests st = SuccessfulRequests st + FailedRequests st \<and>
     0 \<le> ConsecutiveSuccesses st \<and> ConsecutiveSuccesses st \<le> SuccessfulRequests st \<and>
     0 \<le> ConsecutiveFailures st \<and> ConsecutiveFailures st \<le> FailedRequests st \<and>
     (ConsecutiveFailures st = 0 \<or> ConsecutiveSuccesses st = 0) \<and> 0 \<le> RejectedRequests st"

lemma setState_simps [simp]:
  "cb_state (setState s now cb) = s" "cb_config (setState s now cb) = cb_config cb" "cb_name (setState s now cb) = cb_name cb"
  by (simp_all add: setState_def Let_def split: State.split)

lemma addWindowRecord_simps [simp]:
  "cb_state (addWindowRecord t b cb) = cb_state cb" "cb_config (addWindowRecord t b cb) = cb_config cb"
  "cb_failures (addWindowRecord t b cb) = cb_failures cb" "cb_nextAttempt (addWindowRecord t b cb) = cb_nextAttempt cb"
  "TotalRequests (cb_stats (addWindowRecord t b cb)) = TotalRequests (cb_stats cb)"
  "ConsecutiveSuccesses (cb_stats (addWindowRecord t b cb)) = ConsecutiveSuccesses (cb_stats cb)"
  "stats_ok (cb_stats (addWindowRecord t b cb)) = stats_ok (cb_stats cb)"
  by (simp_all add: addWindowRecord_def stats_ok_def)

lemma stats_ok_setState: "stats_ok (cb_stats cb) \<Longrightarrow> stats_ok (cb_stats (setState s now cb))"
  by (auto simp: setState_def Let_def stats_ok_def split: State.split)

lemma setState_failures: "cb_failures (setState s now cb) = (if s = StateClosed \<and> cb_state cb \<noteq> s then 0 else cb_failures cb)"
  by (auto simp: setState_def Let_def split: State.split)

definition cb_ok :: "CircuitBreaker \<Rightarrow> bool" where
  "cb_ok cb \<longleftrightarrow> stats_ok (cb_stats cb) \<and> 0 \<le> cb_failures cb"

lemma cb_apply_ok: "cb_ok cb \<Longrightarrow> cb_ok (cb_apply e cb)"
proof (cases e)
  case (EvAllow t)
  assume "cb_ok cb"
  then show ?thesis
    by (auto simp: EvAllow cb_ok_def allowRequest_def setState_failures intro: stats_ok_setState split: State.split)
next
  case (EvSuccess t)
  assume ok: "cb_ok cb"
  have "stats_ok (cb_stats (recordSuccess t cb))"
    using ok by (auto simp: recordSuccess_def cb_ok_def Let_def stats_ok_def addWindowRecord_def setState_def)
  then show ?thesis using ok by (simp add: EvSuccess cb_ok_def recordSuccess_def Let_def setState_failures)
next
  case (EvFailure t)
  assume ok: "cb_ok cb"
  have "stats_ok (cb_stats (recordFailure t cb))"
    using ok by (auto simp: recordFailure_def cb_ok_def Let_def stats_ok_def addWindowRecord_def setState_def)
  then show ?thesis using ok by (simp add: EvFailure cb_ok_def recordFailure_def Let_def setState_failures)
next
  case EvReject
  assume "cb_ok cb"
  then show ?thesis by (simp add: EvReject cb_ok_def recordRejection_def stats_ok_def)
next
  case (EvReset t)
  then show ?thesis by (simp add: cb_ok_def Reset_def Let_def new_statistics_def stats_ok_def)
qed



lemma recordFailure_steps:
  assumes "cb_state cb = StateClosed"
  shows "cb_config (recordFailure t cb) = cb_config cb \<and> cb_failures (recordFailure t cb) = cb_failures cb + 1 \<and>
    (cb_state (recordFailure t cb) = StateClosed \<or> cb_state (recordFailure t cb) = StateOpen) \<and>
    (cb_failures cb + 1 \<ge> FailureThreshold (cb_config cb) \<longrightarrow> cb_state (recordFailure t cb) = StateOpen)"
  using assms by (auto simp: recordFailure_def Let_def setState_failures shouldTrip_def)

lemma recordFailure_open: "cb_state cb = StateOpen \<Longrightarrow> cb_state (recordFailure t cb) = StateOpen"
  by (simp add: recordFailure_def Let_def)

lemma failures_open: "cb_state cb = StateOpen \<Longrightarrow> cb_state (fold recordFailure ts cb) = StateOpen"
  by (induction ts arbitrary: cb) (simp_all add: recordFailure_open)

text \<open>As many failures in a row as the threshold open the circuit, whatever the statistics and the
  times, and it stays open through further failures.\<close>

theorem failures_trip:
  assumes "cb_state cb = StateClosed" and "0 \<le> cb_failures cb" and "ts \<noteq> []"
    and "FailureThreshold (cb_config cb) \<le> int (length ts)"
  shows "cb_state (fold recordFailure ts cb) = StateOpen"
proof -
  have "cb_state (fold recordFailure ts cb) = StateOpen \<or>
      (cb_state (fold recordFailure ts cb) = StateClosed \<and> cb_config (fold recordFailure ts cb) = cb_config cb \<and>
       cb_failures (fold recordFailure ts cb) = cb_failures cb + int (length ts) \<and>
       (cb_failures cb + int (length ts) < FailureThreshold (cb_config cb) \<or> ts = []))"
  proof (induction ts rule: rev_induct)
    case (snoc t ts)
    let ?c = "fold recordFailure ts cb"
    from snoc show ?case
      using recordFailure_open[of ?c t] recordFailure_steps[of ?c t] by auto
  qed (simp add: assms(1))
  then show ?thesis using assms by auto
qed

theorem failures_trip_witness: "cb_state (fold recordFailure [1, 2, 3, 4, 5] (NewCircuitBreaker ''stt'' None 0)) = StateOpen"
  by (rule failures_trip) (simp_all add: NewCircuitBreaker_def DefaultConfig_def)

text \<open>How long the circuit stays open. When the k-th failure in a row opens it, every request is refused
  until the timeout times two to the k minus one, at most 1024 times, and at most the maximum,
  has passed; the first request after that goes through and the circuit is half open.\<close>

theorem open_period:
  assumes "cb_state cb = StateClosed" and k: "cb_failures cb = int k"
    and "ExponentialBackoff (cb_config cb)" and trip: "cb_state (recordFailure t cb) = StateOpen"
  shows "let until = t + min (cb_Timeout (cb_config cb) * 2 ^ min k 10) (MaxTimeout (cb_config cb)); cb' = recordFailure t cb
    in (\<forall>t'. t' \<le> until \<longrightarrow> allowRequest t' cb' = (False, cb')) \<and>
       (\<forall>t'. until < t' \<longrightarrow> fst (allowRequest t' cb') \<and> cb_state (snd (allowRequest t' cb')) = StateHalfOpen)"
proof -
  have "min (int k) 10 = int (min k 10)" by simp
  then have mult: "backoffMultiplier (int k + 1) = 2 ^ min k 10" by (simp add: backoffMultiplier_def)
  have "cb_nextAttempt (recordFailure t cb) = t + min (cb_Timeout (cb_config cb) * 2 ^ min k 10) (MaxTimeout (cb_config cb))"
    using assms by (auto simp: recordFailure_def Let_def setState_def open_timeout_def mult split: if_splits)
  then show ?thesis using trip by (simp add: allowRequest_def Let_def)
qed

theorem open_period_witness:
  "let cb = fold recordFailure [1, 2, 3, 4] (NewCircuitBreaker ''stt'' None 0)
   in allowRequest (5 + 300000000000) (recordFailure 5 cb) = (False, recordFailure 5 cb)"
proof -
  let ?cb = "fold recordFailure [1, 2, 3, 4] (NewCircuitBreaker ''stt'' None 0)"
  have cb: "cb_state ?cb = StateClosed" "cb_failures ?cb = int 4" "ExponentialBackoff (cb_config ?cb)" "cb_state (recordFailure 5 ?cb) = StateOpen"
      "cb_Timeout (cb_config ?cb) = 60000000000" "MaxTimeout (cb_config ?cb) = 300000000000"
    by code_simp+
  show ?thesis using open_period[OF cb(1-4)] cb(5,6) by (simp add: Let_def)
qed

text \<open>Recovery. After the waiting time, a request and then as many successes in a row as the success
  threshold close the circuit and clear the failure count.\<close>

theorem successes_close:
  assumes "cb_state cb = StateOpen" and "cb_nextAttempt cb < t" and "ts \<noteq> []"
    and "SuccessThreshold (cb_config cb) = int (length ts)"
  shows "cb_state (fold recordSuccess ts (snd (allowRequest t cb))) = StateClosed \<and>
    cb_failures (fold recordSuccess ts (snd (allowRequest t cb))) = 0"
proof -
  define cb0 where "cb0 = snd (allowRequest t cb)"
  have cb0: "cb_state cb0 = StateHalfOpen" "ConsecutiveSuccesses (cb_stats cb0) = 0" "cb_config cb0 = cb_config cb"
    using assms(1,2) by (simp_all add: cb0_def allowRequest_def setState_def Let_def)
  have step: "cb_config (recordSuccess u c) = cb_config c \<and> cb_failures (recordSuccess u c) = 0 \<and>
      (cb_state c = StateHalfOpen \<and> ConsecutiveSuccesses (cb_stats c) + 1 \<ge> SuccessThreshold (cb_config c) \<longrightarrow>
         cb_state (recordSuccess u c) = StateClosed) \<and>
      (cb_state c = StateHalfOpen \<and> ConsecutiveSuccesses (cb_stats c) + 1 < SuccessThreshold (cb_config c) \<longrightarrow>
         cb_state (recordSuccess u c) = StateHalfOpen \<and>
         ConsecutiveSuccesses (cb_stats (recordSuccess u c)) = ConsecutiveSuccesses (cb_stats c) + 1)" for u c
    by (simp add: recordSuccess_def Let_def setState_failures)
  have "length us < length ts \<Longrightarrow> cb_config (fold recordSuccess us cb0) = cb_config cb \<and>
      cb_state (fold recordSuccess us cb0) = StateHalfOpen \<and> ConsecutiveSuccesses (cb_stats (fold recordSuccess us cb0)) = int (length us)" for us
  proof (induction us rule: rev_induct)
    case (snoc u us)
    then show ?case using step[of u "fold recordSuccess us cb0"] assms(4) by simp
  qed (simp add: cb0)
  from this[of "butlast ts"] have "cb_state (recordSuccess (last ts) (fold recordSuccess (butlast ts) cb0)) = StateClosed"
    using step[of "last ts" "fold recordSuccess (butlast ts) cb0"] assms(3,4) by simp
  moreover have "fold recordSuccess ts cb0 = recordSuccess (last ts) (fold recordSuccess (butlast ts) cb0)"
    using fold_append[of recordSuccess "butlast ts" "[last ts]"] assms(3) by simp
  ultimately show ?thesis using step by (simp flip: cb0_def)
qed

theorem successes_close_witness:
  "cb_state (fold recordSuccess [60000000010, 60000000011] (snd (allowRequest 60000000002 (fold recordFailure [1]
     (NewCircuitBreaker ''stt'' (Some (DefaultConfig\<lparr>FailureThreshold := 1\<rparr>)) 0))))) = StateClosed"
proof -
  let ?cb = "fold recordFailure [1] (NewCircuitBreaker ''stt'' (Some (DefaultConfig\<lparr>FailureThreshold := 1\<rparr>)) 0)"
  have cb: "cb_state ?cb = StateOpen" "cb_nextAttempt ?cb < 60000000002" "SuccessThreshold (cb_config ?cb) = 2" by code_simp+
  show ?thesis using successes_close[OF cb(1,2), of "[60000000010, 60000000011]"] cb(3) by simp
qed

text \<open>A failure in the half-open state need not open the circuit again: with the default
  configuration, five failures, a success after the waiting time and then another failure leave it half
  open, because the success has cleared the failure count.\<close>

theorem half_open_failure_ignored:
  "cb_state (fold cb_apply [EvFailure 1, EvFailure 2, EvFailure 3, EvFailure 4, EvFailure 5,
     EvAllow 400000000000, EvSuccess 400000000001, EvFailure 400000000002] (NewCircuitBreaker ''stt'' None 0)) = StateHalfOpen"
  by code_simp

end
