(* ===== verification/Md5.thy ===== *)
theory Md5
  imports GoLib
begin

unbundle bit_operations_syntax

text \<open>
  \<^verbatim>\<open>crypto/md5\<close> of the Go library, after RFC 1321, and the verb \<^verbatim>\<open>%x\<close> on its result.
\<close>

type_synonym w32 = "32 word"

definition md5_K :: "w32 list" where
  "md5_K =
     [0xd76aa478, 0xe8c7b756, 0x242070db, 0xc1bdceee, 0xf57c0faf, 0x4787c62a, 0xa8304613, 0xfd469501,
      0x698098d8, 0x8b44f7af, 0xffff5bb1, 0x895cd7be, 0x6b901122, 0xfd987193, 0xa679438e, 0x49b40821,
      0xf61e2562, 0xc040b340, 0x265e5a51, 0xe9b6c7aa, 0xd62f105d, 0x02441453, 0xd8a1e681, 0xe7d3fbc8,
      0x21e1cde6, 0xc33707d6, 0xf4d50d87, 0x455a14ed, 0xa9e3e905, 0xfcefa3f8, 0x676f02d9, 0x8d2a4c8a,
      0xfffa3942, 0x8771f681, 0x6d9d6122, 0xfde5380c, 0xa4beea44, 0x4bdecfa9, 0xf6bb4b60, 0xbebfbc70,
      0x289b7ec6, 0xeaa127fa, 0xd4ef3085, 0x04881d05, 0xd9d4d039, 0xe6db99e5, 0x1fa27cf8, 0xc4ac5665,
      0xf4292244, 0x432aff97, 0xab9423a7, 0xfc93a039, 0x655b59c3, 0x8f0ccc92, 0xffeff47d, 0x85845dd1,
      0x6fa87e4f, 0xfe2ce6e0, 0xa3014314, 0x4e0811a1, 0xf7537e82, 0xbd3af235, 0x2ad7d2bb, 0xeb86d391]"

definition md5_S :: "nat list" where
  "md5_S = concat (replicate 4 [7, 12, 17, 22]) @ concat (replicate 4 [5, 9, 14, 20]) @
           concat (replicate 4 [4, 11, 16, 23]) @ concat (replicate 4 [6, 10, 15, 21])"

definition rotl32 :: "nat \<Rightarrow> w32 \<Rightarrow> w32" where
  "rotl32 n x = push_bit n x OR drop_bit (32 - n) x"

fun md5_step :: "w32 list \<Rightarrow> nat \<Rightarrow> w32 \<times> w32 \<times> w32 \<times> w32 \<Rightarrow> w32 \<times> w32 \<times> w32 \<times> w32" where
  "md5_step m i (a, b, c, d) =
     (let (f, g) = (if i < 16 then ((b AND c) OR (NOT b AND d), i)
                    else if i < 32 then ((d AND b) OR (NOT d AND c), (5 * i + 1) mod 16)
                    else if i < 48 then (b XOR c XOR d, (3 * i + 5) mod 16)
                    else (c XOR (b OR NOT d), (7 * i) mod 16))
      in (d, b + rotl32 (md5_S ! i) (a + f + md5_K ! i + m ! g), b, c))"

fun bytes_w32 :: "byte list \<Rightarrow> w32 list" where
  "bytes_w32 (p # q # r # s # bs) =
     (ucast p OR push_bit 8 (ucast q) OR push_bit 16 (ucast r) OR push_bit 24 (ucast s)) # bytes_w32 bs"
| "bytes_w32 _ = []"

fun md5_block :: "w32 \<times> w32 \<times> w32 \<times> w32 \<Rightarrow> byte list \<Rightarrow> w32 \<times> w32 \<times> w32 \<times> w32" where
  "md5_block (a, b, c, d) block =
     (let (a', b', c', d') = fold (md5_step (bytes_w32 block)) [0..<64] (a, b, c, d) in (a + a', b + b', c + c', d + d'))"

fun le_bytes :: "nat \<Rightarrow> nat \<Rightarrow> byte list" where
  "le_bytes 0 n = []"
| "le_bytes (Suc k) n = of_nat n # le_bytes k (n div 256)"

definition md5_pad :: "byte list \<Rightarrow> byte list" where
  "md5_pad bs = bs @ [0x80] @ replicate ((119 - length bs mod 64) mod 64) 0 @ le_bytes 8 (8 * length bs)"

function chunks :: "nat \<Rightarrow> 'a list \<Rightarrow> 'a list list" where
  "chunks n xs = (if n = 0 \<or> xs = [] then [] else take n xs # chunks n (drop n xs))"
  by pat_completeness auto
termination
  by (relation "measure (\<lambda>(n, xs). length xs)") auto

declare chunks.simps [simp del]

definition w32_bytes :: "w32 \<Rightarrow> byte list" where
  "w32_bytes w = map (\<lambda>i. ucast (drop_bit (8 * i) w)) [0..<4]"

definition md5_Sum :: "string \<Rightarrow> byte list" where
  "md5_Sum s =
     (let (a, b, c, d) = fold (\<lambda>block st. md5_block st block) (chunks 64 (md5_pad (map of_char s)))
            (0x67452301, 0xefcdab89, 0x98badcfe, 0x10325476)
      in concat (map w32_bytes [a, b, c, d]))"

definition hex_digit :: "nat \<Rightarrow> char" where
  "hex_digit n = (if n < 10 then char_of (48 + n) else char_of (87 + n))"

definition hex :: "byte list \<Rightarrow> string" where
  "hex bs = concat (map (\<lambda>b. [hex_digit (unat b div 16), hex_digit (unat b mod 16)]) bs)"

text \<open>A test vector of RFC 1321.\<close>

lemma md5_empty: "hex (md5_Sum '''') = ''d41d8cd98f00b204e9800998ecf8427e''"
  by code_simp

end
