(* ===== verification/SipAuth.thy ===== *)
theory SipAuth
  imports Md5
begin

text \<open>
  \<^verbatim>\<open>pkg/auth/sip_auth.go\<close>: SIP digest authentication and access control by address. A challenge
  takes its nonce as an argument: the hash of the random bytes, or \<open>None\<close> if the reader of random bytes
  fails. All readings of the clock in one call are the argument \<open>now\<close>. Error values are \<open>Inl\<close> with the
  message. The goroutine that removes expired nonces is \<open>cleanup_nonces\<close>.
\<close>

section \<open>State\<close>

record SIPUser =
  su_Username :: string
  su_Password :: string
  su_Realm :: string
  su_Enabled :: bool

record NonceInfo =
  ni_Value :: string
  ni_Timestamp :: go_time
  ni_Count :: nat
  ni_ClientIP :: string

record SIPAuthenticator =
  sa_users :: "string \<rightharpoonup> SIPUser"
  sa_nonces :: "string \<rightharpoonup> NonceInfo"
  sa_realm :: string
  sa_nonceTimeout :: go_duration

record AuthResult =
  ar_Success :: bool
  ar_Username :: string
  ar_Reason :: string
  ar_Challenge :: string

record DigestCredentials =
  dc_Username :: string
  dc_Realm :: string
  dc_Nonce :: string
  dc_URI :: string
  dc_Response :: string
  dc_Algorithm :: string
  dc_Opaque :: string
  dc_QOP :: string
  dc_NC :: string
  dc_CNonce :: string

definition NewSIPAuthenticator :: "string \<Rightarrow> SIPAuthenticator" where
  "NewSIPAuthenticator realm = \<lparr>sa_users = Map.empty, sa_nonces = Map.empty, sa_realm = realm, sa_nonceTimeout = 300000000000\<rparr>"

definition AddUser :: "string \<Rightarrow> string \<Rightarrow> SIPAuthenticator \<Rightarrow> SIPAuthenticator" where
  "AddUser username password s =
     s\<lparr>sa_users := (sa_users s)(username \<mapsto> \<lparr>su_Username = username, su_Password = password, su_Realm = sa_realm s, su_Enabled = True\<rparr>)\<rparr>"

definition RemoveUser :: "string \<Rightarrow> SIPAuthenticator \<Rightarrow> SIPAuthenticator" where
  "RemoveUser username s = s\<lparr>sa_users := (sa_users s)(username := None)\<rparr>"

definition set_enabled :: "bool \<Rightarrow> string \<Rightarrow> SIPAuthenticator \<Rightarrow> SIPAuthenticator" where
  "set_enabled b username s =
     (case sa_users s username of
        Some u \<Rightarrow> s\<lparr>sa_users := (sa_users s)(username \<mapsto> u\<lparr>su_Enabled := b\<rparr>)\<rparr>
      | None \<Rightarrow> s)"

definition DisableUser :: "string \<Rightarrow> SIPAuthenticator \<Rightarrow> SIPAuthenticator" where
  "DisableUser = set_enabled False"

definition EnableUser :: "string \<Rightarrow> SIPAuthenticator \<Rightarrow> SIPAuthenticator" where
  "EnableUser = set_enabled True"

section \<open>Nonces\<close>

definition generateNonce :: "string option \<Rightarrow> go_time \<Rightarrow> string \<Rightarrow> SIPAuthenticator \<Rightarrow> string option \<times> SIPAuthenticator" where
  "generateNonce rnd now clientIP s =
     (case rnd of
        None \<Rightarrow> (None, s)
      | Some nonce \<Rightarrow>
          (Some nonce, s\<lparr>sa_nonces := (sa_nonces s)(nonce \<mapsto>
             \<lparr>ni_Value = nonce, ni_Timestamp = now, ni_Count = 0, ni_ClientIP = clientIP\<rparr>)\<rparr>))"

definition challenge_text :: "string \<Rightarrow> string \<Rightarrow> string" where
  "challenge_text realm nonce =
     ''Digest realm='' @ [CHR 0x22] @ realm @ [CHR 0x22] @ '', nonce='' @ [CHR 0x22] @ nonce @ [CHR 0x22] @
     '', algorithm=MD5, qop='' @ [CHR 0x22] @ ''auth'' @ [CHR 0x22]"

definition generateChallenge :: "string option \<Rightarrow> go_time \<Rightarrow> string \<Rightarrow> SIPAuthenticator \<Rightarrow> string \<times> SIPAuthenticator" where
  "generateChallenge rnd now clientIP s =
     (let (nonce, s') = generateNonce rnd now clientIP s
      in (case nonce of None \<Rightarrow> '''' | Some n \<Rightarrow> challenge_text (sa_realm s) n, s'))"

definition hex_value :: "char \<Rightarrow> nat option" where
  "hex_value c =
     (let n = (of_char c :: nat)
      in if 48 \<le> n \<and> n \<le> 57 then Some (n - 48)
         else if 97 \<le> n \<and> n \<le> 102 then Some (n - 87)
         else if 65 \<le> n \<and> n \<le> 70 then Some (n - 55)
         else None)"

definition ParseUint16 :: "string \<Rightarrow> nat option" where
  "ParseUint16 s = fold (\<lambda>c acc. do { a \<leftarrow> acc; v \<leftarrow> hex_value c; Some (16 * a + v) }) s (Some 0)"

definition parseNonceCount :: "string \<Rightarrow> string + nat" where
  "parseNonceCount nc =
     (if length nc \<noteq> 8 then Inl ''nonce count must contain exactly eight hexadecimal digits''
      else case ParseUint16 nc of
             None \<Rightarrow> Inl ''nonce count contains a non-hexadecimal digit''
           | Some v \<Rightarrow> if v > 2 ^ 31 - 1 then Inl ''nonce count exceeds supported maximum'' else Inr v)"

definition expired :: "go_time \<Rightarrow> SIPAuthenticator \<Rightarrow> NonceInfo \<Rightarrow> bool" where
  "expired now s info \<longleftrightarrow> now - ni_Timestamp info > sa_nonceTimeout s"

text \<open>The current count and the count to commit.\<close>

definition inspectNonce :: "go_time \<Rightarrow> string \<Rightarrow> string \<Rightarrow> string \<Rightarrow> SIPAuthenticator \<Rightarrow> (string + nat \<times> nat) \<times> SIPAuthenticator" where
  "inspectNonce now nonce clientIP nc s =
     (case parseNonceCount nc of
        Inl e \<Rightarrow> (Inl e, s)
      | Inr ncVal \<Rightarrow>
          (case sa_nonces s nonce of
             None \<Rightarrow> (Inl ''unknown nonce'', s)
           | Some info \<Rightarrow>
               if expired now s info then (Inl ''expired nonce'', s\<lparr>sa_nonces := (sa_nonces s)(nonce := None)\<rparr>)
               else if ni_ClientIP info \<noteq> clientIP then (Inl ''nonce client IP mismatch'', s)
               else if ncVal \<le> ni_Count info then (Inl ''nonce count is not increasing'', s)
               else (Inr (ni_Count info, ncVal), s)))"

definition commitNonceCount :: "go_time \<Rightarrow> string \<Rightarrow> nat \<Rightarrow> nat \<Rightarrow> SIPAuthenticator \<Rightarrow> bool \<times> SIPAuthenticator" where
  "commitNonceCount now nonce expected next s =
     (if next \<le> expected then (False, s)
      else case sa_nonces s nonce of
             None \<Rightarrow> (False, s)
           | Some info \<Rightarrow>
               if expired now s info then (False, s\<lparr>sa_nonces := (sa_nonces s)(nonce := None)\<rparr>)
               else if ni_Count info \<noteq> expected then (False, s)
               else (True, s\<lparr>sa_nonces := (sa_nonces s)(nonce \<mapsto> info\<lparr>ni_Count := next\<rparr>)\<rparr>))"

definition validateNonce :: "go_time \<Rightarrow> string \<Rightarrow> string \<Rightarrow> string \<Rightarrow> SIPAuthenticator \<Rightarrow> bool \<times> SIPAuthenticator" where
  "validateNonce now nonce clientIP nc s =
     (let (r, s') = inspectNonce now nonce clientIP nc s
      in case r of Inl _ \<Rightarrow> (False, s') | Inr (expected, next) \<Rightarrow> commitNonceCount now nonce expected next s')"

definition cleanup_nonces :: "go_time \<Rightarrow> SIPAuthenticator \<Rightarrow> SIPAuthenticator" where
  "cleanup_nonces now s =
     s\<lparr>sa_nonces := (\<lambda>n. case sa_nonces s n of Some info \<Rightarrow> if expired now s info then None else Some info | None \<Rightarrow> None)\<rparr>"

section \<open>Credentials\<close>

definition empty_credentials :: DigestCredentials where
  "empty_credentials =
     \<lparr>dc_Username = '''', dc_Realm = '''', dc_Nonce = '''', dc_URI = '''', dc_Response = '''', dc_Algorithm = '''', dc_Opaque = '''',
      dc_QOP = '''', dc_NC = '''', dc_CNonce = ''''\<rparr>"

definition set_credential :: "string \<Rightarrow> string \<Rightarrow> DigestCredentials \<Rightarrow> DigestCredentials" where
  "set_credential key v c =
     (if key = ''username'' then c\<lparr>dc_Username := v\<rparr>
      else if key = ''realm'' then c\<lparr>dc_Realm := v\<rparr>
      else if key = ''nonce'' then c\<lparr>dc_Nonce := v\<rparr>
      else if key = ''uri'' then c\<lparr>dc_URI := v\<rparr>
      else if key = ''response'' then c\<lparr>dc_Response := v\<rparr>
      else if key = ''algorithm'' then c\<lparr>dc_Algorithm := v\<rparr>
      else if key = ''opaque'' then c\<lparr>dc_Opaque := v\<rparr>
      else if key = ''qop'' then c\<lparr>dc_QOP := v\<rparr>
      else if key = ''nc'' then c\<lparr>dc_NC := v\<rparr>
      else if key = ''cnonce'' then c\<lparr>dc_CNonce := v\<rparr>
      else c)"

definition parse_pair :: "string \<Rightarrow> DigestCredentials \<Rightarrow> DigestCredentials" where
  "parse_pair pair c =
     (case SplitN2 (TrimSpace pair) (CHR ''='') of
        [k, v] \<Rightarrow> set_credential (TrimSpace k) (TrimByte (CHR 0x22) (TrimSpace v)) c
      | _ \<Rightarrow> c)"

definition check_credentials :: "string \<Rightarrow> string \<Rightarrow> DigestCredentials \<Rightarrow> string option" where
  "check_credentials realm requestURI c =
     (if dc_Username c = '''' \<or> dc_Realm c = '''' \<or> dc_Nonce c = '''' \<or> dc_URI c = '''' \<or> dc_Response c = ''''
      then Some ''missing required digest authentication fields''
      else if dc_Realm c \<noteq> realm then Some ''digest realm does not match configured realm''
      else if dc_URI c \<noteq> requestURI then Some ''digest URI does not match authenticated request URI''
      else if \<not> EqualFold (dc_Algorithm c) ''MD5'' then Some ''unsupported digest algorithm''
      else if dc_QOP c \<noteq> ''auth'' then Some ''unsupported or missing digest qop''
      else if dc_CNonce c = '''' then Some ''missing digest cnonce''
      else case parseNonceCount (dc_NC c) of Inl e \<Rightarrow> Some e | Inr _ \<Rightarrow> None)"

definition parseDigestAuth :: "string \<Rightarrow> string \<Rightarrow> SIPAuthenticator \<Rightarrow> string + DigestCredentials" where
  "parseDigestAuth authHeader requestURI s =
     (if \<not> HasPrefix authHeader ''Digest '' then Inl ''not a digest authentication header''
      else
        let c = fold parse_pair (Split (TrimPrefix authHeader ''Digest '') (CHR '','')) empty_credentials
        in case check_credentials (sa_realm s) requestURI c of Some e \<Rightarrow> Inl e | None \<Rightarrow> Inr c)"

definition join_colon :: "string list \<Rightarrow> string" where
  "join_colon xs = concat (case xs of [] \<Rightarrow> [] | y # ys \<Rightarrow> y # map (\<lambda>z. CHR '':'' # z) ys)"

definition md5_hex :: "string \<Rightarrow> string" where
  "md5_hex x = hex (md5_Sum x)"

definition calculateResponse :: "string \<Rightarrow> string \<Rightarrow> string \<Rightarrow> DigestCredentials \<Rightarrow> string" where
  "calculateResponse password mtd uri c =
     (let ha1 = md5_hex (join_colon [dc_Username c, dc_Realm c, password]);
          ha2 = md5_hex (join_colon [mtd, uri])
      in md5_hex (if dc_QOP c = ''auth'' \<or> dc_QOP c = ''auth-int''
           then join_colon [ha1, dc_Nonce c, dc_NC c, dc_CNonce c, dc_QOP c, ha2]
           else join_colon [ha1, dc_Nonce c, ha2]))"

section \<open>Authentication\<close>

text \<open>A refusal carries a new challenge.\<close>

definition refuse :: "string option \<Rightarrow> go_time \<Rightarrow> string \<Rightarrow> string \<Rightarrow> string \<Rightarrow> SIPAuthenticator \<Rightarrow> AuthResult \<times> SIPAuthenticator" where
  "refuse rnd now clientIP username reason s =
     (let (ch, s') = generateChallenge rnd now clientIP s
      in (\<lparr>ar_Success = False, ar_Username = username, ar_Reason = reason, ar_Challenge = ch\<rparr>, s'))"

definition Authenticate ::
  "string option \<Rightarrow> go_time \<Rightarrow> string \<Rightarrow> string \<Rightarrow> string \<Rightarrow> string \<Rightarrow> SIPAuthenticator \<Rightarrow> AuthResult \<times> SIPAuthenticator" where
  "Authenticate rnd now authHeader mtd uri clientIP s =
     (if authHeader = '''' then refuse rnd now clientIP '''' ''No authentication provided'' s
      else case parseDigestAuth authHeader uri s of
        Inl _ \<Rightarrow> refuse rnd now clientIP '''' ''Invalid authentication format'' s
      | Inr creds \<Rightarrow>
          (case sa_users s (dc_Username creds) of
             None \<Rightarrow> refuse rnd now clientIP (dc_Username creds) ''User not found or disabled'' s
           | Some user \<Rightarrow>
               if \<not> su_Enabled user then refuse rnd now clientIP (dc_Username creds) ''User not found or disabled'' s
               else
                 (case inspectNonce now (dc_Nonce creds) clientIP (dc_NC creds) s of
                    (Inl _, s1) \<Rightarrow> refuse rnd now clientIP (dc_Username creds) ''Invalid or expired nonce'' s1
                  | (Inr (expected, next), s1) \<Rightarrow>
                      if dc_Response creds \<noteq> calculateResponse (su_Password user) mtd uri creds
                      then refuse rnd now clientIP (dc_Username creds) ''Invalid credentials'' s1
                      else
                        let (ok, s2) = commitNonceCount now (dc_Nonce creds) expected next s1
                        in if \<not> ok then refuse rnd now clientIP (dc_Username creds) ''Nonce replay detected'' s2
                           else (\<lparr>ar_Success = True, ar_Username = dc_Username creds, ar_Reason = ''Authentication successful'',
                                  ar_Challenge = ''''\<rparr>, s2))))"

section \<open>Access by address\<close>

text \<open>As in the rate limiter, a network is its membership test and \<open>is_ip\<close> and \<open>parse_cidr\<close> are
  functions of the Go library.\<close>

type_synonym ip_net = "string \<Rightarrow> bool"

record IPAccessController =
  ia_allowedNetworks :: "ip_net list"
  ia_blockedNetworks :: "ip_net list"
  ia_allowedIPs :: "string set"
  ia_blockedIPs :: "string set"
  ia_defaultAllow :: bool

definition NewIPAccessController :: "bool \<Rightarrow> IPAccessController" where
  "NewIPAccessController defaultAllow =
     \<lparr>ia_allowedNetworks = [], ia_blockedNetworks = [], ia_allowedIPs = {}, ia_blockedIPs = {}, ia_defaultAllow = defaultAllow\<rparr>"

definition AddAllowedIP :: "(string \<Rightarrow> bool) \<Rightarrow> string \<Rightarrow> IPAccessController \<Rightarrow> bool \<times> IPAccessController" where
  "AddAllowedIP is_ip a c = (if is_ip a then (True, c\<lparr>ia_allowedIPs := insert a (ia_allowedIPs c)\<rparr>) else (False, c))"

definition AddBlockedIP :: "(string \<Rightarrow> bool) \<Rightarrow> string \<Rightarrow> IPAccessController \<Rightarrow> bool \<times> IPAccessController" where
  "AddBlockedIP is_ip a c = (if is_ip a then (True, c\<lparr>ia_blockedIPs := insert a (ia_blockedIPs c)\<rparr>) else (False, c))"

definition AddAllowedNetwork :: "(string \<Rightarrow> ip_net option) \<Rightarrow> string \<Rightarrow> IPAccessController \<Rightarrow> bool \<times> IPAccessController" where
  "AddAllowedNetwork parse_cidr cidr c =
     (case parse_cidr cidr of None \<Rightarrow> (False, c) | Some n \<Rightarrow> (True, c\<lparr>ia_allowedNetworks := ia_allowedNetworks c @ [n]\<rparr>))"

definition AddBlockedNetwork :: "(string \<Rightarrow> ip_net option) \<Rightarrow> string \<Rightarrow> IPAccessController \<Rightarrow> bool \<times> IPAccessController" where
  "AddBlockedNetwork parse_cidr cidr c =
     (case parse_cidr cidr of None \<Rightarrow> (False, c) | Some n \<Rightarrow> (True, c\<lparr>ia_blockedNetworks := ia_blockedNetworks c @ [n]\<rparr>))"

definition IsAllowed :: "(string \<Rightarrow> bool) \<Rightarrow> string \<Rightarrow> IPAccessController \<Rightarrow> bool" where
  "IsAllowed is_ip a c =
     (if \<not> is_ip a then False
      else if a \<in> ia_blockedIPs c then False
      else if list_ex (\<lambda>n. n a) (ia_blockedNetworks c) then False
      else if a \<in> ia_allowedIPs c then True
      else if list_ex (\<lambda>n. n a) (ia_allowedNetworks c) then True
      else ia_defaultAllow c)"

section \<open>Soundness\<close>

lemma refuse_simps [simp]: "ar_Success (fst (refuse rnd now ip u reason s)) = False"
  by (simp add: refuse_def split_beta)

lemma check_credentials_None:
  "check_credentials realm uri c = None \<longleftrightarrow>
     dc_Username c \<noteq> '''' \<and> dc_Nonce c \<noteq> '''' \<and> dc_URI c \<noteq> '''' \<and> dc_Response c \<noteq> '''' \<and> dc_Realm c \<noteq> '''' \<and>
     dc_Realm c = realm \<and> dc_URI c = uri \<and> EqualFold (dc_Algorithm c) ''MD5'' \<and> dc_QOP c = ''auth'' \<and> dc_CNonce c \<noteq> '''' \<and>
     (\<exists>n. parseNonceCount (dc_NC c) = Inr n)"
  by (auto simp: check_credentials_def split: sum.split)

lemma inspectNonce_Inr:
  "(\<exists>s1. inspectNonce now nonce ip nc s = (Inr (e, n), s1)) \<longleftrightarrow>
     parseNonceCount nc = Inr n \<and>
     (\<exists>info. sa_nonces s nonce = Some info \<and> \<not> expired now s info \<and> ni_ClientIP info = ip \<and> e = ni_Count info \<and> e < n)"
  by (auto simp: inspectNonce_def split: sum.split option.split)

lemma inspectNonce_Inr_state: "inspectNonce now nonce ip nc s = (Inr r, s1) \<Longrightarrow> s1 = s"
  by (auto simp: inspectNonce_def split: sum.splits option.splits if_splits)

text \<open>C19: who is authenticated. A request passes exactly when its header parses for the configured
  realm and the request's own URI, names an enabled user, uses a nonce that was issued to the same
  address and has not expired, has a nonce count above the last one accepted, and carries the digest
  of that user's password; the count is then recorded and nothing else of the state changes.\<close>

theorem Authenticate_iff:
  "ar_Success (fst (Authenticate rnd now hdr mtd uri ip s)) \<longleftrightarrow>
     hdr \<noteq> '''' \<and>
     (\<exists>creds user info n. parseDigestAuth hdr uri s = Inr creds \<and> dc_Realm creds = sa_realm s \<and> dc_URI creds = uri \<and>
        sa_users s (dc_Username creds) = Some user \<and> su_Enabled user \<and>
        sa_nonces s (dc_Nonce creds) = Some info \<and> ni_ClientIP info = ip \<and> now - ni_Timestamp info \<le> sa_nonceTimeout s \<and>
        parseNonceCount (dc_NC creds) = Inr n \<and> ni_Count info < n \<and>
        dc_Response creds = calculateResponse (su_Password user) mtd uri creds \<and>
        ar_Username (fst (Authenticate rnd now hdr mtd uri ip s)) = dc_Username creds \<and>
        snd (Authenticate rnd now hdr mtd uri ip s) =
          s\<lparr>sa_nonces := (sa_nonces s)(dc_Nonce creds \<mapsto> info\<lparr>ni_Count := n\<rparr>)\<rparr>)"
  (is "?ok \<longleftrightarrow> ?conditions")
proof
  assume ok: ?ok
  have hdr: "hdr \<noteq> ''''" using ok by (auto simp: Authenticate_def)
  obtain creds where creds: "parseDigestAuth hdr uri s = Inr creds"
    using ok hdr by (cases "parseDigestAuth hdr uri s") (auto simp: Authenticate_def)
  obtain user where user: "sa_users s (dc_Username creds) = Some user" "su_Enabled user"
    using ok hdr creds by (cases "sa_users s (dc_Username creds)") (auto simp: Authenticate_def split: if_splits)
  obtain e n where insp: "inspectNonce now (dc_Nonce creds) ip (dc_NC creds) s = (Inr (e, n), s)"
  proof -
    obtain r s1 where rs: "inspectNonce now (dc_Nonce creds) ip (dc_NC creds) s = (r, s1)" by (cases "inspectNonce now (dc_Nonce creds) ip (dc_NC creds) s")
    then show thesis
      using ok hdr creds user that inspectNonce_Inr_state
      by (cases r) (auto simp: Authenticate_def)
  qed
  then obtain info where info: "sa_nonces s (dc_Nonce creds) = Some info" "\<not> expired now s info" "ni_ClientIP info = ip"
      "e = ni_Count info" "e < n" "parseNonceCount (dc_NC creds) = Inr n"
    using inspectNonce_Inr[of now "dc_Nonce creds" ip "dc_NC creds" s e n] by blast
  have commit: "commitNonceCount now (dc_Nonce creds) e n s =
      (True, s\<lparr>sa_nonces := (sa_nonces s)(dc_Nonce creds \<mapsto> info\<lparr>ni_Count := n\<rparr>)\<rparr>)"
    using info by (simp add: commitNonceCount_def)
  have resp: "dc_Response creds = calculateResponse (su_Password user) mtd uri creds"
    using ok hdr creds user insp by (auto simp: Authenticate_def split: if_splits)
  have fields: "dc_Realm creds = sa_realm s" "dc_URI creds = uri"
    using creds check_credentials_None by (auto simp: parseDigestAuth_def Let_def split: if_splits option.splits)
  show ?conditions
    using hdr creds user insp info commit resp fields
    by (intro conjI exI[of _ creds] exI[of _ user] exI[of _ info] exI[of _ n]) (auto simp: Authenticate_def expired_def)
next
  assume ?conditions
  then obtain creds user info n where c: "hdr \<noteq> ''''" "parseDigestAuth hdr uri s = Inr creds"
      "sa_users s (dc_Username creds) = Some user" "su_Enabled user" "sa_nonces s (dc_Nonce creds) = Some info"
      "ni_ClientIP info = ip" "now - ni_Timestamp info \<le> sa_nonceTimeout s" "parseNonceCount (dc_NC creds) = Inr n"
      "ni_Count info < n" "dc_Response creds = calculateResponse (su_Password user) mtd uri creds"
    by blast
  have "inspectNonce now (dc_Nonce creds) ip (dc_NC creds) s = (Inr (ni_Count info, n), s)"
    using c by (simp add: inspectNonce_def expired_def)
  moreover have "fst (commitNonceCount now (dc_Nonce creds) (ni_Count info) n s)"
    using c by (simp add: commitNonceCount_def expired_def)
  ultimately show ?ok
    using c by (simp add: Authenticate_def split_beta)
qed

section \<open>Replay\<close>

text \<open>The critical sections of concurrent authentications interleave. A history is a sequence of them;
  it yields the pairs of nonce and count that were accepted.\<close>

datatype nonce_event =
    EvIssue string string go_time
  | EvInspect string string string go_time
  | EvCommit string nat nat go_time
  | EvClean go_time

fun nonce_step :: "nonce_event \<Rightarrow> SIPAuthenticator \<Rightarrow> (string \<times> nat) list \<times> SIPAuthenticator" where
  "nonce_step (EvIssue nonce ip t) s = ([], snd (generateNonce (Some nonce) t ip s))"
| "nonce_step (EvInspect nonce ip nc t) s = ([], snd (inspectNonce t nonce ip nc s))"
| "nonce_step (EvCommit nonce e n t) s =
     (let (ok, s') = commitNonceCount t nonce e n s in (if ok then [(nonce, n)] else [], s'))"
| "nonce_step (EvClean t) s = ([], cleanup_nonces t s)"

fun nonce_run :: "nonce_event list \<Rightarrow> SIPAuthenticator \<Rightarrow> (string \<times> nat) list \<times> SIPAuthenticator" where
  "nonce_run [] s = ([], s)"
| "nonce_run (e # es) s =
     (let (acc, s1) = nonce_step e s; (rest, s2) = nonce_run es s1 in (acc @ rest, s2))"

fun issued :: "nonce_event list \<Rightarrow> string list" where
  "issued [] = []"
| "issued (EvIssue n ip t # es) = n # issued es"
| "issued (_ # es) = issued es"

text \<open>Every accepted count is at most the count on record, as long as the nonce is on record; every
  nonce on record or accepted was issued.\<close>

definition replay_inv :: "string set \<Rightarrow> (string \<times> nat) list \<Rightarrow> SIPAuthenticator \<Rightarrow> bool" where
  "replay_inv iss acc s \<longleftrightarrow>
     distinct acc \<and> fst ` set acc \<subseteq> iss \<and> dom (sa_nonces s) \<subseteq> iss \<and>
     (\<forall>(n, c) \<in> set acc. \<forall>info. sa_nonces s n = Some info \<longrightarrow> c \<le> ni_Count info)"

lemma replay_inv_shrink:
  assumes "replay_inv iss acc s" and "\<And>n. sa_nonces s' n = sa_nonces s n \<or> sa_nonces s' n = None"
  shows "replay_inv iss acc s'"
proof -
  have "dom (sa_nonces s') \<subseteq> dom (sa_nonces s)" using assms(2) by (metis domIff subsetI)
  moreover have "sa_nonces s' n = Some info \<Longrightarrow> sa_nonces s n = Some info" for n info using assms(2)[of n] by auto
  ultimately show ?thesis using assms(1) unfolding replay_inv_def by blast
qed

lemma inspect_shrinks: "sa_nonces (snd (inspectNonce t nonce ip nc s)) n = sa_nonces s n \<or> sa_nonces (snd (inspectNonce t nonce ip nc s)) n = None"
  by (auto simp: inspectNonce_def split: sum.split option.split)

lemma nonce_step_inv:
  assumes "replay_inv iss acc s" and "\<And>n ip t. e = EvIssue n ip t \<Longrightarrow> n \<notin> iss"
  shows "replay_inv (iss \<union> set (issued [e])) (acc @ fst (nonce_step e s)) (snd (nonce_step e s))"
proof (cases e)
  case (EvIssue n ip t)
  have "n \<notin> iss" using assms(2) EvIssue by blast
  then have "\<forall>c. (n, c) \<notin> set acc" using assms(1) by (force simp: replay_inv_def)
  then show ?thesis using assms(1) by (auto simp: EvIssue replay_inv_def generateNonce_def split: if_splits)
next
  case (EvInspect n ip nc t)
  then show ?thesis using replay_inv_shrink[OF assms(1) inspect_shrinks] by simp
next
  case (EvCommit n e' c t)
  show ?thesis
  proof (cases "fst (commitNonceCount t n e' c s)")
    case True
    then obtain info where info: "sa_nonces s n = Some info" "ni_Count info = e'" "e' < c"
        "snd (commitNonceCount t n e' c s) = s\<lparr>sa_nonces := (sa_nonces s)(n \<mapsto> info\<lparr>ni_Count := c\<rparr>)\<rparr>"
      by (auto simp: commitNonceCount_def split: if_splits option.splits)
    have old: "x \<le> e'" if "(n, x) \<in> set acc" for x
      using assms(1) that info by (fastforce simp: replay_inv_def)
    then have "(n, c) \<notin> set acc" using info(3) by force
    moreover have "n \<in> iss" using assms(1) info(1) by (auto simp: replay_inv_def)
    moreover have "x \<le> c" if "(n, x) \<in> set acc" for x using old[OF that] info(3) by simp
    ultimately show ?thesis
      using assms(1) True info(4) by (auto simp: EvCommit replay_inv_def split_beta split: if_splits)
  next
    case False
    then have "sa_nonces (snd (commitNonceCount t n e' c s)) m = sa_nonces s m \<or> sa_nonces (snd (commitNonceCount t n e' c s)) m = None" for m
      by (auto simp: commitNonceCount_def split: option.split)
    then show ?thesis using replay_inv_shrink[OF assms(1)] False by (simp add: EvCommit split_beta)
  qed
next
  case (EvClean t)
  have "sa_nonces (cleanup_nonces t s) n = sa_nonces s n \<or> sa_nonces (cleanup_nonces t s) n = None" for n
    by (auto simp: cleanup_nonces_def split: option.split)
  then show ?thesis using replay_inv_shrink[OF assms(1)] by (simp add: EvClean)
qed

lemma issued_Cons: "issued (e # es) = issued [e] @ issued es"
  by (cases e) simp_all

lemma nonce_run_inv:
  "replay_inv iss acc s \<Longrightarrow> distinct (issued es) \<Longrightarrow> set (issued es) \<inter> iss = {} \<Longrightarrow>
     distinct (acc @ fst (nonce_run es s))"
proof (induction es arbitrary: iss acc s)
  case (Cons e es)
  have fresh: "n \<notin> iss" if "e = EvIssue n ip t" for n ip t using Cons.prems(3) that by auto
  have step: "replay_inv (iss \<union> set (issued [e])) (acc @ fst (nonce_step e s)) (snd (nonce_step e s))"
    by (rule nonce_step_inv[OF Cons.prems(1)]) (rule fresh)
  have later: "distinct (issued es)" "set (issued es) \<inter> (iss \<union> set (issued [e])) = {}"
    using Cons.prems(2,3) unfolding issued_Cons[of e es] by auto
  show ?case using Cons.IH[OF step later] by (simp add: split_beta)
qed (simp add: replay_inv_def)

text \<open>C20: no replay. In every interleaving of challenges, inspections, commits and clean-ups in which
  no nonce is issued twice, no pair of a nonce and a nonce count is accepted twice.\<close>

theorem no_replay:
  assumes "distinct (issued es)"
  shows "distinct (fst (nonce_run es (NewSIPAuthenticator realm)))"
proof -
  have "replay_inv {} [] (NewSIPAuthenticator realm)" by (simp add: replay_inv_def NewSIPAuthenticator_def)
  from nonce_run_inv[OF this assms] show ?thesis by simp
qed

theorem no_replay_witness:
  "fst (nonce_run [EvIssue ''n'' ''ip'' 0, EvCommit ''n'' 0 1 1, EvCommit ''n'' 0 1 1, EvCommit ''n'' 1 2 2] (NewSIPAuthenticator ''r'')) =
     [(''n'', 1), (''n'', 2)] \<and>
   distinct (fst (nonce_run [EvIssue ''n'' ''ip'' 0, EvCommit ''n'' 0 1 1, EvCommit ''n'' 0 1 1, EvCommit ''n'' 1 2 2] (NewSIPAuthenticator ''r'')))"
  using no_replay[of "[EvIssue ''n'' ''ip'' 0, EvCommit ''n'' 0 1 1, EvCommit ''n'' 0 1 1, EvCommit ''n'' 1 2 2]" "''r''"]
  by (simp add: NewSIPAuthenticator_def generateNonce_def commitNonceCount_def expired_def)

section \<open>A client's answer\<close>

text \<open>The header of a client: quoted strings but for algorithm, quality of protection and nonce count.\<close>

definition quoted :: "string \<Rightarrow> string \<Rightarrow> string" where
  "quoted k v = k @ ''='' @ [CHR 0x22] @ v @ [CHR 0x22]"

definition plain :: "string \<Rightarrow> string \<Rightarrow> string" where
  "plain k v = k @ ''='' @ v"

definition digest_header :: "DigestCredentials \<Rightarrow> string" where
  "digest_header c = ''Digest '' @ quoted ''username'' (dc_Username c) @ '', '' @ quoted ''realm'' (dc_Realm c) @ '', '' @
     quoted ''nonce'' (dc_Nonce c) @ '', '' @ quoted ''uri'' (dc_URI c) @ '', '' @ quoted ''response'' (dc_Response c) @ '', '' @
     plain ''algorithm'' (dc_Algorithm c) @ '', '' @ quoted ''opaque'' (dc_Opaque c) @ '', '' @ quoted ''cnonce'' (dc_CNonce c) @ '', '' @
     plain ''qop'' (dc_QOP c) @ '', '' @ plain ''nc'' (dc_NC c)"

definition token :: "string \<Rightarrow> bool" where
  "token v \<longleftrightarrow> list_all (\<lambda>c. graphic c \<and> c \<noteq> CHR '','' \<and> c \<noteq> CHR 0x22) v"

definition key_ok :: "string \<Rightarrow> bool" where
  "key_ok k \<longleftrightarrow> k \<noteq> [] \<and> token k \<and> CHR ''='' \<notin> set k"

lemma token_graphic: "token v \<Longrightarrow> x \<in> set v \<Longrightarrow> graphic x \<and> x \<noteq> CHR '','' \<and> x \<noteq> CHR 0x22"
  by (auto simp: token_def list_all_iff)

lemma parse_quoted:
  assumes "key_ok k" and "token v"
  shows "parse_pair (quoted k v) c = set_credential k v c" "parse_pair (CHR '' '' # quoted k v) c = set_credential k v c"
    "CHR '','' \<notin> set (quoted k v)"
proof -
  have g: "graphic (CHR 0x22)" "graphic (CHR ''='')" by (simp_all add: graphic_def)
  have k: "k \<noteq> []" "graphic (hd k)" "graphic (last k)" "CHR ''='' \<notin> set k"
    using assms(1) token_graphic by (auto simp: key_ok_def)
  have trim: "TrimSpace (quoted k v) = quoted k v" "TrimSpace k = k"
      "TrimSpace (CHR 0x22 # v @ [CHR 0x22]) = CHR 0x22 # v @ [CHR 0x22]"
    using k g by (auto simp: quoted_def intro!: TrimSpace_graphic)
  have split: "SplitN2 (quoted k v) (CHR ''='') = [k, CHR 0x22 # v @ [CHR 0x22]]"
    using SplitN2_append[OF k(4)] by (simp add: quoted_def)
  have "CHR 0x22 \<notin> set v" using assms(2) token_graphic by blast
  then have val: "TrimByte (CHR 0x22) (CHR 0x22 # v @ [CHR 0x22]) = v" by (rule TrimByte_quoted)
  show "parse_pair (quoted k v) c = set_credential k v c" "parse_pair (CHR '' '' # quoted k v) c = set_credential k v c"
    by (simp_all add: parse_pair_def TrimSpace_space trim split val)
  show "CHR '','' \<notin> set (quoted k v)"
    using assms token_graphic by (auto simp: quoted_def key_ok_def)
qed

lemma parse_plain:
  assumes "key_ok k" and "token v" and "v \<noteq> []"
  shows "parse_pair (CHR '' '' # plain k v) c = set_credential k v c" "CHR '','' \<notin> set (plain k v)"
proof -
  have k: "k \<noteq> []" "graphic (hd k)" "graphic (last k)" "CHR ''='' \<notin> set k"
    using assms(1) token_graphic by (auto simp: key_ok_def)
  have v: "graphic (hd v)" "graphic (last v)" "CHR 0x22 \<notin> set v"
    using assms(2,3) token_graphic by auto
  have trim: "TrimSpace (plain k v) = plain k v" "TrimSpace k = k" "TrimSpace v = v"
    using k v assms(3) by (auto simp: plain_def intro!: TrimSpace_graphic)
  have split: "SplitN2 (plain k v) (CHR ''='') = [k, v]"
    using SplitN2_append[OF k(4)] by (simp add: plain_def)
  show "parse_pair (CHR '' '' # plain k v) c = set_credential k v c"
    by (simp add: parse_pair_def TrimSpace_space trim split TrimByte_none[OF v(3)])
  show "CHR '','' \<notin> set (plain k v)"
    using assms token_graphic by (auto simp: plain_def key_ok_def)
qed

definition creds_tokens :: "DigestCredentials \<Rightarrow> bool" where
  "creds_tokens c \<longleftrightarrow>
     token (dc_Username c) \<and> token (dc_Realm c) \<and> token (dc_Nonce c) \<and> token (dc_URI c) \<and> token (dc_Response c) \<and>
     token (dc_Algorithm c) \<and> dc_Algorithm c \<noteq> '''' \<and> token (dc_Opaque c) \<and> token (dc_CNonce c) \<and>
     token (dc_QOP c) \<and> dc_QOP c \<noteq> '''' \<and> token (dc_NC c) \<and> dc_NC c \<noteq> ''''"

lemma keys_ok:
  "key_ok ''username''" "key_ok ''realm''" "key_ok ''nonce''" "key_ok ''uri''" "key_ok ''response''" "key_ok ''algorithm''"
  "key_ok ''opaque''" "key_ok ''cnonce''" "key_ok ''qop''" "key_ok ''nc''"
  by code_simp+

lemma Split_joined: "\<forall>q \<in> set (p # ps). c \<notin> set q \<Longrightarrow> Split (p @ concat (map (\<lambda>q. c # q) ps)) c = p # ps"
  by (induction ps arbitrary: p) (simp_all add: Split_no_sep Split_append)

lemma parse_fields:
  assumes "creds_tokens c"
  shows "fold parse_pair (Split (TrimPrefix (digest_header c) ''Digest '') (CHR '','')) empty_credentials = c"
proof -
  note q = parse_quoted[OF keys_ok(1)] parse_quoted[OF keys_ok(2)] parse_quoted[OF keys_ok(3)] parse_quoted[OF keys_ok(4)]
    parse_quoted[OF keys_ok(5)] parse_quoted[OF keys_ok(7)] parse_quoted[OF keys_ok(8)]
  note p = parse_plain[OF keys_ok(6)] parse_plain[OF keys_ok(9)] parse_plain[OF keys_ok(10)]
  note t = assms[unfolded creds_tokens_def]
  let ?q = "\<lambda>k v. CHR '' '' # quoted k v" and ?p = "\<lambda>k v. CHR '' '' # plain k v"
  let ?parts = "[?q ''realm'' (dc_Realm c), ?q ''nonce'' (dc_Nonce c), ?q ''uri'' (dc_URI c),
       ?q ''response'' (dc_Response c), ?p ''algorithm'' (dc_Algorithm c), ?q ''opaque'' (dc_Opaque c), ?q ''cnonce'' (dc_CNonce c),
       ?p ''qop'' (dc_QOP c), ?p ''nc'' (dc_NC c)]"
  have header: "TrimPrefix (digest_header c) ''Digest '' =
      quoted ''username'' (dc_Username c) @ concat (map (\<lambda>q. CHR '','' # q) ?parts)"
    unfolding digest_header_def TrimPrefix_append by simp
  have commas: "\<forall>x \<in> set (quoted ''username'' (dc_Username c) # ?parts). CHR '','' \<notin> set x"
    using t q p by simp
  show ?thesis
    unfolding header Split_joined[OF commas] using t by (simp add: q p set_credential_def empty_credentials_def)
qed

text \<open>A client that answers a challenge with the right password is let in. The header it writes is
  parsed back to its credentials, and the request is authenticated if the nonce was issued to its address,
  has not expired and the count is new.\<close>

theorem client_authenticated:
  assumes c: "creds_tokens c" "check_credentials (sa_realm s) uri c = None"
    and user: "sa_users s (dc_Username c) = Some user" "su_Enabled user"
    and nonce: "sa_nonces s (dc_Nonce c) = Some info" "ni_ClientIP info = ip" "now - ni_Timestamp info \<le> sa_nonceTimeout s"
    and count: "parseNonceCount (dc_NC c) = Inr n" "ni_Count info < n"
    and response: "dc_Response c = calculateResponse (su_Password user) mtd uri c"
  shows "parseDigestAuth (digest_header c) uri s = Inr c \<and> ar_Success (fst (Authenticate rnd now (digest_header c) mtd uri ip s))"
proof -
  have "HasPrefix (digest_header c) ''Digest ''" unfolding digest_header_def by (rule HasPrefix_append)
  then have parse: "parseDigestAuth (digest_header c) uri s = Inr c"
    using c(2) parse_fields[OF c(1)] by (simp add: parseDigestAuth_def Let_def)
  have "inspectNonce now (dc_Nonce c) ip (dc_NC c) s = (Inr (ni_Count info, n), s)"
    using nonce count by (simp add: inspectNonce_def expired_def)
  moreover have "fst (commitNonceCount now (dc_Nonce c) (ni_Count info) n s)"
    using nonce count by (simp add: commitNonceCount_def expired_def)
  moreover have "digest_header c \<noteq> ''''" by (simp add: digest_header_def)
  ultimately show ?thesis
    using parse user response by (simp add: Authenticate_def split_beta)
qed

definition alice :: "DigestCredentials" where
  "alice = \<lparr>dc_Username = ''alice'', dc_Realm = ''srs'', dc_Nonce = ''n1'', dc_URI = ''sip:srs'', dc_Response = '''', dc_Algorithm = ''MD5'',
     dc_Opaque = '''', dc_QOP = ''auth'', dc_NC = ''00000001'', dc_CNonce = ''c1''\<rparr>"

lemma hex_digit_graphic:
  assumes "n < 16"
  shows "token [hex_digit n]"
proof -
  have v: "of_char (hex_digit n) = (if n < 10 then 48 + n else 87 + n)" using assms by (simp add: hex_digit_def)
  have "hex_digit n \<noteq> CHR '',''" "hex_digit n \<noteq> CHR 0x22" using v by (auto split: if_splits)
  moreover have "graphic (hex_digit n)" using v assms by (simp add: graphic_def)
  ultimately show ?thesis by (simp add: token_def)
qed

lemma token_append: "token (u @ v) \<longleftrightarrow> token u \<and> token v"
  by (simp add: token_def)

lemma hex_token: "token (hex bs)"
proof (induction bs)
  case (Cons b bs)
  have "unat b < 2 ^ LENGTH(8)" by (rule unsigned_less)
  then have "unat b < 256" by simp
  then have "unat b div 16 < 16" "unat b mod 16 < 16" by auto
  then have "token [hex_digit (unat b div 16)]" "token [hex_digit (unat b mod 16)]" by (simp_all add: hex_digit_graphic)
  moreover have "hex (b # bs) = [hex_digit (unat b div 16)] @ [hex_digit (unat b mod 16)] @ hex bs" by (simp add: hex_def)
  ultimately show ?case using Cons by (simp only: token_append)
qed (simp add: hex_def token_def)

lemma hex_nonempty: "bs \<noteq> [] \<Longrightarrow> hex bs \<noteq> ''''"
  by (cases bs) (simp_all add: hex_def)

lemma md5_hex_nonempty: "md5_hex x \<noteq> ''''"
  unfolding md5_hex_def by (rule hex_nonempty) (simp add: md5_Sum_def split_beta w32_bytes_def)

theorem client_authenticated_witness:
  "let s = snd (generateNonce (Some ''n1'') 0 ''10.0.0.1'' (AddUser ''alice'' ''secret'' (NewSIPAuthenticator ''srs'')));
       c = alice\<lparr>dc_Response := calculateResponse ''secret'' ''INVITE'' ''sip:srs'' alice\<rparr>
   in ar_Success (fst (Authenticate None 1 (digest_header c) ''INVITE'' ''sip:srs'' ''10.0.0.1'' s))"
proof -
  let ?r = "calculateResponse ''secret'' ''INVITE'' ''sip:srs'' alice"
  let ?c = "alice\<lparr>dc_Response := ?r\<rparr>"
  let ?s = "snd (generateNonce (Some ''n1'') 0 ''10.0.0.1'' (AddUser ''alice'' ''secret'' (NewSIPAuthenticator ''srs'')))"
  have r: "?r \<noteq> ''''" "token ?r"
    using md5_hex_nonempty hex_token unfolding calculateResponse_def Let_def by (simp_all add: md5_hex_def)
  have tok: "token ''alice''" "token ''srs''" "token ''n1''" "token ''sip:srs''" "token ''MD5''" "token ''auth''" "token ''00000001''"
      "token ''c1''" "token ''''" by code_simp+
  have nc: "parseNonceCount ''00000001'' = Inr 1"
    by (simp add: parseNonceCount_def ParseUint16_def hex_value_def)
  have ok: "creds_tokens ?c" "check_credentials (sa_realm ?s) ''sip:srs'' ?c = None"
    using r tok nc by (simp_all add: creds_tokens_def alice_def check_credentials_def generateNonce_def AddUser_def NewSIPAuthenticator_def)
  have "dc_Response ?c = calculateResponse ''secret'' ''INVITE'' ''sip:srs'' ?c"
    by (simp add: calculateResponse_def alice_def)
  then show ?thesis
    using client_authenticated[OF ok, of _ _ "''10.0.0.1''" 1 1 "''INVITE''" None] nc
    by (simp add: alice_def generateNonce_def AddUser_def NewSIPAuthenticator_def Let_def)
qed

end
