(* ===== verification/AccessControl.thy ===== *)
theory AccessControl
  imports GoLib
begin

text \<open>
  Access to the HTTP interface: \<^verbatim>\<open>pkg/auth/rbac.go\<close>, \<^verbatim>\<open>pkg/auth/simple_auth.go\<close> and the two
  middlewares of \<^verbatim>\<open>pkg/http/auth_middleware.go\<close> and \<^verbatim>\<open>pkg/http/rbac_middleware.go\<close>. Hashing of
  passwords and tokens are third-party libraries: \<open>bhash\<close> and \<open>bcheck\<close> are bcrypt, \<open>sign\<close> and \<open>parse\<close>
  the JWT library with the HMAC methods, which checks signature and times. The audit log is left out.
\<close>

section \<open>Roles and permissions\<close>

record Role =
  role_Name :: string
  role_Description :: string
  role_Permissions :: "string list"
  role_IsSystem :: bool

record Permission =
  perm_Name :: string
  perm_Resource :: string
  perm_Action :: string
  perm_IsSystem :: bool

record RBACManager =
  rb_roles :: "string \<rightharpoonup> Role"
  rb_permissions :: "string \<rightharpoonup> Permission"

record AccessContext =
  ac_UserID :: string
  ac_Username :: string
  ac_Role :: string
  ac_Permissions :: "string list"
  ac_RequestPath :: string
  ac_Method :: string
  ac_Resource :: string
  ac_Action :: string

record AccessResult =
  res_Allowed :: bool
  res_Reason :: string
  res_Permission :: string

definition default_permission :: "string \<times> string \<Rightarrow> Permission" where
  "default_permission p =
     \<lparr>perm_Name = fst p @ '':'' @ snd p, perm_Resource = fst p, perm_Action = snd p, perm_IsSystem = True\<rparr>"

definition defaultPermissions :: "Permission list" where
  "defaultPermissions = map default_permission
     [(''sessions'', ''list''), (''sessions'', ''read''), (''sessions'', ''create''), (''sessions'', ''update''), (''sessions'', ''delete''),
      (''cdr'', ''list''), (''cdr'', ''read''), (''cdr'', ''export''),
      (''users'', ''list''), (''users'', ''read''), (''users'', ''create''), (''users'', ''update''), (''users'', ''delete''),
      (''system'', ''read''), (''system'', ''config''), (''system'', ''restart''),
      (''monitoring'', ''read''), (''monitoring'', ''metrics''), (''monitoring'', ''health''),
      (''api'', ''access''), (''api'', ''keys'')]"

definition defaultRoles :: "Role list" where
  "defaultRoles =
     [\<lparr>role_Name = ''admin'', role_Description = ''System administrator with full access'',
       role_Permissions = [''sessions:*'', ''cdr:*'', ''users:*'', ''system:*'', ''monitoring:*'', ''api:*''], role_IsSystem = True\<rparr>,
      \<lparr>role_Name = ''operator'', role_Description = ''Operator with read/write access to sessions and CDRs'',
       role_Permissions = [''sessions:list'', ''sessions:read'', ''sessions:create'', ''sessions:update'', ''cdr:list'', ''cdr:read'', ''cdr:export'',
         ''monitoring:read'', ''monitoring:metrics'', ''monitoring:health'', ''api:access''], role_IsSystem = True\<rparr>,
      \<lparr>role_Name = ''viewer'', role_Description = ''Read-only access to sessions and CDRs'',
       role_Permissions = [''sessions:list'', ''sessions:read'', ''cdr:list'', ''cdr:read'', ''monitoring:health'', ''api:access''],
       role_IsSystem = True\<rparr>]"

definition NewRBACManager :: RBACManager where
  "NewRBACManager = \<lparr>rb_roles = index_by role_Name defaultRoles, rb_permissions = index_by perm_Name defaultPermissions\<rparr>"

definition hasPermission :: "string list \<Rightarrow> string \<Rightarrow> bool" where
  "hasPermission permissions required =
     list_ex (\<lambda>p. p = required \<or> HasSuffix p '':*'' \<and> HasPrefix required (TrimSuffix p ''*'') \<or> p = ''*'' \<or> p = ''admin:*'') permissions"

definition inferPermissionFromRequest :: "string \<Rightarrow> string \<Rightarrow> string" where
  "inferPermissionFromRequest path mtd =
     (let parts = Split (TrimPrefix path ''/'') (CHR ''/'');
          resource = (if length parts > 1 \<and> hd parts = ''api'' then parts ! 1 else hd parts);
          action =
            (if mtd = ''GET''
             then if length parts > 2 \<or> length parts > 1 \<and> last parts \<noteq> resource then ''read'' else ''list''
             else if mtd = ''POST'' then ''create''
             else if mtd = ''PUT'' \<or> mtd = ''PATCH'' then ''update''
             else if mtd = ''DELETE'' then ''delete''
             else ''access'')
      in resource @ '':'' @ action)"

definition requiredPermission :: "AccessContext \<Rightarrow> string" where
  "requiredPermission ctx =
     (if ac_Resource ctx \<noteq> '''' \<and> ac_Action ctx \<noteq> '''' then ac_Resource ctx @ '':'' @ ac_Action ctx
      else inferPermissionFromRequest (ac_RequestPath ctx) (ac_Method ctx))"

definition CheckAccess :: "AccessContext \<Rightarrow> RBACManager \<Rightarrow> AccessResult" where
  "CheckAccess ctx r =
     (let req = requiredPermission ctx
      in if req = '''' then \<lparr>res_Allowed = False, res_Reason = ''Could not determine required permission'', res_Permission = ''''\<rparr>
         else if hasPermission (ac_Permissions ctx) req
         then \<lparr>res_Allowed = True, res_Reason = ''Permission granted'', res_Permission = req\<rparr>
         else case rb_roles r (ac_Role ctx) of
                Some role \<Rightarrow>
                  if hasPermission (role_Permissions role) req
                  then \<lparr>res_Allowed = True, res_Reason = ''Role permission granted'', res_Permission = req\<rparr>
                  else \<lparr>res_Allowed = False, res_Reason = ''Insufficient permissions'', res_Permission = req\<rparr>
              | None \<Rightarrow> \<lparr>res_Allowed = False, res_Reason = ''Insufficient permissions'', res_Permission = req\<rparr>)"

section \<open>Users, API keys and tokens\<close>

record UserInfo =
  ui_UserID :: string
  ui_Username :: string
  ui_Role :: string
  ui_Permissions :: "string list"

record Claims = UserInfo +
  cl_Issuer :: string
  cl_Subject :: string
  cl_Audience :: "string list"
  cl_ExpiresAt :: go_time
  cl_NotBefore :: go_time
  cl_IssuedAt :: go_time
  cl_ID :: string

record SimpleUser =
  usr_Username :: string
  usr_PasswordHash :: string
  usr_Role :: string
  usr_IsActive :: bool
  usr_Permissions :: "string list"

record SimpleAPIKey =
  key_Key :: string
  key_UserID :: string
  key_Username :: string
  key_Role :: string
  key_IsActive :: bool
  key_Permissions :: "string list"
  key_CreatedAt :: go_time

record SimpleAuthenticator =
  au_users :: "string \<rightharpoonup> SimpleUser"
  au_apiKeys :: "string \<rightharpoonup> SimpleAPIKey"
  au_secretKey :: string
  au_issuer :: string
  au_tokenExpiry :: go_duration

text \<open>Without a configured key, \<open>rnd\<close> is the random one.\<close>

definition NewSimpleAuthenticator :: "string \<Rightarrow> string \<Rightarrow> string \<Rightarrow> go_duration \<Rightarrow> SimpleAuthenticator" where
  "NewSimpleAuthenticator rnd secretKey issuer tokenExpiry =
     \<lparr>au_users = Map.empty, au_apiKeys = Map.empty, au_secretKey = (if secretKey \<noteq> '''' then secretKey else rnd),
      au_issuer = issuer, au_tokenExpiry = tokenExpiry\<rparr>"

definition getRolePermissions :: "string \<Rightarrow> string list" where
  "getRolePermissions role =
     (if role = ''admin''
      then [''sessions:read'', ''sessions:write'', ''sessions:delete'', ''cdr:read'', ''cdr:write'', ''cdr:export'', ''users:read'', ''users:write'',
            ''users:delete'', ''system:read'', ''system:write'', ''system:config'', ''monitoring:read'', ''monitoring:write'']
      else if role = ''operator'' then [''sessions:read'', ''sessions:write'', ''cdr:read'', ''cdr:export'', ''monitoring:read'']
      else if role = ''viewer'' then [''sessions:read'', ''cdr:read'']
      else [])"

definition AddUser :: "(string \<Rightarrow> string option) \<Rightarrow> string \<Rightarrow> string \<Rightarrow> string \<Rightarrow> SimpleAuthenticator \<Rightarrow> bool \<times> SimpleAuthenticator" where
  "AddUser bhash username password role s =
     (case bhash password of
        None \<Rightarrow> (False, s)
      | Some h \<Rightarrow>
          (True, s\<lparr>au_users := (au_users s)(username \<mapsto>
             \<lparr>usr_Username = username, usr_PasswordHash = h, usr_Role = role, usr_IsActive = True, usr_Permissions = getRolePermissions role\<rparr>)\<rparr>))"

text \<open>The key is the random one, \<open>None\<close> if the random source fails.\<close>

definition GenerateAPIKey :: "string option \<Rightarrow> go_time \<Rightarrow> string \<Rightarrow> SimpleAuthenticator \<Rightarrow> (string + string) \<times> SimpleAuthenticator" where
  "GenerateAPIKey rnd now username s =
     (case au_users s username of
        None \<Rightarrow> (Inl ''user not found'', s)
      | Some user \<Rightarrow>
          (case rnd of
             None \<Rightarrow> (Inl ''failed to generate api key'', s)
           | Some k \<Rightarrow>
               (Inr k, s\<lparr>au_apiKeys := (au_apiKeys s)(k \<mapsto>
                  \<lparr>key_Key = k, key_UserID = username, key_Username = username, key_Role = usr_Role user, key_IsActive = True,
                   key_Permissions = usr_Permissions user, key_CreatedAt = now\<rparr>)\<rparr>)))"

definition ValidateAPIKey :: "string \<Rightarrow> SimpleAuthenticator \<Rightarrow> UserInfo option" where
  "ValidateAPIKey apiKey s =
     (case au_apiKeys s apiKey of
        None \<Rightarrow> None
      | Some k \<Rightarrow>
          if \<not> key_IsActive k then None
          else Some \<lparr>ui_UserID = key_UserID k, ui_Username = key_Username k, ui_Role = key_Role k, ui_Permissions = key_Permissions k\<rparr>)"

definition token_claims :: "string \<Rightarrow> go_time \<Rightarrow> SimpleUser \<Rightarrow> SimpleAuthenticator \<Rightarrow> Claims" where
  "token_claims jti now user s =
     \<lparr>ui_UserID = usr_Username user, ui_Username = usr_Username user, ui_Role = usr_Role user, ui_Permissions = usr_Permissions user,
      cl_Issuer = au_issuer s, cl_Subject = usr_Username user, cl_Audience = [''siprec-api''], cl_ExpiresAt = now + au_tokenExpiry s,
      cl_NotBefore = now, cl_IssuedAt = now, cl_ID = jti\<rparr>"

definition generateToken :: "(string \<Rightarrow> Claims \<Rightarrow> string option) \<Rightarrow> string \<Rightarrow> go_time \<Rightarrow> SimpleUser \<Rightarrow> SimpleAuthenticator \<Rightarrow> string option" where
  "generateToken sign jti now user s = sign (au_secretKey s) (token_claims jti now user s)"

definition Login ::
  "(string \<Rightarrow> string \<Rightarrow> bool) \<Rightarrow> (string \<Rightarrow> Claims \<Rightarrow> string option) \<Rightarrow> string \<Rightarrow> go_time \<Rightarrow> string \<Rightarrow> string \<Rightarrow> SimpleAuthenticator \<Rightarrow> string + string" where
  "Login bcheck sign jti now username password s =
     (case au_users s username of
        None \<Rightarrow> Inl ''invalid username or password''
      | Some user \<Rightarrow>
          if \<not> usr_IsActive user then Inl ''invalid username or password''
          else if \<not> bcheck (usr_PasswordHash user) password then Inl ''invalid username or password''
          else case generateToken sign jti now user s of
                 None \<Rightarrow> Inl ''failed to generate token''
               | Some t \<Rightarrow> Inr t)"

definition ValidateToken :: "(string \<Rightarrow> go_time \<Rightarrow> string \<Rightarrow> Claims option) \<Rightarrow> go_time \<Rightarrow> string \<Rightarrow> SimpleAuthenticator \<Rightarrow> Claims option" where
  "ValidateToken parse now token s =
     (case parse (au_secretKey s) now token of
        None \<Rightarrow> None
      | Some claims \<Rightarrow> if cl_Issuer claims \<noteq> au_issuer s then None else Some claims)"

section \<open>The middlewares\<close>

text \<open>The parts of a request that the middlewares read; a header that is absent is empty.\<close>

record Request =
  rq_Path :: string
  rq_Method :: string
  rq_Header :: "string \<Rightarrow> string"

record AuthConfig =
  acf_Enabled :: bool
  acf_RequireAuth :: bool
  acf_AllowAPIKey :: bool
  acf_AllowJWT :: bool
  acf_ExemptPaths :: "string list"
  acf_RequiredScopes :: "string \<rightharpoonup> string list"

definition isWebSocketRequest :: "Request \<Rightarrow> bool" where
  "isWebSocketRequest r \<longleftrightarrow>
     EqualFold (rq_Header r ''Upgrade'') ''websocket'' \<or>
     list_ex (\<lambda>t. EqualFold (TrimSpace t) ''upgrade'') (Split (rq_Header r ''Connection'') (CHR '',''))"

definition getWebSocketToken :: "Request \<Rightarrow> string" where
  "getWebSocketToken r =
     (if \<not> isWebSocketRequest r then ''''
      else if rq_Header r ''Sec-WebSocket-Protocol'' = '''' then ''''
      else TrimSpace (hd (Split (rq_Header r ''Sec-WebSocket-Protocol'') (CHR '',''))))"

definition claims_user :: "Claims \<Rightarrow> UserInfo" where
  "claims_user c = \<lparr>ui_UserID = ui_UserID c, ui_Username = ui_Username c, ui_Role = ui_Role c, ui_Permissions = ui_Permissions c\<rparr>"

fun first_some :: "'a option list \<Rightarrow> 'a option" where
  "first_some [] = None"
| "first_some (Some x # xs) = Some x"
| "first_some (None # xs) = first_some xs"

text \<open>The methods in the order in which they are tried. No authenticator is \<open>None\<close>.\<close>

definition authenticate ::
  "(string \<Rightarrow> go_time \<Rightarrow> string \<Rightarrow> Claims option) \<Rightarrow> go_time \<Rightarrow> AuthConfig \<Rightarrow> SimpleAuthenticator option \<Rightarrow> Request \<Rightarrow> UserInfo option" where
  "authenticate parse now cfg auth r =
     (case auth of
        None \<Rightarrow> None
      | Some s \<Rightarrow>
          let ws = getWebSocketToken r; hdr = rq_Header r ''Authorization''; apiKey = rq_Header r ''X-API-Key'';
              jwt = (\<lambda>t. map_option claims_user (ValidateToken parse now t s))
          in first_some
               [if acf_AllowJWT cfg \<and> hdr \<noteq> '''' \<and> HasPrefix hdr ''Bearer '' then jwt (TrimPrefix hdr ''Bearer '') else None,
                if acf_AllowJWT cfg \<and> ws \<noteq> '''' \<and> isWebSocketRequest r then jwt ws else None,
                if acf_AllowAPIKey cfg \<and> apiKey \<noteq> '''' then ValidateAPIKey apiKey s else None,
                if acf_AllowAPIKey cfg \<and> ws \<noteq> '''' \<and> isWebSocketRequest r then ValidateAPIKey ws s else None])"

definition isPathExempt :: "string list \<Rightarrow> string \<Rightarrow> bool" where
  "isPathExempt exempt path \<longleftrightarrow> list_ex (\<lambda>e. path = e \<or> HasPrefix path e) exempt"

definition hasRequiredScopes :: "AuthConfig \<Rightarrow> string \<Rightarrow> string list \<Rightarrow> bool" where
  "hasRequiredScopes cfg path userPermissions =
     (case acf_RequiredScopes cfg path of
        None \<Rightarrow> True
      | Some required \<Rightarrow>
          list_ex (\<lambda>q. list_ex (\<lambda>u. (u = q \<or> HasSuffix u '':*'') \<and> HasPrefix q (TrimSuffix u ''*'')) userPermissions) required)"

text \<open>What a middleware does: answer itself, or call the next handler with the user it put into the
  context, if any.\<close>

datatype outcome = Unauthorized | Forbidden | PassOn "UserInfo option"

definition auth_Middleware ::
  "(string \<Rightarrow> go_time \<Rightarrow> string \<Rightarrow> Claims option) \<Rightarrow> go_time \<Rightarrow> AuthConfig \<Rightarrow> SimpleAuthenticator option \<Rightarrow> Request \<Rightarrow> outcome" where
  "auth_Middleware parse now cfg auth r =
     (if \<not> acf_Enabled cfg then PassOn None
      else if isPathExempt (acf_ExemptPaths cfg) (rq_Path r) then PassOn None
      else case authenticate parse now cfg auth r of
             None \<Rightarrow> if acf_RequireAuth cfg then Unauthorized else PassOn None
           | Some user \<Rightarrow> if \<not> hasRequiredScopes cfg (rq_Path r) (ui_Permissions user) then Forbidden else PassOn (Some user))"

record RBACConfig =
  rbc_Enabled :: bool
  rbc_ExemptPaths :: "string list"

definition DefaultRBACExemptPaths :: "string list" where
  "DefaultRBACExemptPaths = [''/health'', ''/metrics'', ''/status'', ''/ws/'', ''/websocket-client'']"

definition rbac_Middleware :: "RBACConfig \<Rightarrow> RBACManager option \<Rightarrow> Request \<Rightarrow> UserInfo option \<Rightarrow> outcome" where
  "rbac_Middleware cfg rbac r user =
     (case rbac of
        None \<Rightarrow> PassOn user
      | Some m \<Rightarrow>
          if \<not> rbc_Enabled cfg then PassOn user
          else if isPathExempt (rbc_ExemptPaths cfg) (rq_Path r) then PassOn user
          else case user of
                 None \<Rightarrow> Forbidden
               | Some u \<Rightarrow>
                   if res_Allowed (CheckAccess \<lparr>ac_UserID = ui_UserID u, ac_Username = ui_Username u, ac_Role = ui_Role u,
                        ac_Permissions = ui_Permissions u, ac_RequestPath = rq_Path r, ac_Method = rq_Method r, ac_Resource = '''', ac_Action = ''''\<rparr> m)
                   then PassOn user else Forbidden)"

text \<open>The chain of the two: authentication first.\<close>

definition serve ::
  "(string \<Rightarrow> go_time \<Rightarrow> string \<Rightarrow> Claims option) \<Rightarrow> go_time \<Rightarrow> AuthConfig \<Rightarrow> SimpleAuthenticator option \<Rightarrow> RBACConfig \<Rightarrow> RBACManager option \<Rightarrow>
     Request \<Rightarrow> outcome" where
  "serve parse now acfg auth rcfg rbac r =
     (case auth_Middleware parse now acfg auth r of PassOn user \<Rightarrow> rbac_Middleware rcfg rbac r user | out \<Rightarrow> out)"

section \<open>Properties\<close>

text \<open>What a permission grants.\<close>

definition grants :: "string \<Rightarrow> string \<Rightarrow> bool" where
  "grants p required \<longleftrightarrow> p = required \<or> p = ''*'' \<or> p = ''admin:*'' \<or> (\<exists>r. p = r @ '':*'' \<and> HasPrefix required (r @ '':''))"

lemma hasPermission_iff: "hasPermission ps required \<longleftrightarrow> (\<exists>p \<in> set ps. grants p required)"
proof -
  have trim: "TrimSuffix (r @ '':*'') ''*'' = r @ '':''" for r
    using HasSuffix_iff[of "r @ '':*''" "''*''"] by (auto simp: TrimSuffix_def)
  have "HasSuffix p '':*'' \<and> HasPrefix required (TrimSuffix p ''*'') \<longleftrightarrow> (\<exists>r. p = r @ '':*'' \<and> HasPrefix required (r @ '':''))" for p
    using trim by (auto simp: HasSuffix_iff)
  then show ?thesis by (auto simp: hasPermission_def list_ex_iff grants_def)
qed

lemma inferPermission_nonempty: "inferPermissionFromRequest path mtd \<noteq> ''''"
  by (simp add: inferPermissionFromRequest_def Let_def)

lemma CheckAccess_iff:
  "res_Allowed (CheckAccess ctx r) \<longleftrightarrow>
     (\<exists>p \<in> set (ac_Permissions ctx). grants p (requiredPermission ctx)) \<or>
     (\<exists>role. rb_roles r (ac_Role ctx) = Some role \<and> (\<exists>p \<in> set (role_Permissions role). grants p (requiredPermission ctx)))"
proof -
  have "requiredPermission ctx \<noteq> ''''"
    by (simp add: requiredPermission_def inferPermission_nonempty)
  then show ?thesis
    by (auto simp: CheckAccess_def Let_def hasPermission_iff split: option.split)
qed

text \<open>C21: the chain fails closed. With authentication required and role checks enabled, a request for a
  path that is not exempt reaches the handler exactly if it authenticates as some user, that user has a
  scope required for the path, and a permission of the user or of the user's role grants what the
  method and path require; the handler then sees that user.\<close>

theorem serve_iff:
  assumes "acf_Enabled acfg" "acf_RequireAuth acfg" "rbc_Enabled rcfg"
    and "\<not> isPathExempt (acf_ExemptPaths acfg) (rq_Path r)" "\<not> isPathExempt (rbc_ExemptPaths rcfg) (rq_Path r)"
  shows "serve parse now acfg auth rcfg (Some m) r = PassOn user \<longleftrightarrow>
    (\<exists>u. user = Some u \<and> authenticate parse now acfg auth r = Some u \<and> hasRequiredScopes acfg (rq_Path r) (ui_Permissions u) \<and>
       (let req = inferPermissionFromRequest (rq_Path r) (rq_Method r)
        in (\<exists>p \<in> set (ui_Permissions u). grants p req) \<or>
           (\<exists>role. rb_roles m (ui_Role u) = Some role \<and> (\<exists>p \<in> set (role_Permissions role). grants p req))))"
  using assms
  by (cases "authenticate parse now acfg auth r")
    (auto simp: serve_def auth_Middleware_def rbac_Middleware_def CheckAccess_iff requiredPermission_def Let_def)

definition viewer_key :: SimpleAuthenticator where
  "viewer_key = (NewSimpleAuthenticator '''' ''secret'' ''siprec'' 3600)\<lparr>au_apiKeys := [''k1'' \<mapsto>
     \<lparr>key_Key = ''k1'', key_UserID = ''eve'', key_Username = ''eve'', key_Role = ''viewer'', key_IsActive = True,
      key_Permissions = getRolePermissions ''viewer'', key_CreatedAt = 0\<rparr>]\<rparr>"

definition strict_auth :: AuthConfig where
  "strict_auth = \<lparr>acf_Enabled = True, acf_RequireAuth = True, acf_AllowAPIKey = True, acf_AllowJWT = True, acf_ExemptPaths = [''/health''],
     acf_RequiredScopes = Map.empty\<rparr>"

definition strict_rbac :: RBACConfig where
  "strict_rbac = \<lparr>rbc_Enabled = True, rbc_ExemptPaths = DefaultRBACExemptPaths\<rparr>"

definition key_request :: "string \<Rightarrow> string \<Rightarrow> Request" where
  "key_request mtd path = \<lparr>rq_Path = path, rq_Method = mtd, rq_Header = (\<lambda>h. if h = ''X-API-Key'' then ''k1'' else '''')\<rparr>"

theorem serve_iff_witness:
  "serve (\<lambda>_ _ _. None) 0 strict_auth (Some viewer_key) strict_rbac (Some NewRBACManager) (key_request ''GET'' ''/api/sessions/stats'') \<noteq> Unauthorized \<and>
   \<not> (\<exists>user. serve (\<lambda>_ _ _. None) 0 strict_auth None strict_rbac (Some NewRBACManager) (key_request ''GET'' ''/api/sessions/stats'') = PassOn user)"
proof -
  let ?r = "key_request ''GET'' ''/api/sessions/stats''"
  have pre: "acf_Enabled strict_auth" "acf_RequireAuth strict_auth" "rbc_Enabled strict_rbac"
      "\<not> isPathExempt (acf_ExemptPaths strict_auth) (rq_Path ?r)" "\<not> isPathExempt (rbc_ExemptPaths strict_rbac) (rq_Path ?r)"
    by (simp_all add: strict_auth_def strict_rbac_def key_request_def isPathExempt_def DefaultRBACExemptPaths_def HasPrefix_def)
  have "authenticate (\<lambda>_ _ _. None) 0 strict_auth (Some viewer_key) ?r \<noteq> None"
  proof -
    have "getWebSocketToken ?r = ''''" by code_simp
    then show ?thesis
      by (simp add: authenticate_def Let_def strict_auth_def ValidateAPIKey_def viewer_key_def) (simp add: key_request_def)
  qed
  then have "serve (\<lambda>_ _ _. None) 0 strict_auth (Some viewer_key) strict_rbac (Some NewRBACManager) ?r \<noteq> Unauthorized"
    by (auto simp: serve_def auth_Middleware_def rbac_Middleware_def split: option.splits)
  moreover have "\<not> (\<exists>user. serve (\<lambda>_ _ _. None) 0 strict_auth None strict_rbac (Some NewRBACManager) ?r = PassOn user)"
    using serve_iff[OF pre, of "\<lambda>_ _ _. None" 0 None] by (simp add: authenticate_def)
  ultimately show ?thesis by blast
qed

text \<open>The administrator role, described as having full access, is refused the cluster, configuration,
  transcription and compliance interfaces: their resources are not among the six that its
  permissions name.\<close>

theorem admin_refused:
  assumes "area \<in> set [''cluster'', ''config'', ''stt'', ''compliance'']" and "mtd \<in> set [''GET'', ''POST'', ''PUT'', ''DELETE'']"
    and "ui_Role u = ''admin''" and "ui_Permissions u = getRolePermissions ''admin''" and "rbc_Enabled cfg"
    and "\<not> isPathExempt (rbc_ExemptPaths cfg) (rq_Path r)" and "rq_Path r = ''/api/'' @ area" and "rq_Method r = mtd"
  shows "rbac_Middleware cfg (Some NewRBACManager) r (Some u) = Forbidden"
proof -
  let ?req = "inferPermissionFromRequest (''/api/'' @ area) mtd"
  have role: "rb_roles NewRBACManager ''admin'' = Some (hd defaultRoles)" by code_simp
  have "list_all (\<lambda>area. list_all (\<lambda>mtd. \<not> hasPermission (getRolePermissions ''admin'') (inferPermissionFromRequest (''/api/'' @ area) mtd) \<and>
      \<not> hasPermission (role_Permissions (hd defaultRoles)) (inferPermissionFromRequest (''/api/'' @ area) mtd)) [''GET'', ''POST'', ''PUT'', ''DELETE''])
      [''cluster'', ''config'', ''stt'', ''compliance'']"
    by code_simp
  then have "\<not> hasPermission (getRolePermissions ''admin'') ?req" "\<not> hasPermission (role_Permissions (hd defaultRoles)) ?req"
    using assms(1,2) unfolding list_all_iff by blast+
  then show ?thesis
    using assms(3-8) role by (simp add: rbac_Middleware_def CheckAccess_iff requiredPermission_def flip: hasPermission_iff)
qed

theorem admin_refused_witness:
  "rbac_Middleware strict_rbac (Some NewRBACManager) (key_request ''GET'' ''/api/config'')
     (Some \<lparr>ui_UserID = ''root'', ui_Username = ''root'', ui_Role = ''admin'', ui_Permissions = getRolePermissions ''admin''\<rparr>) = Forbidden"
  by (rule admin_refused[of "''config''" "''GET''"])
    (simp_all add: strict_rbac_def key_request_def isPathExempt_def DefaultRBACExemptPaths_def HasPrefix_def)


definition bob :: SimpleUser where
  "bob = \<lparr>usr_Username = ''bob'', usr_PasswordHash = ''pw'', usr_Role = ''viewer'', usr_IsActive = True,
     usr_Permissions = getRolePermissions ''viewer''\<rparr>"

definition bob_claims :: Claims where
  "bob_claims = token_claims ''id1'' 0 bob (NewSimpleAuthenticator '''' ''secret'' ''siprec'' 3600)"


end
