(* ===== verification/GoConv.thy ===== *)
theory GoConv
  imports GoLib
begin

text \<open>
  More of the Go library: \<^verbatim>\<open>strings.Fields\<close>, \<^verbatim>\<open>strings.Join\<close>, \<^verbatim>\<open>strconv.Atoi\<close> and
  \<^verbatim>\<open>base64.StdEncoding\<close>, with the round trips that the components use.
\<close>

section \<open>Fields\<close>

text \<open>A field and the rest, from the first byte that is not white space.\<close>

fun next_field :: "string \<Rightarrow> string \<times> string" where
  "next_field [] = ([], [])"
| "next_field (c # s) =
     (if ws_tail (c # s) \<noteq> None then ([], c # s)
      else let (w, r) = next_field s in (c # w, r))"

lemma next_field_append: "fst (next_field s) @ snd (next_field s) = s"
  by (induction s rule: next_field.induct) (auto simp: split_beta simp del: ws_tail.simps)

lemma next_field_length: "length (snd (next_field s)) \<le> length s"
  by (induction s rule: next_field.induct) (auto simp: split_beta simp del: ws_tail.simps)

lemma next_field_progress: "s \<noteq> [] \<Longrightarrow> ws_tail s = None \<Longrightarrow> length (snd (next_field s)) < length s"
  using next_field_length by (cases s) (auto simp: split_beta less_Suc_eq_le simp del: ws_tail.simps)

lemma TrimLeftSpace_length: "length (TrimLeftSpace s) \<le> length s"
proof (induction s rule: TrimLeftSpace.induct)
  case (1 s)
  show ?case
    by (subst TrimLeftSpace.simps) (use 1 ws_tail_length in \<open>fastforce split: option.split\<close>)
qed

lemma ws_tail_TrimLeftSpace: "ws_tail (TrimLeftSpace s) = None"
proof (induction s rule: TrimLeftSpace.induct)
  case (1 s)
  show ?case
    by (subst TrimLeftSpace.simps) (use 1 in \<open>auto split: option.split\<close>)
qed

function Fields :: "string \<Rightarrow> string list" where
  "Fields s =
     (let t = TrimLeftSpace s
      in if t = [] then [] else fst (next_field t) # Fields (snd (next_field t)))"
  by pat_completeness auto
termination
proof (relation "measure length", goal_cases)
  case (2 s t)
  then have "length (snd (next_field t)) < length t"
    using next_field_progress ws_tail_TrimLeftSpace by blast
  then show ?case using 2 TrimLeftSpace_length[of s] by simp
qed simp

declare Fields.simps [simp del]

text \<open>Tokens without white space, joined by single spaces, come back.\<close>

definition no_space :: "string \<Rightarrow> bool" where
  "no_space s \<longleftrightarrow> s \<noteq> [] \<and> list_all graphic s"

lemma next_field_token:
  assumes "list_all graphic w" and "r = [] \<or> (\<exists>s. r = CHR '' '' # s)"
  shows "next_field (w @ r) = (w, r)"
  using assms(1)
proof (induction w)
  case Nil
  show ?case using assms(2) by (auto simp: ascii_ws_def)
next
  case (Cons c w)
  then show ?case by (simp add: ws_tail_graphic del: ws_tail.simps)
qed

lemma TrimLeftSpace_token: "list_all graphic w \<Longrightarrow> w \<noteq> [] \<Longrightarrow> TrimLeftSpace (w @ r) = w @ r"
  by (subst TrimLeftSpace.simps, cases w) (simp_all add: ws_tail_graphic del: ws_tail.simps)

lemma Fields_token: "no_space w \<Longrightarrow> Fields w = [w]"
  using TrimLeftSpace_token[of w "[]"] next_field_token[of w "[]"]
  by (subst Fields.simps) (simp add: no_space_def Let_def Fields.simps[of "[]"] TrimLeftSpace.simps[of "[]"])

lemma TrimLeftSpace_space: "TrimLeftSpace (CHR '' '' # s) = TrimLeftSpace s"
  by (subst TrimLeftSpace.simps) (simp add: ascii_ws_def)

lemma Fields_space: "Fields (CHR '' '' # s) = Fields s"
  by (simp add: Fields.simps[of "CHR '' '' # s"] Fields.simps[of s] TrimLeftSpace_space)

lemma Fields_Cons: "no_space w \<Longrightarrow> Fields (w @ CHR '' '' # s) = w # Fields s"
  using TrimLeftSpace_token[of w "CHR '' '' # s"] next_field_token[of w "CHR '' '' # s"]
  by (subst Fields.simps) (simp add: no_space_def Let_def Fields_space)

section \<open>Numbers\<close>

definition Atoi :: "string \<Rightarrow> int option" where
  "Atoi s =
     (let (neg, ds) = (case s of [] \<Rightarrow> (False, []) | c # r \<Rightarrow> if c = CHR ''-'' then (True, r) else if c = CHR ''+'' then (False, r) else (False, s))
      in if ds = [] \<or> \<not> list_all is_digit ds then None
         else let v = (if neg then - num_val ds else num_val ds)
              in if - (2 ^ 63) \<le> v \<and> v \<le> 2 ^ 63 - 1 then Some v else None)"

lemma is_digit_digit_char: "d < 10 \<Longrightarrow> is_digit (digit_char d) \<and> digit_val (digit_char d) = int d"
  using of_nat_of_char[where 'a = int, of "char_of (48 + d)"] by (simp add: is_digit_def digit_char_def digit_val_def Let_def)

lemma num_val_append: "num_val (xs @ [c]) = 10 * num_val xs + digit_val c"
  by (simp add: num_val_def)

lemma dec_digits_ok: "dec_digits n \<noteq> [] \<and> list_all is_digit (dec_digits n) \<and> num_val (dec_digits n) = int n"
proof (induction n rule: dec_digits.induct)
  case (1 n)
  show ?case
  proof (cases "n < 10")
    case True
    then show ?thesis using is_digit_digit_char[of n] by (simp add: dec_digits.simps[of n] num_val_def)
  next
    case False
    then have "int n = 10 * int (n div 10) + int (n mod 10)" by presburger
    then show ?thesis
      using 1[OF False] False is_digit_digit_char[of "n mod 10"] by (simp add: dec_digits.simps[of n] num_val_append)
  qed
qed

lemma is_digit_sign: "is_digit c \<Longrightarrow> c \<noteq> CHR ''-'' \<and> c \<noteq> CHR ''+''"
  by (auto simp: is_digit_def)

theorem Atoi_Itoa: "- (2 ^ 63) \<le> i \<Longrightarrow> i \<le> 2 ^ 63 - 1 \<Longrightarrow> Atoi (Itoa i) = Some i"
proof (cases "i < 0")
  case True
  assume "- (2 ^ 63) \<le> i" "i \<le> 2 ^ 63 - 1"
  then show ?thesis using True dec_digits_ok[of "nat (- i)"] by (simp add: Itoa_def Atoi_def)
next
  case False
  assume r: "- (2 ^ 63) \<le> i" "i \<le> 2 ^ 63 - 1"
  obtain c ds where ds: "dec_digits (nat i) = c # ds" using dec_digits_ok[of "nat i"] by (cases "dec_digits (nat i)") auto
  then have "c \<noteq> CHR ''-''" "c \<noteq> CHR ''+''" using dec_digits_ok[of "nat i"] is_digit_sign[of c] by auto
  then show ?thesis using r False ds dec_digits_ok[of "nat i"] by (simp add: Itoa_def Atoi_def)
qed

section \<open>Base64\<close>

definition b64_char :: "nat \<Rightarrow> char" where
  "b64_char n =
     char_of (if n < 26 then 65 + n else if n < 52 then 71 + n else if n < 62 then n - 4 else if n = 62 then 43 else (47 :: nat))"

definition b64_val :: "char \<Rightarrow> nat option" where
  "b64_val c =
     (let n = (of_char c :: nat)
      in if 65 \<le> n \<and> n \<le> 90 then Some (n - 65)
         else if 97 \<le> n \<and> n \<le> 122 then Some (n - 71)
         else if 48 \<le> n \<and> n \<le> 57 then Some (n + 4)
         else if n = 43 then Some 62
         else if n = 47 then Some 63
         else None)"

definition b64_byte1 :: "nat \<Rightarrow> nat \<Rightarrow> byte" where
  "b64_byte1 a b = of_nat (4 * a + b div 16)"

definition b64_byte2 :: "nat \<Rightarrow> nat \<Rightarrow> byte" where
  "b64_byte2 b c = of_nat (16 * (b mod 16) + c div 4)"

definition b64_byte3 :: "nat \<Rightarrow> nat \<Rightarrow> byte" where
  "b64_byte3 c d = of_nat (64 * (c mod 4) + d)"

text \<open>A quantum of four characters at a time; only the last one may be padded.\<close>

fun b64_quanta :: "string \<Rightarrow> byte list option" where
  "b64_quanta [] = Some []"
| "b64_quanta (c1 # c2 # c3 # c4 # s) =
     do {
       a \<leftarrow> b64_val c1;
       b \<leftarrow> b64_val c2;
       if c3 = CHR ''='' then (if c4 = CHR ''='' \<and> s = [] then Some [b64_byte1 a b] else None)
       else do {
         c \<leftarrow> b64_val c3;
         if c4 = CHR ''='' then (if s = [] then Some [b64_byte1 a b, b64_byte2 b c] else None)
         else do {
           d \<leftarrow> b64_val c4;
           r \<leftarrow> b64_quanta s;
           Some (b64_byte1 a b # b64_byte2 b c # b64_byte3 c d # r)
         }
       }
     }"
| "b64_quanta _ = None"

definition DecodeString :: "string \<Rightarrow> byte list option" where
  "DecodeString s = b64_quanta (filter (\<lambda>c. c \<noteq> CHR 0x0D \<and> c \<noteq> CHR 0x0A) s)"

fun EncodeToString :: "byte list \<Rightarrow> string" where
  "EncodeToString [] = []"
| "EncodeToString [x] = [b64_char (unat x div 4), b64_char (unat x mod 4 * 16), CHR ''='', CHR ''='']"
| "EncodeToString [x, y] =
     [b64_char (unat x div 4), b64_char (unat x mod 4 * 16 + unat y div 16), b64_char (unat y mod 16 * 4), CHR ''='']"
| "EncodeToString (x # y # z # r) =
     b64_char (unat x div 4) # b64_char (unat x mod 4 * 16 + unat y div 16) # b64_char (unat y mod 16 * 4 + unat z div 64) #
     b64_char (unat z mod 64) # EncodeToString r"

lemma b64_char_val: "n < 64 \<Longrightarrow> b64_val (b64_char n) = Some n \<and> b64_char n \<noteq> CHR ''='' \<and> b64_char n \<noteq> CHR 0x0D \<and> b64_char n \<noteq> CHR 0x0A"
proof -
  assume n: "n < 64"
  let ?m = "if n < 26 then 65 + n else if n < 52 then 71 + n else if n < 62 then n - 4 else if n = 62 then 43 else (47 :: nat)"
  have m: "of_char (b64_char n) = ?m" using n by (simp add: b64_char_def of_char_of)
  then have "of_char (b64_char n) \<noteq> (61 :: nat)" "of_char (b64_char n) \<noteq> (13 :: nat)" "of_char (b64_char n) \<noteq> (10 :: nat)"
    using n by (auto split: if_splits)
  moreover have "of_char CHR ''='' = (61 :: nat)" "of_char CHR 0x0D = (13 :: nat)" "of_char CHR 0x0A = (10 :: nat)" by simp_all
  ultimately have "b64_char n \<noteq> CHR ''=''" "b64_char n \<noteq> CHR 0x0D" "b64_char n \<noteq> CHR 0x0A" by metis+
  moreover have "b64_val (b64_char n) = Some n" unfolding b64_val_def Let_def m using n by auto
  ultimately show ?thesis by blast
qed

lemma unat_byte: "unat (x :: byte) < 256"
  using unsigned_less[of x, where ?'a = nat] by simp

lemma b64_splits:
  fixes x y z :: byte
  shows "unat x div 4 < 64" "unat x mod 4 * 16 + unat y div 16 < 64" "unat y mod 16 * 4 + unat z div 64 < 64" "unat z mod 64 < 64"
    "unat x mod 4 * 16 < 64" "unat y mod 16 * 4 < 64"
proof -
  have d: "unat x div 4 < 64" "unat y div 16 < 16" "unat z div 64 < 4"
    using unat_byte[of x] unat_byte[of y] unat_byte[of z] by (simp_all add: less_mult_imp_div_less)
  have m: "unat x mod 4 < 4" "unat y mod 16 < 16" "unat z mod 64 < 64" by simp_all
  show "unat x div 4 < 64" "unat x mod 4 * 16 + unat y div 16 < 64" "unat y mod 16 * 4 + unat z div 64 < 64" "unat z mod 64 < 64"
    "unat x mod 4 * 16 < 64" "unat y mod 16 * 4 < 64"
    using d m by linarith+
qed

lemma mult_add_div: "q < k \<Longrightarrow> (p * k + q) div k = p \<and> (p * k + q) mod k = q" for q :: nat
  by simp

lemma b64_joins:
  fixes x y z :: byte
  shows "b64_byte1 (unat x div 4) (unat x mod 4 * 16 + unat y div 16) = x" "b64_byte1 (unat x div 4) (unat x mod 4 * 16) = x"
    "b64_byte2 (unat x mod 4 * 16 + unat y div 16) (unat y mod 16 * 4 + unat z div 64) = y"
    "b64_byte2 (unat x mod 4 * 16 + unat y div 16) (unat y mod 16 * 4) = y"
    "b64_byte3 (unat y mod 16 * 4 + unat z div 64) (unat z mod 64) = z"
proof -
  have n: "4 * (unat x div 4) + (unat x mod 4 * 16 + unat y div 16) div 16 = unat x" "4 * (unat x div 4) + (unat x mod 4 * 16) div 16 = unat x"
      "16 * ((unat x mod 4 * 16 + unat y div 16) mod 16) + (unat y mod 16 * 4 + unat z div 64) div 4 = unat y"
      "16 * ((unat x mod 4 * 16 + unat y div 16) mod 16) + (unat y mod 16 * 4) div 4 = unat y"
      "64 * ((unat y mod 16 * 4 + unat z div 64) mod 4) + unat z mod 64 = unat z"
    using mult_add_div[of "unat y div 16" 16] mult_add_div[of "unat z div 64" 4] unat_byte[of y] unat_byte[of z]
    by (simp_all add: less_mult_imp_div_less)
  show "b64_byte1 (unat x div 4) (unat x mod 4 * 16 + unat y div 16) = x" "b64_byte1 (unat x div 4) (unat x mod 4 * 16) = x"
    "b64_byte2 (unat x mod 4 * 16 + unat y div 16) (unat y mod 16 * 4 + unat z div 64) = y"
    "b64_byte2 (unat x mod 4 * 16 + unat y div 16) (unat y mod 16 * 4) = y"
    "b64_byte3 (unat y mod 16 * 4 + unat z div 64) (unat z mod 64) = z"
    unfolding b64_byte1_def b64_byte2_def b64_byte3_def n by simp_all
qed

lemma EncodeToString_plain: "filter (\<lambda>c. c \<noteq> CHR 0x0D \<and> c \<noteq> CHR 0x0A) (EncodeToString bs) = EncodeToString bs"
  by (induction bs rule: EncodeToString.induct) (simp_all add: b64_char_val b64_splits)

lemma b64_quanta_EncodeToString: "b64_quanta (EncodeToString bs) = Some bs"
  by (induction bs rule: EncodeToString.induct) (simp_all add: b64_char_val b64_splits b64_joins)

theorem DecodeString_EncodeToString: "DecodeString (EncodeToString bs) = Some bs"
  by (simp add: DecodeString_def EncodeToString_plain b64_quanta_EncodeToString)

section \<open>Lists\<close>

fun Join :: "string list \<Rightarrow> string \<Rightarrow> string" where
  "Join [] sep = []"
| "Join [x] sep = x"
| "Join (x # y # xs) sep = x @ sep @ Join (y # xs) sep"

lemma Split_Join: "xs \<noteq> [] \<Longrightarrow> \<forall>x \<in> set xs. c \<notin> set x \<Longrightarrow> Split (Join xs [c]) c = xs"
  by (induction xs "[c]" rule: Join.induct) (auto simp: Split_no_sep Split_append)

end
