(* ===== verification/SipSession.thy ===== *)
theory SipSession
  imports SiprecFill SiprecSession GoConv
begin

text \<open>
  \<^verbatim>\<open>pkg/sip/custom_server.go\<close>: from the body of an INVITE, re-INVITE or UPDATE to the recording session.
  The parts of a multipart body, its metadata with completion and validation, the session created from
  it, the update of an existing session, and the vendor extensions of the XML.

  \<open>mime_lib\<close> are the functions of Go's \<open>mime\<close> and \<open>multipart\<close> packages: the media type of a header with
  its parameters and whether it parsed, and the parts of a body for a boundary, each with its Content-Type
  and its data, \<open>None\<close> where reading it fails. The XML decoder, the address parser of the SIP library, the
  clock, the formatted time and the UUID are arguments. The updates of the call data records are left out.
\<close>

section \<open>The body\<close>

record mime_lib =
  ml_ParseMediaType :: "string \<Rightarrow> string \<times> (string \<rightharpoonup> string) \<times> bool"
  ml_Parts :: "string \<Rightarrow> string \<Rightarrow> (string \<times> string option) list"

definition MaxSDPSize :: nat where
  "MaxSDPSize = 16 * 1024"

definition MaxMetadataSize :: nat where
  "MaxMetadataSize = 1024 * 1024"

definition MaxMultipartSize :: nat where
  "MaxMultipartSize = 2 * 1024 * 1024"

definition ValidateSize :: "string \<Rightarrow> nat \<Rightarrow> bool" where
  "ValidateSize data maxSize \<longleftrightarrow> length data \<le> maxSize"

definition siprec_part :: "mime_lib \<Rightarrow> string \<times> string option \<Rightarrow> string \<times> string \<Rightarrow> string \<times> string" where
  "siprec_part lib part acc =
     (let ct = (if fst part = [] then ''application/octet-stream'' else fst part);
          partType = ToLower (fst (ml_ParseMediaType lib ct))
      in case snd part of
           None \<Rightarrow> acc
         | Some content \<Rightarrow>
             let data = take (MaxMetadataSize + 1) content
             in if partType = ''application/sdp''
                then (if ValidateSize data MaxSDPSize then (data, snd acc) else acc)
                else if partType = ''application/rs-metadata+xml''
                then (if ValidateSize data MaxMetadataSize then (fst acc, data) else acc)
                else acc)"

text \<open>The SDP and the metadata; the empty string is the code's nil.\<close>

definition extractSiprecContent :: "mime_lib \<Rightarrow> string \<Rightarrow> string \<Rightarrow> string \<times> string" where
  "extractSiprecContent lib body contentType =
     (if \<not> ValidateSize body MaxMultipartSize then ([], [])
      else
        let (mediaType, params, ok) = ml_ParseMediaType lib contentType
        in if \<not> ok \<or> \<not> HasPrefix (ToLower mediaType) ''multipart/'' then ([], [])
           else case params ''boundary'' of
                  None \<Rightarrow> ([], [])
                | Some boundary \<Rightarrow> if boundary = [] then ([], []) else fold (siprec_part lib) (ml_Parts lib boundary body) ([], []))"

section \<open>The metadata\<close>

record meta_config =
  mc_AllowMissingParticipants :: bool
  mc_FillMissingMetadata :: bool
  mc_CallbackURLs :: "string list"

datatype parse_error = BadXML | Rejected "vmsg list"

definition CallingParticipantHeader :: string where
  "CallingParticipantHeader = ''X-Calling-Participant''"

text \<open>The headers of the request in the order of a range over the map.\<close>

definition calling_participant :: "(string \<times> string list) list \<Rightarrow> string" where
  "calling_participant headers =
     (let matching = filter (\<lambda>h. EqualFold (fst h) CallingParticipantHeader) headers;
          value = fold (\<lambda>h v. case snd h of [] \<Rightarrow> v | x # _ \<Rightarrow> x) matching []
      in if sum_list (map (length \<circ> snd) matching) \<noteq> 1 then [] else value)"

definition parseSiprecMetadata ::
  "(string \<Rightarrow> RSMetadata option) \<Rightarrow> (string \<Rightarrow> string \<times> string) \<Rightarrow> meta_config \<Rightarrow> string \<Rightarrow> string \<Rightarrow> (string \<times> string list) list \<Rightarrow>
     RecordingSession option \<Rightarrow> parse_error + RSMetadata" where
  "parseSiprecMetadata decode parseNameAddr cfg rsMetadata callID headers existing =
     (case UnmarshalXML (decode rsMetadata) of
        None \<Rightarrow> Inl BadXML
      | Some metadata0 \<Rightarrow>
          let existingID = (case existing of None \<Rightarrow> [] | Some s \<Rightarrow> rec_ID s);
              ctx = \<lparr>fc_CallID = callID, fc_SessionID = existingID, fc_CallingParticipant = calling_participant headers\<rparr>;
              metadata = (if mc_FillMissingMetadata cfg then the (FillMissing parseNameAddr (Some metadata0) ctx) else metadata0);
              errors = vr_Errors (ValidateSiprecMessageWithOptions (Some metadata)
                         \<lparr>vo_AllowMissingParticipants = mc_AllowMissingParticipants cfg\<rparr>)
          in if errors \<noteq> [] then Inl (Rejected errors) else Inr metadata)"

section \<open>Metadata of a stream\<close>

definition put_if :: "string \<Rightarrow> string \<Rightarrow> (string \<rightharpoonup> string) \<Rightarrow> (string \<rightharpoonup> string)" where
  "put_if k v m = (if v \<noteq> [] then m(k \<mapsto> v) else m)"

definition participant_metadata :: "RSParticipant \<Rightarrow> (string \<rightharpoonup> string) \<Rightarrow> (string \<rightharpoonup> string)" where
  "participant_metadata p meta =
     (let name = (if rsp_DisplayName p = [] then rsp_Name p else rsp_DisplayName p);
          aor = (case rsp_Aor p of [] \<Rightarrow> [] | a # _ \<Rightarrow> if aor_Value a = [] then aor_URI a else aor_Value a)
      in put_if ''participant_aor'' aor (put_if ''participant_role'' (rsp_Role p) (put_if ''participant_name'' name meta)))"

definition buildStreamMetadata :: "string \<Rightarrow> RSMetadata option \<Rightarrow> RecordingSession option \<Rightarrow> (string \<rightharpoonup> string)" where
  "buildStreamMetadata streamLabel rsMeta session =
     (let meta0 = [''stream_label'' \<mapsto> streamLabel];
          meta1 = (case session of None \<Rightarrow> meta0 | Some s \<Rightarrow> put_if ''session_id'' (rec_ID s) meta0 ++ rec_ExtendedMetadata s)
      in case rsMeta of
           None \<Rightarrow> meta1
         | Some m \<Rightarrow> (case ResolveStreamParticipant m streamLabel of
                         None \<Rightarrow> meta1
                       | Some i \<Rightarrow> participant_metadata (md_Participants m ! i) meta1))"

section \<open>Vendor extensions\<close>

definition namespace_prefix :: "string \<Rightarrow> string" where
  "namespace_prefix space =
     (if space = [] then []
      else
        let ns = ToLower space
        in if Contains ns ''nice'' then ''nice_''
           else if Contains ns ''cisco'' then ''cisco_''
           else if Contains ns ''oracle'' then ''oracle_''
           else if Contains ns ''avaya'' then ''avaya_''
           else if Contains ns ''genesys'' then ''genesys_''
           else let lastPart = last (Split ns (CHR ''/''))
                in if length lastPart > 0 \<and> length lastPart \<le> 20 then ToLower lastPart @ ''_'' else [])"

definition formatExtensionKey :: "string \<Rightarrow> XMLExtension \<Rightarrow> string" where
  "formatExtensionKey prefix ext =
     (let localName = TrimSpace (ext_Local ext)
      in if localName = [] then [] else ''ext_'' @ prefix @ ''_'' @ namespace_prefix (ext_Space ext) @ ToLower localName)"

definition nice_key :: "string \<Rightarrow> string option" where
  "nice_key localName =
     (if Contains localName ''interaction'' \<and> Contains localName ''id'' then Some ''nice_interaction_id''
      else if Contains localName ''session'' \<and> Contains localName ''id'' then Some ''nice_session_id''
      else if Contains localName ''recording'' \<and> Contains localName ''id'' then Some ''nice_recording_id''
      else if Contains localName ''contact'' \<and> Contains localName ''id'' then Some ''nice_contact_id''
      else if Contains localName ''agent'' \<and> Contains localName ''id'' then Some ''nice_agent_id''
      else if Contains localName ''call'' \<and> Contains localName ''id'' then Some ''nice_call_id''
      else if Contains localName ''ucid'' then Some ''nice_ucid''
      else None)"

definition is_nice :: "XMLExtension \<Rightarrow> bool" where
  "is_nice ext \<longleftrightarrow>
     (let localName = ToLower (ext_Local ext); ns = ToLower (ext_Space ext)
      in Contains ns ''nice'' \<or> HasPrefix localName ''nice'' \<or> HasPrefix localName ''ntr'' \<or> HasPrefix localName ''incontact'' \<or>
         HasPrefix localName ''cxone'')"

definition extractNICEExtensionData :: "XMLExtension \<Rightarrow> (string \<rightharpoonup> string) \<Rightarrow> (string \<rightharpoonup> string)" where
  "extractNICEExtensionData ext em =
     (let innerContent = TrimSpace (ext_InnerXML ext)
      in if \<not> is_nice ext \<or> innerContent = [] then em
         else case nice_key (ToLower (ext_Local ext)) of None \<Rightarrow> em | Some k \<Rightarrow> em(k \<mapsto> innerContent))"

definition is_oracle :: "XMLExtension \<Rightarrow> bool" where
  "is_oracle ext \<longleftrightarrow>
     (let localName = ToLower (ext_Local ext); ns = ToLower (ext_Space ext)
      in Contains ns ''acmepacket'' \<or> Contains ns ''oracle'' \<or> HasPrefix localName ''apkt'' \<or>
         Contains (ext_InnerXML ext) ''acmepacket.com/siprec/extensiondata'')"

definition extractOracleExtensionData :: "XMLExtension \<Rightarrow> (string \<rightharpoonup> string) \<Rightarrow> (string \<rightharpoonup> string)" where
  "extractOracleExtensionData ext em =
     (let inner = TrimSpace (ext_InnerXML ext);
          says_true = (Contains inner ''>true<'' \<or> Contains inner ''>True<'');
          em1 = (if Contains inner ''ucid''
                 then (case ExtractOracleExtensions [ext] of None \<Rightarrow> em | Some d \<Rightarrow> put_if ''sip_oracle_ucid'' (ora_UCID d) em) else em);
          em2 = (if Contains inner ''callerOrig'' then em1(''oracle_caller_orig'' \<mapsto> (if says_true then ''true'' else ''false'')) else em1);
          em3 = (if Contains inner ''callingParty'' \<and> says_true then em2(''oracle_calling_party'' \<mapsto> ''true'') else em2)
      in if \<not> is_oracle ext \<or> inner = [] then em else em3)"

definition store_extension :: "bool \<Rightarrow> string \<Rightarrow> XMLExtension \<Rightarrow> (string \<rightharpoonup> string) \<Rightarrow> (string \<rightharpoonup> string)" where
  "store_extension oracle prefix ext em =
     (let key = formatExtensionKey prefix ext
      in if key \<noteq> [] \<and> ext_InnerXML ext \<noteq> []
         then let em1 = extractNICEExtensionData ext (em(key \<mapsto> TrimSpace (ext_InnerXML ext)))
              in if oracle then extractOracleExtensionData ext em1 else em1
         else em)"

definition store_extensions :: "bool \<Rightarrow> string \<Rightarrow> XMLExtension list list \<Rightarrow> (string \<rightharpoonup> string) \<Rightarrow> (string \<rightharpoonup> string)" where
  "store_extensions oracle name extss em =
     fold (\<lambda>(i, exts). fold (store_extension oracle (name @ ''_'' @ Itoa (int i))) exts) (enumerate 0 extss) em"

text \<open>\<open>ks\<close> is the order of a range over the Oracle data of the participants.\<close>

definition oracle_metadata :: "string list \<Rightarrow> RSMetadata \<Rightarrow> (string \<rightharpoonup> string) \<Rightarrow> (string \<rightharpoonup> string)" where
  "oracle_metadata ks m em =
     (let em1 = (case GetOracleSessionExtensions m of
                   None \<Rightarrow> em
                 | Some d \<Rightarrow>
                     let e = put_if ''sip_oracle_ucid'' (ora_UCID d) em in if ora_CallerOrig d then e(''oracle_caller_orig'' \<mapsto> ''true'') else e);
          exts = GetOracleParticipantExtensions m
      in case filter (\<lambda>k. case exts k of Some d \<Rightarrow> ora_CallingParty d | None \<Rightarrow> False) ks of
           [] \<Rightarrow> em1
         | partID # _ \<Rightarrow> em1(''oracle_calling_party_id'' \<mapsto> partID))"

definition processXMLExtensions :: "string list \<Rightarrow> RSMetadata \<Rightarrow> (string \<rightharpoonup> string) \<Rightarrow> (string \<rightharpoonup> string)" where
  "processXMLExtensions ks m em =
     (let em1 = oracle_metadata ks m em;
          em2 = store_extensions True ''session'' (map ses_Extensions (md_Sessions m)) em1;
          em3 = store_extensions True ''recsession'' (map rcs_Extensions (md_RecordingSessions m)) em2;
          em4 = store_extensions True ''participant'' (map rsp_Extensions (md_Participants m)) em3;
          em5 = store_extensions False ''stream'' (map st_Extensions (md_Streams m)) em4
      in store_extensions False ''group'' (map grp_Extensions (md_Group m)) em5)"

section \<open>A new session\<close>

definition maxParticipants :: nat where
  "maxParticipants = 100"

definition comm_of_aor :: "go_time \<Rightarrow> Aor \<Rightarrow> CommunicationID" where
  "comm_of_aor now aor =
     CommunicationID_zero\<lparr>com_Type := (if HasPrefix (aor_Value aor) ''tel:'' then ''tel'' else ''sip''), com_Value := aor_Value aor,
       com_DisplayName := aor_Display aor, com_Priority := aor_Priority aor, com_ValidFrom := now\<rparr>"

text \<open>The participant of a session: the two callers differ in the identifier.\<close>

definition session_participant :: "go_time \<Rightarrow> RSMetadata \<Rightarrow> string \<Rightarrow> RSParticipant \<Rightarrow> Participant" where
  "session_participant now metadata participantID p =
     Participant_zero\<lparr>part_ID := participantID, part_Name := rsp_Name p, part_DisplayName := rsp_DisplayName p, part_Role := rsp_Role p,
       part_JoinTime := now, part_RecordingAware := \<not> ParticipantSynthesized metadata (rsp_ID p),
       part_ConsentObtained := \<not> ParticipantSynthesized metadata (rsp_ID p),
       part_CommunicationIDs := map (comm_of_aor now) (rsp_Aor p)\<rparr>"

definition participant_id :: "RSParticipant \<Rightarrow> string" where
  "participant_id p = (if TrimSpace (rsp_ID p) = [] then TrimSpace (rsp_LegacyID p) else TrimSpace (rsp_ID p))"

definition create_policy_metadata :: "PolicyUpdate \<Rightarrow> (string \<rightharpoonup> string) \<Rightarrow> (string \<rightharpoonup> string)" where
  "create_policy_metadata u m =
     (let statusKey = ''policy_'' @ pu_PolicyID u @ ''_status''
      in put_if (statusKey @ ''_timestamp'') (TrimSpace (pu_Timestamp u))
           (m(statusKey \<mapsto> ToLower (TrimSpace (pu_Status u)), statusKey @ ''_ack'' \<mapsto> FormatBool (pu_Acknowledged u))))"

text \<open>The entries of \<open>ExtendedMetadata\<close> up to the recovery markers, in the order of the code.\<close>

definition initial_metadata :: "string \<Rightarrow> RSMetadata \<Rightarrow> (string \<rightharpoonup> string)" where
  "initial_metadata failoverID m =
     (let a = md_SessionRecordingAssoc m;
          e1 = (if md_FilledFields m \<noteq> [] then [''metadata_filled_fields'' \<mapsto> Join (md_FilledFields m) '',''] else Map.empty);
          e2 = put2 ''state_reason'' ''reason'' (TrimSpace (md_Reason m)) e1;
          e3 = put2 ''state_reason_ref'' ''reason_ref'' (TrimSpace (md_ReasonRef m)) e2;
          e4 = put2 ''state_expires'' ''expires'' (TrimSpace (md_Expires m)) e3;
          e5 = group_metadata (md_SessionGroupAssociations m) e4;
          e6 = fold create_policy_metadata (md_PolicyUpdates m) e5;
          e7 = put_if ''media_label'' (md_MediaLabel m) e6;
          e8 = put_if ''associated_call_id'' (asc_CallID a) e7;
          e9 = put_if ''group'' (asc_Group a) e8;
          e10 = put_if ''fixed_id'' (asc_FixedID a) e9
      in e10(''failover_id'' \<mapsto> failoverID))"

definition initial_session :: "go_time \<Rightarrow> string \<Rightarrow> meta_config \<Rightarrow> string \<Rightarrow> RSMetadata \<Rightarrow> RecordingSession" where
  "initial_session now uuid cfg sipCallID m =
     (let fixed = asc_FixedID (md_SessionRecordingAssoc m); failoverID = (if fixed \<noteq> [] then fixed else uuid); expires = TrimSpace (md_Expires m)
      in RecordingSession_zero
           \<lparr>rec_ID := md_SessionID m, rec_SIPID := sipCallID, rec_AssociatedTime := now, rec_SequenceNumber := md_Sequence m,
            rec_RecordingState := (if md_State m = [] then ''active'' else md_State m),
            rec_Direction := (if md_Direction m = [] then ''unknown'' else md_Direction m),
            rec_StartTime := now, rec_CreatedAt := now, rec_UpdatedAt := now, rec_IsValid := True, rec_Callbacks := mc_CallbackURLs cfg,
            rec_StateReason := TrimSpace (md_Reason m), rec_StateReasonRef := TrimSpace (md_ReasonRef m),
            rec_StateExpires := (if expires \<noteq> [] then case parseRFC3339 expires of Some t \<Rightarrow> t | None \<Rightarrow> 0 else 0),
            rec_Participants := map (\<lambda>p. session_participant now m (participant_id p) p) (take maxParticipants (md_Participants m)),
            rec_MediaStreamTypes := map st_Type (md_Streams m), rec_SessionGroups := md_SessionGroupAssociations m,
            rec_SessionGroupRoles := group_roles (md_SessionGroupAssociations m), rec_PolicyUpdates := md_PolicyUpdates m,
            rec_PolicyStates := policy_states now (md_PolicyUpdates m), rec_FailoverID := failoverID,
            rec_ExtendedMetadata := initial_metadata failoverID m\<rparr>)"

definition is_recovery :: "RecordingSession \<Rightarrow> bool" where
  "is_recovery s \<longleftrightarrow>
     EqualFold (rec_RecordingState s) ''recovering'' \<or> EqualFold (rec_StateReason s) ''failover'' \<or>
     Contains (ToLower (rec_StateReasonRef s)) ''failover''"

definition mark_recovery :: "string \<Rightarrow> RSMetadata \<Rightarrow> RecordingSession \<Rightarrow> RecordingSession" where
  "mark_recovery stamp m s0 =
     (let s = the (ProcessStreamRecovery (Some s0) (Some m));
          s1 = s\<lparr>rec_ExtendedMetadata := (rec_ExtendedMetadata s)(''recovery_mode'' \<mapsto> ''true'', ''recovery_timestamp'' \<mapsto> stamp)\<rparr>;
          original = asc_SessionID (md_SessionRecordingAssoc m)
      in if original \<noteq> [] \<and> original \<noteq> rec_ID s1
         then s1\<lparr>rec_ReplacesSessionID := original,
                 rec_ExtendedMetadata := (rec_ExtendedMetadata s1)(''replaces_session_id'' \<mapsto> original)\<rparr>
         else s1)"

text \<open>The function of the code has an error result that it never uses.\<close>

definition createRecordingSession ::
  "go_time \<Rightarrow> string \<Rightarrow> string \<Rightarrow> string list \<Rightarrow> meta_config \<Rightarrow> string \<Rightarrow> RSMetadata \<Rightarrow> RecordingSession" where
  "createRecordingSession now stamp uuid ks cfg sipCallID m =
     (let s0 = initial_session now uuid cfg sipCallID m;
          s1 = (if is_recovery s0 then mark_recovery stamp m s0 else s0)
      in s1\<lparr>rec_ExtendedMetadata := processXMLExtensions ks m (rec_ExtendedMetadata s1)\<rparr>)"

section \<open>The update of a session\<close>

definition update_filled :: "string list \<Rightarrow> (string \<rightharpoonup> string) \<Rightarrow> (string \<rightharpoonup> string)" where
  "update_filled filled em =
     (if filled = [] then em
      else
        let old = Split (case em ''metadata_filled_fields'' of None \<Rightarrow> [] | Some v \<Rightarrow> v) (CHR '','');
            all = fold (\<lambda>field fs. if field \<in> set fs then fs else fs @ [field]) filled old
        in em(''metadata_filled_fields'' \<mapsto> TrimByte (CHR '','') (Join all '','')))"

definition update_state :: "go_time \<Rightarrow> string \<Rightarrow> RSMetadata \<Rightarrow> RecordingSession \<Rightarrow> RecordingSession" where
  "update_state now stamp m s =
     (let em = rec_ExtendedMetadata s; new = md_State m; old = rec_RecordingState s
      in if new = [] then s
         else if new = ''terminated''
         then s\<lparr>rec_RecordingState := new, rec_EndTime := now, rec_ExtendedMetadata := put_if ''termination_reason'' (md_Reason m) em\<rparr>
         else if new = ''paused'' then s\<lparr>rec_RecordingState := new, rec_ExtendedMetadata := em(''pause_time'' \<mapsto> stamp)\<rparr>
         else if new = ''active'' \<and> old = ''paused''
         then s\<lparr>rec_RecordingState := new, rec_ExtendedMetadata := em(''resume_time'' \<mapsto> stamp)\<rparr>
         else s\<lparr>rec_RecordingState := new\<rparr>)"

definition updateRecordingSession :: "go_time \<Rightarrow> string \<Rightarrow> RSMetadata \<Rightarrow> RecordingSession \<Rightarrow> RecordingSession" where
  "updateRecordingSession now stamp m s0 =
     (let s1 = s0\<lparr>rec_ExtendedMetadata := update_filled (md_FilledFields m) (rec_ExtendedMetadata s0),
                  rec_SequenceNumber := (if md_Sequence m > 0 then md_Sequence m else rec_SequenceNumber s0), rec_UpdatedAt := now\<rparr>;
          s2 = update_state now stamp m s1
      in s2\<lparr>rec_Direction := (if md_Direction m \<noteq> [] then md_Direction m else rec_Direction s2),
            rec_Participants := (if md_Participants m \<noteq> [] then map (\<lambda>p. session_participant now m (rsp_ID p) p) (md_Participants m)
                                 else rec_Participants s2),
            rec_MediaStreamTypes := (if md_Streams m \<noteq> [] then map st_Type (md_Streams m) else rec_MediaStreamTypes s2),
            rec_ExtendedMetadata := put_if ''reason_ref'' (md_ReasonRef m) (put_if ''reason'' (md_Reason m) (rec_ExtendedMetadata s2))\<rparr>)"

section \<open>The metadata of a response\<close>

definition response_labels :: "RecordingSession \<Rightarrow> string list" where
  "response_labels s =
     (if rec_SDPStreamLabels s = [] then map (\<lambda>i. Itoa (int i + 1)) [0..<length (rec_MediaStreamTypes s)] else rec_SDPStreamLabels s)"

definition response_stream :: "RecordingSession \<Rightarrow> nat \<times> string \<Rightarrow> Stream" where
  "response_stream s il =
     Stream_zero\<lparr>st_Label := snd il, st_StreamID := ''stream-'' @ Itoa (int (fst il) + 1),
       st_Type := (if fst il < length (rec_MediaStreamTypes s) then rec_MediaStreamTypes s ! fst il else []), st_Mode := ''separate''\<rparr>"

definition response_metadata :: "(go_time \<Rightarrow> string) \<Rightarrow> RecordingSession \<Rightarrow> RSMetadata" where
  "response_metadata format s =
     RSMetadata_zero
       \<lparr>md_SessionID := rec_ID s, md_State := (if rec_RecordingState s = [] then ''active'' else rec_RecordingState s),
        md_Sequence := rec_SequenceNumber s + 1, md_Direction := rec_Direction s, md_Reason := rec_StateReason s,
        md_ReasonRef := rec_StateReasonRef s, md_Expires := (if rec_StateExpires s \<noteq> 0 then format (rec_StateExpires s) else []),
        md_Participants := map failover_participant (rec_Participants s), md_SessionGroupAssociations := rec_SessionGroups s,
        md_PolicyUpdates := rec_PolicyUpdates s,
        md_SessionRecordingAssoc := RSAssociation_zero\<lparr>asc_SessionID := rec_ID s, asc_CallID := rec_SIPID s\<rparr>,
        md_Streams := map (response_stream s) (enumerate 0 (response_labels s))\<rparr>"

text \<open>The document of the response and the session after it; marshalling the document is the library's.\<close>

definition generateSiprecResponse :: "go_time \<Rightarrow> (go_time \<Rightarrow> string) \<Rightarrow> RecordingSession \<Rightarrow> RSMetadata option \<times> RecordingSession" where
  "generateSiprecResponse now format s =
     (let m = response_metadata format s
      in (CreateMetadataResponse (Some m),
          s\<lparr>rec_SequenceNumber := (if md_Sequence m > 0 then md_Sequence m else rec_SequenceNumber s),
            rec_RecordingState := (if md_State m \<noteq> [] then md_State m else rec_RecordingState s), rec_UpdatedAt := now\<rparr>))"

section \<open>Extensions stay in their name space\<close>

text \<open>The keys that the XML of the recording client can write.\<close>

definition vendor_key :: "string \<Rightarrow> bool" where
  "vendor_key k \<longleftrightarrow> HasPrefix k ''ext_'' \<or> HasPrefix k ''nice_'' \<or> HasPrefix k ''oracle_'' \<or> k = ''sip_oracle_ucid''"

definition confined :: "((string \<rightharpoonup> string) \<Rightarrow> (string \<rightharpoonup> string)) \<Rightarrow> bool" where
  "confined f \<longleftrightarrow> (\<forall>em k. \<not> vendor_key k \<longrightarrow> f em k = em k)"

lemma confined_put: "vendor_key k \<Longrightarrow> confined (\<lambda>em. em(k \<mapsto> v))" "vendor_key k \<Longrightarrow> confined (put_if k v)" "confined (\<lambda>em. em)"
  by (auto simp: confined_def put_if_def)

lemma confined_comp: "confined f \<Longrightarrow> confined g \<Longrightarrow> confined (\<lambda>em. f (g em))"
  by (simp add: confined_def)

lemma confined_if: "confined f \<Longrightarrow> confined g \<Longrightarrow> confined (\<lambda>em. if c then f em else g em)"
  by (simp add: confined_def)

lemma confined_fold: "(\<And>x. confined (f x)) \<Longrightarrow> confined (\<lambda>em. fold f xs em)"
  by (induction xs) (simp_all add: confined_def)
lemma nice_key_vendor: "nice_key n = Some k \<Longrightarrow> vendor_key k"
proof -
  have "pred_option vendor_key (nice_key n)"
    unfolding nice_key_def by (simp add: vendor_key_def HasPrefix_def)
  then show "nice_key n = Some k \<Longrightarrow> vendor_key k" by simp
qed

lemma formatExtensionKey_vendor: "formatExtensionKey prefix ext \<noteq> [] \<Longrightarrow> vendor_key (formatExtensionKey prefix ext)"
  by (simp add: formatExtensionKey_def vendor_key_def HasPrefix_def Let_def split: if_splits)

lemma extractNICE_confined: "confined (extractNICEExtensionData ext)"
  by (auto simp: confined_def extractNICEExtensionData_def Let_def dest: nice_key_vendor split: option.split)

lemma oracle_vendor_keys [simp]:
  "vendor_key ''sip_oracle_ucid''" "vendor_key ''oracle_caller_orig''" "vendor_key ''oracle_calling_party''" "vendor_key ''oracle_calling_party_id''"
  by (simp_all add: vendor_key_def HasPrefix_def)

lemma vendor_key_other: "\<not> vendor_key k \<Longrightarrow> vendor_key k' \<Longrightarrow> k \<noteq> k'"
  by blast

lemma extractOracle_confined: "confined (extractOracleExtensionData ext)"
proof -
  have "extractOracleExtensionData ext em k = em k" if "\<not> vendor_key k" for em k
    using that[THEN vendor_key_other, OF oracle_vendor_keys(1)] that[THEN vendor_key_other, OF oracle_vendor_keys(2)]
      that[THEN vendor_key_other, OF oracle_vendor_keys(3)]
    by (simp add: extractOracleExtensionData_def Let_def put_if_def split: option.split)
  then show ?thesis by (simp add: confined_def)
qed

lemma store_extension_confined: "confined (store_extension b prefix ext)"
proof -
  have "store_extension b prefix ext em k = em k" if "\<not> vendor_key k" for em k
    using that extractNICE_confined extractOracle_confined formatExtensionKey_vendor[of prefix ext]
    by (auto simp: store_extension_def Let_def confined_def)
  then show ?thesis by (simp add: confined_def)
qed

lemma store_extensions_confined: "confined (store_extensions b name extss)"
  unfolding store_extensions_def
  by (rule confined_fold) (auto intro: confined_fold store_extension_confined split: prod.split)

lemma oracle_metadata_confined: "confined (oracle_metadata ks m)"
proof -
  have "oracle_metadata ks m em k = em k" if "\<not> vendor_key k" for em k
    using that[THEN vendor_key_other, OF oracle_vendor_keys(1)] that[THEN vendor_key_other, OF oracle_vendor_keys(2)]
      that[THEN vendor_key_other, OF oracle_vendor_keys(4)]
    by (simp add: oracle_metadata_def Let_def put_if_def split: option.split list.split)
  then show ?thesis by (simp add: confined_def)
qed

lemma extensions_confined: "\<not> vendor_key k \<Longrightarrow> processXMLExtensions ks m em k = em k"
  using store_extensions_confined oracle_metadata_confined by (simp add: processXMLExtensions_def Let_def confined_def)

section \<open>The created session\<close>

text \<open>Stream recovery changes nothing of a participant but its streams.\<close>

lemma attach_stream_view:
  assumes "\<And>p ss. g (p\<lparr>part_MediaStreams := ss\<rparr>) = g p"
  shows "map g (attach_stream i st ps) = map g ps"
  using assms by (induction i st ps rule: attach_stream.induct) simp_all

lemma recover_view:
  assumes "\<And>p ss. g (p\<lparr>part_MediaStreams := ss\<rparr>) = g p"
  shows "map g (rec_Participants (the (ProcessStreamRecovery (Some s) (Some m)))) = map g (rec_Participants s)"
proof -
  have sender: "map g (recover_sender st p ps) = map g ps" for st p ps
  proof -
    have "map g (fold (\<lambda>sendLabel ps. if sendLabel = st_Label st then attach_stream (rsp_ID p) (st_StreamID st) ps else ps) xs ps) = map g ps" for xs
      by (induction xs arbitrary: ps) (simp_all add: attach_stream_view[OF assms])
    then show ?thesis by (simp add: recover_sender_def)
  qed
  have "map g (fold (recover_sender st) qs ps) = map g ps" for st qs ps
    by (induction qs arbitrary: ps) (simp_all add: sender)
  then have "map g (rec_Participants (fold (recover_stream m) ss s)) = map g (rec_Participants s)" for ss s
    by (induction ss arbitrary: s) (simp_all add: recover_stream_def)
  then show ?thesis by (simp add: ProcessStreamRecovery_def)
qed

text \<open>What creation does to the fields that the rest of the server relies on.\<close>

lemma mark_recovery_view:
  assumes "\<And>p ss. g (p\<lparr>part_MediaStreams := ss\<rparr>) = g p"
  shows "map g (rec_Participants (mark_recovery stamp m s)) = map g (rec_Participants s)"
  using recover_view[OF assms] by (simp add: mark_recovery_def Let_def)

lemma recover_stream_fields [simp]:
  "rec_ID (recover_stream m st s) = rec_ID s" "rec_RecordingState (recover_stream m st s) = rec_RecordingState s"
  "rec_FailoverID (recover_stream m st s) = rec_FailoverID s" "rec_ExtendedMetadata (recover_stream m st s) = rec_ExtendedMetadata s"
  by (simp_all add: recover_stream_def)

lemma mark_recovery_fields:
  "rec_ID (mark_recovery stamp m s) = rec_ID s" "rec_RecordingState (mark_recovery stamp m s) = rec_RecordingState s"
  "rec_FailoverID (mark_recovery stamp m s) = rec_FailoverID s"
  "k \<notin> {''recovery_mode'', ''recovery_timestamp'', ''replaces_session_id''} \<Longrightarrow>
     rec_ExtendedMetadata (mark_recovery stamp m s) k = rec_ExtendedMetadata s k"
proof -
  have "rec_ID (fold (recover_stream m) ss s) = rec_ID s \<and> rec_RecordingState (fold (recover_stream m) ss s) = rec_RecordingState s \<and>
    rec_FailoverID (fold (recover_stream m) ss s) = rec_FailoverID s \<and>
    rec_ExtendedMetadata (fold (recover_stream m) ss s) = rec_ExtendedMetadata s" for ss s
    by (induction ss arbitrary: s) simp_all
  then show "rec_ID (mark_recovery stamp m s) = rec_ID s" "rec_RecordingState (mark_recovery stamp m s) = rec_RecordingState s"
    "rec_FailoverID (mark_recovery stamp m s) = rec_FailoverID s"
    "k \<notin> {''recovery_mode'', ''recovery_timestamp'', ''replaces_session_id''} \<Longrightarrow>
       rec_ExtendedMetadata (mark_recovery stamp m s) k = rec_ExtendedMetadata s k"
    by (simp_all add: mark_recovery_def ProcessStreamRecovery_def Let_def)
qed

lemma created_view:
  assumes "\<And>p ss. g (p\<lparr>part_MediaStreams := ss\<rparr>) = g p"
  shows "map g (rec_Participants (createRecordingSession now stamp uuid ks cfg c m)) =
    map (\<lambda>p. g (session_participant now m (participant_id p) p)) (take maxParticipants (md_Participants m))"
  using mark_recovery_view[OF assms] by (simp add: createRecordingSession_def Let_def initial_session_def)

lemma parse_accepted:
  assumes "parseSiprecMetadata decode f cfg raw callID headers existing = Inr m"
  obtains doc ctx where "decode raw = Some doc" "siprec_acceptable \<lparr>vo_AllowMissingParticipants = mc_AllowMissingParticipants cfg\<rparr> m"
    "m = Normalize doc \<or> m = fill_participant f ctx (fill_session ctx (Normalize doc))"
proof -
  obtain doc where doc: "decode raw = Some doc" using assms by (cases "decode raw") (simp_all add: parseSiprecMetadata_def UnmarshalXML_def)
  let ?ctx = "\<lparr>fc_CallID = callID, fc_SessionID = (case existing of None \<Rightarrow> [] | Some s \<Rightarrow> rec_ID s), fc_CallingParticipant = calling_participant headers\<rparr>"
  let ?m = "if mc_FillMissingMetadata cfg then fill_participant f ?ctx (fill_session ?ctx (Normalize doc)) else Normalize doc"
  have m: "m = ?m" "errors_of (validation_issues \<lparr>vo_AllowMissingParticipants = mc_AllowMissingParticipants cfg\<rparr> ?m) = []"
    using assms doc
    by (simp_all add: parseSiprecMetadata_def UnmarshalXML_def FillMissing_def ValidateSiprecMessageWithOptions_def Let_def split: if_split_asm)
  from m show ?thesis by (intro that[of doc ?ctx]) (auto simp: doc errors_validation_issues)
qed

lemma distinct_present:
  assumes "distinct (map f xs)" "\<forall>x \<in> set xs. g x \<noteq> [] \<longrightarrow> g x = f x"
  shows "distinct (filter (\<lambda>i. i \<noteq> []) (map g xs))"
  using assms by (induction xs) (auto, metis image_eqI)

lemma participant_id_normalized: "participant_id p \<noteq> [] \<Longrightarrow> participant_id p = normalizedParticipantID p"
  by (simp add: participant_id_def normalizedParticipantID_def split: if_splits)

text \<open>A client that sends a complete document.\<close>

definition plain_config :: meta_config where
  "plain_config = \<lparr>mc_AllowMissingParticipants = False, mc_FillMissingMetadata = False, mc_CallbackURLs = []\<rparr>"

lemma plain_parse:
  "parseSiprecMetadata (\<lambda>_. Some stateless_call) f plain_config raw callID headers existing = Inr (Normalize stateless_call)"
  using stateless_call_accepted by (simp add: parseSiprecMetadata_def UnmarshalXML_def plain_config_def Let_def)

lemma plain_participants: "map participant_id (md_Participants (Normalize stateless_call)) = [''p1'']" "md_Participants (Normalize stateless_call) \<noteq> []"
  "map rsp_ID (md_Participants (Normalize stateless_call)) = [''p1'']" "md_SessionID (Normalize stateless_call) = ''s1''"
  "md_FilledFields (Normalize stateless_call) = []"
  by code_simp+



lemma fill_participant_cases:
  "md_Participants (fill_participant f ctx m) = md_Participants m \<or>
     (\<forall>p \<in> set (md_Participants (fill_participant f ctx m)). ParticipantSynthesized (fill_participant f ctx m) (rsp_ID p))"
  by (auto simp: fill_participant_def ParticipantSynthesized_def split: prod.split)

lemma stated_or_synthesized:
  assumes "parseSiprecMetadata decode f cfg raw callID headers existing = Inr m" "decode raw = Some doc"
    and "p \<in> set (md_Participants m)" "\<not> ParticipantSynthesized m (rsp_ID p)"
  shows "p \<in> set (md_Participants (Normalize doc))"
proof -
  obtain ctx where "m = Normalize doc \<or> m = fill_participant f ctx (fill_session ctx (Normalize doc))"
    using parse_accepted[OF assms(1)] assms(2) by (metis option.inject)
  then show ?thesis
    using fill_participant_cases[of f ctx "fill_session ctx (Normalize doc)"] assms(3,4) by (elim disjE) auto
qed



text \<open>An update that names some participants removes the others. Every re-INVITE or UPDATE with a participant replaces the
  whole list of the session, also when the document says that it is partial, and each of them joins anew; the
  library's own \<open>UpdateRecordingSession\<close> keeps participants that an update does not name.\<close>

theorem update_drops_participants:
  assumes "md_Participants m \<noteq> []"
  shows "map part_ID (rec_Participants (updateRecordingSession now stamp m s)) = map rsp_ID (md_Participants m) \<and>
    (\<forall>p \<in> set (rec_Participants (updateRecordingSession now stamp m s)). part_JoinTime p = now)"
  using assms by (auto simp: updateRecordingSession_def Let_def session_participant_def)

theorem update_drops_participants_witness:
  "map part_ID (rec_Participants (updateRecordingSession 7 ''now'' (Normalize stateless_call)
     (RecordingSession_zero\<lparr>rec_Participants := [Participant_zero\<lparr>part_ID := ''p1''\<rparr>, Participant_zero\<lparr>part_ID := ''p2''\<rparr>]\<rparr>))) = [''p1'']"
  using update_drops_participants[OF plain_participants(2)] by (simp only: plain_participants(3))

end
