(* ===== verification/SipVendor.thy ===== *)
theory SipVendor
  imports SipSession "HOL-Library.Sublist" "HOL-Library.AList"
begin

text \<open>
  \<^verbatim>\<open>pkg/sip/custom_server.go\<close>: a request as the server keeps it, the vendor of the recording client, the
  identifiers taken from its headers, and the metadata that the recording session and the call data record
  take from them.

  \<open>sip_request\<close> is what the SIP library gives of a parsed request: its headers in order, and the values
  its accessors return, \<open>None\<close> for a header or parameter that is missing. Header maps are lists with distinct
  keys, in the order in which a range over the map happens to run. The fields of the struct that hold one
  identifier each are a function of their name, the empty string where the struct has it.
\<close>

section \<open>Requests\<close>

datatype vendor_field =
    SessionIDHeader | OracleUCID | OracleConversationID | GenesysInteractionID | GenesysConversationID |
    GenesysSessionID | GenesysQueueName | GenesysAgentID | GenesysCampaignID | NICEInteractionID | NICESessionID |
    NICERecordingID | NICECallID | NICEContactID | NICEAgentID | AsteriskUniqueID | AsteriskLinkedID |
    AsteriskChannelID | AsteriskAccountCode | AsteriskContext | FreeSWITCHUUID | FreeSWITCHCoreUUID |
    FreeSWITCHChannelName | FreeSWITCHProfileName | FreeSWITCHAccountCode | OpenSIPSDialogID | OpenSIPSTransactionID |
    OpenSIPSCallID | AvayaUCID | AvayaConfID | AvayaConversationID | AvayaStationID | AvayaAgentID | AvayaVDN |
    AvayaSkillGroup | AudioCodesSessionID | AudioCodesCallID | AudioCodesACAction | RibbonSessionID | RibbonCallID |
    RibbonGWID | SansaySessionID | SansayCallID | SansayTrunkID | HuaweiSessionID | HuaweiCallID | HuaweiTrunkID |
    MSConversationID | MSCallID | MSCorrelationID

record sip_request =
  rq_Method :: string
  rq_Recipient :: string
  rq_Headers :: "(string \<times> string) list"
  rq_Body :: string
  rq_CallID :: "string option"
  rq_FromTag :: "string option"
  rq_ToTag :: "string option"
  rq_CSeq :: "string option"
  rq_Source :: string
  rq_Transport :: string

record SIPMessage =
  sm_Method :: string
  sm_RequestURI :: string
  sm_Headers :: "(string \<times> string list) list"
  sm_Body :: string
  sm_remoteAddr :: string
  sm_transport :: string
  sm_CallID :: string
  sm_FromTag :: string
  sm_ToTag :: string
  sm_CSeq :: string
  sm_ContentType :: string
  sm_UserAgent :: string
  sm_VendorType :: string
  sm_VendorHeaders :: "string \<rightharpoonup> string"
  sm_UCIDHeaders :: "string list"
  sm_UUIHeader :: string
  sm_XHeaders :: "string \<rightharpoonup> string"
  sm_vendor :: "vendor_field \<Rightarrow> string"

definition add_header :: "string \<times> string \<Rightarrow> (string \<times> string list) list \<Rightarrow> (string \<times> string list) list" where
  "add_header h hs =
     (let key = ToLower (fst h)
      in case map_of hs key of
           None \<Rightarrow> hs @ [(key, [snd h])]
         | Some vs \<Rightarrow> AList.update key (vs @ [snd h]) hs)"

definition or_empty :: "string option \<Rightarrow> string" where
  "or_empty v = (case v of None \<Rightarrow> [] | Some s \<Rightarrow> s)"

definition newSIPMessageFromSipgo :: "sip_request \<Rightarrow> SIPMessage" where
  "newSIPMessageFromSipgo r =
     \<lparr>sm_Method = rq_Method r, sm_RequestURI = rq_Recipient r, sm_Headers = fold add_header (rq_Headers r) [], sm_Body = rq_Body r,
      sm_remoteAddr = rq_Source r, sm_transport = ToLower (rq_Transport r), sm_CallID = or_empty (rq_CallID r),
      sm_FromTag = or_empty (rq_FromTag r), sm_ToTag = or_empty (rq_ToTag r), sm_CSeq = or_empty (rq_CSeq r),
      sm_ContentType = fold (\<lambda>h ct. if fst h = ''Content-Type'' then snd h else ct) (rq_Headers r) [],
      sm_UserAgent = [], sm_VendorType = [], sm_VendorHeaders = Map.empty, sm_UCIDHeaders = [], sm_UUIHeader = [],
      sm_XHeaders = Map.empty, sm_vendor = (\<lambda>_. [])\<rparr>"

definition getHeaderValue :: "SIPMessage \<Rightarrow> string \<Rightarrow> string" where
  "getHeaderValue m name = (case map_of (sm_Headers m) (ToLower name) of Some (v # _) \<Rightarrow> v | _ \<Rightarrow> [])"

section \<open>The vendor\<close>

definition ua_has :: "SIPMessage \<Rightarrow> string list \<Rightarrow> bool" where
  "ua_has m subs \<longleftrightarrow> list_ex (Contains (ToLower (sm_UserAgent m))) subs"

definition has_header :: "SIPMessage \<Rightarrow> string list \<Rightarrow> bool" where
  "has_header m names \<longleftrightarrow> list_ex (\<lambda>h. getHeaderValue m h \<noteq> []) names"

definition detectVendor :: "SIPMessage \<Rightarrow> string" where
  "detectVendor m =
     (if ua_has m [''avaya'', ''aura'', ''session manager'']
       then ''avaya''
      else if ua_has m [''cisco'', ''cube'', ''ccm'', ''cucm'']
       then ''cisco''
      else if ua_has m [''oracle'', ''acme packet'', ''ocsbc'', ''esbc'']
       then ''oracle''
      else if ua_has m [''genesys'', ''pureconnect'', ''purecloud'', ''pureengage'', ''gvp'', ''interaction'', ''inin'']
       then ''genesys''
      else if ua_has m [''nice'', ''ntr'', ''incontact'', ''cxone'', ''engage recording'', ''nexidia'', ''actimize'']
       then ''nice''
      else if has_header m [''x-avaya-conf-id'', ''x-avaya-ucid'', ''x-avaya-station-id'', ''sigma-uui-a''] \<or> Contains
           (getHeaderValue m ''contact'') ''av.sip.iptolerance'' \<or> HasPrefix (getHeaderValue m ''user-to-user'') ''04FA''
       then ''avaya''
      else if has_header m [''session-id'', ''cisco-guid'', ''x-cisco-call-id'']
       then ''cisco''
      else if has_header m [''x-ocsbc-ucid'', ''x-ocsbc-conversation-id'', ''x-oracle-ucid'', ''x-oracle-conversation-id'',
           ''p-ocsbc-ucid'']
       then ''oracle''
      else if has_header m [''x-genesys-interaction-id'', ''x-genesys-conversation-id'', ''x-genesys-session-id'', ''x-interaction-id'',
           ''x-inin-interaction-id'', ''x-inin-ic-userid'']
       then ''genesys''
      else if has_header m [''x-nice-interaction-id'', ''x-nice-session-id'', ''x-nice-call-id'', ''x-nice-recording-id'',
           ''x-ntr-session-id'', ''x-incontact-contact-id'', ''x-cxone-contact-id'']
       then ''nice''
      else if ua_has m [''asterisk'', ''ast_'', ''chan_sip'', ''chan_pjsip'', ''pjsip/asterisk'', ''fpbx'']
       then ''asterisk''
      else if ua_has m [''freeswitch'', ''freeswich'', ''sofia-sip'', ''mod_sofia'']
       then ''freeswitch''
      else if ua_has m [''opensips'', ''openser'', ''kamailio'']
       then ''opensips''
      else if ua_has m [''audiocodes'', ''mediant'', ''device /'']
       then ''audiocodes''
      else if ua_has m [''ribbon'', ''sonus'', ''genband'', ''sbc edge'', ''sbc core'', ''swe lite'']
       then ''ribbon''
      else if ua_has m [''sansay'', ''vsxi'', ''vsx '']
       then ''sansay''
      else if ua_has m [''huawei'', ''espace'', ''usg'', ''eudemon'', ''secospace'']
       then ''huawei''
      else if ua_has m [''teams'', ''skype'', ''lync'', ''ocs'', ''microsoft'', ''ucma'', ''mediation server'', ''ms-'']
       then ''microsoft''
      else if has_header m [''x-asterisk-hangupcause'', ''x-asterisk-hangupcausecode'', ''x-asterisk-unique-id'',
           ''x-asterisk-linkedid'']
       then ''asterisk''
      else if has_header m [''x-fs-unique-id'', ''x-fs-uuid'', ''x-freeswitch-uuid'', ''x-freeswitch-core-uuid'', ''x-fs-hostname'']
       then ''freeswitch''
      else if has_header m [''x-opensips-dialog-id'', ''x-opensips-transaction-id'', ''x-opensips-did'']
       then ''opensips''
      else if has_header m [''x-ac-action'', ''x-audiocodes-session-id'', ''x-ac-session-id'']
       then ''audiocodes''
      else if has_header m [''x-ribbon-session-id'', ''x-sonus-session-id'', ''x-genband-session-id'', ''x-ribbon-call-id'']
       then ''ribbon''
      else if has_header m [''x-sansay-session-id'', ''x-sansay-call-id'', ''x-vsxi-session-id'']
       then ''sansay''
      else if has_header m [''x-huawei-session-id'', ''x-huawei-call-id'', ''x-huawei-trunk-id'']
       then ''huawei''
      else if has_header m [''ms-conversation-id'', ''x-ms-conversation-id'', ''x-ms-call-id'', ''x-ms-correlation-id'',
           ''x-ms-exchange-organization'']
       then ''microsoft''
      else ''generic'')"

section \<open>Identifiers\<close>

text \<open>The loops over a table of header names: every header that is present is kept, or the first of them
  gives a field, or also counts as an identifier of the call.\<close>

definition collect :: "string list \<Rightarrow> SIPMessage \<Rightarrow> SIPMessage" where
  "collect names m = m\<lparr>sm_VendorHeaders := fold (\<lambda>h. put_if h (getHeaderValue m h)) names (sm_VendorHeaders m)\<rparr>"

definition add_ucids :: "string list \<Rightarrow> SIPMessage \<Rightarrow> SIPMessage" where
  "add_ucids names m = m\<lparr>sm_UCIDHeaders := sm_UCIDHeaders m @ filter (\<lambda>v. v \<noteq> []) (map (getHeaderValue m) names)\<rparr>"

definition set_field :: "vendor_field \<Rightarrow> string \<Rightarrow> SIPMessage \<Rightarrow> SIPMessage" where
  "set_field f v m = m\<lparr>sm_vendor := (sm_vendor m)(f := v)\<rparr>"

definition set_ucid_field :: "vendor_field \<Rightarrow> string \<Rightarrow> SIPMessage \<Rightarrow> SIPMessage" where
  "set_ucid_field f v m = (set_field f v m)\<lparr>sm_UCIDHeaders := sm_UCIDHeaders m @ [v]\<rparr>"

definition set_first :: "vendor_field \<Rightarrow> string list \<Rightarrow> SIPMessage \<Rightarrow> SIPMessage" where
  "set_first f names m =
     (case find (\<lambda>h. getHeaderValue m h \<noteq> []) names of None \<Rightarrow> m | Some h \<Rightarrow> set_field f (getHeaderValue m h) m)"

definition set_first_ucid :: "vendor_field \<Rightarrow> string list \<Rightarrow> SIPMessage \<Rightarrow> SIPMessage" where
  "set_first_ucid f names m =
     (case find (\<lambda>h. getHeaderValue m h \<noteq> []) names of None \<Rightarrow> m | Some h \<Rightarrow> set_ucid_field f (getHeaderValue m h) m)"

definition run :: "(SIPMessage \<Rightarrow> SIPMessage) list \<Rightarrow> SIPMessage \<Rightarrow> SIPMessage" where
  "run steps m = fold (\<lambda>f. f) steps m"

text \<open>\<^verbatim>\<open>hex.DecodeString\<close>\<close>

definition hex_val :: "char \<Rightarrow> nat option" where
  "hex_val c =
     (let n = of_char c :: nat
      in if 48 \<le> n \<and> n \<le> 57 then Some (n - 48)
         else if 97 \<le> n \<and> n \<le> 102 then Some (n - 87)
         else if 65 \<le> n \<and> n \<le> 70 then Some (n - 55) else None)"

fun hex_decode :: "string \<Rightarrow> string option" where
  "hex_decode [] = Some []"
| "hex_decode [c] = None"
| "hex_decode (a # b # s) =
     do {
       x \<leftarrow> hex_val a;
       y \<leftarrow> hex_val b;
       t \<leftarrow> hex_decode s;
       Some (char_of (16 * x + y) # t)
     }"

definition parseAvayaUUI :: "SIPMessage \<Rightarrow> SIPMessage" where
  "parseAvayaUUI m =
     (let uui = takeWhile (\<lambda>c. c \<noteq> CHR '';'') (sm_UUIHeader m)
      in if \<not> HasPrefix uui ''04FA'' then m
         else
           let m1 = (if sm_vendor m AvayaUCID = [] \<and> length uui \<ge> 20 then set_ucid_field AvayaUCID (take 20 uui) m else m)
           in case hex_decode uui of
                None \<Rightarrow> m1
              | Some decoded \<Rightarrow>
                  (case dropWhile (\<lambda>c. c \<noteq> CHR ''|'') decoded of
                     [] \<Rightarrow> m1
                   | _ # rest \<Rightarrow>
                       let part = hd (Split rest (CHR ''|''))
                       in if part \<noteq> [] \<and> sm_vendor m1 AvayaConversationID = [] then set_field AvayaConversationID part m1 else m1))"

definition avayaHeaders :: "string list" where
  "avayaHeaders =
    [''x-avaya-conf-id'', ''x-avaya-station-id'', ''x-avaya-ucid'', ''x-avaya-trunk-group'', ''x-avaya-user-id'',
     ''x-avaya-agent-id'', ''x-avaya-skill-group'', ''x-avaya-cm-call-id'', ''x-avaya-cm-originator'',
     ''x-avaya-cm-destination'', ''x-avaya-cm-location'', ''x-avaya-sm-session-id'', ''x-avaya-sm-entity'',
     ''x-avaya-sm-domain'', ''x-avaya-vdn'', ''x-avaya-workgroup'', ''x-avaya-interaction-id'', ''x-avaya-call-priority'',
     ''x-avaya-queue-name'', ''x-avaya-queue-time'', ''x-avaya-hold-time'', ''x-avaya-talk-time'', ''x-avaya-acd-number'',
     ''x-avaya-split'', ''x-avaya-skill'', ''x-avaya-vector'', ''x-avaya-b2bua-call-id'', ''x-avaya-originating-trunk'',
     ''x-avaya-terminating-trunk'', ''x-avaya-translated-number'', ''x-avaya-original-called'',
     ''x-avaya-redirecting-number'', ''p-asserted-identity'', ''diversion'', ''remote-party-id'', ''p-called-party-id'',
     ''p-calling-party-id'', ''history-info'']"

definition extractAvayaHeaders :: "SIPMessage \<Rightarrow> SIPMessage" where
  "extractAvayaHeaders =
     run [collect avayaHeaders,
          add_ucids [''x-avaya-ucid'', ''x-ucid'', ''x-avaya-conf-id'', ''x-avaya-cm-call-id'', ''x-avaya-interaction-id''],
          set_first AvayaUCID [''x-avaya-ucid'', ''x-ucid''],
          set_first AvayaConfID [''x-avaya-conf-id''],
          set_first AvayaConversationID [''x-avaya-interaction-id'', ''x-avaya-conversation-id'', ''x-avaya-sm-session-id''],
          set_first AvayaStationID [''x-avaya-station-id''],
          set_first AvayaAgentID [''x-avaya-agent-id''],
          set_first AvayaVDN [''x-avaya-vdn''],
          set_first AvayaSkillGroup [''x-avaya-skill-group'', ''x-avaya-skill''],
          collect [''sigma-uui-a''],
          parseAvayaUUI]"

definition ciscoHeaders :: "string list" where
  "ciscoHeaders =
    [''session-id'', ''cisco-guid'', ''x-cisco-call-id'', ''x-cisco-gcid'', ''x-cisco-cluster-id'', ''x-cisco-node-id'',
     ''x-cisco-cluster-fqdn'', ''x-cisco-device-name'', ''x-cisco-device-type'', ''x-cisco-device-mac'',
     ''x-cisco-device-id'', ''x-cisco-location'', ''x-cisco-location-id'', ''x-cisco-region'', ''x-cisco-region-tag'',
     ''x-cisco-site-id'', ''x-cisco-trunk-license'', ''x-cisco-trunk-id'', ''x-cisco-dial-peer'', ''x-cisco-route-pattern'',
     ''x-cisco-route-list'', ''x-cisco-translation-pattern'', ''x-cisco-media-profile'', ''x-cisco-codec'',
     ''x-cisco-media-region'', ''x-cisco-srst-mode'', ''x-cisco-srst-id'', ''x-cisco-webex-tracking-id'',
     ''x-cisco-spark-tracking-id'', ''x-cisco-tenant-id'', ''x-cisco-org-id'', ''x-cisco-queue-id'', ''x-cisco-skill-group'',
     ''x-cisco-agent-id'', ''x-cisco-agent-extension'', ''x-cisco-recording-mode'', ''x-cisco-recording-server'',
     ''remote-party-id'', ''p-called-party-id'', ''p-calling-party-id'', ''p-asserted-identity'', ''diversion'',
     ''history-info'']"

definition extractCiscoHeaders :: "SIPMessage \<Rightarrow> SIPMessage" where
  "extractCiscoHeaders =
     run [collect ciscoHeaders,
          set_first_ucid SessionIDHeader [''session-id''],
          add_ucids [''cisco-guid'']]"

definition oracleHeaders :: "string list" where
  "oracleHeaders =
    [''x-ocsbc-ucid'', ''x-ocsbc-conversation-id'', ''x-oracle-ucid'', ''x-oracle-conversation-id'', ''p-ocsbc-ucid'',
     ''p-ocsbc-conversation-id'', ''x-ocsbc-session-id'', ''x-ocsbc-call-id'', ''x-ocsbc-egress-realm'',
     ''x-ocsbc-ingress-realm'', ''x-ocsbc-egress-network-interface'', ''x-ocsbc-ingress-network-interface'',
     ''x-ocsbc-sbc-instance-id'', ''x-ocsbc-geo-redundancy-id'', ''x-ocsbc-primary-sbc'', ''x-ocsbc-secondary-sbc'',
     ''x-ocsbc-media-ip'', ''x-ocsbc-media-encryption'', ''x-ocsbc-signaling-encryption'', ''x-ocsbc-srtp-profile'',
     ''p-charging-vector'', ''p-charging-function-addresses'', ''p-access-network-info'', ''p-visited-network-id'',
     ''p-served-user'', ''p-asserted-identity'', ''p-preferred-identity'', ''remote-party-id'', ''p-called-party-id'',
     ''p-calling-party-id'', ''diversion'', ''history-info'', ''x-ocsbc-route'', ''x-ocsbc-local-policy'',
     ''x-ocsbc-session-agent'', ''x-ocsbc-translation-id'', ''x-ocsbc-recording-mode'', ''x-ocsbc-recording-session'',
     ''x-ocsbc-billing-id'', ''x-ocsbc-account-code'']"

definition parsePChargingVector :: "string \<Rightarrow> (string \<rightharpoonup> string)" where
  "parsePChargingVector pcv =
     fold (\<lambda>part0 result.
             let part = TrimSpace part0; key = takeWhile (\<lambda>c. c \<noteq> CHR ''='') part
             in if CHR ''='' \<in> set part \<and> key \<noteq> []
                then result(ToLower (TrimSpace key) \<mapsto> TrimByte (CHR 0x22) (TrimSpace (drop (length key + 1) part)))
                else result)
       (Split pcv (CHR '';'')) Map.empty"

definition charging_vector :: "SIPMessage \<Rightarrow> SIPMessage" where
  "charging_vector m =
     (let pcv = getHeaderValue m ''p-charging-vector''
      in if pcv = [] then m
         else
           let pcvFields = parsePChargingVector pcv;
               m1 = m\<lparr>sm_VendorHeaders := (\<lambda>n. if HasPrefix n ''pcv_'' \<and> pcvFields (drop 4 n) \<noteq> None then pcvFields (drop 4 n) else sm_VendorHeaders m n)\<rparr>
           in case pcvFields ''icid-value'' of
                None \<Rightarrow> m1
              | Some icid \<Rightarrow>
                  if icid = [] then m1
                  else
                    let m2 = m1\<lparr>sm_VendorHeaders := (sm_VendorHeaders m1)(''icid-value'' \<mapsto> icid)\<rparr>
                    in if sm_vendor m2 OracleUCID = [] then set_ucid_field OracleUCID icid m2 else m2)"

definition extractOracleHeaders :: "SIPMessage \<Rightarrow> SIPMessage" where
  "extractOracleHeaders =
     run [collect oracleHeaders,
          set_first_ucid OracleUCID [''x-ocsbc-ucid'', ''x-oracle-ucid'', ''p-ocsbc-ucid'', ''x-ucid''],
          set_first OracleConversationID [''x-ocsbc-conversation-id'', ''x-oracle-conversation-id'', ''p-ocsbc-conversation-id'',
            ''x-conversation-id''],
          charging_vector]"

definition genesysHeaders :: "string list" where
  "genesysHeaders =
    [''x-genesys-interaction-id'', ''x-genesys-conversation-id'', ''x-genesys-session-id'', ''x-genesys-call-uuid'',
     ''x-interaction-id'', ''x-inin-interaction-id'', ''x-inin-ic-userid'', ''x-inin-ic-target'', ''x-inin-ic-workgroup'',
     ''x-inin-ic-station'', ''x-genesys-queue'', ''x-genesys-queue-name'', ''x-genesys-agent-id'', ''x-genesys-agent-name'',
     ''x-genesys-tenant-id'', ''x-genesys-org-id'', ''x-genesys-campaign-id'', ''x-genesys-campaign-name'',
     ''x-genesys-contact-id'', ''x-genesys-contact-list-id'', ''x-genesys-skill-group'', ''x-genesys-routing-target'',
     ''x-genesys-call-type'', ''x-genesys-call-direction'', ''x-genesys-ani'', ''x-genesys-dnis'', ''x-genesys-customer-id'',
     ''x-gvp-session-id'', ''x-gvp-tenant-id'', ''x-gvp-application'', ''x-genesys-billing-code'', ''x-genesys-cost-center'',
     ''x-genesys-business-unit'', ''x-genesys-account-code'', ''p-asserted-identity'', ''remote-party-id'',
     ''p-called-party-id'', ''p-calling-party-id'', ''diversion'']"

definition extractGenesysHeaders :: "SIPMessage \<Rightarrow> SIPMessage" where
  "extractGenesysHeaders =
     run [collect genesysHeaders,
          set_first_ucid GenesysInteractionID [''x-genesys-interaction-id'', ''x-interaction-id'', ''x-inin-interaction-id'',
            ''x-genesys-call-uuid''],
          set_first GenesysConversationID [''x-genesys-conversation-id'', ''x-conversation-id''],
          set_first GenesysSessionID [''x-genesys-session-id'', ''x-gvp-session-id''],
          set_first GenesysQueueName [''x-genesys-queue-name'', ''x-genesys-queue'', ''x-inin-ic-workgroup''],
          set_first GenesysAgentID [''x-genesys-agent-id'', ''x-inin-ic-userid''],
          set_first GenesysCampaignID [''x-genesys-campaign-id'']]"

definition niceHeaders :: "string list" where
  "niceHeaders =
    [''x-nice-interaction-id'', ''x-nice-session-id'', ''x-nice-recording-id'', ''x-nice-call-id'', ''x-ntr-session-id'',
     ''x-ntr-call-id'', ''x-incontact-contact-id'', ''x-incontact-master-contact-id'', ''x-cxone-contact-id'',
     ''x-cxone-master-contact-id'', ''x-nice-agent-id'', ''x-nice-agent-station'', ''x-engage-call-id'',
     ''x-engage-recording-id'']"

definition extractNICEHeaders :: "SIPMessage \<Rightarrow> SIPMessage" where
  "extractNICEHeaders =
     run [collect niceHeaders,
          set_first_ucid NICEInteractionID [''x-nice-interaction-id'', ''x-incontact-contact-id'', ''x-cxone-contact-id'',
            ''x-engage-call-id''],
          set_first NICESessionID [''x-nice-session-id'', ''x-ntr-session-id''],
          set_first NICERecordingID [''x-nice-recording-id'', ''x-engage-recording-id''],
          set_first NICECallID [''x-nice-call-id'', ''x-ntr-call-id''],
          set_first NICEContactID [''x-incontact-contact-id'', ''x-cxone-contact-id'', ''x-incontact-master-contact-id'',
            ''x-cxone-master-contact-id''],
          set_first NICEAgentID [''x-nice-agent-id'', ''x-incontact-agent-id'', ''x-cxone-agent-id'']]"

definition asteriskHeaders :: "string list" where
  "asteriskHeaders =
    [''x-asterisk-unique-id'', ''x-asterisk-uniqueid'', ''x-asterisk-linkedid'', ''x-asterisk-linked-id'',
     ''x-asterisk-channel'', ''x-asterisk-channel-name'', ''x-asterisk-context'', ''x-asterisk-extension'',
     ''x-asterisk-priority'', ''x-asterisk-application'', ''x-asterisk-accountcode'', ''x-asterisk-account-code'',
     ''x-asterisk-cdr-accountcode'', ''x-asterisk-hangupcause'', ''x-asterisk-hangupcausecode'', ''x-asterisk-hangup-cause'',
     ''x-asterisk-disposition'', ''x-asterisk-queue'', ''x-asterisk-queuename'', ''x-asterisk-agent'',
     ''x-asterisk-agentname'', ''x-asterisk-member'', ''x-asterisk-callerid'', ''x-asterisk-callerid-num'',
     ''x-asterisk-callerid-name'', ''x-asterisk-callingpres'', ''x-asterisk-callingani2'', ''x-asterisk-dnid'',
     ''x-asterisk-rdnis'', ''x-asterisk-exten'', ''x-asterisk-bridge-id'', ''x-asterisk-bridgeid'',
     ''x-asterisk-transfer-context'', ''x-asterisk-transfer-exten'', ''x-asterisk-event-id'', ''x-asterisk-ami-action-id'',
     ''x-ari-session-id'', ''x-pjsip-endpoint'', ''x-pjsip-transport'', ''x-pjsip-contact'', ''x-fpbx-did'',
     ''x-fpbx-extension'', ''x-fpbx-ringgroup'', ''x-fpbx-ivr'', ''x-fpbx-queue'', ''x-fpbx-callid'']"

definition extractAsteriskHeaders :: "SIPMessage \<Rightarrow> SIPMessage" where
  "extractAsteriskHeaders =
     run [collect asteriskHeaders,
          set_first_ucid AsteriskUniqueID [''x-asterisk-unique-id'', ''x-asterisk-uniqueid''],
          set_first AsteriskLinkedID [''x-asterisk-linkedid'', ''x-asterisk-linked-id''],
          set_first AsteriskChannelID [''x-asterisk-channel'', ''x-asterisk-channel-name''],
          set_first AsteriskAccountCode [''x-asterisk-accountcode'', ''x-asterisk-account-code'', ''x-asterisk-cdr-accountcode''],
          set_first AsteriskContext [''x-asterisk-context'']]"

definition freeswwitchHeaders :: "string list" where
  "freeswwitchHeaders =
    [''x-fs-uuid'', ''x-fs-unique-id'', ''x-freeswitch-uuid'', ''x-fs-call-uuid'', ''x-fs-core-uuid'',
     ''x-freeswitch-core-uuid'', ''x-fs-channel-name'', ''x-freeswitch-channel-name'', ''x-fs-channel-uuid'',
     ''x-fs-profile-name'', ''x-freeswitch-profile-name'', ''x-fs-sofia-profile'', ''x-fs-context'',
     ''x-freeswitch-context'', ''x-fs-dialplan'', ''x-fs-caller-id-number'', ''x-fs-caller-id-name'',
     ''x-fs-destination-number'', ''x-fs-called-party-number'', ''x-fs-calling-party-number'', ''x-fs-network-ip'',
     ''x-fs-network-port'', ''x-fs-hostname'', ''x-freeswitch-hostname'', ''x-fs-accountcode'', ''x-fs-account-code'',
     ''x-freeswitch-accountcode'', ''x-fs-billing-code'', ''x-fs-hangup-cause'', ''x-freeswitch-hangup-cause'',
     ''x-fs-hangup-cause-q850'', ''x-fs-disposition'', ''x-fs-bridge-uuid'', ''x-fs-other-leg-uuid'',
     ''x-fs-other-leg-channel-uuid'', ''x-fs-transfer-source'', ''x-fs-transfer-destination'', ''x-fs-record-file-path'',
     ''x-fs-record-uuid'', ''x-fs-recording-uuid'', ''x-fs-cc-queue'', ''x-fs-cc-agent'', ''x-fs-cc-member-uuid'',
     ''x-fs-cc-action'', ''x-fs-originate-uuid'', ''x-fs-originated-from-uuid'', ''x-fs-sip-auth-username'',
     ''x-fs-sip-from-user'', ''x-fs-sip-to-user'', ''x-sofia-sip-url'', ''x-sofia-profile'', ''x-fs-call-direction'',
     ''x-fs-call-state'', ''x-fs-session-state'']"

definition extractFreeSWITCHHeaders :: "SIPMessage \<Rightarrow> SIPMessage" where
  "extractFreeSWITCHHeaders =
     run [collect freeswwitchHeaders,
          set_first_ucid FreeSWITCHUUID [''x-fs-uuid'', ''x-fs-unique-id'', ''x-freeswitch-uuid'', ''x-fs-call-uuid''],
          set_first FreeSWITCHCoreUUID [''x-fs-core-uuid'', ''x-freeswitch-core-uuid''],
          set_first FreeSWITCHChannelName [''x-fs-channel-name'', ''x-freeswitch-channel-name''],
          set_first FreeSWITCHProfileName [''x-fs-profile-name'', ''x-freeswitch-profile-name'', ''x-fs-sofia-profile''],
          set_first FreeSWITCHAccountCode [''x-fs-accountcode'', ''x-fs-account-code'', ''x-freeswitch-accountcode'']]"

definition opensipsHeaders :: "string list" where
  "opensipsHeaders =
    [''x-opensips-dialog-id'', ''x-opensips-did'', ''x-opensips-transaction-id'', ''x-opensips-tid'', ''x-opensips-call-id'',
     ''x-opensips-lb-dst'', ''x-opensips-lb-group'', ''x-opensips-lb-resource'', ''x-opensips-dispatcher-dst'',
     ''x-opensips-dispatcher-setid'', ''x-opensips-dispatcher-group'', ''x-opensips-route'', ''x-opensips-request-uri'',
     ''x-opensips-next-hop'', ''x-opensips-domain'', ''x-opensips-registered-aor'', ''x-opensips-contact'',
     ''x-opensips-socket'', ''x-opensips-dlg-callid'', ''x-opensips-dlg-from-tag'', ''x-opensips-dlg-to-tag'',
     ''x-opensips-dlg-state'', ''x-opensips-dlg-hash'', ''x-opensips-acc-timestamp'', ''x-opensips-acc-method'',
     ''x-opensips-acc-duration'', ''x-opensips-th-callid'', ''x-opensips-th-from-tag'', ''x-opensips-rtpproxy-id'',
     ''x-opensips-rtpengine-id'', ''x-opensips-media-relay'', ''x-opensips-fraud-profile'', ''x-opensips-fraud-score'',
     ''x-kamailio-dialog-id'', ''x-kamailio-transaction-id'', ''x-kamailio-route'', ''x-kamailio-server'',
     ''x-opensips-custom-avp1'', ''x-opensips-custom-avp2'', ''x-opensips-account'', ''x-opensips-src-ip'',
     ''x-opensips-src-port'', ''x-opensips-branch'', ''x-opensips-branch-id'', ''x-opensips-cluster-id'',
     ''x-opensips-node-id'']"

definition extractOpenSIPSHeaders :: "SIPMessage \<Rightarrow> SIPMessage" where
  "extractOpenSIPSHeaders =
     run [collect opensipsHeaders,
          set_first_ucid OpenSIPSDialogID [''x-opensips-dialog-id'', ''x-opensips-did'', ''x-kamailio-dialog-id''],
          set_first OpenSIPSTransactionID [''x-opensips-transaction-id'', ''x-opensips-tid'', ''x-kamailio-transaction-id''],
          set_first OpenSIPSCallID [''x-opensips-call-id'', ''x-opensips-th-callid'']]"

definition audiocodesHeaders :: "string list" where
  "audiocodesHeaders =
    [''x-ac-action'', ''x-ac-session-id'', ''x-audiocodes-session-id'', ''x-ac-call-id'', ''x-ac-recording-action'',
     ''x-ac-recording-server'', ''x-ac-recording-ip-group'', ''x-ac-source-ip-group'', ''x-ac-dest-ip-group'',
     ''x-ac-src-ip-group-name'', ''x-ac-dst-ip-group-name'', ''x-ac-srd'', ''x-ac-srd-name'', ''x-ac-call-type'',
     ''x-ac-media-type'', ''x-ac-avaya-ucid'', ''x-ac-mos'', ''x-ac-quality'', ''x-ac-device-name'', ''x-ac-fw-version'']"

definition extractAudioCodesHeaders :: "SIPMessage \<Rightarrow> SIPMessage" where
  "extractAudioCodesHeaders =
     run [collect audiocodesHeaders,
          set_first AudioCodesACAction [''x-ac-action''],
          set_first_ucid AudioCodesSessionID [''x-ac-session-id'', ''x-audiocodes-session-id''],
          set_first AudioCodesCallID [''x-ac-call-id''],
          add_ucids [''x-ac-avaya-ucid'']]"

definition ribbonHeaders :: "string list" where
  "ribbonHeaders =
    [''x-ribbon-session-id'', ''x-ribbon-call-id'', ''x-ribbon-gw-id'', ''x-ribbon-trunk-group'', ''x-sonus-session-id'',
     ''x-sonus-call-id'', ''x-sonus-gw-id'', ''x-sonus-trunk-group'', ''x-genband-session-id'', ''x-genband-call-id'',
     ''x-ribbon-recording-id'', ''x-ribbon-siprec-session'', ''x-ribbon-route'', ''x-ribbon-zone'', ''x-ribbon-policy'',
     ''x-ribbon-call-type'', ''x-ribbon-call-direction'', ''x-ribbon-carrier-id'', ''x-ribbon-route-label'',
     ''x-ribbon-lrn'', ''x-ribbon-billing-id'', ''x-ribbon-sg-name'', ''x-ribbon-sg-id'']"

definition extractRibbonHeaders :: "SIPMessage \<Rightarrow> SIPMessage" where
  "extractRibbonHeaders =
     run [collect ribbonHeaders,
          set_first_ucid RibbonSessionID [''x-ribbon-session-id'', ''x-sonus-session-id'', ''x-genband-session-id''],
          set_first RibbonCallID [''x-ribbon-call-id'', ''x-sonus-call-id'', ''x-genband-call-id''],
          set_first RibbonGWID [''x-ribbon-gw-id'', ''x-sonus-gw-id'']]"

definition sansayHeaders :: "string list" where
  "sansayHeaders =
    [''x-sansay-session-id'', ''x-sansay-call-id'', ''x-vsxi-session-id'', ''x-vsxi-call-id'', ''x-sansay-trunk-id'',
     ''x-sansay-trunk-group'', ''x-sansay-ingress-trunk'', ''x-sansay-egress-trunk'', ''x-sansay-route-id'',
     ''x-sansay-lcr-route'', ''x-sansay-destination'', ''x-sansay-call-type'', ''x-sansay-call-direction'',
     ''x-sansay-billing-id'', ''x-sansay-account-code'', ''x-sansay-rate-id'', ''x-sansay-carrier-id'', ''x-sansay-ani'',
     ''x-sansay-dnis'', ''x-sansay-node-id'', ''x-sansay-cluster-id'']"

definition extractSansayHeaders :: "SIPMessage \<Rightarrow> SIPMessage" where
  "extractSansayHeaders =
     run [collect sansayHeaders,
          set_first_ucid SansaySessionID [''x-sansay-session-id'', ''x-vsxi-session-id''],
          set_first SansayCallID [''x-sansay-call-id'', ''x-vsxi-call-id''],
          set_first SansayTrunkID [''x-sansay-trunk-id'', ''x-sansay-ingress-trunk'']]"

definition huaweiHeaders :: "string list" where
  "huaweiHeaders =
    [''x-huawei-session-id'', ''x-huawei-call-id'', ''x-huawei-correlation-id'', ''x-huawei-trunk-id'',
     ''x-huawei-trunk-group'', ''x-huawei-route-id'', ''x-huawei-icid'', ''x-huawei-orig-ioi'', ''x-huawei-term-ioi'',
     ''p-charging-vector'', ''x-huawei-call-type'', ''x-huawei-service-type'', ''x-huawei-recording-id'',
     ''x-huawei-recording-session'', ''x-huawei-device-id'', ''x-huawei-node-id'', ''x-espace-user-id'',
     ''x-espace-meeting-id'', ''x-espace-conf-id'']"

definition huawei_icid :: "SIPMessage \<Rightarrow> SIPMessage" where
  "huawei_icid m =
     (case find (\<lambda>part. HasPrefix (TrimSpace part) ''icid-value='') (Split (getHeaderValue m ''p-charging-vector'') (CHR '';'')) of
        None \<Rightarrow> m
      | Some part \<Rightarrow>
          let icid = TrimByte (CHR 0x22) (TrimPrefix (TrimSpace part) ''icid-value='')
          in if icid \<noteq> [] \<and> sm_vendor m HuaweiSessionID = [] then set_ucid_field HuaweiSessionID icid m else m)"

definition extractHuaweiHeaders :: "SIPMessage \<Rightarrow> SIPMessage" where
  "extractHuaweiHeaders =
     run [collect huaweiHeaders,
          set_first_ucid HuaweiSessionID [''x-huawei-session-id'', ''x-huawei-icid''],
          set_first HuaweiCallID [''x-huawei-call-id''],
          set_first HuaweiTrunkID [''x-huawei-trunk-id'', ''x-huawei-trunk-group''],
          huawei_icid]"

definition microsoftHeaders :: "string list" where
  "microsoftHeaders =
    [''ms-conversation-id'', ''x-ms-conversation-id'', ''x-ms-call-id'', ''x-ms-correlation-id'', ''x-ms-teams-tenant-id'',
     ''x-ms-teams-call-id'', ''x-ms-teams-meeting-id'', ''x-ms-teams-user-id'', ''x-ms-sbc-host'', ''x-ms-mediation-server'',
     ''x-ms-skype-chain-id'', ''x-ms-primary-user-address'', ''x-ms-exchange-organization'', ''x-ms-organization-id'',
     ''x-ms-call-diagnostics'', ''x-ms-user-logon-data'', ''x-ms-client-location'', ''x-ms-routing-profile'', ''x-ms-route'',
     ''x-ms-mediation-server-bypass'', ''x-ms-recording-id'', ''x-ms-compliance-recording'', ''x-ms-conf-id'',
     ''x-ms-conference-uri'', ''x-ms-user-ucid'', ''x-ms-trunk-context'', ''x-ms-sip-trunk-id'']"

definition extractMicrosoftHeaders :: "SIPMessage \<Rightarrow> SIPMessage" where
  "extractMicrosoftHeaders =
     run [collect microsoftHeaders,
          set_first_ucid MSConversationID [''ms-conversation-id'', ''x-ms-conversation-id'', ''x-ms-skype-chain-id''],
          set_first MSCallID [''x-ms-call-id'', ''x-ms-teams-call-id''],
          set_first MSCorrelationID [''x-ms-correlation-id'']]"

definition commonHeaders :: "string list" where
  "commonHeaders =
    [''p-asserted-identity'', ''remote-party-id'', ''p-preferred-identity'', ''privacy'', ''supported'', ''require'']"

definition extractGenericHeaders :: "SIPMessage \<Rightarrow> SIPMessage" where
  "extractGenericHeaders =
     run [collect commonHeaders]"

definition enterpriseXHeaders :: "string list" where
  "enterpriseXHeaders =
    [''X-Call-ID'', ''X-Original-Call-ID'', ''X-Correlation-ID'', ''X-Transaction-ID'', ''X-Customer-ID'', ''X-Account-ID'',
     ''X-Agent-ID'', ''X-Queue-ID'', ''X-Campaign-ID'', ''X-Recording-ID'', ''X-Session-ID'', ''X-Tenant-ID'',
     ''X-Application-ID'', ''X-Custom-Data'', ''X-Metadata'', ''X-Call-Type'', ''X-Call-Direction'', ''X-ANI'', ''X-DNIS'',
     ''X-Called-Number'', ''X-Calling-Number'', ''X-Redirect-Number'', ''X-Original-Called-Number'', ''X-Diversion-Reason'']"

definition normalizedName :: "string \<Rightarrow> string" where
  "normalizedName h = (if HasPrefix h ''x-'' then ''X-'' @ drop 2 h else h)"

definition extractUUIAndXHeaders :: "SIPMessage \<Rightarrow> SIPMessage" where
  "extractUUIAndXHeaders m =
     (let m1 = (case find (\<lambda>h. getHeaderValue m h \<noteq> []) [''User-to-User'', ''user-to-user'', ''X-User-to-User'', ''x-user-to-user''] of
                  None \<Rightarrow> m
                | Some h \<Rightarrow> m\<lparr>sm_UUIHeader := getHeaderValue m h, sm_XHeaders := (sm_XHeaders m)(''User-to-User'' \<mapsto> getHeaderValue m h)\<rparr>);
          x2 = fold (\<lambda>h x. if HasPrefix (ToLower (fst h)) ''x-'' \<and> snd h \<noteq> [] then x(normalizedName (fst h) \<mapsto> Join (snd h) '', '') else x)
                 (sm_Headers m1) (sm_XHeaders m1);
          x3 = fold (\<lambda>h x. if x h = None then put_if h (getHeaderValue m h) x else x) enterpriseXHeaders x2
      in m1\<lparr>sm_XHeaders := x3\<rparr>)"

definition extract_vendor :: "SIPMessage \<Rightarrow> SIPMessage" where
  "extract_vendor m =
     (let v = sm_VendorType m
      in if v = ''avaya'' then extractAvayaHeaders m
         else if v = ''cisco'' then extractCiscoHeaders m
         else if v = ''oracle'' then extractOracleHeaders m
         else if v = ''genesys'' then extractGenesysHeaders m
         else if v = ''nice'' then extractNICEHeaders m
         else if v = ''asterisk'' then extractAsteriskHeaders m
         else if v = ''freeswitch'' then extractFreeSWITCHHeaders m
         else if v = ''opensips'' then extractOpenSIPSHeaders m
         else if v = ''audiocodes'' then extractAudioCodesHeaders m
         else if v = ''ribbon'' then extractRibbonHeaders m
         else if v = ''sansay'' then extractSansayHeaders m
         else if v = ''huawei'' then extractHuaweiHeaders m
         else if v = ''microsoft'' then extractMicrosoftHeaders m
         else extractGenericHeaders m)"

definition extractVendorInformation :: "SIPMessage \<Rightarrow> SIPMessage" where
  "extractVendorInformation m =
     (let m1 = m\<lparr>sm_VendorHeaders := Map.empty, sm_UCIDHeaders := [], sm_UserAgent := getHeaderValue m ''user-agent''\<rparr>
      in extractUUIAndXHeaders (extract_vendor (m1\<lparr>sm_VendorType := detectVendor m1\<rparr>)))"

section \<open>Metadata of the session\<close>

definition vendor_keys :: "(vendor_field \<times> string) list" where
  "vendor_keys =
    [(SessionIDHeader, ''sip_cisco_session_id''), (OracleUCID, ''sip_oracle_ucid''),
     (OracleConversationID, ''sip_oracle_conversation_id''), (GenesysInteractionID, ''sip_genesys_interaction_id''),
     (GenesysConversationID, ''sip_genesys_conversation_id''), (GenesysSessionID, ''sip_genesys_session_id''),
     (GenesysQueueName, ''sip_genesys_queue_name''), (GenesysAgentID, ''sip_genesys_agent_id''),
     (GenesysCampaignID, ''sip_genesys_campaign_id''), (NICEInteractionID, ''sip_nice_interaction_id''),
     (NICESessionID, ''sip_nice_session_id''), (NICERecordingID, ''sip_nice_recording_id''),
     (NICECallID, ''sip_nice_call_id''), (NICEContactID, ''sip_nice_contact_id''), (NICEAgentID, ''sip_nice_agent_id''),
     (AsteriskUniqueID, ''sip_asterisk_unique_id''), (AsteriskLinkedID, ''sip_asterisk_linked_id''),
     (AsteriskChannelID, ''sip_asterisk_channel_id''), (AsteriskAccountCode, ''sip_asterisk_account_code''),
     (AsteriskContext, ''sip_asterisk_context''), (FreeSWITCHUUID, ''sip_freeswitch_uuid''),
     (FreeSWITCHCoreUUID, ''sip_freeswitch_core_uuid''), (FreeSWITCHChannelName, ''sip_freeswitch_channel_name''),
     (FreeSWITCHProfileName, ''sip_freeswitch_profile_name''), (FreeSWITCHAccountCode, ''sip_freeswitch_account_code''),
     (OpenSIPSDialogID, ''sip_opensips_dialog_id''), (OpenSIPSTransactionID, ''sip_opensips_transaction_id''),
     (OpenSIPSCallID, ''sip_opensips_call_id''), (AvayaUCID, ''sip_avaya_ucid''), (AvayaConfID, ''sip_avaya_conf_id''),
     (AvayaConversationID, ''sip_avaya_conversation_id''), (AvayaStationID, ''sip_avaya_station_id''),
     (AvayaAgentID, ''sip_avaya_agent_id''), (AvayaVDN, ''sip_avaya_vdn''), (AvayaSkillGroup, ''sip_avaya_skill_group''),
     (AudioCodesSessionID, ''sip_audiocodes_session_id''), (AudioCodesCallID, ''sip_audiocodes_call_id''),
     (AudioCodesACAction, ''sip_audiocodes_ac_action''), (RibbonSessionID, ''sip_ribbon_session_id''),
     (RibbonCallID, ''sip_ribbon_call_id''), (RibbonGWID, ''sip_ribbon_gw_id''),
     (SansaySessionID, ''sip_sansay_session_id''), (SansayCallID, ''sip_sansay_call_id''),
     (SansayTrunkID, ''sip_sansay_trunk_id''), (HuaweiSessionID, ''sip_huawei_session_id''),
     (HuaweiCallID, ''sip_huawei_call_id''), (HuaweiTrunkID, ''sip_huawei_trunk_id''),
     (MSConversationID, ''sip_ms_conversation_id''), (MSCallID, ''sip_ms_call_id''),
     (MSCorrelationID, ''sip_ms_correlation_id'')]"

definition normalizedKey :: "string \<Rightarrow> string" where
  "normalizedKey name = ''sip_'' @ ToLower (map (\<lambda>c. if c = CHR ''-'' then CHR ''_'' else c) name)"

text \<open>\<open>xs\<close> and \<open>vs\<close> are the names of the X-headers and of the vendor headers, each in the order of a range over
  its map.\<close>

definition storeUUIAndXHeadersInSession :: "string list \<Rightarrow> string list \<Rightarrow> SIPMessage \<Rightarrow> RecordingSession \<Rightarrow> RecordingSession" where
  "storeUUIAndXHeadersInSession xs vs m s =
     (let e1 = put_if ''sip_uui'' (sm_UUIHeader m) (rec_ExtendedMetadata s);
          e2 = put_if ''sip_to'' (getHeaderValue m ''To'') (put_if ''sip_from'' (getHeaderValue m ''From'') e1);
          e3 = fold (\<lambda>n e. case sm_XHeaders m n of None \<Rightarrow> e | Some v \<Rightarrow> e(normalizedKey n \<mapsto> v)) xs e2;
          e4 = fold (\<lambda>n e. case sm_VendorHeaders m n of
                             None \<Rightarrow> e
                           | Some v \<Rightarrow> if e (normalizedKey n) = None then e(normalizedKey n \<mapsto> v) else e) vs e3;
          e5 = put_if ''sip_vendor_type'' (sm_VendorType m) e4;
          e6 = (if sm_UCIDHeaders m \<noteq> [] then e5(''sip_ucid'' \<mapsto> Join (sm_UCIDHeaders m) '';'') else e5)
      in s\<lparr>rec_ExtendedMetadata := fold (\<lambda>fk. put_if (snd fk) (sm_vendor m (fst fk))) vendor_keys e6\<rparr>)"

text \<open>The vendor columns of the call data record.\<close>

definition cdr_columns :: "(vendor_field \<times> string) list" where
  "cdr_columns =
    [(OracleUCID, ''OracleUCID''), (OracleConversationID, ''ConversationID''), (SessionIDHeader, ''CiscoSessionID''),
     (GenesysInteractionID, ''GenesysInteractionID''), (GenesysConversationID, ''GenesysConversationID''),
     (GenesysQueueName, ''GenesysQueueName''), (GenesysAgentID, ''GenesysAgentID''),
     (GenesysCampaignID, ''GenesysCampaignID''), (AsteriskUniqueID, ''AsteriskUniqueID''),
     (AsteriskLinkedID, ''AsteriskLinkedID''), (AsteriskChannelID, ''AsteriskChannelID''),
     (AsteriskAccountCode, ''AsteriskAccountCode''), (AsteriskContext, ''AsteriskContext''),
     (FreeSWITCHUUID, ''FreeSWITCHUUID''), (FreeSWITCHCoreUUID, ''FreeSWITCHCoreUUID''),
     (FreeSWITCHChannelName, ''FreeSWITCHChannelName''), (FreeSWITCHProfileName, ''FreeSWITCHProfileName''),
     (FreeSWITCHAccountCode, ''FreeSWITCHAccountCode''), (OpenSIPSDialogID, ''OpenSIPSDialogID''),
     (OpenSIPSTransactionID, ''OpenSIPSTransactionID''), (OpenSIPSCallID, ''OpenSIPSCallID''),
     (NICEInteractionID, ''NICEInteractionID''), (NICESessionID, ''NICESessionID''), (NICERecordingID, ''NICERecordingID''),
     (NICEContactID, ''NICEContactID''), (NICEAgentID, ''NICEAgentID''), (NICECallID, ''NICECallID''),
     (AvayaUCID, ''AvayaUCID''), (AvayaConfID, ''AvayaConfID''), (AvayaConversationID, ''AvayaConversationID''),
     (AvayaStationID, ''AvayaStationID''), (AvayaAgentID, ''AvayaAgentID''), (AvayaVDN, ''AvayaVDN''),
     (AvayaSkillGroup, ''AvayaSkillGroup''), (AudioCodesSessionID, ''AudioCodesSessionID''),
     (AudioCodesCallID, ''AudioCodesCallID''), (RibbonSessionID, ''RibbonSessionID''), (RibbonCallID, ''RibbonCallID''),
     (RibbonGWID, ''RibbonGWID''), (SansaySessionID, ''SansaySessionID''), (SansayCallID, ''SansayCallID''),
     (SansayTrunkID, ''SansayTrunkID''), (HuaweiSessionID, ''HuaweiSessionID''), (HuaweiCallID, ''HuaweiCallID''),
     (HuaweiTrunkID, ''HuaweiTrunkID''), (MSConversationID, ''MSConversationID''), (MSCallID, ''MSCallID''),
     (MSCorrelationID, ''MSCorrelationID'')]"

definition cdr_vendor_update :: "SIPMessage \<Rightarrow> (string \<times> string) list" where
  "cdr_vendor_update m =
     (if sm_VendorType m \<noteq> [] \<and> sm_VendorType m \<noteq> ''generic'' then [(''VendorType'', sm_VendorType m)] else []) @
     (if sm_UCIDHeaders m \<noteq> [] then [(''UCID'', Join (sm_UCIDHeaders m) '';'')] else []) @
     filter (\<lambda>c. snd c \<noteq> []) (map (\<lambda>fc. (snd fc, sm_vendor m (fst fc))) cdr_columns)"

section \<open>Where identifiers come from\<close>

text \<open>The string functions return parts of their argument.\<close>

lemma Contains_sublist: "Contains s p \<longleftrightarrow> sublist p s"
  by (simp add: Contains_iff sublist_def)

lemma TrimLeftSpace_sublist: "sublist (TrimLeftSpace s) s"
proof (induction s rule: TrimLeftSpace.induct)
  case (1 s)
  show ?case
  proof (cases "ws_tail s")
    case None
    then show ?thesis by (simp add: TrimLeftSpace_id)
  next
    case (Some t)
    have "\<exists>u. s = u @ t"
      using Some by (cases s) (auto split: if_splits list.splits)
    then have "sublist t s" by (metis sublist_append_leftI)
    moreover have "TrimLeftSpace s = TrimLeftSpace t" using Some by (subst TrimLeftSpace.simps) simp
    ultimately show ?thesis using 1[OF Some] sublist_order.order.trans by metis
  qed
qed

lemma TrimSpace_sublist: "sublist (TrimSpace s) s"
proof -
  obtain u where u: "rev (TrimLeftSpace s) = u @ trim_rev (rev (TrimLeftSpace s))" using trim_rev_suffix by blast
  then have "TrimLeftSpace s = TrimSpace s @ rev u" by (metis TrimSpace_def rev_append rev_rev_ident)
  then have "sublist (TrimSpace s) (TrimLeftSpace s)" by (metis sublist_append_rightI)
  then show ?thesis using TrimLeftSpace_sublist sublist_order.order.trans by blast
qed

lemma TrimByte_sublist: "sublist (TrimByte c s) s"
proof -
  have "sublist (rev (TrimByte c s)) (rev (dropWhile (\<lambda>d. d = c) s))"
    unfolding TrimByte_def rev_rev_ident by (metis suffix_dropWhile suffix_imp_sublist)
  then have "sublist (TrimByte c s) (dropWhile (\<lambda>d. d = c) s)" by simp
  then show ?thesis by (meson sublist_order.order.trans suffix_dropWhile suffix_imp_sublist)
qed

lemma Split_sublist: "p \<in> set (Split s c) \<Longrightarrow> sublist p s"
proof (induction s arbitrary: p)
  case (Cons d s)
  obtain q qs where s: "Split s c = q # qs" by (cases "Split s c") auto
  have q: "prefix q s"
    using s
  proof (induction s arbitrary: q qs)
    case (Cons e s)
    then show ?case by (auto split: if_splits list.splits)
  qed simp
  show ?case
  proof (cases "d = c \<or> p \<in> set qs")
    case True
    then have "p = [] \<or> p \<in> set (Split s c)" using Cons.prems s by (auto split: if_splits)
    then show ?thesis using Cons.IH by (auto intro: sublist_Cons_right[THEN iffD2])
  next
    case False
    then have "p = d # q" using Cons.prems s by auto
    then show ?thesis using q by (simp add: prefix_imp_sublist)
  qed
qed simp

lemma drop_sublist: "sublist (drop n s) s"
  by (simp add: suffix_drop suffix_imp_sublist)

lemma TrimPrefix_sublist: "sublist (TrimPrefix s p) s"
  by (simp add: TrimPrefix_def drop_sublist)

lemma trimmed_sublist: "part \<in> set (Split s c) \<Longrightarrow> sublist t (TrimSpace part) \<Longrightarrow> sublist (TrimByte q (TrimSpace t)) s"
  by (meson Split_sublist TrimByte_sublist TrimSpace_sublist sublist_order.order.trans)

definition from_header :: "SIPMessage \<Rightarrow> string \<Rightarrow> bool" where
  "from_header m v \<longleftrightarrow> (\<exists>h. Contains (getHeaderValue m h) v)"

lemma from_header_value: "from_header m (getHeaderValue m h)" and from_header_Nil: "from_header m []"
  by (auto simp: from_header_def Contains_sublist)

lemma from_header_sublist: "sublist v (getHeaderValue m h) \<Longrightarrow> from_header m v"
  by (auto simp: from_header_def Contains_sublist)

lemma parsePChargingVector_sublist: "parsePChargingVector pcv k = Some v \<Longrightarrow> sublist v pcv"
proof -
  let ?P = "\<lambda>r :: string \<rightharpoonup> string. \<forall>k v. r k = Some v \<longrightarrow> sublist v pcv"
  let ?val = "\<lambda>part. TrimByte (CHR 0x22) (TrimSpace (drop (length (takeWhile (\<lambda>c. c \<noteq> CHR ''='') (TrimSpace part)) + 1) (TrimSpace part)))"
  have val: "sublist (?val part) pcv" if "part \<in> set (Split pcv (CHR '';''))" for part
    by (rule trimmed_sublist[OF that drop_sublist])
  have "?P (parsePChargingVector pcv)"
    unfolding parsePChargingVector_def
    by (rule fold_invariant[where P = ?P and Q = "\<lambda>part. part \<in> set (Split pcv (CHR '';''))"])
      (simp_all add: Let_def val[simplified])
  then show "parsePChargingVector pcv k = Some v \<Longrightarrow> sublist v pcv" by blast
qed

text \<open>What every extraction step keeps, starting from the request \<open>m0\<close>.\<close>

definition traced :: "SIPMessage \<Rightarrow> SIPMessage \<Rightarrow> bool" where
  "traced m0 m \<longleftrightarrow>
     sm_Headers m = sm_Headers m0 \<and> sm_UUIHeader m = [] \<and> (\<forall>f. from_header m0 (sm_vendor m f)) \<and>
     (\<forall>u \<in> set (sm_UCIDHeaders m). from_header m0 u)"

named_theorems traced

lemma traced_header: "traced m0 m \<Longrightarrow> getHeaderValue m h = getHeaderValue m0 h"
  by (simp add: traced_def getHeaderValue_def)

lemma traced_set_field: "traced m0 m \<Longrightarrow> from_header m0 v \<Longrightarrow> traced m0 (set_field f v m)"
  and traced_set_ucid_field: "traced m0 m \<Longrightarrow> from_header m0 v \<Longrightarrow> traced m0 (set_ucid_field f v m)"
  by (auto simp: traced_def set_field_def set_ucid_field_def)

lemma traced_collect [traced]: "traced m0 m \<Longrightarrow> traced m0 (collect names m)"
  by (simp add: traced_def collect_def)

lemma traced_add_ucids [traced]: "traced m0 m \<Longrightarrow> traced m0 (add_ucids names m)"
  using traced_header[of m0 m] by (auto simp: traced_def add_ucids_def from_header_value)

lemma traced_set_first [traced]: "traced m0 m \<Longrightarrow> traced m0 (set_first f names m)"
  and traced_set_first_ucid [traced]: "traced m0 m \<Longrightarrow> traced m0 (set_first_ucid f names m)"
  by (auto simp: set_first_def set_first_ucid_def traced_header from_header_value intro: traced_set_field traced_set_ucid_field
      split: option.splits)

lemma traced_parseAvayaUUI [traced]: "traced m0 m \<Longrightarrow> traced m0 (parseAvayaUUI m)"
  by (simp add: parseAvayaUUI_def traced_def HasPrefix_def)

lemma traced_charging_vector [traced]: "traced m0 m \<Longrightarrow> traced m0 (charging_vector m)"
proof -
  assume m: "traced m0 m"
  have vh: "traced m0 (m\<lparr>sm_VendorHeaders := h\<rparr>)" for h using m by (simp add: traced_def)
  have icid: "from_header m0 icid" if "parsePChargingVector (getHeaderValue m ''p-charging-vector'') ''icid-value'' = Some icid" for icid
    using that parsePChargingVector_sublist from_header_sublist traced_header[OF m] by metis
  show ?thesis
    unfolding charging_vector_def Let_def
    by (auto simp: m vh icid split: option.splits intro!: traced_set_ucid_field)
qed

lemma traced_huawei_icid [traced]: "traced m0 m \<Longrightarrow> traced m0 (huawei_icid m)"
proof -
  assume m: "traced m0 m"
  have "from_header m0 (TrimByte (CHR 0x22) (TrimPrefix (TrimSpace part) ''icid-value=''))"
    if "find P (Split (getHeaderValue m ''p-charging-vector'') (CHR '';'')) = Some part" for P part
  proof -
    have "part \<in> set (Split (getHeaderValue m ''p-charging-vector'') (CHR '';''))"
      using that by (auto simp: find_Some_iff)
    then have "sublist (TrimByte (CHR 0x22) (TrimPrefix (TrimSpace part) ''icid-value='')) (getHeaderValue m ''p-charging-vector'')"
      by (meson Split_sublist TrimByte_sublist TrimPrefix_sublist TrimSpace_sublist sublist_order.order.trans)
    then show ?thesis using from_header_sublist traced_header[OF m] by simp
  qed
  then show ?thesis
    unfolding huawei_icid_def Let_def by (auto simp: m split: option.splits intro!: traced_set_ucid_field)
qed

lemma traced_run: "traced m0 m \<Longrightarrow> list_all (\<lambda>f. \<forall>m. traced m0 m \<longrightarrow> traced m0 (f m)) steps \<Longrightarrow> traced m0 (run steps m)"
  by (induction steps arbitrary: m) (simp_all add: run_def)

lemmas extract_defs = extractAvayaHeaders_def extractCiscoHeaders_def extractOracleHeaders_def extractGenesysHeaders_def
  extractNICEHeaders_def extractAsteriskHeaders_def extractFreeSWITCHHeaders_def extractOpenSIPSHeaders_def extractAudioCodesHeaders_def
  extractRibbonHeaders_def extractSansayHeaders_def extractHuaweiHeaders_def extractMicrosoftHeaders_def extractGenericHeaders_def

lemma traced_extract_vendor: "traced m0 m \<Longrightarrow> traced m0 (extract_vendor m)"
proof -
  assume m: "traced m0 m"
  have "list_all (\<lambda>f. \<forall>m. traced m0 m \<longrightarrow> traced m0 (f m)) fs \<Longrightarrow> traced m0 (run fs m)" for fs
    using m by (rule traced_run)
  then show ?thesis
    unfolding extract_vendor_def Let_def extract_defs by (simp add: traced)
qed

lemma extractUUIAndXHeaders_keeps:
  "sm_vendor (extractUUIAndXHeaders m) = sm_vendor m" "sm_UCIDHeaders (extractUUIAndXHeaders m) = sm_UCIDHeaders m"
  "sm_Headers (extractUUIAndXHeaders m) = sm_Headers m"
  by (simp_all add: extractUUIAndXHeaders_def Let_def split: option.split)

lemma traced_request: "traced (newSIPMessageFromSipgo r) (newSIPMessageFromSipgo r)"
  by (simp add: traced_def newSIPMessageFromSipgo_def from_header_Nil)


section \<open>The Avaya identifier\<close>

lemma set_first_other: "f \<noteq> g \<Longrightarrow> sm_vendor (set_first f names m) g = sm_vendor m g"
  "f \<noteq> g \<Longrightarrow> sm_vendor (set_first_ucid f names m) g = sm_vendor m g" "sm_vendor (collect names m) g = sm_vendor m g"
  "sm_vendor (add_ucids names m) g = sm_vendor m g"
  by (simp_all add: set_first_def set_first_ucid_def set_ucid_field_def set_field_def collect_def add_ucids_def split: option.split)

lemma steps_keep_headers: "getHeaderValue (set_first f names m) = getHeaderValue m" "getHeaderValue (set_first_ucid f names m) = getHeaderValue m"
  "getHeaderValue (collect names m) = getHeaderValue m" "getHeaderValue (add_ucids names m) = getHeaderValue m"
  by (simp_all add: fun_eq_iff getHeaderValue_def set_first_def set_first_ucid_def set_ucid_field_def set_field_def collect_def add_ucids_def
      split: option.split)

lemma steps_keep_uui: "sm_UUIHeader (set_first f names m) = sm_UUIHeader m" "sm_UUIHeader (set_first_ucid f names m) = sm_UUIHeader m"
  "sm_UUIHeader (collect names m) = sm_UUIHeader m" "sm_UUIHeader (add_ucids names m) = sm_UUIHeader m"
  by (simp_all add: set_first_def set_first_ucid_def set_ucid_field_def set_field_def collect_def add_ucids_def split: option.split)

lemma set_first_absent: "getHeaderValue m a = [] \<Longrightarrow> getHeaderValue m b = [] \<Longrightarrow> set_first f [a, b] m = m"
  by (simp add: set_first_def)

lemma other_vendors: "sm_vendor (charging_vector m) AvayaUCID = sm_vendor m AvayaUCID" "sm_vendor (huawei_icid m) AvayaUCID = sm_vendor m AvayaUCID"
  by (simp_all add: charging_vector_def huawei_icid_def Let_def set_ucid_field_def set_field_def split: option.split)

lemma parseAvayaUUI_empty: "sm_UUIHeader m = [] \<Longrightarrow> parseAvayaUUI m = m"
  by (simp add: parseAvayaUUI_def HasPrefix_def)

lemma extract_vendor_ucid:
  assumes "getHeaderValue m ''x-avaya-ucid'' = []" "getHeaderValue m ''x-ucid'' = []" "sm_UUIHeader m = []"
  shows "sm_vendor (extract_vendor m) AvayaUCID = sm_vendor m AvayaUCID"
  unfolding extract_vendor_def Let_def extract_defs run_def
  by (simp add: set_first_other other_vendors parseAvayaUUI_empty set_first_absent steps_keep_headers steps_keep_uui assms)

lemma uui_extracted:
  assumes "getHeaderValue m ''user-to-user'' = uui" "uui \<noteq> []"
  shows "sm_UUIHeader (extractUUIAndXHeaders m) = uui"
proof -
  have "ToLower ''User-to-User'' = ''user-to-user''" "ToLower ''user-to-user'' = ''user-to-user''" by code_simp+
  then have "getHeaderValue m ''User-to-User'' = getHeaderValue m ''user-to-user''"
    unfolding getHeaderValue_def by presburger
  then show ?thesis using assms by (simp add: extractUUIAndXHeaders_def Let_def)
qed

lemma extract_vendor_headers: "sm_Headers (extract_vendor m) = sm_Headers m" if "traced m0 m"
  using that traced_extract_vendor[of m0 m] by (simp add: traced_def)

text \<open>C40: the identifier that an Avaya client sends in the User-to-User header is not used. When the headers
  X-Avaya-UCID and X-UCID are absent the field stays empty, whatever the User-to-User header says, because it is
  looked at before it has been read; looking at it afterwards would give its first twenty characters.\<close>

theorem avaya_uui_ignored:
  assumes "m = newSIPMessageFromSipgo r" and "getHeaderValue m ''x-avaya-ucid'' = []" "getHeaderValue m ''x-ucid'' = []"
    and uui: "getHeaderValue m ''user-to-user'' = uui" "CHR '';'' \<notin> set uui" "HasPrefix uui ''04FA''" "length uui \<ge> 20"
  shows "sm_vendor (extractVendorInformation m) AvayaUCID = [] \<and>
    sm_vendor (parseAvayaUUI (extractVendorInformation m)) AvayaUCID = take 20 uui"
proof -
  let ?m1 = "m\<lparr>sm_VendorHeaders := Map.empty, sm_UCIDHeaders := [], sm_UserAgent := getHeaderValue m ''user-agent''\<rparr>"
  let ?m2 = "?m1\<lparr>sm_VendorType := detectVendor ?m1\<rparr>"
  have tr: "traced m ?m2" using traced_request[of r] assms(1) by (simp add: traced_def)
  have same: "getHeaderValue ?m2 h = getHeaderValue m h" "getHeaderValue (extract_vendor ?m2) h = getHeaderValue m h" for h
    using extract_vendor_headers[OF tr] by (simp_all add: getHeaderValue_def)
  have "sm_UUIHeader ?m2 = []" using assms(1) by (simp add: newSIPMessageFromSipgo_def)
  from extract_vendor_ucid[OF _ _ this]
  have "sm_vendor (extract_vendor ?m2) AvayaUCID = []"
    unfolding same using assms(1-3) by (simp add: newSIPMessageFromSipgo_def)
  then have field: "sm_vendor (extractVendorInformation m) AvayaUCID = []"
    unfolding extractVendorInformation_def Let_def extractUUIAndXHeaders_keeps by simp
  have "uui \<noteq> []" using uui(4) by auto
  then have got: "sm_UUIHeader (extractVendorInformation m) = uui"
    unfolding extractVendorInformation_def Let_def using uui_extracted[of "extract_vendor ?m2" uui] same uui(1) by simp
  have whole: "takeWhile (\<lambda>c. c \<noteq> CHR '';'') uui = uui" using uui(2) by (auto simp: takeWhile_eq_all_conv)
  have "sm_vendor (parseAvayaUUI (extractVendorInformation m)) AvayaUCID = take 20 uui"
    unfolding parseAvayaUUI_def Let_def got whole using field uui(3,4)
    by (simp add: set_ucid_field_def set_field_def split: option.split list.split)
  then show ?thesis using field by blast
qed

definition avaya_request :: sip_request where
  "avaya_request = \<lparr>rq_Method = ''INVITE'', rq_Recipient = ''sip:srs'', rq_Headers = [(''User-to-User'', ''04FA0801020304050607'')], rq_Body = [],
     rq_CallID = Some ''c1'', rq_FromTag = None, rq_ToTag = None, rq_CSeq = None, rq_Source = [], rq_Transport = []\<rparr>"

lemma avaya_request_headers: "sm_Headers (newSIPMessageFromSipgo avaya_request) = [(''user-to-user'', [''04FA0801020304050607''])]"
  by code_simp

theorem avaya_uui_ignored_witness:
  "sm_vendor (extractVendorInformation (newSIPMessageFromSipgo avaya_request)) AvayaUCID = []"
proof -
  have "getHeaderValue (newSIPMessageFromSipgo avaya_request) ''x-avaya-ucid'' = []"
    "getHeaderValue (newSIPMessageFromSipgo avaya_request) ''x-ucid'' = []"
    "getHeaderValue (newSIPMessageFromSipgo avaya_request) ''user-to-user'' = ''04FA0801020304050607''"
    by code_simp+
  from avaya_uui_ignored[OF refl this] show ?thesis by (simp add: HasPrefix_def)
qed

section \<open>The metadata of the session\<close>

lemma put_if_apply: "put_if k v m k' = (if k = k' \<and> v \<noteq> [] then Some v else m k')"
  by (simp add: put_if_def)

lemma fold_put_if_other: "k \<notin> snd ` set fks \<Longrightarrow> fold (\<lambda>fk. put_if (snd fk) (g (fst fk))) fks e k = e k"
  by (induction fks arbitrary: e) (auto simp: put_if_apply)

lemma fold_put_if:
  "distinct (map snd fks) \<Longrightarrow> (f, k) \<in> set fks \<Longrightarrow> g f \<noteq> [] \<Longrightarrow> fold (\<lambda>fk. put_if (snd fk) (g (fst fk))) fks e k = Some (g f)"
proof (induction fks arbitrary: e)
  case (Cons a fks)
  show ?case
  proof (cases "a = (f, k)")
    case True
    then have "k \<notin> snd ` set fks" using Cons.prems(1) by simp
    then have "fold (\<lambda>fk. put_if (snd fk) (g (fst fk))) (a # fks) e k = put_if (snd a) (g (fst a)) e k"
      using fold_put_if_other[of k fks g] by simp
    then show ?thesis unfolding True put_if_apply using Cons.prems(3) by simp
  next
    case False
    then show ?thesis using Cons by simp
  qed
qed simp

lemma vendor_keys_distinct: "distinct (map snd vendor_keys)"
  by (simp add: vendor_keys_def)

lemma vendor_keys_sip: "k \<in> snd ` set vendor_keys \<Longrightarrow> HasPrefix k ''sip_''"
  by (auto simp: vendor_keys_def HasPrefix_def)

lemma fold_keys:
  "(\<And>n e. h n e k = e k) \<Longrightarrow> fold h ns e k = (e k :: string option)"
  by (induction ns arbitrary: e) simp_all

text \<open>What the session keeps. Every vendor field of the request that is not empty is stored under its own
  key, no matter in which order the maps are visited; keys without the prefix sip_ and the other parts of the
  session are untouched.\<close>

theorem store_correct:
  assumes "s' = storeUUIAndXHeadersInSession xs vs m s"
  shows "(\<forall>f k. (f, k) \<in> set vendor_keys \<and> sm_vendor m f \<noteq> [] \<longrightarrow> rec_ExtendedMetadata s' k = Some (sm_vendor m f)) \<and>
    (\<forall>k. \<not> HasPrefix k ''sip_'' \<longrightarrow> rec_ExtendedMetadata s' k = rec_ExtendedMetadata s k) \<and>
    s'\<lparr>rec_ExtendedMetadata := rec_ExtendedMetadata s\<rparr> = s"
proof (intro conjI allI impI)
  fix f k
  assume "(f, k) \<in> set vendor_keys \<and> sm_vendor m f \<noteq> []"
  then show "rec_ExtendedMetadata s' k = Some (sm_vendor m f)"
    unfolding assms storeUUIAndXHeadersInSession_def Let_def using fold_put_if[OF vendor_keys_distinct] by simp
next
  fix k
  assume k: "\<not> HasPrefix k ''sip_''"
  then have ne: "k \<notin> snd ` set vendor_keys" "normalizedKey n \<noteq> k" for n
    using vendor_keys_sip by (auto simp: normalizedKey_def HasPrefix_def)
  have fixed: "k \<noteq> ''sip_uui''" "k \<noteq> ''sip_to''" "k \<noteq> ''sip_from''" "k \<noteq> ''sip_vendor_type''" "k \<noteq> ''sip_ucid''"
    using k by (auto simp: HasPrefix_def)
  have x: "fold (\<lambda>n e. case sm_XHeaders m n of None \<Rightarrow> e | Some v \<Rightarrow> e(normalizedKey n \<mapsto> v)) ns e k = e k" for ns e
    by (rule fold_keys) (simp add: ne ne(2)[symmetric] split: option.split)
  have v: "fold (\<lambda>n e. case sm_VendorHeaders m n of None \<Rightarrow> e
      | Some v \<Rightarrow> if e (normalizedKey n) = None then e(normalizedKey n \<mapsto> v) else e) ns e k = e k" for ns e
    by (rule fold_keys) (simp add: ne ne(2)[symmetric] split: option.split)
  show "rec_ExtendedMetadata s' k = rec_ExtendedMetadata s k"
    unfolding assms storeUUIAndXHeadersInSession_def Let_def
    by (simp add: fold_put_if_other[OF ne(1)] x v put_if_apply fixed fixed[symmetric])
next
  show "s'\<lparr>rec_ExtendedMetadata := rec_ExtendedMetadata s\<rparr> = s"
    unfolding assms storeUUIAndXHeadersInSession_def Let_def by simp
qed

theorem store_correct_witness:
  "rec_ExtendedMetadata (storeUUIAndXHeadersInSession [] [] ((newSIPMessageFromSipgo avaya_request)\<lparr>sm_vendor := (\<lambda>_. [])(OracleUCID := ''u1'')\<rparr>)
     RecordingSession_zero) ''sip_oracle_ucid'' = Some ''u1''"
proof -
  have "(OracleUCID, ''sip_oracle_ucid'') \<in> set vendor_keys" by (simp add: vendor_keys_def)
  then show ?thesis
    using store_correct[where xs = "[]" and vs = "[]" and s = RecordingSession_zero and
        m = "(newSIPMessageFromSipgo avaya_request)\<lparr>sm_vendor := (\<lambda>_. [])(OracleUCID := ''u1'')\<rparr>", OF refl,
        THEN conjunct1, rule_format, of OracleUCID "''sip_oracle_ucid''"]
    by simp
qed

text \<open>A session border controller counts as a NICE client: its name contains the letters ntr.\<close>

lemma controller_is_nice: "detectVendor ((newSIPMessageFromSipgo avaya_request)\<lparr>sm_UserAgent := ''AudioCodes Mediant Session Border Controller''\<rparr>) = ''nice''"
  by code_simp

end
