(* ===== verification/SdpTypes.thy ===== *)
theory SdpTypes
  imports GoConv
begin

text \<open>
  The session descriptions of the SDP library, with the fields the repository reads or sets, and the
  codec table of \<^verbatim>\<open>pkg/media/codec.go\<close>. The library's parser and printer are arguments where they
  are used.
\<close>

record Attribute =
  at_Key :: string
  at_Value :: string

text \<open>A connection line; its address pointer may be nil.\<close>

type_synonym ConnectionInformation = "string option"

record MediaDescription =
  md_Media :: string
  md_Port :: int
  md_Protos :: "string list"
  md_Formats :: "string list"
  md_Connection :: "ConnectionInformation option"
  md_Attributes :: "Attribute list"

record SessionDescription =
  sd_Username :: string
  sd_SessionID :: int
  sd_SessionVersion :: int
  sd_UnicastAddress :: string
  sd_SessionName :: string
  sd_Connection :: "ConnectionInformation option"
  sd_TimeDescriptions :: "(int \<times> int) list"
  sd_MediaDescriptions :: "MediaDescription list"
  sd_Attributes :: "Attribute list"

section \<open>Codecs\<close>

record CodecInfo =
  ci_Name :: string
  ci_PayloadType :: byte
  ci_SampleRate :: int
  ci_Channels :: int

definition SupportedCodecs :: "byte \<rightharpoonup> CodecInfo" where
  "SupportedCodecs = index_by ci_PayloadType
     [\<lparr>ci_Name = ''PCMU'', ci_PayloadType = 0, ci_SampleRate = 8000, ci_Channels = 1\<rparr>,
      \<lparr>ci_Name = ''PCMA'', ci_PayloadType = 8, ci_SampleRate = 8000, ci_Channels = 1\<rparr>,
      \<lparr>ci_Name = ''G722'', ci_PayloadType = 9, ci_SampleRate = 16000, ci_Channels = 1\<rparr>,
      \<lparr>ci_Name = ''G729'', ci_PayloadType = 18, ci_SampleRate = 8000, ci_Channels = 1\<rparr>,
      \<lparr>ci_Name = ''OPUS'', ci_PayloadType = 96, ci_SampleRate = 48000, ci_Channels = 2\<rparr>,
      \<lparr>ci_Name = ''EVS'', ci_PayloadType = 97, ci_SampleRate = 16000, ci_Channels = 1\<rparr>,
      \<lparr>ci_Name = ''OPUS_MONO'', ci_PayloadType = 98, ci_SampleRate = 48000, ci_Channels = 1\<rparr>,
      \<lparr>ci_Name = ''EVS_WB'', ci_PayloadType = 99, ci_SampleRate = 32000, ci_Channels = 1\<rparr>,
      \<lparr>ci_Name = ''EVS_SWB'', ci_PayloadType = 100, ci_SampleRate = 48000, ci_Channels = 1\<rparr>]"

definition GetCodecInfo :: "byte \<Rightarrow> CodecInfo option" where
  "GetCodecInfo payloadType = SupportedCodecs payloadType"

unbundle bit_operations_syntax

text \<open>The codec of a raw RTP packet; both errors are \<open>Inl\<close>.\<close>

definition DetectCodec :: "byte list \<Rightarrow> string + string" where
  "DetectCodec pkt =
     (if length pkt < 12 then Inl ''RTP packet too short''
      else case SupportedCodecs (pkt ! 1 AND 0x7F) of
             Some c \<Rightarrow> Inr (ci_Name c)
           | None \<Rightarrow> Inl ''unsupported payload type'')"

definition PCMBytesPerPacket :: "int \<Rightarrow> int" where
  "PCMBytesPerPacket sampleRate = (let r = (if sampleRate \<le> 0 then 8000 else sampleRate) in r * 20 div 1000 * 2)"

lemma codec_rates_positive: "GetCodecInfo pt = Some c \<Longrightarrow> ci_SampleRate c > 0 \<and> ci_Channels c > 0 \<and> ci_PayloadType c = pt"
  unfolding GetCodecInfo_def SupportedCodecs_def by (drule index_by_Some) auto

end
