(* ===== verification/RtpForwarder.thy ===== *)
theory RtpForwarder
  imports SdpTypes PortManager RtpStats
begin

text \<open>
  The forwarder of one media stream: \<^verbatim>\<open>pkg/media/types.go\<close> and its configuration from the SDP offer,
  \<^verbatim>\<open>pkg/media/sdp_utils.go\<close>. Channels, sockets, files and the objects of other components are flags
  that tell whether they are there; a pointer to the recording session is the session's identifier.
  Every operation that dereferences that pointer returns \<open>None\<close> where the code panics.
\<close>

section \<open>State\<close>

record UDPAddr =
  ua_IP :: string
  ua_Port :: int

record RTPForwarder =
  fw_LocalPort :: int
  fw_RTCPPort :: int
  fw_Conn :: bool
  fw_RTCPConn :: bool
  fw_stopped :: bool
  fw_CallUUID :: string
  fw_RecordingFile :: bool
  fw_lastRTP :: go_time
  fw_Timeout :: go_duration
  fw_RecordingSession :: "string option"
  fw_RecordingPaused :: bool
  fw_isCleanedUp :: bool
  fw_RecordingPath :: string
  fw_Storage :: bool
  fw_CodecPayloadType :: byte
  fw_CodecName :: string
  fw_SampleRate :: int
  fw_Channels :: int
  fw_WAVWriter :: bool
  fw_EncryptedRecorder :: bool
  fw_EncryptedSessionID :: string
  fw_TranscriptionPaused :: bool
  fw_PausedAt :: "go_time option"
  fw_recordingWriter :: "bool option"
  fw_transcriptionReader :: "bool option"
  fw_InboundMuted :: bool
  fw_OutboundMuted :: bool
  fw_MutedAt :: "go_time option"
  fw_SRTPEnabled :: bool
  fw_SRTPMasterKey :: "byte list"
  fw_SRTPMasterSalt :: "byte list"
  fw_SRTPKeyLifetime :: int
  fw_SRTPProfile :: string
  fw_AudioProcessor :: bool
  fw_AudioEncoder :: bool
  fw_TargetFormat :: string
  fw_PIIAudioMarker :: bool
  fw_RemoteRTPAddr :: "UDPAddr option"
  fw_RemoteRTCPAddr :: "UDPAddr option"
  fw_ExpectedRemoteRTCPPort :: int
  fw_UseRTCPMux :: bool
  fw_RTPSuspended :: bool
  fw_LocalSSRC :: "32 word"
  fw_RemoteSSRC :: "32 word"
  fw_RTPStats :: rtpStreamStats
  fw_FirstRTP :: "(32 word \<times> go_time) option"

text \<open>A forwarder with the port pair that the port manager hands out; the two pause flags of writer and
  reader are \<open>None\<close> until forwarding starts.\<close>

definition new_forwarder :: "go_duration \<Rightarrow> string option \<Rightarrow> bool \<Rightarrow> bool \<Rightarrow> 32 word \<Rightarrow> PortPair \<Rightarrow> RTPForwarder" where
  "new_forwarder timeout session piiAudioEnabled encryptedRecorder ssrc pair =
     \<lparr>fw_LocalPort = RTPPort pair, fw_RTCPPort = RTCPPort pair, fw_Conn = False, fw_RTCPConn = False, fw_stopped = False,
      fw_CallUUID = '''', fw_RecordingFile = False, fw_lastRTP = 0, fw_Timeout = timeout, fw_RecordingSession = session,
      fw_RecordingPaused = False, fw_isCleanedUp = False, fw_RecordingPath = '''', fw_Storage = False,
      fw_CodecPayloadType = 0, fw_CodecName = '''', fw_SampleRate = 0, fw_Channels = 0, fw_WAVWriter = False,
      fw_EncryptedRecorder = encryptedRecorder, fw_EncryptedSessionID = '''', fw_TranscriptionPaused = False, fw_PausedAt = None,
      fw_recordingWriter = None, fw_transcriptionReader = None, fw_InboundMuted = False, fw_OutboundMuted = False, fw_MutedAt = None,
      fw_SRTPEnabled = False, fw_SRTPMasterKey = [], fw_SRTPMasterSalt = [], fw_SRTPKeyLifetime = 2 ^ 31,
      fw_SRTPProfile = ''AES_CM_128_HMAC_SHA1_80'', fw_AudioProcessor = False, fw_AudioEncoder = False, fw_TargetFormat = '''',
      fw_PIIAudioMarker = (piiAudioEnabled \<and> session \<noteq> None), fw_RemoteRTPAddr = None, fw_RemoteRTCPAddr = None,
      fw_ExpectedRemoteRTCPPort = 0, fw_UseRTCPMux = False, fw_RTPSuspended = False, fw_LocalSSRC = ssrc, fw_RemoteSSRC = 0,
      fw_RTPStats = newRTPStreamStats, fw_FirstRTP = None\<rparr>"

definition NewRTPForwarder ::
  "(int \<Rightarrow> bool) \<Rightarrow> go_time \<Rightarrow> string list \<Rightarrow> (int list \<Rightarrow> int list) \<Rightarrow> 32 word \<Rightarrow> go_duration \<Rightarrow> string option \<Rightarrow> bool \<Rightarrow> bool \<Rightarrow>
     PortManager \<Rightarrow> RTPForwarder option \<times> PortManager" where
  "NewRTPForwarder avail now ks os ssrc timeout session piiAudioEnabled encryptedRecorder pm =
     (case AllocatePortPair avail now ks os pm of
        (None, pm') \<Rightarrow> (None, pm')
      | (Some pair, pm') \<Rightarrow> (Some (new_forwarder timeout session piiAudioEnabled encryptedRecorder ssrc pair), pm'))"

section \<open>Codec, pause and mute\<close>

definition SetCodecInfo :: "byte \<Rightarrow> string \<Rightarrow> int \<Rightarrow> int \<Rightarrow> RTPForwarder \<Rightarrow> RTPForwarder" where
  "SetCodecInfo payloadType codecName sampleRate channels f =
     f\<lparr>fw_CodecPayloadType := payloadType, fw_CodecName := ToUpper codecName,
       fw_SampleRate := (if sampleRate \<le> 0 then 8000 else sampleRate), fw_Channels := (if channels \<le> 0 then 1 else channels),
       fw_RTPStats := (if sampleRate > 0 then SetClockRate sampleRate (fw_RTPStats f) else fw_RTPStats f)\<rparr>"

definition fw_Stop :: "RTPForwarder \<Rightarrow> RTPForwarder" where
  "fw_Stop f = f\<lparr>fw_stopped := True\<rparr>"

definition ResetRemoteSSRC :: "RTPForwarder \<Rightarrow> RTPForwarder" where
  "ResetRemoteSSRC f = f\<lparr>fw_RemoteSSRC := 0, fw_RTPSuspended := False\<rparr>"

definition fw_Pause :: "go_time \<Rightarrow> bool \<Rightarrow> bool \<Rightarrow> RTPForwarder \<Rightarrow> RTPForwarder option" where
  "fw_Pause now pauseRecording pauseTranscription f =
     (let f1 = (if pauseRecording
                then f\<lparr>fw_RecordingPaused := True, fw_recordingWriter := map_option (\<lambda>_. True) (fw_recordingWriter f)\<rparr> else f);
          f2 = (if pauseTranscription
                then f1\<lparr>fw_TranscriptionPaused := True, fw_transcriptionReader := map_option (\<lambda>_. True) (fw_transcriptionReader f1)\<rparr> else f1)
      in if fw_RecordingPaused f2 \<or> fw_TranscriptionPaused f2
         then (if fw_RecordingSession f2 = None then None else Some (f2\<lparr>fw_PausedAt := Some now\<rparr>))
         else Some f2)"

definition fw_Resume :: "RTPForwarder \<Rightarrow> RTPForwarder option" where
  "fw_Resume f =
     (if (fw_RecordingPaused f \<or> fw_TranscriptionPaused f) \<and> fw_RecordingSession f = None then None
      else Some (f\<lparr>fw_RecordingPaused := False, fw_TranscriptionPaused := False, fw_PausedAt := None,
             fw_recordingWriter := (if fw_RecordingPaused f then map_option (\<lambda>_. False) (fw_recordingWriter f) else fw_recordingWriter f),
             fw_transcriptionReader :=
               (if fw_TranscriptionPaused f then map_option (\<lambda>_. False) (fw_transcriptionReader f) else fw_transcriptionReader f)\<rparr>))"

definition IsPaused :: "RTPForwarder \<Rightarrow> bool" where
  "IsPaused f \<longleftrightarrow> fw_RecordingPaused f \<or> fw_TranscriptionPaused f"

definition mute_changed :: "RTPForwarder \<Rightarrow> RTPForwarder \<Rightarrow> bool" where
  "mute_changed f g \<longleftrightarrow> fw_InboundMuted f \<noteq> fw_InboundMuted g \<or> fw_OutboundMuted f \<noteq> fw_OutboundMuted g"

definition Mute :: "go_time \<Rightarrow> bool \<Rightarrow> bool \<Rightarrow> RTPForwarder \<Rightarrow> RTPForwarder option" where
  "Mute now muteInbound muteOutbound f =
     (let g = f\<lparr>fw_InboundMuted := fw_InboundMuted f \<or> muteInbound, fw_OutboundMuted := fw_OutboundMuted f \<or> muteOutbound\<rparr>;
          h = (if (fw_InboundMuted g \<or> fw_OutboundMuted g) \<and> fw_MutedAt g = None then g\<lparr>fw_MutedAt := Some now\<rparr> else g)
      in if mute_changed f h \<and> fw_RecordingSession f = None then None else Some h)"

definition Unmute :: "bool \<Rightarrow> bool \<Rightarrow> RTPForwarder \<Rightarrow> RTPForwarder option" where
  "Unmute unmuteInbound unmuteOutbound f =
     (let g = f\<lparr>fw_InboundMuted := fw_InboundMuted f \<and> \<not> unmuteInbound, fw_OutboundMuted := fw_OutboundMuted f \<and> \<not> unmuteOutbound\<rparr>;
          h = (if \<not> fw_InboundMuted g \<and> \<not> fw_OutboundMuted g then g\<lparr>fw_MutedAt := None\<rparr> else g)
      in if mute_changed f h \<and> fw_RecordingSession f = None then None else Some h)"

section \<open>Cleanup\<close>

text \<open>What the outside world answers during a cleanup, and what the cleanup does to it, in order.\<close>

record cleanup_env =
  ce_now :: go_time
  ce_intervals :: nat
  ce_redact_ok :: bool
  ce_encode_ok :: bool
  ce_upload_ok :: bool
  ce_keep_local :: bool

datatype cleanup_effect =
    SendRTCPBye
  | FinalizeWAV
  | CloseRecording
  | RedactAudio string
  | EncodeFile string string
  | RemoveFile string
  | StopEncrypted string
  | UploadRecording string
  | RemoveLocalRecording string
  | CloseProcessor

definition release_ports :: "go_time \<Rightarrow> RTPForwarder \<Rightarrow> PortManager \<Rightarrow> PortManager option" where
  "release_ports now f pm =
     (if fw_RTCPPort f > 0 then ReleasePortPair now (Some \<lparr>RTPPort = fw_LocalPort f, RTCPPort = fw_RTCPPort f\<rparr>) pm
      else ReleasePort now (fw_LocalPort f) pm)"

definition close_file :: "RTPForwarder \<Rightarrow> cleanup_effect list \<times> RTPForwarder" where
  "close_file f =
     (if fw_RecordingFile f
      then ((if fw_WAVWriter f then [FinalizeWAV] else []) @ [CloseRecording], f\<lparr>fw_WAVWriter := False, fw_RecordingFile := False\<rparr>)
      else ([], f))"

definition redact :: "cleanup_env \<Rightarrow> RTPForwarder \<Rightarrow> cleanup_effect list" where
  "redact env f =
     (if fw_PIIAudioMarker f \<and> fw_RecordingPath f \<noteq> '''' \<and> ce_intervals env > 0 then [RedactAudio (fw_RecordingPath f)] else [])"

definition encode :: "cleanup_env \<Rightarrow> RTPForwarder \<Rightarrow> cleanup_effect list \<times> RTPForwarder" where
  "encode env f =
     (if fw_AudioEncoder f \<and> fw_RecordingPath f \<noteq> '''' \<and> fw_TargetFormat f \<noteq> '''' \<and> fw_TargetFormat f \<noteq> ''wav''
      then
        let outputPath = TrimSuffix (fw_RecordingPath f) ''.wav'' @ ''.'' @ fw_TargetFormat f
        in if ce_encode_ok env
           then ([EncodeFile (fw_RecordingPath f) outputPath, RemoveFile (fw_RecordingPath f)], f\<lparr>fw_RecordingPath := outputPath\<rparr>)
           else ([EncodeFile (fw_RecordingPath f) outputPath], f)
      else ([], f))"

definition stop_encrypted :: "RTPForwarder \<Rightarrow> cleanup_effect list \<times> RTPForwarder" where
  "stop_encrypted f =
     (if fw_EncryptedRecorder f \<and> fw_EncryptedSessionID f \<noteq> ''''
      then ([StopEncrypted (fw_EncryptedSessionID f)], f\<lparr>fw_EncryptedSessionID := ''''\<rparr>)
      else ([], f))"

definition upload :: "cleanup_env \<Rightarrow> RTPForwarder \<Rightarrow> cleanup_effect list" where
  "upload env f =
     (if fw_Storage f \<and> fw_RecordingPath f \<noteq> ''''
      then UploadRecording (fw_RecordingPath f) #
        (if ce_upload_ok env \<and> \<not> ce_keep_local env then [RemoveLocalRecording (fw_RecordingPath f)] else [])
      else [])"

definition Cleanup :: "cleanup_env \<Rightarrow> RTPForwarder \<Rightarrow> PortManager \<Rightarrow> (cleanup_effect list \<times> RTPForwarder \<times> PortManager) option" where
  "Cleanup env f pm =
     (if fw_isCleanedUp f then Some ([], f, pm)
      else do {
        pm' \<leftarrow> release_ports (ce_now env) f pm;
        let f1 = f\<lparr>fw_isCleanedUp := True, fw_Conn := False, fw_RTCPConn := False\<rparr>;
        let (e2, f2) = close_file f1;
        let e3 = redact env f2;
        let (e4, f4) = encode env f2;
        let (e5, f5) = stop_encrypted f4;
        let e6 = upload env f5;
        Some ((if fw_RemoteRTCPAddr f \<noteq> None then [SendRTCPBye] else []) @ e2 @ e3 @ e4 @ e5 @ e6 @
                (if fw_AudioProcessor f5 then [CloseProcessor] else []),
              f5\<lparr>fw_AudioProcessor := False, fw_SRTPMasterKey := [], fw_SRTPMasterSalt := []\<rparr>, pm')
      })"
section \<open>Configuration from the offer\<close>

text \<open>\<^verbatim>\<open>1 << exp\<close> at the width of \<^verbatim>\<open>int\<close>; a negative count panics.\<close>

definition shift_one :: "int \<Rightarrow> int option" where
  "shift_one e = (if e < 0 then None else if e \<ge> 64 then Some 0 else if e = 63 then Some (- (2 ^ 63)) else Some (2 ^ nat e))"

fun set_lifetime :: "string list \<Rightarrow> RTPForwarder \<Rightarrow> RTPForwarder option" where
  "set_lifetime [] f = Some f"
| "set_lifetime (param # ps) f =
     (if HasPrefix param ''2^''
      then case Atoi (TrimPrefix param ''2^'') of
             None \<Rightarrow> set_lifetime ps f
           | Some e \<Rightarrow> (case shift_one e of None \<Rightarrow> None | Some l \<Rightarrow> set_lifetime ps (f\<lparr>fw_SRTPKeyLifetime := l\<rparr>))
      else set_lifetime ps f)"

definition inline_key :: "string list \<Rightarrow> string" where
  "inline_key fds = (case find (\<lambda>x. HasPrefix x ''inline:'') fds of None \<Rightarrow> '''' | Some x \<Rightarrow> TrimPrefix x ''inline:'')"

definition parseSRTPAttributes :: "string \<Rightarrow> RTPForwarder \<Rightarrow> RTPForwarder option" where
  "parseSRTPAttributes v f =
     (let fds = Fields v
      in if length fds < 2 then Some f
         else
           let inline = inline_key (drop 2 fds)
           in if inline = '''' then Some f
              else
                let parts = Split inline (CHR ''|'')
                in case DecodeString (hd parts) of
                     None \<Rightarrow> Some f
                   | Some rawKey \<Rightarrow>
                       if length rawKey < 30 then Some f
                       else set_lifetime (tl parts)
                              (f\<lparr>fw_SRTPMasterKey := take 16 rawKey, fw_SRTPMasterSalt := take 14 (drop 16 rawKey), fw_SRTPProfile := fds ! 1\<rparr>))"

definition rtcp_port :: "string \<Rightarrow> int option" where
  "rtcp_port v = (case Fields v of [] \<Rightarrow> None | x # _ \<Rightarrow> Atoi x)"

text \<open>The loop over the attributes, the same for a session and for a media description.\<close>

fun apply_attributes :: "Attribute list \<Rightarrow> RTPForwarder \<Rightarrow> RTPForwarder option" where
  "apply_attributes [] f = Some f"
| "apply_attributes (a # as) f =
     (if at_Key a = ''rtcp-mux'' then apply_attributes as (f\<lparr>fw_UseRTCPMux := True\<rparr>)
      else if at_Key a = ''rtcp''
      then apply_attributes as (case rtcp_port (at_Value a) of None \<Rightarrow> f | Some p \<Rightarrow> f\<lparr>fw_ExpectedRemoteRTCPPort := p\<rparr>)
      else if at_Key a = ''crypto'' then Option.bind (parseSRTPAttributes (at_Value a) f) (apply_attributes as)
      else apply_attributes as f)"

definition rtpmap_matches :: "string \<Rightarrow> Attribute \<Rightarrow> bool" where
  "rtpmap_matches format a \<longleftrightarrow> at_Key a = ''rtpmap'' \<and> length (Fields (at_Value a)) = 2 \<and> hd (Fields (at_Value a)) = format"

definition codecDetailsFromAttributes :: "Attribute list \<Rightarrow> string \<Rightarrow> string \<times> int \<times> int" where
  "codecDetailsFromAttributes attrs format =
     (case find (rtpmap_matches format) attrs of
        None \<Rightarrow> ('''', 0, 1)
      | Some a \<Rightarrow>
          let ps = Split (Fields (at_Value a) ! 1) (CHR ''/'')
          in (ToUpper (hd ps),
              (case ps of _ # sr # _ \<Rightarrow> (case Atoi sr of Some r \<Rightarrow> r | None \<Rightarrow> 0) | _ \<Rightarrow> 0),
              (case ps of _ # _ # ch # _ \<Rightarrow> (case Atoi ch of Some c \<Rightarrow> if c > 0 then c else 1 | None \<Rightarrow> 1) | _ \<Rightarrow> 1)))"

text \<open>The first format that is a number.\<close>

fun apply_formats :: "Attribute list \<Rightarrow> string list \<Rightarrow> RTPForwarder \<Rightarrow> RTPForwarder" where
  "apply_formats attrs [] f = f"
| "apply_formats attrs (format # formats) f =
     (case Atoi (TrimSpace format) of
        None \<Rightarrow> apply_formats attrs formats f
      | Some pt \<Rightarrow>
          let (codecName, sampleRate, channels) = codecDetailsFromAttributes attrs format
          in case (if codecName = '''' then GetCodecInfo (word_of_int pt) else None) of
               Some info \<Rightarrow>
                 SetCodecInfo (word_of_int pt) (ci_Name info) (if sampleRate = 0 then ci_SampleRate info else sampleRate)
                   (if channels = 0 then ci_Channels info else channels) f
             | None \<Rightarrow> SetCodecInfo (word_of_int pt) codecName sampleRate channels f)"

definition applySessionAttributes :: "SessionDescription \<Rightarrow> RTPForwarder \<Rightarrow> RTPForwarder option" where
  "applySessionAttributes sdp f = apply_attributes (sd_Attributes sdp) f"

definition applyMediaAttributes :: "MediaDescription \<Rightarrow> RTPForwarder \<Rightarrow> RTPForwarder option" where
  "applyMediaAttributes md f = map_option (apply_formats (md_Attributes md) (md_Formats md)) (apply_attributes (md_Attributes md) f)"

text \<open>\<open>is_ip\<close> tells whether \<^verbatim>\<open>net.ParseIP\<close> accepts an address.\<close>

definition connection_address :: "SessionDescription \<Rightarrow> MediaDescription \<Rightarrow> string" where
  "connection_address sdp md =
     (case md_Connection md of
        Some (Some a) \<Rightarrow> a
      | _ \<Rightarrow> (case sd_Connection sdp of Some (Some a) \<Rightarrow> a | _ \<Rightarrow> ''''))"

definition offered_rtcp_port :: "MediaDescription \<Rightarrow> int" where
  "offered_rtcp_port md =
     (case find (\<lambda>a. at_Key a = ''rtcp'') (md_Attributes md) of
        None \<Rightarrow> md_Port md + 1
      | Some a \<Rightarrow> (case rtcp_port (at_Value a) of Some p \<Rightarrow> p | None \<Rightarrow> md_Port md + 1))"

definition setRemoteAddressHints :: "(string \<Rightarrow> bool) \<Rightarrow> SessionDescription \<Rightarrow> MediaDescription \<Rightarrow> RTPForwarder \<Rightarrow> RTPForwarder" where
  "setRemoteAddressHints is_ip sdp md f =
     (let connAddr = connection_address sdp md
      in if connAddr = '''' \<or> \<not> is_ip connAddr then f
         else f\<lparr>fw_RemoteRTPAddr := Some \<lparr>ua_IP = connAddr, ua_Port = md_Port md\<rparr>,
                fw_RemoteRTCPAddr := Some \<lparr>ua_IP = connAddr, ua_Port = offered_rtcp_port md\<rparr>\<rparr>)"

definition ConfigureForwarderForMediaDescription ::
  "(string \<Rightarrow> bool) \<Rightarrow> SessionDescription \<Rightarrow> MediaDescription \<Rightarrow> RTPForwarder \<Rightarrow> RTPForwarder option" where
  "ConfigureForwarderForMediaDescription is_ip sdp md f =
     do {
       f1 \<leftarrow> applySessionAttributes sdp f;
       f2 \<leftarrow> applyMediaAttributes md f1;
       Some (setRemoteAddressHints is_ip sdp md f2)
     }"

section \<open>Configuration: properties\<close>

text \<open>What the offer never changes: ports, life cycle and session of the forwarder.\<close>

definition same_core :: "RTPForwarder \<Rightarrow> RTPForwarder \<Rightarrow> bool" where
  "same_core f g \<longleftrightarrow>
     fw_LocalPort g = fw_LocalPort f \<and> fw_RTCPPort g = fw_RTCPPort f \<and> fw_stopped g = fw_stopped f \<and> fw_isCleanedUp g = fw_isCleanedUp f \<and>
     fw_RecordingSession g = fw_RecordingSession f \<and> fw_RecordingPaused g = fw_RecordingPaused f \<and>
     fw_TranscriptionPaused g = fw_TranscriptionPaused f \<and> fw_RecordingPath g = fw_RecordingPath f"

text \<open>Keys come in one length only: both empty, or sixteen and fourteen bytes.\<close>

definition srtp_ok :: "RTPForwarder \<Rightarrow> bool" where
  "srtp_ok f \<longleftrightarrow>
     (fw_SRTPMasterKey f = [] \<and> fw_SRTPMasterSalt f = []) \<or> (length (fw_SRTPMasterKey f) = 16 \<and> length (fw_SRTPMasterSalt f) = 14)"

lemma same_core_refl [simp]: "same_core f f"
  by (simp add: same_core_def)

lemma same_core_trans: "same_core f g \<Longrightarrow> same_core g h \<Longrightarrow> same_core f h"
  by (simp add: same_core_def)

lemma set_lifetime_keeps: "set_lifetime ps f = Some g \<Longrightarrow> same_core f g \<and> (srtp_ok f \<longrightarrow> srtp_ok g)"
proof (induction ps f rule: set_lifetime.induct)
  case (2 param ps f)
  show ?case
  proof (cases "HasPrefix param ''2^''")
    case True
    show ?thesis
    proof (cases "Atoi (TrimPrefix param ''2^'')")
      case None
      then show ?thesis using 2 True by simp
    next
      case (Some e)
      then obtain l where l: "shift_one e = Some l" using 2(4) True by (auto split: option.splits)
      then have "same_core (f\<lparr>fw_SRTPKeyLifetime := l\<rparr>) g \<and> (srtp_ok (f\<lparr>fw_SRTPKeyLifetime := l\<rparr>) \<longrightarrow> srtp_ok g)"
        using 2 True Some by simp
      then show ?thesis by (simp add: same_core_def srtp_ok_def)
    qed
  qed (use 2 in simp)
qed simp

lemma parseSRTPAttributes_keeps: "parseSRTPAttributes v f = Some g \<Longrightarrow> same_core f g \<and> (srtp_ok f \<longrightarrow> srtp_ok g)"
proof -
  assume g: "parseSRTPAttributes v f = Some g"
  show ?thesis
  proof (cases "g = f")
    case False
    then obtain key where key: "30 \<le> length key"
        "set_lifetime (tl (Split (inline_key (drop 2 (Fields v))) (CHR ''|'')))
           (f\<lparr>fw_SRTPMasterKey := take 16 key, fw_SRTPMasterSalt := take 14 (drop 16 key), fw_SRTPProfile := Fields v ! 1\<rparr>) = Some g"
      using g by (auto simp: parseSRTPAttributes_def Let_def not_less split: if_splits option.splits)
    then show ?thesis using set_lifetime_keeps[OF key(2)] by (simp add: same_core_def srtp_ok_def)
  qed simp
qed

lemma apply_attributes_keeps: "apply_attributes as f = Some g \<Longrightarrow> same_core f g \<and> (srtp_ok f \<longrightarrow> srtp_ok g)"
proof (induction as arbitrary: f)
  case (Cons a as)
  consider (crypto) h where "parseSRTPAttributes (at_Value a) f = Some h" "apply_attributes as h = Some g"
    | (other) h where "apply_attributes as h = Some g" "same_core f h" "srtp_ok f = srtp_ok h"
    using Cons.prems
    by (auto simp: same_core_def srtp_ok_def Option.bind_eq_Some_conv split: if_splits option.splits)
  then show ?case
  proof cases
    case crypto
    then show ?thesis using parseSRTPAttributes_keeps[of "at_Value a" f h] Cons.IH[of h] same_core_trans by blast
  next
    case other
    then show ?thesis using Cons.IH[of h] same_core_trans by blast
  qed
qed simp

lemma SetCodecInfo_keeps: "same_core f (SetCodecInfo pt n sr ch f) \<and> srtp_ok (SetCodecInfo pt n sr ch f) = srtp_ok f"
  by (simp add: same_core_def srtp_ok_def SetCodecInfo_def)

lemma apply_formats_keeps: "same_core f (apply_formats attrs fs f) \<and> srtp_ok (apply_formats attrs fs f) = srtp_ok f"
  by (induction fs) (auto simp: SetCodecInfo_keeps Let_def split_beta split: option.split)

lemma setRemoteAddressHints_keeps: "same_core f (setRemoteAddressHints is_ip sdp md f) \<and> srtp_ok (setRemoteAddressHints is_ip sdp md f) = srtp_ok f"
  by (simp add: setRemoteAddressHints_def Let_def same_core_def srtp_ok_def)

lemma Configure_keeps:
  assumes "ConfigureForwarderForMediaDescription is_ip sdp md f = Some g"
  shows "same_core f g \<and> (srtp_ok f \<longrightarrow> srtp_ok g)"
proof -
  obtain f1 f2 where f: "apply_attributes (sd_Attributes sdp) f = Some f1" "apply_attributes (md_Attributes md) f1 = Some f2"
      "g = setRemoteAddressHints is_ip sdp md (apply_formats (md_Attributes md) (md_Formats md) f2)"
    using assms
    by (auto simp: ConfigureForwarderForMediaDescription_def applySessionAttributes_def applyMediaAttributes_def Option.bind_eq_Some_conv)
  have "same_core f f1 \<and> (srtp_ok f \<longrightarrow> srtp_ok f1)" "same_core f1 f2 \<and> (srtp_ok f1 \<longrightarrow> srtp_ok f2)"
    using apply_attributes_keeps f by blast+
  moreover have "same_core f2 g \<and> srtp_ok g = srtp_ok f2"
    unfolding f(3) using apply_formats_keeps setRemoteAddressHints_keeps same_core_trans by metis
  ultimately show ?thesis using same_core_trans by blast
qed

text \<open>The characters of encoded keys and numbers.\<close>

lemma b64_char_graphic: "n < 64 \<Longrightarrow> graphic (b64_char n) \<and> b64_char n \<noteq> CHR ''|''"
proof -
  assume n: "n < 64"
  have m: "of_char (b64_char n) = (if n < 26 then 65 + n else if n < 52 then 71 + n else if n < 62 then n - 4 else if n = 62 then 43 else (47 :: nat))"
    using n by (simp add: b64_char_def of_char_of)
  have "of_char (b64_char n) \<noteq> (of_char CHR ''|'' :: nat)" unfolding m using n by auto
  then show ?thesis using m n by (auto simp: graphic_def)
qed

lemma EncodeToString_chars: "list_all (\<lambda>c. graphic c \<and> c \<noteq> CHR ''|'') (EncodeToString bs)"
proof -
  have eq: "graphic CHR ''=''" by (simp add: graphic_def)
  show ?thesis
    by (induction bs rule: EncodeToString.induct) (simp_all add: b64_char_graphic b64_splits eq)
qed

lemma EncodeToString_graphic: "list_all graphic (EncodeToString bs) \<and> CHR ''|'' \<notin> set (EncodeToString bs)"
  using EncodeToString_chars[of bs] by (auto simp: list_all_iff)

lemma is_digit_graphic: "is_digit c \<Longrightarrow> graphic c \<and> c \<noteq> CHR ''|''"
  by (auto simp: is_digit_def graphic_def Let_def)

lemma Itoa_graphic: "list_all graphic (Itoa i) \<and> CHR ''|'' \<notin> set (Itoa i) \<and> Itoa i \<noteq> []"
proof -
  have "list_all graphic (dec_digits n) \<and> CHR ''|'' \<notin> set (dec_digits n)" for n
    using dec_digits_ok[of n] is_digit_graphic by (auto simp: list_all_iff)
  moreover have "graphic CHR ''-''" by (simp add: graphic_def)
  ultimately show ?thesis using dec_digits_ok by (auto simp: Itoa_def)
qed

definition crypto_value :: "int \<Rightarrow> string \<Rightarrow> byte list \<Rightarrow> string \<Rightarrow> string" where
  "crypto_value tag profile key suffix = Itoa tag @ '' '' @ profile @ '' inline:'' @ EncodeToString key @ suffix"

lemma Fields_crypto:
  assumes "no_space profile" and "list_all graphic suffix"
  shows "Fields (crypto_value tag profile key suffix) = [Itoa tag, profile, ''inline:'' @ EncodeToString key @ suffix]"
proof -
  have "no_space (''inline:'' @ EncodeToString key @ suffix)" "no_space (Itoa tag)"
    using assms(2) EncodeToString_graphic Itoa_graphic by (auto simp: no_space_def graphic_def)
  then show ?thesis
    using assms(1) Fields_Cons[of "Itoa tag"] Fields_Cons[of profile] Fields_token by (simp add: crypto_value_def)
qed

lemma inline_key_append: "inline_key [''inline:'' @ x] = x"
  by (simp add: inline_key_def HasPrefix_def TrimPrefix_def)

lemma EncodeToString_nonempty: "bs \<noteq> [] \<Longrightarrow> EncodeToString bs \<noteq> []"
  by (cases bs rule: EncodeToString.cases) auto

lemma parse_crypto:
  assumes "no_space profile" and "30 \<le> length key" and "- (2 ^ 63) \<le> e" "e \<le> 2 ^ 63 - 1"
  shows "parseSRTPAttributes (crypto_value tag profile key (''|2^'' @ Itoa e)) f =
     map_option (\<lambda>l. f\<lparr>fw_SRTPMasterKey := take 16 key, fw_SRTPMasterSalt := take 14 (drop 16 key), fw_SRTPProfile := profile,
       fw_SRTPKeyLifetime := l\<rparr>) (shift_one e)"
proof -
  let ?inl = "EncodeToString key @ ''|2^'' @ Itoa e"
  have fds: "Fields (crypto_value tag profile key (''|2^'' @ Itoa e)) = [Itoa tag, profile, ''inline:'' @ ?inl]"
    using Fields_crypto[OF assms(1)] Itoa_graphic by (simp add: graphic_def)
  have split: "Split ?inl (CHR ''|'') = [EncodeToString key, ''2^'' @ Itoa e]"
    using Split_append[of "CHR ''|''" "EncodeToString key" "''2^'' @ Itoa e"] EncodeToString_graphic[of key] Itoa_graphic[of e]
      Split_no_sep[of "CHR ''|''" "''2^'' @ Itoa e"] by simp
  have trim: "HasPrefix (''2^'' @ Itoa e) ''2^''" "TrimPrefix (''2^'' @ Itoa e) ''2^'' = Itoa e"
    by (simp_all add: HasPrefix_def TrimPrefix_def)
  have atoi: "Atoi (Itoa e) = Some e" using assms(3,4) by (rule Atoi_Itoa)
  have "key \<noteq> []" using assms(2) by auto
  then have "EncodeToString key \<noteq> []" by (rule EncodeToString_nonempty)
  moreover have "set_lifetime [''2^'' @ Itoa e] g = map_option (\<lambda>l. g\<lparr>fw_SRTPKeyLifetime := l\<rparr>) (shift_one e)" for g
    using trim atoi by (simp split: option.split)
  moreover have "drop 2 [Itoa tag, profile, ''inline:'' @ ?inl] = [''inline:'' @ ?inl]" "\<not> length [Itoa tag, profile, ''inline:'' @ ?inl] < 2"
      "[Itoa tag, profile, ''inline:'' @ ?inl] ! 1 = profile" "?inl \<noteq> ''''" "\<not> length key < 30"
    using assms(2) by simp_all
  ultimately have "parseSRTPAttributes (crypto_value tag profile key (''|2^'' @ Itoa e)) f =
     map_option (\<lambda>l. f\<lparr>fw_SRTPMasterKey := take 16 key, fw_SRTPMasterSalt := take 14 (drop 16 key), fw_SRTPProfile := profile,
       fw_SRTPKeyLifetime := l\<rparr>) (shift_one e)"
    unfolding parseSRTPAttributes_def Let_def fds
    by (simp only: inline_key_append split list.sel DecodeString_EncodeToString option.case if_False)
  then show ?thesis .
qed

text \<open>C24: the crypto attribute of an offer. A key of at least thirty bytes with the key lifetime
  \<open>2^e\<close> gives the forwarder the first sixteen bytes as master key, the next fourteen as salt, the
  profile and the lifetime as a machine integer; an exponent below zero makes the handler panic.\<close>

theorem parseSRTPAttributes_parses:
  assumes "no_space profile" and "30 \<le> length key" and "- (2 ^ 63) \<le> e" "e \<le> 2 ^ 63 - 1"
  shows "parseSRTPAttributes (crypto_value tag profile key (''|2^'' @ Itoa e)) f =
     map_option (\<lambda>l. f\<lparr>fw_SRTPMasterKey := take 16 key, fw_SRTPMasterSalt := take 14 (drop 16 key), fw_SRTPProfile := profile,
       fw_SRTPKeyLifetime := l\<rparr>) (shift_one e) \<and>
     (shift_one e = None \<longleftrightarrow> e < 0)"
  by (rule conjI[OF parse_crypto[OF assms]]) (simp add: shift_one_def)

theorem parseSRTPAttributes_parses_witness:
  "parseSRTPAttributes (crypto_value 1 ''AES_CM_128_HMAC_SHA1_80'' (replicate 30 7) ''|2^-1'')
     (new_forwarder 0 None False False 1 \<lparr>RTPPort = 10000, RTCPPort = 10001\<rparr>) = None"
proof -
  have "Itoa (- 1) = ''-1''" by code_simp
  moreover have "no_space ''AES_CM_128_HMAC_SHA1_80''" by code_simp
  moreover have "shift_one (- 1) = None" by (simp add: shift_one_def)
  ultimately show ?thesis
    using parseSRTPAttributes_parses[of "''AES_CM_128_HMAC_SHA1_80''" "replicate 30 7" "- 1" 1
        "new_forwarder 0 None False False 1 \<lparr>RTPPort = 10000, RTCPPort = 10001\<rparr>"] by simp
qed

section \<open>Cleanup: properties\<close>

definition own_ports :: "RTPForwarder \<Rightarrow> int set" where
  "own_ports f = (if fw_RTCPPort f > 0 then {fw_LocalPort f, fw_RTCPPort f} else {fw_LocalPort f})"

lemma release_ports_inv:
  "pm_inv pm \<Longrightarrow> \<exists>pm'. release_ports now f pm = Some pm' \<and> pm_inv pm' \<and> pmg_usedPorts pm' = pmg_usedPorts pm - own_ports f"
  using ReleasePortPair_inv[of pm now "\<lparr>RTPPort = fw_LocalPort f, RTCPPort = fw_RTCPPort f\<rparr>"] ReleasePort_inv[of pm now "fw_LocalPort f"]
  by (simp add: release_ports_def own_ports_def)

lemmas cleanup_parts = close_file_def redact_def encode_def stop_encrypted_def upload_def Let_def

lemma Cleanup_result:
  assumes "\<not> fw_isCleanedUp f" and "release_ports (ce_now env) f pm = Some pm'"
  shows "\<exists>effs g. Cleanup env f pm = Some (effs, g, pm') \<and> fw_isCleanedUp g \<and> fw_LocalPort g = fw_LocalPort f \<and>
    fw_RTCPPort g = fw_RTCPPort f \<and> fw_stopped g = fw_stopped f"
proof -
  let ?g = "snd (stop_encrypted (snd (encode env (snd (close_file (f\<lparr>fw_isCleanedUp := True, fw_Conn := False, fw_RTCPConn := False\<rparr>))))))
      \<lparr>fw_AudioProcessor := False, fw_SRTPMasterKey := [], fw_SRTPMasterSalt := []\<rparr>"
  have "\<exists>effs. Cleanup env f pm = Some (effs, ?g, pm')"
    using assms by (simp add: Cleanup_def split_beta Let_def)
  moreover have "fw_isCleanedUp ?g \<and> fw_LocalPort ?g = fw_LocalPort f \<and> fw_RTCPPort ?g = fw_RTCPPort f \<and> fw_stopped ?g = fw_stopped f"
    by (simp add: cleanup_parts)
  ultimately show ?thesis by blast
qed

text \<open>C23: a forwarder gives its ports back once. The first cleanup returns and removes exactly its RTP and
  RTCP port from the ports in use; every later cleanup, by the goroutine or by the call's end, does
  nothing, so that ports which another call has meanwhile been given stay with that call.\<close>

theorem Cleanup_once:
  assumes "pm_inv pm" and "\<not> fw_isCleanedUp f" and "fw_RTCPPort f > 0"
  shows "\<exists>effs g pm'. Cleanup env f pm = Some (effs, g, pm') \<and> pm_inv pm' \<and>
     pmg_usedPorts pm' = pmg_usedPorts pm - {fw_LocalPort f, fw_RTCPPort f} \<and> (\<forall>env2 pm2. Cleanup env2 g pm2 = Some ([], g, pm2))"
proof -
  obtain pm' where pm': "release_ports (ce_now env) f pm = Some pm'" "pm_inv pm'" "pmg_usedPorts pm' = pmg_usedPorts pm - own_ports f"
    using release_ports_inv[OF assms(1)] by blast
  obtain effs g where g: "Cleanup env f pm = Some (effs, g, pm')" "fw_isCleanedUp g"
    using Cleanup_result[OF assms(2) pm'(1)] by blast
  have "Cleanup env2 g pm2 = Some ([], g, pm2)" for env2 pm2 using g(2) by (simp add: Cleanup_def)
  then show ?thesis using g(1) pm' assms(3) by (auto simp: own_ports_def)
qed

definition idle_env :: cleanup_env where
  "idle_env = \<lparr>ce_now = 5, ce_intervals = 1, ce_redact_ok = False, ce_encode_ok = True, ce_upload_ok = True, ce_keep_local = False\<rparr>"

definition one_call :: PortManager where
  "one_call = take_ports [10000, 10001] 0 (NewPortManager 10000 10100)"

definition call_forwarder :: RTPForwarder where
  "call_forwarder = new_forwarder 30 (Some ''s1'') True False 7 \<lparr>RTPPort = 10000, RTCPPort = 10001\<rparr>"

lemma one_call_inv: "pm_inv one_call" "pmg_usedPorts one_call = {10000, 10001}"
  unfolding one_call_def by (intro take_ports_inv NewPortManager_inv) (simp_all add: NewPortManager_def take_ports_def)

lemma call_forwarder_simps:
  "\<not> fw_isCleanedUp call_forwarder" "fw_RTCPPort call_forwarder = 10001" "fw_LocalPort call_forwarder = 10000" "fw_PIIAudioMarker call_forwarder"
  by (simp_all add: call_forwarder_def new_forwarder_def)

theorem Cleanup_once_witness:
  "\<exists>effs g pm'. Cleanup idle_env call_forwarder one_call = Some (effs, g, pm') \<and> pmg_usedPorts pm' = {}"
proof -
  have "fw_RTCPPort call_forwarder > 0" by (simp add: call_forwarder_simps)
  from Cleanup_once[OF one_call_inv(1) call_forwarder_simps(1) this, of idle_env]
  show ?thesis unfolding one_call_inv(2) call_forwarder_simps(2,3) by auto
qed



end

