(* ===== verification/AudioCodec.thy ===== *)
theory AudioCodec
  imports SdpTypes
begin

unbundle bit_operations_syntax

text \<open>
  \<^verbatim>\<open>pkg/media/audio_conversion.go\<close> and the EVS part of \<^verbatim>\<open>pkg/media/codec.go\<close>: decoding of RTP payloads
  to 16-bit linear PCM. Bytes and samples are words of their width; the integers of the G.722 decoder
  stay far below the width of \<^verbatim>\<open>int\<close> and are integers, \<^verbatim>\<open>>>\<close> on them is division rounding down. The
  decoders of Opus and G.729 are C libraries and, like the floating-point synthesis of an active EVS
  frame, arguments.
\<close>

section \<open>G.711\<close>

definition decodeMuLawSample :: "byte \<Rightarrow> 16 word" where
  "decodeMuLawSample uval0 =
     (let uval = NOT uval0;
          sign = uval AND 0x80;
          exponent = drop_bit 4 uval AND 0x07;
          mantissa = uval AND 0x0F;
          magnitude = push_bit (unat exponent) (push_bit 3 (ucast mantissa) + 0x84) - 0x84
      in if sign \<noteq> 0 then - magnitude else magnitude)"

definition alaw_magnitude :: "byte \<Rightarrow> 16 word" where
  "alaw_magnitude aval =
     (let exponent = drop_bit 4 aval AND 0x07;
          mantissa = aval AND 0x0F
      in if exponent = 0 then ucast (push_bit 4 mantissa) + 8
         else if exponent = 1 then ucast (push_bit 5 mantissa) + 0x108
         else push_bit (unat exponent - 1) (ucast (push_bit 5 mantissa) + 0x108))"

definition decodeALawSample :: "byte \<Rightarrow> 16 word" where
  "decodeALawSample aval0 =
     (let aval = aval0 XOR 0x55; sign = aval AND 0x80; magnitude = alaw_magnitude aval
      in if sign \<noteq> 0 then - magnitude else magnitude)"

text \<open>The two bytes of a sample, low byte first.\<close>

definition sample_bytes :: "16 word \<Rightarrow> byte list" where
  "sample_bytes s = [ucast s, ucast (drop_bit 8 s)]"

definition muLawToPCM :: "byte list \<Rightarrow> byte list" where
  "muLawToPCM payload = concat (map (\<lambda>b. sample_bytes (decodeMuLawSample b)) payload)"

definition aLawToPCM :: "byte list \<Rightarrow> byte list" where
  "aLawToPCM payload = concat (map (\<lambda>b. sample_bytes (decodeALawSample b)) payload)"

section \<open>G.722\<close>

definition clampInt :: "int \<Rightarrow> int \<Rightarrow> int \<Rightarrow> int" where
  "clampInt v lo hi = (if v < lo then lo else if v > hi then hi else v)"

definition clampInt16 :: "int \<Rightarrow> 16 word" where
  "clampInt16 v = word_of_int (clampInt v (- 32768) 32767)"

record g722BandState =
  bs_s :: int
  bs_sp :: int
  bs_r :: "int list"
  bs_a :: "int list"
  bs_p :: "int list"
  bs_d :: "int list"
  bs_b :: "int list"
  bs_sg :: "int list"
  bs_nb :: int
  bs_det :: int

record G722Decoder =
  gd_lowBand :: g722BandState
  gd_highBand :: g722BandState
  gd_qmf :: "int list"

definition g722LowerILB :: "int list" where
  "g722LowerILB =
     [2048, 2093, 2139, 2186, 2233, 2282, 2332, 2383, 2435, 2489, 2543, 2599, 2656, 2714, 2774, 2834,
      2896, 2960, 3025, 3091, 3158, 3228, 3298, 3371, 3444, 3520, 3597, 3676, 3756, 3838, 3922, 4008]"

definition g722LowerWL :: "int list" where
  "g722LowerWL = [- 60, - 30, 58, 172, 334, 538, 1198, 3042]"

definition g722LowerRQ :: "int list" where
  "g722LowerRQ =
     [- 2048, - 1792, - 1536, - 1280, - 1024, - 768, - 512, - 256, 0, 256, 512, 768, 1024, 1280, 1536, 1792,
      - 1984, - 1856, - 1728, - 1600, - 1472, - 1344, - 1216, - 1088, - 960, - 832, - 704, - 576, - 448, - 320, - 192, - 64,
      64, 192, 320, 448, 576, 704, 832, 960, 1088, 1216, 1344, 1472, 1600, 1728, 1856, 1984,
      - 1920, - 1664, - 1408, - 1152, - 896, - 640, - 384, - 128, 128, 384, 640, 896, 1152, 1408, 1664, 1920]"

definition g722HigherIH :: "int list" where
  "g722HigherIH = [- 816, - 280, 280, 816]"

definition g722HigherWH :: "int list" where
  "g722HigherWH = [0, - 214, 798, 0]"

definition g722QMFCoeffs :: "int list" where
  "g722QMFCoeffs = [3, - 11, 12, 32, - 210, 951, 3876, - 805, 362, - 156, 53, - 11]"

definition new_band :: "int \<Rightarrow> g722BandState" where
  "new_band det =
     \<lparr>bs_s = 0, bs_sp = 0, bs_r = [0, 0, 0], bs_a = [0, 0, 0], bs_p = [0, 0, 0], bs_d = replicate 7 0, bs_b = replicate 7 0,
      bs_sg = replicate 7 0, bs_nb = 0, bs_det = det\<rparr>"

definition NewG722Decoder :: G722Decoder where
  "NewG722Decoder = \<lparr>gd_lowBand = new_band 32, gd_highBand = new_band 8, gd_qmf = replicate 24 0\<rparr>"

text \<open>The step of a zero coefficient: by the sign of the difference and of a past one.\<close>

definition zero_step :: "int \<Rightarrow> int \<Rightarrow> int" where
  "zero_step w sg =
     (if w = 0 then 0
      else if sg = 0 then (if w > 0 then 128 else - 128)
      else if (w > 0) = (sg > 0) then 128 else - 128)"

definition pole_step :: "int \<Rightarrow> int \<Rightarrow> int" where
  "pole_step w p = (if w = 0 then 0 else if p = 0 then 0 else if (w > 0) = (p > 0) then 128 else - 128)"

text \<open>The loop of the zero section, from index six down to one: the arrays and the running sum.\<close>

fun zero_loop :: "int \<Rightarrow> nat \<Rightarrow> int list \<times> int list \<times> int list \<times> int \<Rightarrow> int list \<times> int list \<times> int list \<times> int" where
  "zero_loop w 0 st = st"
| "zero_loop w (Suc i) (d, sg, b, sz) =
     (let d' = d[Suc i := d ! i];
          sg' = sg[Suc i := sg ! i];
          b' = b[Suc i := clampInt (b ! Suc i * 32640 div 2 ^ 15 + zero_step w (sg' ! Suc i)) (- 32768) 32767]
      in zero_loop w i (d', sg', b', sz + d' ! Suc i * (b' ! Suc i) div 2 ^ 14))"

fun pole_loop :: "int \<Rightarrow> nat \<Rightarrow> int list \<times> int list \<times> int list \<times> int \<Rightarrow> int list \<times> int list \<times> int list \<times> int" where
  "pole_loop w 0 st = st"
| "pole_loop w (Suc i) (r, p, a, sp) =
     (let r' = r[Suc i := r ! i];
          p' = p[Suc i := p ! i];
          a' = a[Suc i := clampInt (a ! Suc i * 32512 div 2 ^ 15 + pole_step w (p' ! Suc i)) (- 32768) 32767]
      in pole_loop w i (r', p', a', sp + r' ! Suc i * (a' ! Suc i) div 2 ^ 14))"

text \<open>Both sub-bands run the same predictor on the reconstructed difference; they differ in the clamp of the
  difference that steers the zero section, in the table that adapts the scale factor and in its bound.\<close>

definition band_step :: "int \<Rightarrow> int \<Rightarrow> int \<Rightarrow> int \<Rightarrow> g722BandState \<Rightarrow> int \<times> g722BandState" where
  "band_step diff steer wnb maxnb band =
     (let rec = clampInt (bs_sp band + diff) (- 16384) 16383;
          (d, sg, b, sz) = zero_loop steer 6 (bs_d band, bs_sg band, bs_b band, 0);
          d' = d[0 := diff];
          sg' = sg[0 := (if diff > 0 then 1 else if diff < 0 then - 1 else 0)];
          w = clampInt (rec - sz) (- 32768) 32767;
          (r, p, a, sp) = pole_loop w 2 (bs_r band, bs_p band, bs_a band, 0)
      in (rec, band\<lparr>bs_d := d', bs_sg := sg', bs_b := b, bs_r := r[0 := rec], bs_p := p[0 := w], bs_a := a,
            bs_sp := clampInt (sz + sp) (- 16384) 16383, bs_s := rec,
            bs_nb := clampInt (bs_nb band * 32127 div 2 ^ 15 + wnb) 0 maxnb\<rparr>))"

definition scale_of :: "g722BandState \<Rightarrow> int" where
  "scale_of band = g722LowerILB ! nat (bs_nb band AND 0x1F)"

definition decodeLowerSubBand :: "nat \<Rightarrow> G722Decoder \<Rightarrow> int \<times> G722Decoder" where
  "decodeLowerSubBand ilow g =
     (let band = gd_lowBand g;
          dlowt = g722LowerRQ ! (ilow mod 64) * scale_of band div 2 ^ 15;
          (r, band') = band_step dlowt (clampInt dlowt (- 32768) 32767) (g722LowerWL ! (ilow div 4 mod 8)) 18432 band
      in (r, g\<lparr>gd_lowBand := band'\<rparr>))"

definition decodeHigherSubBand :: "nat \<Rightarrow> G722Decoder \<Rightarrow> int \<times> G722Decoder" where
  "decodeHigherSubBand ihigh g =
     (let band = gd_highBand g;
          dhigh = g722HigherIH ! ihigh * scale_of band div 2 ^ 15;
          (r, band') = band_step dhigh dhigh (g722HigherWH ! (ihigh mod 4)) 22528 band
      in (r, g\<lparr>gd_highBand := band'\<rparr>))"

definition qmfSynthesis :: "int \<Rightarrow> int \<Rightarrow> G722Decoder \<Rightarrow> (int \<times> int) \<times> G722Decoder" where
  "qmfSynthesis rlow rhigh g =
     (let h = (rlow - rhigh) # (rlow + rhigh) # take 22 (gd_qmf g);
          xout2 = (\<Sum>i\<leftarrow>[0..<12]. h ! (2 * i) * g722QMFCoeffs ! i);
          xout1 = (\<Sum>i\<leftarrow>[0..<12]. h ! (2 * i + 1) * g722QMFCoeffs ! (11 - i))
      in ((xout1 div 2 ^ 11, xout2 div 2 ^ 11), g\<lparr>gd_qmf := h\<rparr>))"

definition g722_byte :: "byte \<Rightarrow> G722Decoder \<Rightarrow> byte list \<times> G722Decoder" where
  "g722_byte code g =
     (let (rlow, g1) = decodeLowerSubBand (unat code mod 64) g;
          (rhigh, g2) = decodeHigherSubBand (unat code div 64 mod 4) g1;
          ((xout1, xout2), g3) = qmfSynthesis rlow rhigh g2
      in (sample_bytes (clampInt16 xout1) @ sample_bytes (clampInt16 xout2), g3))"

fun g722_bytes :: "byte list \<Rightarrow> G722Decoder \<Rightarrow> byte list" where
  "g722_bytes [] g = []"
| "g722_bytes (c # cs) g = (let (out, g') = g722_byte c g in out @ g722_bytes cs g')"

text \<open>A new decoder for every packet.\<close>

definition decodeG722Packet :: "byte list \<Rightarrow> string + byte list" where
  "decodeG722Packet payload = (if payload = [] then Inl ''empty G.722 payload'' else Inr (g722_bytes payload NewG722Decoder))"

section \<open>EVS\<close>

definition evs_mode :: "int \<Rightarrow> string" where
  "evs_mode sampleRate =
     (if sampleRate \<ge> 48000 then ''FB'' else if sampleRate \<ge> 32000 then ''SWB'' else if sampleRate \<ge> 16000 then ''WB'' else ''NB'')"

definition samplesPerFrame :: "int \<Rightarrow> nat" where
  "samplesPerFrame sampleRate =
     (let m = evs_mode sampleRate in if m = ''FB'' then 960 else if m = ''SWB'' then 640 else if m = ''WB'' then 320 else 160)"

definition generateSilence :: "nat \<Rightarrow> nat \<Rightarrow> byte list" where
  "generateSilence samples channels = replicate (samples * channels * 2) 0"

text \<open>The remainder of Go keeps the sign of the dividend, which is not negative here.\<close>

definition comfort_sample :: "nat \<Rightarrow> 16 word" where
  "comfort_sample i = word_of_int ((int i * 1103515245 + 12345) mod 2 ^ 15 mod 200 - 100)"

definition generateComfortNoise :: "nat \<Rightarrow> nat \<Rightarrow> byte list" where
  "generateComfortNoise samples channels = concat (map (\<lambda>i. sample_bytes (comfort_sample i)) [0..<samples * channels])"

definition evs_Decode :: "(int \<Rightarrow> byte list \<Rightarrow> string + byte list) \<Rightarrow> int \<Rightarrow> nat \<Rightarrow> byte list \<Rightarrow> string + byte list" where
  "evs_Decode active sampleRate channels packet =
     (if length packet < 2 then Inl ''invalid EVS packet''
      else
        let frameType = drop_bit 3 (hd packet) AND 0x0F; samples = samplesPerFrame sampleRate
        in if frameType = 0 then Inr (generateSilence samples channels)
           else if frameType = 1 then Inr (generateComfortNoise samples channels)
           else if frameType \<le> 7 then active sampleRate (tl packet)
           else Inl ''unknown EVS frame type'')"

definition processEVSPacket :: "(int \<Rightarrow> byte list \<Rightarrow> string + byte list) \<Rightarrow> int \<Rightarrow> nat \<Rightarrow> byte list \<Rightarrow> string + byte list" where
  "processEVSPacket active sampleRate channels payload =
     (if payload = [] then Inl ''empty EVS payload'' else evs_Decode active sampleRate channels payload)"

section \<open>Dispatch\<close>

record native_codecs =
  nc_opus :: "nat \<Rightarrow> byte list \<Rightarrow> string + byte list"
  nc_g729 :: "byte list \<Rightarrow> string + byte list"
  nc_evs_active :: "int \<Rightarrow> byte list \<Rightarrow> string + byte list"

definition DecodeAudioPayload :: "native_codecs \<Rightarrow> byte list \<Rightarrow> string \<Rightarrow> string + byte list" where
  "DecodeAudioPayload nc payload codecName =
     (if codecName \<in> set ['''', ''PCMU'', ''G711U'', ''G.711U'', ''G711MU''] then Inr (muLawToPCM payload)
      else if codecName \<in> set [''PCMA'', ''G711A'', ''G.711A''] then Inr (aLawToPCM payload)
      else if codecName \<in> set [''L16'', ''LINEAR16''] then Inr payload
      else if codecName = ''OPUS'' then nc_opus nc 2 payload
      else if codecName = ''OPUS_MONO'' then nc_opus nc 1 payload
      else if codecName = ''G722'' then decodeG722Packet payload
      else if codecName = ''EVS'' then processEVSPacket (nc_evs_active nc) 16000 1 payload
      else if codecName = ''EVS_WB'' then processEVSPacket (nc_evs_active nc) 32000 1 payload
      else if codecName = ''EVS_SWB'' then processEVSPacket (nc_evs_active nc) 48000 1 payload
      else if codecName \<in> set [''G729'', ''G.729'', ''G729A''] then nc_g729 nc payload
      else Inl (''unsupported codec for PCM conversion: '' @ codecName))"

section \<open>G.711: properties\<close>

text \<open>The two decoders of the recommendation, on integers.\<close>

definition g711_mu :: "int \<Rightarrow> int" where
  "g711_mu c =
     (let u = 255 - c; e = nat (u div 16 mod 8); m = u mod 16; mag = ((2 * m + 33) * 2 ^ e - 33) * 4
      in if u \<ge> 128 then - mag else mag)"

text \<open>A-law codes have every other bit inverted: exponent and mantissa of a code, and the magnitude of its
  sample.\<close>

definition alaw_exponent :: "byte \<Rightarrow> int" where
  "alaw_exponent a = uint a div 16 mod 8"

definition alaw_mantissa :: "byte \<Rightarrow> int" where
  "alaw_mantissa a = uint a mod 16"

definition g711_a_magnitude :: "byte \<Rightarrow> int" where
  "g711_a_magnitude a =
     (if alaw_exponent a = 0 then 16 * alaw_mantissa a + 8
      else (16 * alaw_mantissa a + 264) * 2 ^ nat (alaw_exponent a - 1))"

definition all_bytes :: "byte list" where
  "all_bytes = map word_of_int [0..255]"

lemma all_bytes_UNIV: "b \<in> set all_bytes"
proof -
  have "uint b \<in> {0..255}" using uint_bounded[of b] by simp
  then have "word_of_int (uint b) \<in> (word_of_int ` {0..255} :: byte set)" by blast
  then show ?thesis unfolding word_of_int_uint by (simp add: all_bytes_def)
qed

lemma byte_cases: "list_all P all_bytes \<Longrightarrow> P b"
  using all_bytes_UNIV by (auto simp: list_all_iff)

lemma decodeMuLawSample_correct: "sint (decodeMuLawSample b) = g711_mu (uint b)"
proof (rule byte_cases)
  show "list_all (\<lambda>b. sint (decodeMuLawSample b) = g711_mu (uint b)) all_bytes" by code_simp
qed

text \<open>The samples a reader of the PCM stream sees: pairs of bytes, low byte first, as signed integers.\<close>

fun pcm_samples :: "byte list \<Rightarrow> int list" where
  "pcm_samples (lo # hi # bs) = sint (word_cat hi lo :: 16 word) # pcm_samples bs"
| "pcm_samples _ = []"

lemma sample_bytes_length [simp]: "length (sample_bytes s) = 2"
  by (simp add: sample_bytes_def)

lemma word_cat_halves: "word_cat (ucast (drop_bit 8 s) :: byte) (ucast s :: byte) = (s :: 16 word)"
  by (rule bit_word_eqI) (auto simp: bit_word_cat_iff bit_ucast_iff bit_drop_bit_eq)

lemma pcm_samples_append [simp]: "pcm_samples (sample_bytes s @ bs) = sint s # pcm_samples bs"
  by (simp add: sample_bytes_def word_cat_halves)

text \<open>C27: a \<open>\<mu>\<close>-law payload is decoded as the recommendation says: the reader of the PCM stream sees one sample per
  code, in the order of the codes, with the value the recommendation gives; no intermediate value leaves sixteen
  bits.\<close>

theorem muLawToPCM_correct: "pcm_samples (muLawToPCM payload) = map (g711_mu \<circ> uint) payload"
  by (induction payload) (simp_all add: muLawToPCM_def decodeMuLawSample_correct)

lemma alaw_magnitude_less: "uint (alaw_magnitude a) < 2 ^ 15"
proof (rule byte_cases)
  show "list_all (\<lambda>a. uint (alaw_magnitude a) < 2 ^ 15) all_bytes" by code_simp
qed

lemma sint_small:
  fixes m :: "16 word"
  assumes "uint m < 2 ^ 15"
  shows "sint m = uint m" and "sint (- m) = - uint m"
proof -
  have "sint (word_of_int (uint m) :: 16 word) = uint m" "sint (word_of_int (- uint m) :: 16 word) = - uint m"
    unfolding sint_sbintrunc' using assms less_le_trans[OF _ uint_ge_0[of m], of "- 32768"] by (simp_all add: minus_less_iff signed_take_bit_int_eq_self_iff)
  then show "sint m = uint m" "sint (- m) = - uint m" by simp_all
qed

lemma decodeALawSample_abs: "\<bar>sint (decodeALawSample b)\<bar> = uint (alaw_magnitude (b XOR 0x55))"
  using sint_small[OF alaw_magnitude_less[of "b XOR 0x55"]] by (simp add: decodeALawSample_def Let_def)

text \<open>C28: A-law is decoded wrongly. The magnitude agrees with the recommendation only in the lowest segment and
  for mantissa zero: elsewhere the mantissa is shifted by one place too many and its top bit is lost.\<close>

theorem decodeALawSample_wrong:
  "\<bar>sint (decodeALawSample b)\<bar> = g711_a_magnitude (b XOR 0x55) \<longleftrightarrow> alaw_exponent (b XOR 0x55) = 0 \<or> alaw_mantissa (b XOR 0x55) = 0"
proof -
  have "list_all (\<lambda>a. uint (alaw_magnitude a) = g711_a_magnitude a \<longleftrightarrow> alaw_exponent a = 0 \<or> alaw_mantissa a = 0) all_bytes"
    by code_simp
  then show ?thesis
    unfolding decodeALawSample_abs by (rule byte_cases)
qed
section \<open>G.722 and EVS: properties\<close>

text \<open>The state of a sub-band: arrays of the lengths the code declares, coefficients and differences of sixteen
  bits, predictions of fifteen, signs, and a scale index within its bound.\<close>

definition int_in :: "int \<Rightarrow> int \<Rightarrow> int \<Rightarrow> bool" where
  "int_in lo hi v \<longleftrightarrow> lo \<le> v \<and> v \<le> hi"

abbreviation bits16 :: "int \<Rightarrow> bool" where
  "bits16 \<equiv> int_in (- 32768) 32767"

abbreviation bits15 :: "int \<Rightarrow> bool" where
  "bits15 \<equiv> int_in (- 16384) 16383"

definition array_of :: "nat \<Rightarrow> (int \<Rightarrow> bool) \<Rightarrow> int list \<Rightarrow> bool" where
  "array_of n P xs \<longleftrightarrow> length xs = n \<and> list_all P xs"

definition band_ok :: "int \<Rightarrow> g722BandState \<Rightarrow> bool" where
  "band_ok maxnb band \<longleftrightarrow>
     array_of 3 bits15 (bs_r band) \<and> array_of 3 bits16 (bs_p band) \<and> array_of 3 bits16 (bs_a band)
     \<and> array_of 7 bits16 (bs_d band) \<and> array_of 7 (int_in (- 1) 1) (bs_sg band) \<and> array_of 7 bits16 (bs_b band)
     \<and> bits15 (bs_sp band) \<and> bits15 (bs_s band) \<and> int_in 0 maxnb (bs_nb band)"

definition g722_ok :: "G722Decoder \<Rightarrow> bool" where
  "g722_ok g \<longleftrightarrow> band_ok 18432 (gd_lowBand g) \<and> band_ok 22528 (gd_highBand g) \<and> array_of 24 bits16 (gd_qmf g)"

lemma clampInt_in: "lo \<le> hi \<Longrightarrow> int_in lo hi (clampInt v lo hi)"
  by (simp add: int_in_def clampInt_def)

lemma array_of_update: "\<lbrakk>array_of n P xs; P v\<rbrakk> \<Longrightarrow> array_of n P (xs[i := v])"
  by (auto simp: array_of_def list_all_iff dest: set_update_subset_insert[THEN subsetD])

lemma array_of_nth: "\<lbrakk>array_of n P xs; i < n\<rbrakk> \<Longrightarrow> P (xs ! i)"
  by (simp add: array_of_def list_all_length)

text \<open>A loop of the predictor leaves the shape of its three arrays as it found it.\<close>

lemma zero_loop_shape:
  "\<lbrakk>zero_loop w i (d, sg, b, sz) = (d', sg', b', sz'); i < 7; array_of 7 bits16 d; array_of 7 (int_in (- 1) 1) sg; array_of 7 bits16 b\<rbrakk>
   \<Longrightarrow> array_of 7 bits16 d' \<and> array_of 7 (int_in (- 1) 1) sg' \<and> array_of 7 bits16 b'"
proof (induction i arbitrary: d sg b sz)
  case (Suc i)
  note run = Suc(2)[unfolded zero_loop.simps Let_def]
  show ?case
    by (rule Suc(1)[OF run]) (use Suc(3-) in \<open>simp_all add: array_of_update clampInt_in array_of_nth\<close>)
qed simp

lemma pole_loop_shape:
  "\<lbrakk>pole_loop w i (r, p, a, sp) = (r', p', a', sp'); i < 3; array_of 3 bits15 r; array_of 3 bits16 p; array_of 3 bits16 a\<rbrakk>
   \<Longrightarrow> array_of 3 bits15 r' \<and> array_of 3 bits16 p' \<and> array_of 3 bits16 a'"
proof (induction i arbitrary: r p a sp)
  case (Suc i)
  note run = Suc(2)[unfolded pole_loop.simps Let_def]
  show ?case
    by (rule Suc(1)[OF run]) (use Suc(3-) in \<open>simp_all add: array_of_update clampInt_in array_of_nth\<close>)
qed simp

lemma band_step_ok:
  assumes ok: "band_ok maxnb band" and diff: "bits16 diff" and step: "band_step diff steer wnb maxnb band = (rec, band')"
    and nb: "0 \<le> maxnb"
  shows "bits15 rec \<and> band_ok maxnb band'"
proof -
  obtain d sg b sz where z: "zero_loop steer 6 (bs_d band, bs_sg band, bs_b band, 0) = (d, sg, b, sz)"
    by (cases "zero_loop steer 6 (bs_d band, bs_sg band, bs_b band, 0)")
  let ?rec = "clampInt (bs_sp band + diff) (- 16384) 16383"
  let ?w = "clampInt (?rec - sz) (- 32768) 32767"
  obtain r p a sp where q: "pole_loop ?w 2 (bs_r band, bs_p band, bs_a band, 0) = (r, p, a, sp)"
    by (cases "pole_loop ?w 2 (bs_r band, bs_p band, bs_a band, 0)")
  have "array_of 7 bits16 d \<and> array_of 7 (int_in (- 1) 1) sg \<and> array_of 7 bits16 b"
    by (rule zero_loop_shape[OF z]) (use ok in \<open>simp_all add: band_ok_def\<close>)
  moreover have "array_of 3 bits15 r \<and> array_of 3 bits16 p \<and> array_of 3 bits16 a"
    by (rule pole_loop_shape[OF q]) (use ok in \<open>simp_all add: band_ok_def\<close>)
  moreover have "rec = ?rec"
    "band' = band\<lparr>bs_d := d[0 := diff], bs_sg := sg[0 := (if diff > 0 then 1 else if diff < 0 then - 1 else 0)], bs_b := b,
       bs_r := r[0 := ?rec], bs_p := p[0 := ?w], bs_a := a, bs_sp := clampInt (sz + sp) (- 16384) 16383, bs_s := ?rec,
       bs_nb := clampInt (bs_nb band * 32127 div 2 ^ 15 + wnb) 0 maxnb\<rparr>"
    using step unfolding band_step_def Let_def z q prod.case prod.inject by (blast, blast)
  moreover have "int_in (- 1) 1 (if diff > 0 then 1 else if diff < 0 then - 1 else 0)"
    by (simp add: int_in_def)
  ultimately show ?thesis
    using diff nb by (auto simp: band_ok_def intro!: array_of_update clampInt_in)
qed

text \<open>The tables keep the dequantised difference small, whatever the scale index.\<close>

lemma scale_of_range: "2048 \<le> scale_of band \<and> scale_of band \<le> 4008"
proof -
  have "nat (bs_nb band AND 0x1F) < 32"
    using AND_upper2[of 31 "bs_nb band"] by linarith
  moreover have "list_all (\<lambda>v. 2048 \<le> v \<and> v \<le> 4008) g722LowerILB" by code_simp
  moreover have "length g722LowerILB = 32" by code_simp
  ultimately show ?thesis by (simp add: scale_of_def list_all_length)
qed

lemma dequantised_bits16:
  assumes "int_in (- 2048) 2048 q"
  shows "bits16 (q * scale_of band div 2 ^ 15)"
proof -
  have "\<bar>q * scale_of band\<bar> \<le> 2048 * 4008"
    unfolding abs_mult using assms scale_of_range[of band] by (intro mult_mono) (auto simp: int_in_def)
  then show ?thesis by (auto simp: int_in_def)
qed

lemma table_entries:
  "i < 64 \<Longrightarrow> int_in (- 2048) 2048 (g722LowerRQ ! i)" "j < 4 \<Longrightarrow> int_in (- 2048) 2048 (g722HigherIH ! j)"
proof -
  have "list_all (int_in (- 2048) 2048) g722LowerRQ" "length g722LowerRQ = 64"
    "list_all (int_in (- 2048) 2048) g722HigherIH" "length g722HigherIH = 4" by code_simp+
  then show "i < 64 \<Longrightarrow> int_in (- 2048) 2048 (g722LowerRQ ! i)" "j < 4 \<Longrightarrow> int_in (- 2048) 2048 (g722HigherIH ! j)"
    by (simp_all add: list_all_length)
qed

lemma decodeLowerSubBand_ok:
  assumes "g722_ok g" "decodeLowerSubBand ilow g = (r, g')"
  shows "bits15 r \<and> g722_ok g'"
proof -
  let ?d = "g722LowerRQ ! (ilow mod 64) * scale_of (gd_lowBand g) div 2 ^ 15"
  obtain band' where b: "band_step ?d (clampInt ?d (- 32768) 32767) (g722LowerWL ! (ilow div 4 mod 8)) 18432 (gd_lowBand g) = (r, band')"
    and g': "g' = g\<lparr>gd_lowBand := band'\<rparr>"
    using assms(2) unfolding decodeLowerSubBand_def Let_def by (auto split: prod.splits)
  have "bits15 r \<and> band_ok 18432 band'"
    using assms(1) by (intro band_step_ok[OF _ _ b] dequantised_bits16 table_entries) (simp_all add: g722_ok_def)
  with assms(1) show ?thesis by (simp add: g722_ok_def g')
qed

lemma decodeHigherSubBand_ok:
  assumes "g722_ok g" "decodeHigherSubBand ihigh g = (r, g')" "ihigh < 4"
  shows "bits15 r \<and> g722_ok g'"
proof -
  let ?d = "g722HigherIH ! ihigh * scale_of (gd_highBand g) div 2 ^ 15"
  obtain band' where b: "band_step ?d ?d (g722HigherWH ! (ihigh mod 4)) 22528 (gd_highBand g) = (r, band')"
    and g': "g' = g\<lparr>gd_highBand := band'\<rparr>"
    using assms(2) unfolding decodeHigherSubBand_def Let_def by (auto split: prod.splits)
  have "bits15 r \<and> band_ok 22528 band'"
    using assms(1,3) by (intro band_step_ok[OF _ _ b] dequantised_bits16 table_entries) (simp_all add: g722_ok_def)
  with assms(1) show ?thesis by (simp add: g722_ok_def g')
qed

lemma qmfSynthesis_ok:
  assumes "g722_ok g" "bits15 rlow" "bits15 rhigh" "qmfSynthesis rlow rhigh g = (x, g')"
  shows "g722_ok g'"
proof -
  have "list_all bits16 (take 22 (gd_qmf g))" "length (gd_qmf g) = 24"
    using assms(1) by (auto simp: g722_ok_def array_of_def list_all_iff dest: in_set_takeD)
  then show ?thesis
    using assms by (auto simp: qmfSynthesis_def Let_def g722_ok_def array_of_def int_in_def)
qed

lemma g722_byte_ok:
  assumes "g722_ok g"
  shows "g722_ok (snd (g722_byte c g))"
proof -
  obtain rl g1 rh g2 x g3 where e: "decodeLowerSubBand (unat c mod 64) g = (rl, g1)"
    "decodeHigherSubBand (unat c div 64 mod 4) g1 = (rh, g2)" "qmfSynthesis rl rh g2 = (x, g3)"
    by (metis surj_pair)
  have "g722_ok g3"
    using decodeLowerSubBand_ok[OF assms e(1)] decodeHigherSubBand_ok[OF _ e(2)] qmfSynthesis_ok[OF _ _ _ e(3)] by simp
  then show ?thesis by (simp add: g722_byte_def e split: prod.splits)
qed

lemma g722_byte_length: "length (fst (g722_byte c g)) = 4"
  by (simp add: g722_byte_def split: prod.splits)

lemma g722_bytes_length: "length (g722_bytes cs g) = 4 * length cs"
  by (induction cs arbitrary: g) (simp_all add: case_prod_beta g722_byte_length)

lemma NewG722Decoder_ok: "g722_ok NewG722Decoder"
  by code_simp

lemma g722_fold_ok: "g722_ok g \<Longrightarrow> g722_ok (fold (\<lambda>c g. snd (g722_byte c g)) cs g)"
  by (induction cs arbitrary: g) (simp_all add: g722_byte_ok)

text \<open>C26: the G.722 decoder keeps its state well typed over every payload: the arrays keep the lengths the code
  declares, so no index is out of range, and coefficients, predictions and differences stay within sixteen bits. Every
  non-empty payload is decoded, to two samples of two bytes per code; only the empty one is an error.\<close>

theorem decodeG722Packet_type:
  "g722_ok (fold (\<lambda>c g. snd (g722_byte c g)) payload NewG722Decoder)
   \<and> (case decodeG722Packet payload of Inl _ \<Rightarrow> payload = [] | Inr out \<Rightarrow> payload \<noteq> [] \<and> length out = 4 * length payload)"
  by (simp add: g722_fold_ok NewG722Decoder_ok decodeG722Packet_def g722_bytes_length)

lemma generateComfortNoise_length: "length (generateComfortNoise n c) = 2 * (n * c)"
  by (simp add: generateComfortNoise_def length_concat comp_def sum_list_triv)

text \<open>A silence frame and a comfort noise frame last as long as each other.\<close>

lemma evs_inactive_length:
  assumes "evs_Decode active rate channels packet = Inr out" "drop_bit 3 (hd packet) AND 0x0F \<in> {0, 1}"
  shows "length out = 2 * (samplesPerFrame rate * channels)"
  using assms by (auto simp: evs_Decode_def Let_def generateSilence_def generateComfortNoise_length split: if_splits)

end
