(* ===== verification/RtpReceive.thy ===== *)
theory RtpReceive
  imports RtpForwarder AudioCodec
begin

text \<open>
  \<^verbatim>\<open>pkg/media/rtp.go\<close>: the receive path of one media stream, from the datagram to the recording, with
  the lock on the synchronisation source (SSRC), loss concealment, the jitter buffer and the monitor of
  inactive streams.

  The variables of the forwarding goroutine are two records: \<open>ssrc_gate\<close>, what the SSRC filter alone
  reads and writes, and \<open>stream\<close>, the forwarder and the rest. The recording and the input of the
  transcription are the byte lists written to them. Unmarshalling of RTP, SRTP decryption, the audio
  processor and the stateful decoders of G.729 and Opus are arguments; as a decoder is deterministic, its
  state is the list of what it was given since it was made. Whether a write to the file or to the
  transcription fails is part of the environment. Metrics, acoustic events and logging are left out.
\<close>

section \<open>State\<close>

datatype decoder_input = Fed "32 word" "byte list" | Conceal nat

record ssrc_gate =
  sg_mismatches :: nat
  sg_alternate :: "32 word"
  sg_alternateCount :: nat
  sg_sinceLocked :: nat
  sg_corrections :: nat

record stream =
  st_fw :: RTPForwarder
  st_firstReceived :: bool
  st_lastAccepted :: "32 word"
  st_lastSeq :: "seqno option"
  st_lastTimestamp :: "32 word"
  st_hasLastTimestamp :: bool
  st_lastPCMSize :: nat
  st_format :: "int \<times> int"
  st_g729 :: "decoder_input list option"
  st_opus :: "((int \<times> int) \<times> decoder_input list) option"
  st_jitter :: "JitterBuffer option"
  st_fromBuffer :: bool
  st_out :: "byte list"
  st_stt :: "byte list option"

record rx_env =
  rv_now :: go_time
  rv_write_ok :: bool
  rv_stt_ok :: bool
  rv_native :: native_codecs
  rv_processor :: "(byte list \<Rightarrow> string + byte list) option"
  rv_g729 :: "decoder_input list \<Rightarrow> 32 word \<Rightarrow> byte list \<Rightarrow> string + byte list"
  rv_g729_conceal :: "decoder_input list \<Rightarrow> nat \<Rightarrow> nat \<Rightarrow> byte list"
  rv_opus_new :: "int \<Rightarrow> int \<Rightarrow> bool"
  rv_opus :: "int \<times> int \<Rightarrow> decoder_input list \<Rightarrow> byte list \<Rightarrow> string + byte list"
  rv_opus_conceal :: "int \<times> int \<Rightarrow> decoder_input list \<Rightarrow> nat \<Rightarrow> string + byte list"

section \<open>The SSRC filter\<close>

definition ssrcCorrectionThreshold :: nat where
  "ssrcCorrectionThreshold = 50"

definition ssrcCorrectionInactivity :: nat where
  "ssrcCorrectionInactivity = 30"

definition lock_ssrc :: "RtpPacket \<Rightarrow> ssrc_gate \<Rightarrow> stream \<Rightarrow> ssrc_gate \<times> stream" where
  "lock_ssrc pkt g s =
     (if fw_RemoteSSRC (st_fw s) = 0
      then (g\<lparr>sg_alternate := 0, sg_alternateCount := 0, sg_sinceLocked := 0\<rparr>, s\<lparr>st_fw := (st_fw s)\<lparr>fw_RemoteSSRC := SSRC pkt\<rparr>\<rparr>)
      else (g, s))"

definition correction_blocked :: "stream \<Rightarrow> bool" where
  "correction_blocked s \<longleftrightarrow> fw_TranscriptionPaused (st_fw s) \<or> fw_RTPSuspended (st_fw s)"

definition count_alternate :: "RtpPacket \<Rightarrow> ssrc_gate \<Rightarrow> ssrc_gate" where
  "count_alternate pkt g =
     (if SSRC pkt = sg_alternate g then g\<lparr>sg_alternateCount := Suc (sg_alternateCount g)\<rparr>
      else g\<lparr>sg_alternate := SSRC pkt, sg_alternateCount := 1\<rparr>)"

definition switch_ssrc :: "ssrc_gate \<Rightarrow> stream \<Rightarrow> ssrc_gate \<times> stream" where
  "switch_ssrc g s =
     (g\<lparr>sg_corrections := Suc (sg_corrections g), sg_alternate := 0, sg_alternateCount := 0, sg_sinceLocked := 0\<rparr>,
      s\<lparr>st_fw := (st_fw s)\<lparr>fw_RemoteSSRC := sg_alternate g\<rparr>, st_lastSeq := None, st_hasLastTimestamp := False,
        st_lastPCMSize := 0, st_firstReceived := False, st_g729 := None\<rparr>)"

definition filter_ssrc :: "RtpPacket \<Rightarrow> ssrc_gate \<Rightarrow> stream \<Rightarrow> bool \<times> ssrc_gate \<times> stream" where
  "filter_ssrc pkt g0 s0 =
     (let (g, s) = lock_ssrc pkt g0 s0
      in if SSRC pkt \<noteq> fw_RemoteSSRC (st_fw s)
         then
           let g1 = g\<lparr>sg_sinceLocked := Suc (sg_sinceLocked g)\<rparr>;
               blocked = correction_blocked s;
               g2 = (if blocked then g1 else count_alternate pkt g1)
           in if \<not> blocked \<and> sg_alternateCount g2 \<ge> ssrcCorrectionThreshold \<and> sg_sinceLocked g2 \<ge> ssrcCorrectionInactivity
              then (True, switch_ssrc g2 s)
              else (False, g2\<lparr>sg_mismatches := Suc (sg_mismatches g2)\<rparr>, s)
         else (True, g\<lparr>sg_sinceLocked := 0\<rparr>, s\<lparr>st_fw := (st_fw s)\<lparr>fw_RTPSuspended := False\<rparr>\<rparr>))"

section \<open>An accepted packet\<close>

definition deriveRemoteRTCPAddr :: "UDPAddr \<Rightarrow> RTPForwarder \<Rightarrow> UDPAddr" where
  "deriveRemoteRTCPAddr addr f =
     (if fw_UseRTCPMux f then addr
      else addr\<lparr>ua_Port := (if fw_ExpectedRemoteRTCPPort f = 0 then ua_Port addr + 1 else fw_ExpectedRemoteRTCPPort f)\<rparr>)"

definition updateRemoteSession :: "UDPAddr option \<Rightarrow> RtpPacket \<Rightarrow> RTPForwarder \<Rightarrow> RTPForwarder" where
  "updateRemoteSession addr pkt f =
     (case addr of
        None \<Rightarrow> f
      | Some a \<Rightarrow>
          let f1 = (if fw_RemoteRTPAddr f = None then f\<lparr>fw_RemoteRTPAddr := Some a\<rparr> else f);
              f2 = (if fw_RemoteRTCPAddr f1 = None then f1\<lparr>fw_RemoteRTCPAddr := Some (deriveRemoteRTCPAddr a f1)\<rparr> else f1)
          in if fw_RemoteSSRC f2 = 0 then f2\<lparr>fw_RemoteSSRC := SSRC pkt\<rparr> else f2)"

definition note_first :: "go_time \<Rightarrow> RtpPacket \<Rightarrow> stream \<Rightarrow> stream" where
  "note_first arrival pkt s =
     (if st_firstReceived s then s
      else s\<lparr>st_firstReceived := True,
             st_fw := (if fw_FirstRTP (st_fw s) = None then (st_fw s)\<lparr>fw_FirstRTP := Some (Timestamp pkt, arrival)\<rparr> else st_fw s)\<rparr>)"

definition clear_on_change :: "RtpPacket \<Rightarrow> stream \<Rightarrow> stream" where
  "clear_on_change pkt s =
     (if st_lastAccepted s \<noteq> 0 \<and> SSRC pkt \<noteq> st_lastAccepted s
      then s\<lparr>st_lastSeq := None, st_hasLastTimestamp := False, st_lastPCMSize := 0, st_g729 := None\<rparr>
      else s)"

definition accept_packet :: "rx_env \<Rightarrow> go_time \<Rightarrow> UDPAddr option \<Rightarrow> RtpPacket \<Rightarrow> stream \<Rightarrow> stream" where
  "accept_packet env arrival addr pkt s0 =
     (let s1 = s0\<lparr>st_fw := (st_fw s0)\<lparr>fw_lastRTP := rv_now env\<rparr>\<rparr>;
          s2 = clear_on_change pkt (note_first arrival pkt s1);
          f = st_fw s2
      in s2\<lparr>st_lastAccepted := SSRC pkt,
            st_fw := updateRemoteSession addr pkt (f\<lparr>fw_RTPStats := Update (Some pkt) arrival (fw_RTPStats f)\<rparr>)\<rparr>)"

text \<open>The codec of the packet: the payload type, name, rate and channels before it, completed from the table of
  static payload types. The header of the recording follows the table.\<close>

definition codec_step :: "RtpPacket \<Rightarrow> stream \<Rightarrow> byte \<times> string \<times> int \<times> int \<times> stream" where
  "codec_step pkt s =
     (let f = st_fw s; pt = fw_CodecPayloadType f; name = fw_CodecName f; rate = fw_SampleRate f; ch = fw_Channels f;
          f1 = (if pt = 0 then SetCodecInfo (PayloadType pkt) name rate ch f else f)
      in case if name = [] \<or> rate = 0 then GetCodecInfo (PayloadType pkt) else None of
           Some info \<Rightarrow>
             (pt, ci_Name info, ci_SampleRate info, ci_Channels info,
              s\<lparr>st_fw := SetCodecInfo (PayloadType pkt) (ci_Name info) (ci_SampleRate info) (ci_Channels info) f1,
                st_format := (if fw_WAVWriter f then (ci_SampleRate info, ci_Channels info) else st_format s)\<rparr>)
         | None \<Rightarrow> (pt, name, rate, ch, s\<lparr>st_fw := f1\<rparr>))"

section \<open>Recording a packet\<close>

definition is_g729 :: "string \<Rightarrow> bool" where
  "is_g729 c \<longleftrightarrow> c = ''G729'' \<or> c = ''G.729'' \<or> c = ''G729A''"

definition is_opus :: "string \<Rightarrow> bool" where
  "is_opus c \<longleftrightarrow> c = ''OPUS'' \<or> c = ''OPUS_MONO''"

text \<open>A write through the pausable writer, which swallows everything while it is paused.\<close>

definition record_bytes :: "rx_env \<Rightarrow> byte list \<Rightarrow> stream \<Rightarrow> bool \<times> stream" where
  "record_bytes env p s =
     (if fw_recordingWriter (st_fw s) = Some True then (True, s)
      else if rv_write_ok env then (True, s\<lparr>st_out := st_out s @ p\<rparr>)
      else (False, s))"

definition lost_count :: "seqno \<Rightarrow> seqno \<Rightarrow> int" where
  "lost_count seq expectedNext =
     min 10 (if seq > expectedNext then uint seq - uint expectedNext else uint seq + (65536 - uint expectedNext))"

definition conceal_g729 :: "rx_env \<Rightarrow> decoder_input list \<Rightarrow> nat \<Rightarrow> stream \<Rightarrow> stream" where
  "conceal_g729 env hist lost s =
     (let pcm = rv_g729_conceal env hist lost (if st_lastPCMSize s = 0 then 320 else st_lastPCMSize s);
          s1 = s\<lparr>st_g729 := Some (hist @ [Conceal lost])\<rparr>
      in if pcm = [] then s1 else snd (record_bytes env pcm s1))"

definition conceal_opus :: "rx_env \<Rightarrow> (int \<times> int) \<times> decoder_input list \<Rightarrow> nat \<Rightarrow> stream \<Rightarrow> stream" where
  "conceal_opus env dec n s =
     (let s1 = s\<lparr>st_opus := Some (fst dec, snd dec @ [Conceal n])\<rparr>
      in case rv_opus_conceal env (fst dec) (snd dec) n of Inl _ \<Rightarrow> s1 | Inr pcm \<Rightarrow> snd (record_bytes env pcm s1))"

definition conceal_silence :: "rx_env \<Rightarrow> int \<Rightarrow> nat \<Rightarrow> stream \<Rightarrow> stream" where
  "conceal_silence env rate lost s =
     (let n = lost * (if st_lastPCMSize s = 0 then nat (PCMBytesPerPacket rate) else st_lastPCMSize s)
      in if n > 0 then snd (record_bytes env (replicate n 0) s) else s)"

definition conceal_loss :: "rx_env \<Rightarrow> string \<Rightarrow> int \<Rightarrow> nat \<Rightarrow> stream \<Rightarrow> stream" where
  "conceal_loss env codecName rate lost s =
     (case (if is_g729 codecName then st_g729 s else None) of
        Some hist \<Rightarrow> conceal_g729 env hist lost s
      | None \<Rightarrow>
          (case (if is_opus codecName then st_opus s else None) of
             Some dec \<Rightarrow> conceal_opus env dec (lost * nat (rate div 50)) s
           | None \<Rightarrow> conceal_silence env rate lost s))"

definition fill_gap :: "rx_env \<Rightarrow> int \<Rightarrow> 32 word \<Rightarrow> stream \<Rightarrow> stream" where
  "fill_gap env rate tsGap s =
     (if tsGap \<ge> word_of_int (rate * 3) \<and> tsGap \<le> word_of_int (rate * 120)
      then
        let gapSamples = uint (tsGap - word_of_int (rate div 50))
        in if gapSamples > 0 then snd (record_bytes env (replicate (nat gapSamples * 2) 0) s) else s
      else s)"

definition handle_gap :: "rx_env \<Rightarrow> string \<Rightarrow> int \<Rightarrow> RtpPacket \<Rightarrow> stream \<Rightarrow> bool \<times> stream" where
  "handle_gap env codecName rate pkt s =
     (case st_lastSeq s of
        None \<Rightarrow> (False, s)
      | Some last_seq \<Rightarrow>
          let expectedNext = last_seq + 1; seq = SequenceNumber pkt
          in if seq = expectedNext then (False, s)
             else if last_seq - seq < 32768 then (True, s)
             else if \<not> st_hasLastTimestamp s then (False, s)
             else
               let tsGap = Timestamp pkt - st_lastTimestamp s
               in (False,
                   if tsGap \<le> word_of_int (rate * 60 div 1000)
                   then let lost = nat (lost_count seq expectedNext) in if lost > 0 then conceal_loss env codecName rate lost s else s
                   else fill_gap env rate tsGap s))"

definition decode_payload :: "rx_env \<Rightarrow> string \<Rightarrow> int \<Rightarrow> int \<Rightarrow> RtpPacket \<Rightarrow> stream \<Rightarrow> (string + byte list) \<times> stream" where
  "decode_payload env codecName rate channels pkt s =
     (if is_g729 codecName
      then let hist = (case st_g729 s of None \<Rightarrow> [] | Some h \<Rightarrow> h)
           in (rv_g729 env hist (SSRC pkt) (Payload pkt), s\<lparr>st_g729 := Some (hist @ [Fed (SSRC pkt) (Payload pkt)])\<rparr>)
      else if is_opus codecName
      then
        let cfg = (rate, if channels \<le> 0 then (if codecName = ''OPUS_MONO'' then 1 else 2) else channels)
        in (case st_opus s of
              Some (c, hist) \<Rightarrow> (rv_opus env c hist (Payload pkt), s\<lparr>st_opus := Some (c, hist @ [Fed (SSRC pkt) (Payload pkt)])\<rparr>)
            | None \<Rightarrow>
                if rv_opus_new env (fst cfg) (snd cfg)
                then (rv_opus env cfg [] (Payload pkt), s\<lparr>st_opus := Some (cfg, [Fed (SSRC pkt) (Payload pkt)])\<rparr>)
                else (Inl ''opus decoder'', s))
      else (DecodeAudioPayload (rv_native env) (Payload pkt) codecName, s))"

definition prepareRecordingAndTranscriptionPayloads :: "rx_env \<Rightarrow> byte list \<Rightarrow> stream \<Rightarrow> string + byte list \<times> byte list" where
  "prepareRecordingAndTranscriptionPayloads env pcm s =
     (if pcm = [] then Inr (pcm, pcm)
      else case rv_processor env of
             Some process \<Rightarrow>
               if fw_AudioProcessor (st_fw s)
               then (case process pcm of Inl e \<Rightarrow> Inl e | Inr processed \<Rightarrow> Inr (pcm, processed))
               else Inr (pcm, pcm)
           | None \<Rightarrow> Inr (pcm, pcm))"

definition transcribe :: "rx_env \<Rightarrow> byte list \<Rightarrow> stream \<Rightarrow> stream" where
  "transcribe env p s =
     (case st_stt s of
        Some written \<Rightarrow> if p = [] then s else s\<lparr>st_stt := (if rv_stt_ok env then Some (written @ p) else None)\<rparr>
      | None \<Rightarrow> s)"

definition record_packet :: "rx_env \<Rightarrow> string \<Rightarrow> int \<Rightarrow> int \<Rightarrow> RtpPacket \<Rightarrow> stream \<Rightarrow> stream" where
  "record_packet env name rate0 channels pkt s0 =
     (let codecName = (if name = [] then ''PCMU'' else name); rate = (if rate0 \<le> 0 then 8000 else rate0);
          (reordered, s1) = handle_gap env codecName rate pkt s0
      in if reordered \<and> is_g729 codecName then s1
         else case decode_payload env codecName rate channels pkt s1 of
                (Inl _, s2) \<Rightarrow> s2
              | (Inr pcm, s2) \<Rightarrow>
                  if pcm = [] then s2
                  else
                    let s3 = s2\<lparr>st_lastPCMSize := length pcm\<rparr>
                    in (case prepareRecordingAndTranscriptionPayloads env pcm s3 of
                          Inl _ \<Rightarrow> s3
                        | Inr (recording, transcription) \<Rightarrow>
                            if fw_RecordingPaused (st_fw s3) then s3
                            else case record_bytes env recording s3 of
                                   (False, s4) \<Rightarrow> s4
                                 | (True, s4) \<Rightarrow>
                                     transcribe env transcription
                                       (if reordered then s4
                                        else s4\<lparr>st_lastSeq := Some (SequenceNumber pkt), st_lastTimestamp := Timestamp pkt,
                                                st_hasLastTimestamp := True\<rparr>)))"

text \<open>What follows the SSRC filter.\<close>

definition process_accepted :: "rx_env \<Rightarrow> go_time \<Rightarrow> UDPAddr option \<Rightarrow> RtpPacket \<Rightarrow> stream \<Rightarrow> stream" where
  "process_accepted env arrival addr pkt s =
     (let (pt, name, rate, channels, s1) = codec_step pkt (accept_packet env arrival addr pkt s)
      in if Payload pkt = [] then s1
         else if pt \<noteq> 0 \<and> PayloadType pkt \<noteq> pt then s1
         else case st_jitter s1 of
                Some jb \<Rightarrow> if st_fromBuffer s1 then record_packet env name rate channels pkt s1
                           else s1\<lparr>st_jitter := Some (Push pkt [] arrival jb)\<rparr>
              | None \<Rightarrow> record_packet env name rate channels pkt s1)"

definition decodeAndProcess :: "rx_env \<Rightarrow> go_time \<Rightarrow> UDPAddr option \<Rightarrow> RtpPacket \<Rightarrow> ssrc_gate \<times> stream \<Rightarrow> ssrc_gate \<times> stream" where
  "decodeAndProcess env arrival addr pkt r =
     (case filter_ssrc pkt (fst r) (snd r) of
        (False, g, s) \<Rightarrow> (g, s)
      | (True, g, s) \<Rightarrow> (g, process_accepted env arrival addr pkt s))"

section \<open>Datagrams, ticks and the jitter buffer\<close>

definition isRTCPPacket :: "byte list \<Rightarrow> bool" where
  "isRTCPPacket payload \<longleftrightarrow> (case payload of _ # t # _ \<Rightarrow> t \<ge> 200 \<and> t \<le> 211 | _ \<Rightarrow> False)"

text \<open>The codec functions of the RTP and SRTP libraries; a packet goes through the jitter buffer as it is, and is
  marshalled and unmarshalled again when it leaves it.\<close>

record rtp_lib =
  rl_Unmarshal :: "byte list \<Rightarrow> RtpPacket option"
  rl_Marshal :: "RtpPacket \<Rightarrow> byte list option"
  rl_decrypt :: "(byte list \<Rightarrow> byte list option) option"

definition process_bytes :: "rtp_lib \<Rightarrow> rx_env \<Rightarrow> go_time \<Rightarrow> UDPAddr option \<Rightarrow> byte list \<Rightarrow> ssrc_gate \<times> stream \<Rightarrow> ssrc_gate \<times> stream" where
  "process_bytes lib env arrival addr packet r =
     (if packet = [] then r
      else case rl_Unmarshal lib packet of None \<Rightarrow> r | Some pkt \<Rightarrow> decodeAndProcess env arrival addr pkt r)"

definition receive_datagram :: "rtp_lib \<Rightarrow> rx_env \<Rightarrow> go_time \<Rightarrow> UDPAddr option \<Rightarrow> byte list \<Rightarrow> ssrc_gate \<times> stream \<Rightarrow> ssrc_gate \<times> stream" where
  "receive_datagram lib env arrival addr buffer r =
     (if buffer = [] \<or> fw_UseRTCPMux (st_fw (snd r)) \<and> isRTCPPacket buffer then r
      else case rl_decrypt lib of
             None \<Rightarrow> process_bytes lib env arrival addr buffer r
           | Some decrypt \<Rightarrow>
               let r1 = (fst r, (snd r)\<lparr>st_fw := (st_fw (snd r))\<lparr>fw_SRTPEnabled := True\<rparr>\<rparr>)
               in (case decrypt buffer of None \<Rightarrow> r1 | Some plain \<Rightarrow> process_bytes lib env arrival addr plain r1))"

text \<open>Draining the jitter buffer; the bound is the number of packets it holds and one.\<close>

fun drain_loop :: "nat \<Rightarrow> rtp_lib \<Rightarrow> rx_env \<Rightarrow> ssrc_gate \<times> stream \<Rightarrow> ssrc_gate \<times> stream" where
  "drain_loop 0 lib env r = r"
| "drain_loop (Suc n) lib env (g, s) =
     (case st_jitter s of
        None \<Rightarrow> (g, s)
      | Some jb \<Rightarrow>
          (case Pop (rv_now env) jb of
             (None, _, jb') \<Rightarrow> (g, s\<lparr>st_jitter := Some jb'\<rparr>)
           | (Some bp, _, jb') \<Rightarrow>
               let r1 = (g, s\<lparr>st_jitter := Some jb'\<rparr>)
               in drain_loop n lib env
                    (case rl_Marshal lib (bpk_Packet bp) of
                       None \<Rightarrow> r1
                     | Some raw \<Rightarrow> process_bytes lib env (bpk_Arrival bp) None raw r1)))"

definition drain :: "rtp_lib \<Rightarrow> rx_env \<Rightarrow> ssrc_gate \<times> stream \<Rightarrow> ssrc_gate \<times> stream" where
  "drain lib env r =
     (case st_jitter (snd r) of
        None \<Rightarrow> r
      | Some jb \<Rightarrow>
          let (g, s) = drain_loop (Suc (length (jb_packets jb))) lib env (fst r, (snd r)\<lparr>st_fromBuffer := True\<rparr>)
          in (g, s\<lparr>st_fromBuffer := False\<rparr>))"

definition rtp_tick :: "rtp_lib \<Rightarrow> rx_env \<Rightarrow> (go_time \<times> UDPAddr \<times> byte list) list \<Rightarrow> ssrc_gate \<times> stream \<Rightarrow> ssrc_gate \<times> stream" where
  "rtp_tick lib env datagrams r =
     drain lib env (fold (\<lambda>(arrival, addr, buffer). receive_datagram lib env arrival (Some addr) buffer) datagrams r)"

section \<open>The timeout monitor and the receiver report\<close>

text \<open>One tick of \<open>MonitorRTPTimeout\<close>: whether the monitor goes on, the warning flag and the forwarder.\<close>

definition monitor_tick :: "go_time \<Rightarrow> bool \<Rightarrow> RTPForwarder \<Rightarrow> bool \<times> bool \<times> RTPForwarder" where
  "monitor_tick now warned f =
     (if fw_stopped f then (False, warned, f)
      else if fw_TranscriptionPaused f then (True, False, f\<lparr>fw_lastRTP := now\<rparr>)
      else
        let since = now - fw_lastRTP f; warned' = (warned \<or> since > fw_Timeout f div 2)
        in if since > fw_Timeout f
           then if fw_RecordingSession f \<noteq> None
                then (True, False, f\<lparr>fw_RTPSuspended := True, fw_lastRTP := now\<rparr>)
                else (False, warned', fw_Stop f)
           else (True, warned', f))"

definition sendReceiverReport :: "RTPForwarder \<Rightarrow> ReceptionReport option \<times> RTPForwarder" where
  "sendReceiverReport f =
     (if fw_RemoteRTCPAddr f = None \<or> fw_RemoteSSRC f = 0 then (None, f)
      else let (report, stats) = buildReceptionReport (fw_RemoteSSRC f) (fw_RTPStats f)
           in (report, f\<lparr>fw_RTPStats := stats\<rparr>))"

section \<open>The start of forwarding\<close>

text \<open>Identifiers are strings of ASCII characters, as the Call-ID of RFC 3261.\<close>

definition is_letter :: "char \<Rightarrow> bool" where
  "is_letter c \<longleftrightarrow> (let n = (of_char c :: nat) in 65 \<le> n \<and> n \<le> 90 \<or> 97 \<le> n \<and> n \<le> 122)"

definition SanitizeCallUUID :: "string \<Rightarrow> string" where
  "SanitizeCallUUID uuid =
     (let kept = take 64 (filter (\<lambda>c. is_letter c \<or> is_digit c \<or> c = CHR ''-'') uuid)
      in if kept = [] then ''unknown'' else kept)"

text \<open>The configuration and the outcomes of the calls of the operating system and the encrypted recorder; the path
  of a file in a directory is an argument.\<close>

record start_env =
  se_now :: go_time
  se_bind_rtp :: bool
  se_bind_rtcp :: bool
  se_join :: "string \<Rightarrow> string \<Rightarrow> string"
  se_RecordingDir :: string
  se_RecordingStorage :: bool
  se_encrypted_path :: "string \<Rightarrow> string option"
  se_create_ok :: bool
  se_header_ok :: bool
  se_EnableSRTP :: bool
  se_srtp_ok :: bool
  se_AudioProcessing :: bool
  se_stt :: bool
  se_jitter :: "(int \<times> int) option"

definition bind_sockets :: "start_env \<Rightarrow> string \<Rightarrow> RTPForwarder \<Rightarrow> bool \<times> RTPForwarder" where
  "bind_sockets se callUUID f =
     (if \<not> se_bind_rtp se then (False, f)
      else
        let f1 = f\<lparr>fw_Conn := True, fw_lastRTP := se_now se\<rparr>; rtcp = (\<not> fw_UseRTCPMux f \<and> fw_RTCPPort f > 0)
        in if rtcp \<and> \<not> se_bind_rtcp se then (False, f1\<lparr>fw_Conn := False\<rparr>)
           else (True, f1\<lparr>fw_RTCPConn := (rtcp \<or> fw_RTCPConn f1), fw_CallUUID := callUUID, fw_Storage := se_RecordingStorage se\<rparr>))"

definition open_recording :: "start_env \<Rightarrow> string \<Rightarrow> RTPForwarder \<Rightarrow> bool \<times> RTPForwarder" where
  "open_recording se callUUID f =
     (let sanitized = SanitizeCallUUID callUUID
      in if fw_EncryptedRecorder f
         then let sessionID = sanitized @ ''-'' @ Itoa (fw_LocalPort f)
              in (case se_encrypted_path se sessionID of
                    None \<Rightarrow> (False, f)
                  | Some path \<Rightarrow> (True, f\<lparr>fw_EncryptedSessionID := sessionID, fw_RecordingPath := path\<rparr>))
         else if \<not> se_create_ok se then (False, f\<lparr>fw_RecordingFile := False\<rparr>)
         else
           let f1 = f\<lparr>fw_RecordingFile := True, fw_RecordingPath := se_join se (se_RecordingDir se) (sanitized @ ''.wav'')\<rparr>
           in if se_header_ok se then (True, f1\<lparr>fw_WAVWriter := True\<rparr>) else (False, f1))"

definition open_srtp :: "start_env \<Rightarrow> RTPForwarder \<Rightarrow> bool \<times> RTPForwarder" where
  "open_srtp se f =
     (if \<not> se_EnableSRTP se then (True, f)
      else if fw_SRTPMasterKey f = [] \<or> fw_SRTPMasterSalt f = [] \<or> \<not> se_srtp_ok se then (False, f)
      else (True, f\<lparr>fw_SRTPEnabled := True\<rparr>))"

definition new_gate :: ssrc_gate where
  "new_gate = \<lparr>sg_mismatches = 0, sg_alternate = 0, sg_alternateCount = 0, sg_sinceLocked = 0, sg_corrections = 0\<rparr>"

definition new_jitter_buffer :: "int \<times> int \<Rightarrow> JitterBuffer" where
  "new_jitter_buffer cfg =
     NewJitterBuffer \<lparr>jbc_MaxSize = (if fst cfg \<le> 0 then 5 else fst cfg),
                      jbc_MaxDelay = (if snd cfg * 1000000 \<le> 0 then 60000000 else snd cfg * 1000000),
                      jbc_SampleRate = 0, jbc_CodecName = []\<rparr>"

definition new_stream :: "start_env \<Rightarrow> RTPForwarder \<Rightarrow> stream" where
  "new_stream se f =
     (let f1 = (if se_AudioProcessing se then f\<lparr>fw_AudioProcessor := True\<rparr> else f);
          f2 = f1\<lparr>fw_recordingWriter := Some False, fw_transcriptionReader := (if se_stt se then Some False else None)\<rparr>
      in \<lparr>st_fw = f2, st_firstReceived = False, st_lastAccepted = 0, st_lastSeq = None, st_lastTimestamp = 0,
          st_hasLastTimestamp = False, st_lastPCMSize = 0,
          st_format = (if fw_SampleRate f = 0 then 8000 else fw_SampleRate f, if fw_Channels f = 0 then 1 else fw_Channels f),
          st_g729 = None, st_opus = None, st_jitter = map_option new_jitter_buffer (se_jitter se),
          st_fromBuffer = False, st_out = [], st_stt = (if se_stt se then Some [] else None)\<rparr>)"

text \<open>The set-up of the goroutine: the forwarder when a step fails, and otherwise the state of the receive loop. On a
  failure the goroutine ends, and its deferred functions clean the forwarder up.\<close>

definition StartRTPForwarding :: "start_env \<Rightarrow> string \<Rightarrow> RTPForwarder \<Rightarrow> RTPForwarder + ssrc_gate \<times> stream" where
  "StartRTPForwarding se callUUID f0 =
     (let (ok1, f1) = bind_sockets se callUUID f0; (ok2, f2) = open_recording se callUUID f1; (ok3, f3) = open_srtp se f2
      in if \<not> ok1 then Inl f1 else if \<not> ok2 then Inl f2 else if \<not> ok3 then Inl f3
         else Inr (new_gate, new_stream se f3))"

section \<open>The filter and the rest\<close>

lemma record_bytes_fw [simp]: "st_fw (snd (record_bytes env p s)) = st_fw s"
  by (simp add: record_bytes_def)

lemma conceal_g729_fw [simp]: "st_fw (conceal_g729 env hist n s) = st_fw s"
  by (simp add: conceal_g729_def Let_def)

lemma conceal_opus_fw [simp]: "st_fw (conceal_opus env dec n s) = st_fw s"
  by (simp add: conceal_opus_def Let_def split: sum.split)

lemma conceal_silence_fw [simp]: "st_fw (conceal_silence env rate n s) = st_fw s"
  by (simp add: conceal_silence_def Let_def)

lemma conceal_loss_fw [simp]: "st_fw (conceal_loss env c rate n s) = st_fw s"
  unfolding conceal_loss_def by (simp split: option.split)

lemma fill_gap_fw [simp]: "st_fw (fill_gap env rate gap s) = st_fw s"
  by (simp add: fill_gap_def Let_def)

lemma handle_gap_fw [simp]: "st_fw (snd (handle_gap env c rate pkt s)) = st_fw s"
  by (simp add: handle_gap_def Let_def split: option.split)

lemma decode_payload_fw [simp]: "st_fw (snd (decode_payload env c rate ch pkt s)) = st_fw s"
  by (simp add: decode_payload_def Let_def split: option.split prod.split)

lemma transcribe_fw [simp]: "st_fw (transcribe env p s) = st_fw s"
  by (simp add: transcribe_def split: option.split)

lemma record_packet_fw [simp]: "st_fw (record_packet env c rate ch pkt s) = st_fw s"
proof -
  let ?c = "if c = [] then ''PCMU'' else c" and ?r = "if rate \<le> 0 then 8000 else rate"
  obtain b s1 where 1: "handle_gap env ?c ?r pkt s = (b, s1)" by (cases "handle_gap env ?c ?r pkt s")
  obtain d s2 where 2: "decode_payload env ?c ?r ch pkt s1 = (d, s2)" by (cases "decode_payload env ?c ?r ch pkt s1")
  have fw: "st_fw s1 = st_fw s" "st_fw s2 = st_fw s1"
    using handle_gap_fw[of env ?c ?r pkt s] decode_payload_fw[of env ?c ?r ch pkt s1] by (simp_all only: 1 2 snd_conv)
  have 3: "st_fw s4 = st_fw s'" if "record_bytes env p s' = (b', s4)" for p s' b' s4
    using record_bytes_fw[of env p s'] that by simp
  show ?thesis
    by (auto simp: record_packet_def Let_def 1 2 fw dest!: 3 split: sum.split prod.split bool.split)
qed

text \<open>What the filter reads of the forwarder.\<close>

definition gate_view :: "RTPForwarder \<Rightarrow> 32 word \<times> bool \<times> bool" where
  "gate_view f = (fw_RemoteSSRC f, fw_TranscriptionPaused f, fw_RTPSuspended f)"

lemma SetCodecInfo_gate_view [simp]: "gate_view (SetCodecInfo pt n r c f) = gate_view f"
  by (simp add: gate_view_def SetCodecInfo_def)

lemma codec_step_gate_view:
  assumes "codec_step pkt s = (pt, n, r, c, s')"
  shows "gate_view (st_fw s') = gate_view (st_fw s)"
  using assms by (auto simp: codec_step_def Let_def split: if_splits option.splits)

lemma updateRemoteSession_gate_view:
  "fw_RemoteSSRC f \<noteq> 0 \<Longrightarrow> gate_view (updateRemoteSession addr pkt f) = gate_view f"
  by (simp add: updateRemoteSession_def Let_def gate_view_def split: option.split)

lemma note_first_gate_view [simp]: "gate_view (st_fw (note_first arrival pkt s)) = gate_view (st_fw s)"
  by (simp add: note_first_def gate_view_def)

lemma clear_on_change_fw [simp]: "st_fw (clear_on_change pkt s) = st_fw s"
  by (simp add: clear_on_change_def)

lemma gate_view_updates [simp]:
  "gate_view (f\<lparr>fw_lastRTP := t\<rparr>) = gate_view f" "gate_view (f\<lparr>fw_RTPStats := st\<rparr>) = gate_view f"
  by (simp_all add: gate_view_def)

lemma gate_view_RemoteSSRC: "gate_view f = gate_view f' \<Longrightarrow> fw_RemoteSSRC f = fw_RemoteSSRC f'"
  by (simp add: gate_view_def)

lemma accept_packet_gate_view:
  assumes "fw_RemoteSSRC (st_fw s) \<noteq> 0"
  shows "gate_view (st_fw (accept_packet env arrival addr pkt s)) = gate_view (st_fw s)"
proof -
  let ?f = "st_fw (note_first arrival pkt (s\<lparr>st_fw := (st_fw s)\<lparr>fw_lastRTP := rv_now env\<rparr>\<rparr>))"
  have f: "gate_view ?f = gate_view (st_fw s)" by simp
  have "fw_RemoteSSRC (?f\<lparr>fw_RTPStats := st\<rparr>) \<noteq> 0" for st
    using assms gate_view_RemoteSSRC[OF f] by simp
  from updateRemoteSession_gate_view[OF this] show ?thesis
    by (simp add: accept_packet_def Let_def)
qed

lemma process_accepted_gate_view:
  assumes "fw_RemoteSSRC (st_fw s) \<noteq> 0"
  shows "gate_view (st_fw (process_accepted env arrival addr pkt s)) = gate_view (st_fw s)"
proof -
  obtain pt n r c s' where cs: "codec_step pkt (accept_packet env arrival addr pkt s) = (pt, n, r, c, s')"
    by (cases "codec_step pkt (accept_packet env arrival addr pkt s)")
  have "gate_view (st_fw s') = gate_view (st_fw s)"
    using codec_step_gate_view[OF cs] accept_packet_gate_view[OF assms] by simp
  then show ?thesis by (simp add: process_accepted_def cs split: option.split)
qed

text \<open>A packet of the locked source is processed whatever the filter has counted, and ends a suspension; another
  one is refused and leaves the stream alone unless the lock moves.\<close>

lemma decodeAndProcess_locked:
  assumes "fw_RemoteSSRC (st_fw s) = SSRC pkt" "SSRC pkt \<noteq> 0"
  shows "decodeAndProcess env arrival addr pkt (g, s) =
    (g\<lparr>sg_sinceLocked := 0\<rparr>, process_accepted env arrival addr pkt (s\<lparr>st_fw := (st_fw s)\<lparr>fw_RTPSuspended := False\<rparr>\<rparr>))"
  using assms by (simp add: decodeAndProcess_def filter_ssrc_def lock_ssrc_def Let_def)

lemma decodeAndProcess_foreign:
  assumes "fw_RemoteSSRC (st_fw s) \<noteq> 0" "fw_RemoteSSRC (st_fw s) \<noteq> SSRC pkt"
    and "correction_blocked s \<or> Suc (sg_sinceLocked g) < 30"
  shows "\<exists>g'. decodeAndProcess env arrival addr pkt (g, s) = (g', s) \<and> sg_sinceLocked g' = Suc (sg_sinceLocked g)"
  using assms
  by (auto simp: decodeAndProcess_def filter_ssrc_def lock_ssrc_def Let_def ssrcCorrectionInactivity_def count_alternate_def)

section \<open>One source at a time\<close>

text \<open>A sequence of packets, each with its environment, arrival time and address.\<close>

type_synonym packet_event = "rx_env \<times> go_time \<times> UDPAddr option \<times> RtpPacket"

abbreviation event_packet :: "packet_event \<Rightarrow> RtpPacket" where
  "event_packet e \<equiv> snd (snd (snd e))"

fun rx_run :: "packet_event list \<Rightarrow> ssrc_gate \<times> stream \<Rightarrow> ssrc_gate \<times> stream" where
  "rx_run [] r = r"
| "rx_run ((env, arrival, addr, pkt) # es) r = rx_run es (decodeAndProcess env arrival addr pkt r)"

text \<open>No thirty packets of other sources in a row, counted from \<open>n\<close>.\<close>

fun short_runs :: "32 word \<Rightarrow> nat \<Rightarrow> packet_event list \<Rightarrow> bool" where
  "short_runs l n [] \<longleftrightarrow> True"
| "short_runs l n (e # es) \<longleftrightarrow> (if SSRC (event_packet e) = l then short_runs l 0 es else Suc n < 30 \<and> short_runs l (Suc n) es)"

text \<open>An example: a stream of linear samples, locked to source 7, and its packets.\<close>

definition demo_start :: start_env where
  "demo_start = \<lparr>se_now = 0, se_bind_rtp = True, se_bind_rtcp = True, se_join = (\<lambda>d f. d @ ''/'' @ f), se_RecordingDir = ''/rec'',
     se_RecordingStorage = False, se_encrypted_path = (\<lambda>_. None), se_create_ok = True, se_header_ok = True, se_EnableSRTP = False,
     se_srtp_ok = True, se_AudioProcessing = False, se_stt = False, se_jitter = None\<rparr>"

definition demo_env :: rx_env where
  "demo_env = \<lparr>rv_now = 1, rv_write_ok = True, rv_stt_ok = True,
     rv_native = \<lparr>nc_opus = (\<lambda>_ _. Inl []), nc_g729 = (\<lambda>_. Inl []), nc_evs_active = (\<lambda>_ _. Inl [])\<rparr>, rv_processor = None,
     rv_g729 = (\<lambda>_ _ _. Inl []), rv_g729_conceal = (\<lambda>_ _ _. []), rv_opus_new = (\<lambda>_ _. False), rv_opus = (\<lambda>_ _ _. Inl []),
     rv_opus_conceal = (\<lambda>_ _ _. Inl [])\<rparr>"

definition demo_stream :: "byte \<Rightarrow> string \<Rightarrow> stream" where
  "demo_stream pt name =
     new_stream demo_start (call_forwarder\<lparr>fw_RemoteSSRC := 7, fw_CodecPayloadType := pt, fw_CodecName := name, fw_SampleRate := 8000\<rparr>)"

definition demo_packet :: "32 word \<Rightarrow> byte \<Rightarrow> seqno \<Rightarrow> byte list \<Rightarrow> packet_event" where
  "demo_packet ssrc pt seq payload =
     (demo_env, 1, None, \<lparr>SequenceNumber = seq, Timestamp = 160 * ucast seq, SSRC = ssrc, PayloadType = pt, Payload = payload\<rparr>)"

lemma demo_stream_fields:
  "fw_RemoteSSRC (st_fw (demo_stream pt name)) = 7" "\<not> correction_blocked (demo_stream pt name)" "st_lastAccepted (demo_stream pt name) = 0"
  "st_lastSeq (demo_stream pt name) = None" "st_jitter (demo_stream pt name) = None" "st_out (demo_stream pt name) = []"
  "fw_stopped (st_fw (demo_stream pt name)) = False" "fw_TranscriptionPaused (st_fw (demo_stream pt name)) = False"
  "fw_RecordingSession (st_fw (demo_stream pt name)) = Some ''s1''" "fw_Timeout (st_fw (demo_stream pt name)) = 30"
  "fw_lastRTP (st_fw (demo_stream pt name)) = 0"
  by (simp_all add: demo_stream_def new_stream_def demo_start_def Let_def correction_blocked_def call_forwarder_def new_forwarder_def)

lemma demo_packet_fields [simp]:
  "fst (demo_packet l pt q xs) = demo_env" "SSRC (event_packet (demo_packet l pt q xs)) = l"
  "PayloadType (event_packet (demo_packet l pt q xs)) = pt" "SequenceNumber (event_packet (demo_packet l pt q xs)) = q"
  "Payload (event_packet (demo_packet l pt q xs)) = xs"
  by (simp_all add: demo_packet_def)

lemma RemoteSSRC_locked:
  assumes "fw_RemoteSSRC (st_fw s) = SSRC pkt" "SSRC pkt \<noteq> 0"
  shows "fw_RemoteSSRC (st_fw (process_accepted env arrival addr pkt (s\<lparr>st_fw := (st_fw s)\<lparr>fw_RTPSuspended := False\<rparr>\<rparr>))) = SSRC pkt"
proof -
  have "fw_RemoteSSRC (st_fw (s\<lparr>st_fw := (st_fw s)\<lparr>fw_RTPSuspended := False\<rparr>\<rparr>)) \<noteq> 0" using assms by simp
  from gate_view_RemoteSSRC[OF process_accepted_gate_view[OF this]] show ?thesis using assms by simp
qed

lemma others_no_effect:
  assumes "fw_RemoteSSRC (st_fw s) = l" "l \<noteq> 0" "short_runs l (sg_sinceLocked g) es"
  shows "snd (rx_run es (g, s)) = snd (rx_run (filter (\<lambda>e. SSRC (event_packet e) = l) es) (g', s)) \<and>
    fw_RemoteSSRC (st_fw (snd (rx_run es (g, s)))) = l"
  using assms
proof (induction es arbitrary: g g' s)
  case (Cons e es)
  obtain env arrival addr pkt where e: "e = (env, arrival, addr, pkt)" by (cases e)
  show ?case
  proof (cases "SSRC pkt = l")
    case True
    then have l: "fw_RemoteSSRC (st_fw s) = SSRC pkt" "SSRC pkt \<noteq> 0" using Cons.prems by auto
    have "short_runs l 0 es" using Cons.prems(3) True by (simp add: e)
    then have short: "short_runs l (sg_sinceLocked (g\<lparr>sg_sinceLocked := 0\<rparr>)) es" by simp
    show ?thesis
      using Cons.IH[OF RemoteSSRC_locked[OF l, unfolded True] Cons.prems(2) short]
      by (simp only: e rx_run.simps filter.simps snd_conv True simp_thms if_True decodeAndProcess_locked[OF l])
  next
    case False
    have short: "Suc (sg_sinceLocked g) < 30" "short_runs l (Suc (sg_sinceLocked g)) es" using Cons.prems(3) False by (simp_all add: e)
    obtain g1 where g1: "decodeAndProcess env arrival addr pkt (g, s) = (g1, s)" "sg_sinceLocked g1 = Suc (sg_sinceLocked g)"
      using decodeAndProcess_foreign[of s pkt g env arrival addr] Cons.prems(1,2) False short(1) by auto
    show ?thesis
      using Cons.IH[OF Cons.prems(1,2) short(2)[folded g1(2)]]
      by (simp only: e rx_run.simps filter.simps snd_conv False if_False g1(1))
  qed
qed simp

text \<open>C29: no cross-talk. As long as the locked source is not silent for thirty packets of other sources in a row, the
  lock stays, and the recording, the statistics and all other state of the stream are what the packets of the
  locked source alone produce: packets of any other source have no effect.\<close>

theorem no_crosstalk:
  assumes "fw_RemoteSSRC (st_fw s) = l" "l \<noteq> 0" "short_runs l (sg_sinceLocked g) es"
  shows "snd (rx_run es (g, s)) = snd (rx_run (filter (\<lambda>e. SSRC (event_packet e) = l) es) (g', s)) \<and>
    fw_RemoteSSRC (st_fw (snd (rx_run es (g, s)))) = l"
  by (rule others_no_effect[OF assms])

theorem no_crosstalk_witness:
  "snd (rx_run [demo_packet 7 11 1 [1, 2], demo_packet 9 11 1 [3, 4], demo_packet 7 11 2 [5, 6]] (new_gate, demo_stream 11 ''L16'')) =
     snd (rx_run [demo_packet 7 11 1 [1, 2], demo_packet 7 11 2 [5, 6]] (new_gate, demo_stream 11 ''L16''))"
  using no_crosstalk[of "demo_stream 11 ''L16''" 7 new_gate "[demo_packet 7 11 1 [1, 2], demo_packet 9 11 1 [3, 4], demo_packet 7 11 2 [5, 6]]" new_gate]
  by (simp add: demo_stream_fields new_gate_def)

text \<open>One packet of a source other than the locked one: the lock moves to it exactly when it has been seen often
  enough and the locked source is silent.\<close>

lemma decodeAndProcess_other:
  assumes "fw_RemoteSSRC (st_fw s) \<noteq> 0" "fw_RemoteSSRC (st_fw s) \<noteq> SSRC pkt" "\<not> correction_blocked s" "SSRC pkt \<noteq> 0"
    and c: "c = (if sg_alternate g = SSRC pkt then Suc (sg_alternateCount g) else 1)"
    and run: "decodeAndProcess env arrival addr pkt (g, s) = (g', s')"
  shows "if c \<ge> 50 \<and> Suc (sg_sinceLocked g) \<ge> 30 then gate_view (st_fw s') = (SSRC pkt, False, False)
    else s' = s \<and> sg_alternate g' = SSRC pkt \<and> sg_alternateCount g' = c \<and> sg_sinceLocked g' = Suc (sg_sinceLocked g)"
proof -
  let ?g = "count_alternate pkt (g\<lparr>sg_sinceLocked := Suc (sg_sinceLocked g)\<rparr>)"
  have g: "sg_alternate ?g = SSRC pkt" "sg_alternateCount ?g = c" "sg_sinceLocked ?g = Suc (sg_sinceLocked g)"
    using c by (auto simp: count_alternate_def)
  show ?thesis
  proof (cases "c \<ge> 50 \<and> Suc (sg_sinceLocked g) \<ge> 30")
    case True
    have "s' = process_accepted env arrival addr pkt (snd (switch_ssrc ?g s))"
      using run assms(1-3) g True
      by (auto simp: decodeAndProcess_def filter_ssrc_def lock_ssrc_def Let_def ssrcCorrectionThreshold_def ssrcCorrectionInactivity_def
          split: prod.splits)
    moreover have "gate_view (st_fw (snd (switch_ssrc ?g s))) = (SSRC pkt, False, False)"
      using assms(3) g(1) by (simp add: switch_ssrc_def gate_view_def correction_blocked_def)
    ultimately show ?thesis
      using True process_accepted_gate_view[of "snd (switch_ssrc ?g s)"] assms(4) by (simp add: gate_view_def)
  next
    case False
    then show ?thesis
      using run assms(1-3) g
      by (auto simp: decodeAndProcess_def filter_ssrc_def lock_ssrc_def Let_def ssrcCorrectionThreshold_def ssrcCorrectionInactivity_def)
  qed
qed

lemma locked_gate_view:
  assumes "fw_RemoteSSRC (st_fw s) = SSRC pkt" "SSRC pkt \<noteq> 0"
    and run: "decodeAndProcess env arrival addr pkt (g, s) = (g', s')"
  shows "gate_view (st_fw s') = (SSRC pkt, fw_TranscriptionPaused (st_fw s), False)"
proof -
  have "s' = process_accepted env arrival addr pkt (s\<lparr>st_fw := (st_fw s)\<lparr>fw_RTPSuspended := False\<rparr>\<rparr>)"
    using run decodeAndProcess_locked[OF assms(1,2)] by simp
  then show ?thesis
    using process_accepted_gate_view[of "s\<lparr>st_fw := (st_fw s)\<lparr>fw_RTPSuspended := False\<rparr>\<rparr>" env arrival addr pkt] assms(1,2)
    by (simp add: gate_view_def)
qed

definition all_from :: "32 word \<Rightarrow> packet_event list \<Rightarrow> bool" where
  "all_from n es \<longleftrightarrow> (\<forall>e \<in> set es. SSRC (event_packet e) = n)"

lemma stays_locked:
  assumes "gate_view (st_fw s) = (n, False, b)" "n \<noteq> 0" "all_from n es"
  shows "fw_RemoteSSRC (st_fw (snd (rx_run es (g, s)))) = n"
  using assms
proof (induction es arbitrary: g s b)
  case (Cons e es)
  obtain env arrival addr pkt where e: "e = (env, arrival, addr, pkt)" by (cases e)
  obtain g' s' where run: "decodeAndProcess env arrival addr pkt (g, s) = (g', s')" by (cases "decodeAndProcess env arrival addr pkt (g, s)")
  have "gate_view (st_fw s') = (n, False, False)"
    using locked_gate_view[OF _ _ run] Cons.prems by (simp add: gate_view_def all_from_def e)
  from Cons.IH[OF this Cons.prems(2)] Cons.prems(3) show ?case by (simp add: e run all_from_def)
qed (simp add: gate_view_def)

lemma takeover_count:
  assumes "gate_view (st_fw s) = (l, False, False)" "l \<noteq> 0" "l \<noteq> n" "n \<noteq> 0" "all_from n es"
    and "sg_alternate g = n \<and> sg_alternateCount g \<ge> k \<and> sg_sinceLocked g \<ge> k \<or> k = 0" "length es + k \<ge> 50"
  shows "fw_RemoteSSRC (st_fw (snd (rx_run es (g, s)))) = n \<or> es = []"
  using assms
proof (induction es arbitrary: g s k)
  case (Cons e es)
  obtain env arrival addr pkt where e: "e = (env, arrival, addr, pkt)" by (cases e)
  obtain g' s' where run: "decodeAndProcess env arrival addr pkt (g, s) = (g', s')" by (cases "decodeAndProcess env arrival addr pkt (g, s)")
  define c where "c = (if sg_alternate g = SSRC pkt then Suc (sg_alternateCount g) else 1)"
  have pkt: "SSRC pkt = n" using Cons.prems(5) by (simp add: all_from_def e)
  have k: "Suc k \<le> c" "Suc k \<le> Suc (sg_sinceLocked g)" using Cons.prems(6) by (auto simp: c_def pkt)
  have step: "if c \<ge> 50 \<and> Suc (sg_sinceLocked g) \<ge> 30 then gate_view (st_fw s') = (n, False, False)
    else s' = s \<and> sg_alternate g' = n \<and> sg_alternateCount g' = c \<and> sg_sinceLocked g' = Suc (sg_sinceLocked g)"
    unfolding pkt[symmetric]
    by (rule decodeAndProcess_other[OF _ _ _ _ c_def run]) (use Cons.prems(1-4) pkt in \<open>simp_all add: gate_view_def correction_blocked_def\<close>)
  have rest: "all_from n es" using Cons.prems(5) by (simp add: all_from_def)
  show ?case
  proof (cases "c \<ge> 50 \<and> Suc (sg_sinceLocked g) \<ge> 30")
    case True
    then show ?thesis using stays_locked[OF _ Cons.prems(4) rest] step by (simp add: e run)
  next
    case False
    then have s': "s' = s" "sg_alternate g' = n \<and> sg_alternateCount g' \<ge> Suc k \<and> sg_sinceLocked g' \<ge> Suc k \<or> Suc k = 0" using step k by auto
    have "es \<noteq> []" using False k Cons.prems(7) by auto
    then show ?thesis
      using Cons.IH[OF Cons.prems(1-4) rest s'(2)] Cons.prems(7) by (simp add: e run s'(1))
  qed
qed simp

text \<open>C31: a new source takes over. When the locked source has gone silent and the call is neither on hold nor
  suspended, fifty packets of a new source move the lock to it.\<close>

theorem ssrc_takeover:
  assumes "fw_RemoteSSRC (st_fw s) \<noteq> 0" "\<not> correction_blocked s" "n \<noteq> 0" "all_from n es" "length es \<ge> 50"
  shows "fw_RemoteSSRC (st_fw (snd (rx_run es (g, s)))) = n"
proof -
  have v: "gate_view (st_fw s) = (fw_RemoteSSRC (st_fw s), False, False)" using assms(2) by (simp add: gate_view_def correction_blocked_def)
  show ?thesis
  proof (cases "fw_RemoteSSRC (st_fw s) = n")
    case True
    then show ?thesis using stays_locked[OF _ assms(3,4)] v by simp
  next
    case False
    then show ?thesis using takeover_count[OF v assms(1) False assms(3,4), of g 0] assms(5) by auto
  qed
qed

theorem ssrc_takeover_witness:
  "fw_RemoteSSRC (st_fw (snd (rx_run (replicate 50 (demo_packet 9 11 1 [1, 2])) (new_gate, demo_stream 11 ''L16'')))) = 9"
  by (rule ssrc_takeover) (simp_all add: demo_stream_fields all_from_def)

text \<open>After a time-out the stream is lost. Once the monitor has suspended the stream of a SIPREC session, no number
  of packets of a new source is ever recorded or moves the lock: only a packet of the old source, or SIP
  signalling, ends the suspension.\<close>

theorem suspended_refuses_new_source:
  assumes "monitor_tick now warned (st_fw s) = (True, warned', f)" "fw_RTPSuspended f" "fw_RemoteSSRC f \<noteq> 0"
    and "\<forall>e \<in> set es. SSRC (event_packet e) \<noteq> fw_RemoteSSRC f"
  shows "snd (rx_run es (g, s\<lparr>st_fw := f\<rparr>)) = s\<lparr>st_fw := f\<rparr>"
  using assms(4)
proof (induction es arbitrary: g)
  case (Cons e es)
  obtain env arrival addr pkt where e: "e = (env, arrival, addr, pkt)" by (cases e)
  have "correction_blocked (s\<lparr>st_fw := f\<rparr>)" using assms(2) by (simp add: correction_blocked_def)
  then obtain g' where "decodeAndProcess env arrival addr pkt (g, s\<lparr>st_fw := f\<rparr>) = (g', s\<lparr>st_fw := f\<rparr>)"
    using decodeAndProcess_foreign[of "s\<lparr>st_fw := f\<rparr>" pkt g env arrival addr] assms(3) Cons.prems by (auto simp: e)
  then show ?case using Cons.IH Cons.prems by (simp add: e)
qed simp

theorem suspended_refuses_new_source_witness:
  "let f = snd (snd (monitor_tick 31 False (st_fw (demo_stream 11 ''L16''))))
   in snd (rx_run (replicate 100 (demo_packet 9 11 1 [1, 2])) (new_gate, (demo_stream 11 ''L16'')\<lparr>st_fw := f\<rparr>)) = (demo_stream 11 ''L16'')\<lparr>st_fw := f\<rparr>"
proof -
  let ?s = "demo_stream 11 ''L16''"
  have "monitor_tick 31 False (st_fw ?s) = (True, False, (st_fw ?s)\<lparr>fw_RTPSuspended := True, fw_lastRTP := 31\<rparr>)"
    by (simp add: monitor_tick_def demo_stream_fields Let_def)
  from suspended_refuses_new_source[OF this, of "replicate 100 (demo_packet 9 11 1 [1, 2])" new_gate] this
  show ?thesis by (simp add: demo_stream_fields Let_def)
qed

section \<open>What is recorded\<close>

text \<open>The fields of the forwarder that decide how a packet is recorded.\<close>

definition rec_view :: "RTPForwarder \<Rightarrow> byte \<times> string \<times> int \<times> bool \<times> bool option" where
  "rec_view f = (fw_CodecPayloadType f, fw_CodecName f, fw_SampleRate f, fw_RecordingPaused f, fw_recordingWriter f)"

lemma rec_view_updates [simp]:
  "rec_view (f\<lparr>fw_lastRTP := t\<rparr>) = rec_view f" "rec_view (f\<lparr>fw_RTPStats := st\<rparr>) = rec_view f" "rec_view (f\<lparr>fw_RTPSuspended := b\<rparr>) = rec_view f"
  "rec_view (f\<lparr>fw_RemoteSSRC := l\<rparr>) = rec_view f" "rec_view (f\<lparr>fw_FirstRTP := x\<rparr>) = rec_view f"
  by (simp_all add: rec_view_def)

lemma updateRemoteSession_rec_view [simp]: "rec_view (updateRemoteSession addr pkt f) = rec_view f"
  by (simp add: updateRemoteSession_def Let_def rec_view_def split: option.split)

lemma accept_packet_stream:
  assumes "st_lastAccepted s = 0 \<or> st_lastAccepted s = SSRC pkt"
  obtains f where "accept_packet env arrival addr pkt s = s\<lparr>st_firstReceived := True, st_lastAccepted := SSRC pkt, st_fw := f\<rparr>"
    "rec_view f = rec_view (st_fw s)"
proof -
  let ?s = "note_first arrival pkt (s\<lparr>st_fw := (st_fw s)\<lparr>fw_lastRTP := rv_now env\<rparr>\<rparr>)"
  let ?f = "updateRemoteSession addr pkt ((st_fw ?s)\<lparr>fw_RTPStats := Update (Some pkt) arrival (fw_RTPStats (st_fw ?s))\<rparr>)"
  have acc: "st_lastAccepted ?s = st_lastAccepted s" by (simp add: note_first_def)
  have same: "clear_on_change pkt ?s = ?s" unfolding clear_on_change_def acc using assms by (elim disjE) simp_all
  have "?s\<lparr>st_lastAccepted := SSRC pkt, st_fw := ?f\<rparr> = s\<lparr>st_firstReceived := True, st_lastAccepted := SSRC pkt, st_fw := ?f\<rparr>"
    by (cases "st_firstReceived s") (simp_all add: note_first_def)
  moreover have "rec_view ?f = rec_view (st_fw s)" by (simp add: note_first_def)
  ultimately show ?thesis by (intro that[of ?f]) (simp_all add: accept_packet_def Let_def same)
qed

text \<open>A stream that records packets of payload type \<open>pt\<close> with a codec without decoder state.\<close>

definition recording_ready :: "string \<Rightarrow> byte \<Rightarrow> int \<Rightarrow> stream \<Rightarrow> bool" where
  "recording_ready name pt rate s \<longleftrightarrow>
     rec_view (st_fw s) = (pt, name, rate, False, Some False) \<and> st_jitter s = None \<and>
     name \<noteq> [] \<and> ToUpper name = name \<and> rate > 0 \<and> \<not> is_g729 name \<and> \<not> is_opus name"

lemma codec_step_ready:
  assumes "rec_view (st_fw s) = (pt, name, rate, p, w)" "name \<noteq> []" "ToUpper name = name" "rate > 0" "PayloadType pkt = pt"
  obtains f ch where "codec_step pkt s = (pt, name, rate, ch, s\<lparr>st_fw := f\<rparr>)" "rec_view f = (pt, name, rate, p, w)"
proof -
  have f: "fw_CodecPayloadType (st_fw s) = pt" "fw_CodecName (st_fw s) = name" "fw_SampleRate (st_fw s) = rate"
    using assms(1) by (simp_all add: rec_view_def)
  let ?f = "if pt = 0 then SetCodecInfo (PayloadType pkt) name rate (fw_Channels (st_fw s)) (st_fw s) else st_fw s"
  have "rec_view ?f = (pt, name, rate, p, w)" using assms by (auto simp: rec_view_def SetCodecInfo_def)
  with f assms(2,4) show ?thesis by (intro that[of "fw_Channels (st_fw s)" ?f]) (simp_all add: codec_step_def Let_def)
qed

text \<open>The bytes of silence that go before a packet; \<open>None\<close> for a packet that comes late.\<close>

definition gap_bytes :: "int \<Rightarrow> RtpPacket \<Rightarrow> stream \<Rightarrow> nat option" where
  "gap_bytes rate pkt s =
     (case st_lastSeq s of
        None \<Rightarrow> Some 0
      | Some q \<Rightarrow>
          if SequenceNumber pkt = q + 1 then Some 0
          else if q - SequenceNumber pkt < 32768 then None
          else if \<not> st_hasLastTimestamp s then Some 0
          else
            let gap = Timestamp pkt - st_lastTimestamp s
            in if gap \<le> word_of_int (rate * 60 div 1000)
               then Some (nat (lost_count (SequenceNumber pkt) (q + 1)) *
                 (if st_lastPCMSize s = 0 then nat (PCMBytesPerPacket rate) else st_lastPCMSize s))
               else if gap \<ge> word_of_int (rate * 3) \<and> gap \<le> word_of_int (rate * 120)
               then Some (nat (uint (gap - word_of_int (rate div 50))) * 2)
               else Some 0)"

lemma record_bytes_ready:
  assumes "fw_recordingWriter (st_fw s) = Some False" "rv_write_ok env"
  shows "record_bytes env p s = (True, s\<lparr>st_out := st_out s @ p\<rparr>)"
  using assms by (simp add: record_bytes_def)

lemma conceal_silence_ready:
  assumes "fw_recordingWriter (st_fw s) = Some False" "rv_write_ok env"
  shows "conceal_silence env rate n s =
    s\<lparr>st_out := st_out s @ replicate (n * (if st_lastPCMSize s = 0 then nat (PCMBytesPerPacket rate) else st_lastPCMSize s)) 0\<rparr>"
  unfolding conceal_silence_def Let_def record_bytes_ready[OF assms] by (simp only: snd_conv) simp

lemma no_silence: "s\<lparr>st_out := st_out s @ replicate 0 x\<rparr> = s"
  by simp

lemma fill_gap_ready:
  assumes "fw_recordingWriter (st_fw s) = Some False" "rv_write_ok env"
  shows "fill_gap env rate gap s =
    (if gap \<ge> word_of_int (rate * 3) \<and> gap \<le> word_of_int (rate * 120)
     then s\<lparr>st_out := st_out s @ replicate (nat (uint (gap - word_of_int (rate div 50))) * 2) 0\<rparr> else s)"
proof (cases "uint (gap - word_of_int (rate div 50)) > 0")
  case False
  then have "nat (uint (gap - word_of_int (rate div 50))) * 2 = 0" by (simp only: not_less nat_0_iff mult_0)
  then show ?thesis unfolding fill_gap_def Let_def by (simp only: False if_False no_silence)
qed (simp only: fill_gap_def Let_def record_bytes_ready[OF assms] if_True snd_conv)

lemma handle_gap_ready:
  assumes "fw_recordingWriter (st_fw s) = Some False" "rv_write_ok env" "\<not> is_g729 name" "\<not> is_opus name"
  shows "handle_gap env name rate pkt s =
    (case gap_bytes rate pkt s of None \<Rightarrow> (True, s) | Some n \<Rightarrow> (False, s\<lparr>st_out := st_out s @ replicate n 0\<rparr>))"
proof (cases "st_lastSeq s")
  case (Some q)
  let ?lost = "nat (lost_count (SequenceNumber pkt) (q + 1))"
  have loss: "(if ?lost > 0 then conceal_loss env name rate ?lost s else s) = conceal_silence env rate ?lost s"
    using assms(3,4) by (cases "?lost > 0") (simp_all add: conceal_loss_def conceal_silence_def)
  have d: "(case if b then x else y of None \<Rightarrow> u | Some n \<Rightarrow> v n) =
    (if b then case x of None \<Rightarrow> u | Some n \<Rightarrow> v n else case y of None \<Rightarrow> u | Some n \<Rightarrow> v n)" for b x y u v
    by (cases b) simp_all
  have p: "(False, if b then x else y) = (if b then (False, x) else (False, y))" for b x y by simp
  show ?thesis
    unfolding handle_gap_def gap_bytes_def Let_def Some option.case d loss
    unfolding p conceal_silence_ready[OF assms(1,2)] fill_gap_ready[OF assms(1,2)] no_silence ..
qed (simp only: handle_gap_def gap_bytes_def option.case no_silence)

lemma gap_bytes_cong:
  assumes "st_lastSeq t = st_lastSeq s" "st_hasLastTimestamp t = st_hasLastTimestamp s" "st_lastTimestamp t = st_lastTimestamp s"
    "st_lastPCMSize t = st_lastPCMSize s"
  shows "gap_bytes rate pkt t = gap_bytes rate pkt s"
  using assms by (simp only: gap_bytes_def)

definition writes_ok :: "rx_env \<Rightarrow> bool" where
  "writes_ok env \<longleftrightarrow> rv_write_ok env \<and> rv_processor env = None"

lemma transcribe_stream: "\<exists>stt. transcribe env p s = s\<lparr>st_stt := stt\<rparr>"
proof (cases "st_stt s")
  case None
  then show ?thesis by (intro exI[of _ None]) (simp add: transcribe_def)
next
  case (Some w)
  then show ?thesis
    by (intro exI[of _ "if p = [] then Some w else if rv_stt_ok env then Some (w @ p) else None"]) (simp add: transcribe_def)
qed

lemma record_packet_ready:
  assumes "rec_view (st_fw s) = (pt, name, rate, False, Some False)" "name \<noteq> []" "rate > 0" "\<not> is_g729 name" "\<not> is_opus name"
    and "writes_ok env" "DecodeAudioPayload (rv_native env) (Payload pkt) name = Inr pcm" "pcm \<noteq> []" "gap_bytes rate pkt s = Some n"
  obtains stt where "record_packet env name rate ch pkt s =
    s\<lparr>st_out := st_out s @ replicate n 0 @ pcm, st_lastPCMSize := length pcm, st_lastSeq := Some (SequenceNumber pkt),
      st_lastTimestamp := Timestamp pkt, st_hasLastTimestamp := True, st_stt := stt\<rparr>"
proof -
  have w: "fw_recordingWriter (st_fw s) = Some False" "\<not> fw_RecordingPaused (st_fw s)" and e: "rv_write_ok env" "rv_processor env = None"
    using assms(1,6) by (simp_all add: rec_view_def writes_ok_def)
  let ?s1 = "s\<lparr>st_out := st_out s @ replicate n 0\<rparr>"
  let ?s4 = "?s1\<lparr>st_lastPCMSize := length pcm, st_out := (st_out s @ replicate n 0) @ pcm\<rparr>"
  let ?s5 = "?s4\<lparr>st_lastSeq := Some (SequenceNumber pkt), st_lastTimestamp := Timestamp pkt, st_hasLastTimestamp := True\<rparr>"
  obtain stt where stt: "transcribe env pcm ?s5 = ?s5\<lparr>st_stt := stt\<rparr>" using transcribe_stream[of env pcm ?s5] by blast
  have gap: "handle_gap env name rate pkt s = (False, ?s1)"
    using handle_gap_ready[OF w(1) e(1) assms(4,5), of rate pkt] assms(9) by simp
  have dec: "decode_payload env name rate ch pkt ?s1 = (Inr pcm, ?s1)" using assms(4,5,7) by (simp add: decode_payload_def)
  have rec: "record_bytes env pcm (?s1\<lparr>st_lastPCMSize := length pcm\<rparr>) = (True, ?s4)" using w(1) e(1) by (simp add: record_bytes_ready)
  have prep: "prepareRecordingAndTranscriptionPayloads env pcm (?s1\<lparr>st_lastPCMSize := length pcm\<rparr>) = Inr (pcm, pcm)"
    using e(2) by (simp add: prepareRecordingAndTranscriptionPayloads_def)
  have "record_packet env name rate ch pkt s = ?s5\<lparr>st_stt := stt\<rparr>"
    using assms(2,3,8) w(2) stt by (simp add: record_packet_def Let_def gap dec rec prep)
  also have "\<dots> = s\<lparr>st_out := st_out s @ replicate n 0 @ pcm, st_lastPCMSize := length pcm, st_lastSeq := Some (SequenceNumber pkt),
      st_lastTimestamp := Timestamp pkt, st_hasLastTimestamp := True, st_stt := stt\<rparr>" by simp
  finally show ?thesis by (rule that)
qed

lemma process_accepted_ready:
  assumes ready: "recording_ready name pt rate s" and acc: "st_lastAccepted s = 0 \<or> st_lastAccepted s = SSRC pkt"
    and pkt: "PayloadType pkt = pt" "Payload pkt \<noteq> []" and env: "writes_ok env"
    and dec: "DecodeAudioPayload (rv_native env) (Payload pkt) name = Inr pcm" "pcm \<noteq> []" and gap: "gap_bytes rate pkt s = Some n"
    and s': "s' = process_accepted env arrival addr pkt s"
  shows "recording_ready name pt rate s' \<and> st_out s' = st_out s @ replicate n 0 @ pcm \<and> st_lastAccepted s' = SSRC pkt \<and>
    st_lastSeq s' = Some (SequenceNumber pkt) \<and> st_lastTimestamp s' = Timestamp pkt \<and> st_hasLastTimestamp s' \<and>
    st_lastPCMSize s' = length pcm"
proof -
  have r: "rec_view (st_fw s) = (pt, name, rate, False, Some False)" "name \<noteq> []" "ToUpper name = name" "rate > 0"
    "\<not> is_g729 name" "\<not> is_opus name" "st_jitter s = None"
    using ready by (simp_all add: recording_ready_def)
  obtain f where f: "accept_packet env arrival addr pkt s = s\<lparr>st_firstReceived := True, st_lastAccepted := SSRC pkt, st_fw := f\<rparr>"
    "rec_view f = (pt, name, rate, False, Some False)" using accept_packet_stream[OF acc] r(1) by metis
  let ?s1 = "s\<lparr>st_firstReceived := True, st_lastAccepted := SSRC pkt, st_fw := f\<rparr>"
  have "rec_view (st_fw ?s1) = (pt, name, rate, False, Some False)" using f(2) by simp
  then obtain f2 ch where c: "codec_step pkt ?s1 = (pt, name, rate, ch, ?s1\<lparr>st_fw := f2\<rparr>)" "rec_view f2 = (pt, name, rate, False, Some False)"
    by (rule codec_step_ready[OF _ r(2-4) pkt(1)])
  let ?s2 = "?s1\<lparr>st_fw := f2\<rparr>"
  have v: "rec_view (st_fw ?s2) = (pt, name, rate, False, Some False)" using c(2) by simp
  have "gap_bytes rate pkt ?s2 = Some n" using gap gap_bytes_cong[of ?s2 s rate pkt] by simp
  from record_packet_ready[OF v r(2,4-6) env dec this] obtain stt where
    "record_packet env name rate ch pkt ?s2 = ?s2\<lparr>st_out := st_out ?s2 @ replicate n 0 @ pcm, st_lastPCMSize := length pcm,
      st_lastSeq := Some (SequenceNumber pkt), st_lastTimestamp := Timestamp pkt, st_hasLastTimestamp := True, st_stt := stt\<rparr>" .
  then have "s' = ?s2\<lparr>st_out := st_out ?s2 @ replicate n 0 @ pcm, st_lastPCMSize := length pcm,
      st_lastSeq := Some (SequenceNumber pkt), st_lastTimestamp := Timestamp pkt, st_hasLastTimestamp := True, st_stt := stt\<rparr>"
    using pkt r(7) by (simp add: s' process_accepted_def f(1) c(1))
  then show ?thesis using r(2-7) c(2) by (simp add: recording_ready_def)
qed

text \<open>Packets that the stream can record, their audio, and the order of their sequence numbers.\<close>

definition pcm_of :: "string \<Rightarrow> packet_event \<Rightarrow> byte list" where
  "pcm_of name e = (case DecodeAudioPayload (rv_native (fst e)) (Payload (event_packet e)) name of Inl _ \<Rightarrow> [] | Inr pcm \<Rightarrow> pcm)"

definition recordable :: "string \<Rightarrow> byte \<Rightarrow> packet_event \<Rightarrow> bool" where
  "recordable name pt e \<longleftrightarrow> writes_ok (fst e) \<and> PayloadType (event_packet e) = pt \<and> Payload (event_packet e) \<noteq> [] \<and> pcm_of name e \<noteq> []"

fun in_order :: "seqno option \<Rightarrow> packet_event list \<Rightarrow> bool" where
  "in_order q [] \<longleftrightarrow> True"
| "in_order q (e # es) \<longleftrightarrow> (q = None \<or> q = Some (SequenceNumber (event_packet e) - 1)) \<and> in_order (Some (SequenceNumber (event_packet e))) es"

lemma recordable_step:
  assumes "recordable name pt (env, arrival, addr, pkt)" "recording_ready name pt rate s"
    and "fw_RemoteSSRC (st_fw s) = SSRC pkt" "SSRC pkt \<noteq> 0" "st_lastAccepted s = 0 \<or> st_lastAccepted s = SSRC pkt"
    and "gap_bytes rate pkt s = Some n" "decodeAndProcess env arrival addr pkt (g, s) = (g', s')"
  shows "recording_ready name pt rate s' \<and> fw_RemoteSSRC (st_fw s') = SSRC pkt \<and> st_lastAccepted s' = SSRC pkt \<and>
    st_lastSeq s' = Some (SequenceNumber pkt) \<and> st_out s' = st_out s @ replicate n 0 @ pcm_of name (env, arrival, addr, pkt)"
proof -
  let ?s = "s\<lparr>st_fw := (st_fw s)\<lparr>fw_RTPSuspended := False\<rparr>\<rparr>"
  have r: "writes_ok env" "PayloadType pkt = pt" "Payload pkt \<noteq> []" and pcm: "pcm_of name (env, arrival, addr, pkt) \<noteq> []"
    using assms(1) by (simp_all add: recordable_def)
  have dec: "DecodeAudioPayload (rv_native env) (Payload pkt) name = Inr (pcm_of name (env, arrival, addr, pkt))"
    using pcm by (simp add: pcm_of_def split: sum.splits)
  have s': "s' = process_accepted env arrival addr pkt ?s" using assms(7) decodeAndProcess_locked[OF assms(3,4)] by simp
  have ready: "recording_ready name pt rate ?s" using assms(2) by (simp add: recording_ready_def)
  have "gap_bytes rate pkt ?s = Some n" using assms(6) gap_bytes_cong[of ?s s rate pkt] by simp
  from process_accepted_ready[OF ready _ r(2,3,1) dec pcm this s'] RemoteSSRC_locked[OF assms(3,4), of env arrival addr] assms(5)
  show ?thesis by (simp add: s')
qed

lemma in_order_run:
  assumes "recording_ready name pt rate s" "fw_RemoteSSRC (st_fw s) = l" "l \<noteq> 0" "st_lastAccepted s = 0 \<or> st_lastAccepted s = l"
    and "list_all (recordable name pt) es" "all_from l es" "in_order (st_lastSeq s) es"
  shows "st_out (snd (rx_run es (g, s))) = st_out s @ concat (map (pcm_of name) es)"
  using assms
proof (induction es arbitrary: g s)
  case (Cons e es)
  obtain env arrival addr pkt where e: "e = (env, arrival, addr, pkt)" by (cases e)
  obtain g' s' where run: "decodeAndProcess env arrival addr pkt (g, s) = (g', s')" by (cases "decodeAndProcess env arrival addr pkt (g, s)")
  have l: "SSRC pkt = l" "all_from l es" using Cons.prems(6) by (simp_all add: all_from_def e)
  have q: "st_lastSeq s = None \<or> st_lastSeq s = Some (SequenceNumber pkt - 1)" using Cons.prems(7) by (simp add: e)
  then have gap: "gap_bytes rate pkt s = Some 0" by (elim disjE) (simp_all add: gap_bytes_def)
  have rec: "recordable name pt (env, arrival, addr, pkt)" using Cons.prems(5) by (simp add: e)
  have step: "recording_ready name pt rate s'" "fw_RemoteSSRC (st_fw s') = l" "st_lastAccepted s' = l"
    "st_lastSeq s' = Some (SequenceNumber pkt)" "st_out s' = st_out s @ pcm_of name e"
    using recordable_step[OF rec Cons.prems(1) _ _ _ gap run] Cons.prems(2-4) l(1) e by simp_all
  from Cons.IH[OF step(1,2) Cons.prems(3) _ _ l(2)] Cons.prems(5,7) step(3-5) show ?case by (simp add: e run)
qed simp

lemma demo_stream_rec_view: "rec_view (st_fw (demo_stream pt name)) = (pt, name, 8000, False, Some False)"
  by (simp add: demo_stream_def new_stream_def demo_start_def Let_def rec_view_def call_forwarder_def new_forwarder_def)

lemma demo_ready: "recording_ready ''L16'' 11 8000 (demo_stream 11 ''L16'')"
proof -
  have "ToUpper ''L16'' = ''L16''" by code_simp
  then show ?thesis by (simp add: recording_ready_def demo_stream_rec_view demo_stream_fields is_g729_def is_opus_def)
qed

lemma demo_pcm: "pcm_of ''L16'' (demo_packet l pt q xs) = xs"
  by (simp add: pcm_of_def DecodeAudioPayload_def)

lemma demo_recordable: "xs \<noteq> [] \<Longrightarrow> recordable ''L16'' 11 (demo_packet l 11 q xs)"
  by (simp add: recordable_def demo_pcm writes_ok_def demo_env_def)



section \<open>Lost packets\<close>

lemma neg_small: 
  assumes "n < 32768" shows "\<not> (- of_nat (n + 1) :: 16 word) < 32768"
proof -
  have "uint (- of_nat (n + 1) :: 16 word) = (- int (n + 1)) mod 65536"
    using uint_word_of_int[of "- int (n + 1)", where ?'a = 16] by simp
  also have "\<dots> = 65536 - int (n + 1)" using assms mod_pos_pos_trivial[of "65536 - int (n + 1)" 65536] mod_add_self2[of "- int (n + 1)" 65536] by simp
  finally show ?thesis using assms by (simp add: word_less_def)
qed

lemma word_of_nat_le: 
  assumes "a < 2 ^ 32" "b < 2 ^ 32" shows "(of_nat a :: 32 word) \<le> of_nat b \<longleftrightarrow> a \<le> b"
  using assms by (simp add: word_of_nat_less_eq_iff take_bit_nat_eq_self)

lemma mod_wrap_once: "b \<le> a \<Longrightarrow> a < 2 * b \<Longrightarrow> a mod b = a - (b::int)"
  using mod_add_self2[of "a - b" b] mod_pos_pos_trivial[of "a - b" b] by simp

lemma lost_count_small:
  assumes "0 < n" "n \<le> 10" shows "lost_count (e + of_nat n) e = int n"
proof -
  have e: "0 \<le> uint e" "uint e < 65536" using uint_lt2p[of e] by simp_all
  have "uint (e + of_nat n) = (uint e + int n) mod 65536"
    using uint_word_of_int[of "uint e + int n", where ?'a = 16] by simp
  also have "\<dots> = (if uint e + int n < 65536 then uint e + int n else uint e + int n - 65536)" 
    using e assms by (auto simp: mod_pos_pos_trivial intro!: mod_wrap_once)
  finally show ?thesis using e assms by (auto simp: lost_count_def word_less_def)
qed

lemma lost_packets_gap:
  assumes "st_lastSeq s = Some q" "st_hasLastTimestamp s" "st_lastPCMSize s = 320" "n < 32768"
    and "SequenceNumber pkt = q + 1 + of_nat n" "Timestamp pkt = st_lastTimestamp s + of_nat (160 * (n + 1))"
  shows "gap_bytes 8000 pkt s = Some (if n \<le> 2 \<or> 149 \<le> n \<and> n \<le> 5999 then 320 * n else 0)"
proof (cases "n = 0")
  case False
  have seq: "SequenceNumber pkt \<noteq> q + 1" using False assms(4,5) by (simp add: word_of_nat_eq_0_iff nat_dvd_not_less)
  have "q - SequenceNumber pkt = - of_nat (n + 1)" unfolding assms(5) by simp
  then have ord: "\<not> q - SequenceNumber pkt < 32768" using neg_small[OF assms(4)] by simp
  have ts: "Timestamp pkt - st_lastTimestamp s = of_nat (160 * (n + 1))" unfolding assms(6) by simp
  have lost: "lost_count (SequenceNumber pkt) (q + 1) = int n" if "n \<le> 2" unfolding assms(5) by (rule lost_count_small) (use that False in simp_all)
  have le: "(of_nat (160 * (n + 1)) \<le> (word_of_int (8000 * 60 div 1000) :: 32 word)) = (n \<le> 2)"
    "((word_of_int (8000 * 3) :: 32 word) \<le> of_nat (160 * (n + 1))) = (149 \<le> n)"
    "(of_nat (160 * (n + 1)) \<le> (word_of_int (8000 * 120) :: 32 word)) = (n \<le> 5999)"
    using word_of_nat_le[of "160 * (n + 1)" 480] word_of_nat_le[of 24000 "160 * (n + 1)"] word_of_nat_le[of "160 * (n + 1)" 960000] assms(4) by simp_all
  have "of_nat (160 * (n + 1)) - word_of_int (8000 div 50) = (of_nat (160 * n) :: 32 word)" by simp
  then have fill: "nat (uint (of_nat (160 * (n + 1)) - word_of_int (8000 div 50) :: 32 word)) * 2 = 320 * n"
    using assms(4) by (simp only: uint_nat nat_int unat_of_nat) (simp add: take_bit_nat_eq_self)
  show ?thesis
    unfolding gap_bytes_def assms(1) option.case Let_def ts le fill using seq ord assms(2,3) lost by simp
qed (use assms in \<open>simp add: gap_bytes_def\<close>)



section \<open>Telephone events on a PCMU call\<close>

lemma SetCodecInfo_rec_view:
  "rec_view (SetCodecInfo pt name rate ch f) = (pt, ToUpper name, if rate \<le> 0 then 8000 else rate, fw_RecordingPaused f, fw_recordingWriter f)"
  by (simp add: SetCodecInfo_def rec_view_def)

lemma accept_packet_keeps: "st_out (accept_packet env arrival addr pkt s) = st_out s"
  "rec_view (st_fw (accept_packet env arrival addr pkt s)) = rec_view (st_fw s)"
  by (simp_all add: accept_packet_def Let_def clear_on_change_def note_first_def)

lemma process_accepted_event:
  assumes "rec_view (st_fw s) = (pt, name, rate, p, w)" "name \<noteq> []" "rate > 0" "pt \<noteq> 0" "PayloadType pkt \<noteq> pt"
    and "s' = process_accepted env arrival addr pkt s"
  shows "st_out s' = st_out s \<and> rec_view (st_fw s') = rec_view (st_fw s)"
proof -
  let ?a = "accept_packet env arrival addr pkt s"
  have v: "fw_CodecPayloadType (st_fw ?a) = pt" "fw_CodecName (st_fw ?a) = name" "fw_SampleRate (st_fw ?a) = rate"
    using accept_packet_keeps(2)[of env arrival addr pkt s] assms(1) by (simp_all add: rec_view_def)
  have "s' = ?a" using assms(2-6) by (simp add: process_accepted_def codec_step_def Let_def v)
  then show ?thesis using accept_packet_keeps[of env arrival addr pkt s] by simp
qed

lemma process_accepted_unset:
  assumes "rec_view (st_fw s) = (0, name, rate, p, w)" "name \<noteq> []" "rate > 0"
  shows "rec_view (st_fw (process_accepted env arrival addr pkt s)) = (PayloadType pkt, ToUpper name, rate, p, w)"
proof -
  let ?a = "accept_packet env arrival addr pkt s"
  let ?f = "SetCodecInfo (PayloadType pkt) name rate (fw_Channels (st_fw ?a)) (st_fw ?a)"
  have v: "rec_view (st_fw ?a) = (0, name, rate, p, w)" using accept_packet_keeps(2) assms(1) by simp
  then have c: "codec_step pkt ?a = (0, name, rate, fw_Channels (st_fw ?a), ?a\<lparr>st_fw := ?f\<rparr>)"
    using assms(2,3) by (simp add: codec_step_def Let_def rec_view_def)
  have "rec_view ?f = (PayloadType pkt, ToUpper name, rate, p, w)"
    unfolding SetCodecInfo_rec_view using v assms(3) by (simp add: rec_view_def)
  then show ?thesis by (simp add: process_accepted_def c split: option.split)
qed

lemma events_only:
  assumes "rec_view (st_fw s) = (pt, name, rate, p, w)" "name \<noteq> []" "rate > 0" "pt \<noteq> 0" "fw_RemoteSSRC (st_fw s) = l" "l \<noteq> 0"
    and "all_from l es" "\<forall>e \<in> set es. PayloadType (event_packet e) \<noteq> pt"
  shows "st_out (snd (rx_run es (g, s))) = st_out s"
  using assms
proof (induction es arbitrary: g s)
  case (Cons e es)
  obtain env arrival addr pkt where e: "e = (env, arrival, addr, pkt)" by (cases e)
  let ?s = "s\<lparr>st_fw := (st_fw s)\<lparr>fw_RTPSuspended := False\<rparr>\<rparr>"
  have l: "fw_RemoteSSRC (st_fw s) = SSRC pkt" "SSRC pkt \<noteq> 0" "SSRC pkt = l" using Cons.prems(5-7) by (simp_all add: all_from_def e)
  have "rec_view (st_fw ?s) = (pt, name, rate, p, w)" using Cons.prems(1) by simp
  from process_accepted_event[OF this Cons.prems(2-4) _ refl, of pkt env arrival addr] Cons.prems(1,8)
  have step: "st_out (process_accepted env arrival addr pkt ?s) = st_out s"
    "rec_view (st_fw (process_accepted env arrival addr pkt ?s)) = (pt, name, rate, p, w)" by (simp_all add: e)
  from Cons.IH[OF step(2) Cons.prems(2-4) RemoteSSRC_locked[OF l(1,2), unfolded l(3)] Cons.prems(6)] Cons.prems(7,8) step(1)
  show ?case by (simp add: e decodeAndProcess_locked[OF l(1,2)] all_from_def)
qed simp

text \<open>C33: a telephone event ends the recording of a PCMU call. Payload type zero stands for PCMU and for "not yet
  known". On a call that was negotiated as PCMU, the first packet of any other payload type, such as a telephone
  event, makes that type the type of the audio; from then on every PCMU packet is dropped and nothing of the call's
  audio is recorded.\<close>

theorem event_ends_pcmu_recording:
  assumes "rec_view (st_fw s) = (0, ''PCMU'', 8000, p, w)" "fw_RemoteSSRC (st_fw s) = SSRC pkt" "SSRC pkt \<noteq> 0" "PayloadType pkt \<noteq> 0"
    and "all_from (SSRC pkt) es" "\<forall>e \<in> set es. PayloadType (event_packet e) = 0"
  shows "st_out (snd (rx_run es (decodeAndProcess env arrival addr pkt (g, s)))) = st_out (snd (decodeAndProcess env arrival addr pkt (g, s)))"
proof -
  let ?s = "s\<lparr>st_fw := (st_fw s)\<lparr>fw_RTPSuspended := False\<rparr>\<rparr>"
  have "rec_view (st_fw ?s) = (0, ''PCMU'', 8000, p, w)" using assms(1) by simp
  from process_accepted_unset[OF this, of env arrival addr pkt]
  have v: "rec_view (st_fw (process_accepted env arrival addr pkt ?s)) = (PayloadType pkt, ToUpper ''PCMU'', 8000, p, w)" by simp
  have "ToUpper ''PCMU'' \<noteq> []" by (simp add: ToUpper_def)
  then show ?thesis
    using events_only[OF v _ _ assms(4) RemoteSSRC_locked[OF assms(2,3)] assms(3,5)] assms(4,6) decodeAndProcess_locked[OF assms(2,3)] by simp
qed

theorem event_ends_pcmu_recording_witness:
  "st_out (snd (rx_run (replicate 100 (demo_packet 7 0 2 [255]))
     (decodeAndProcess demo_env 1 None (event_packet (demo_packet 7 101 1 [1, 10, 0, 160])) (new_gate, demo_stream 0 ''PCMU'')))) =
   st_out (snd (decodeAndProcess demo_env 1 None (event_packet (demo_packet 7 101 1 [1, 10, 0, 160])) (new_gate, demo_stream 0 ''PCMU'')))"
  by (rule event_ends_pcmu_recording[OF demo_stream_rec_view]) (simp_all add: demo_stream_fields all_from_def)

section \<open>The recording file\<close>

lemma open_recording_path:
  "\<not> fw_EncryptedRecorder f \<Longrightarrow> se_create_ok se \<Longrightarrow>
     fw_RecordingPath (snd (open_recording se callUUID f)) = se_join se (se_RecordingDir se) (SanitizeCallUUID callUUID @ ''.wav'')"
  by (simp add: open_recording_def Let_def)

text \<open>The legs of a call share one file. A stream is recorded under the Call-ID, an underscore and the stream's label.
  When the Call-ID has 64 or more characters that a file name keeps, the path of the recording does not depend on
  the label: the file that is created for one leg truncates the recording of the other.\<close>

theorem legs_share_file:
  assumes "length (filter (\<lambda>c. is_letter c \<or> is_digit c \<or> c = CHR ''-'') callID) \<ge> 64"
    and "open_recording se (callID @ ''_'' @ label1) f1 = (ok1, f1')" "open_recording se (callID @ ''_'' @ label2) f2 = (ok2, f2')"
    and "\<not> fw_EncryptedRecorder f1" "\<not> fw_EncryptedRecorder f2" "se_create_ok se"
  shows "fw_RecordingPath f1' = fw_RecordingPath f2'"
proof -
  have "SanitizeCallUUID (callID @ ''_'' @ x) = SanitizeCallUUID callID" for x
    using assms(1) by (simp add: SanitizeCallUUID_def)
  then show ?thesis
    using open_recording_path[of f1 se "callID @ ''_'' @ label1"] open_recording_path[of f2 se "callID @ ''_'' @ label2"] assms(2-6) by simp
qed

theorem legs_share_file_witness:
  "fw_RecordingPath (snd (open_recording demo_start (replicate 70 (CHR ''a'') @ ''_'' @ ''1'') call_forwarder)) =
   fw_RecordingPath (snd (open_recording demo_start (replicate 70 (CHR ''a'') @ ''_'' @ ''2'') call_forwarder))"
proof -
  have "is_letter (CHR ''a'')" by code_simp
  then have "length (filter (\<lambda>c. is_letter c \<or> is_digit c \<or> c = CHR ''-'') (replicate 70 (CHR ''a''))) \<ge> 64"
    by (simp add: filter_replicate)
  from legs_share_file[OF this prod.collapse[symmetric] prod.collapse[symmetric]] show ?thesis
    by (simp add: call_forwarder_def new_forwarder_def demo_start_def)
qed

end
