(* ===== verification/SdpAnswer.thy ===== *)
theory SdpAnswer
  imports RtpReceive
begin

text \<open>
  \<^verbatim>\<open>pkg/sip/sdp.go\<close>: the tolerant parser of an SDP offer and the answer to it. \<open>unmarshal\<close> is the parser of
  the SDP library, \<open>None\<close> where it reports an error. Attribute names are ASCII. The session identifier of the
  answer is the clock. The code writes the transport of an answer also into the offer, which it does not read
  again.
\<close>

section \<open>Parsing\<close>

definition isValidSDPAttributeKey :: "string \<Rightarrow> bool" where
  "isValidSDPAttributeKey key \<longleftrightarrow>
     key \<noteq> [] \<and> list_all (\<lambda>c. is_letter c \<or> is_digit c \<or> c = CHR ''-'' \<or> c = CHR ''_'' \<or> c = CHR ''.'') key \<and>
     (is_letter (hd key) \<or> hd key = CHR ''_'')"

fun crlf_to_lf :: "string \<Rightarrow> string" where
  "crlf_to_lf (a # b # s) = (if a = CHR 0x0D \<and> b = CHR 0x0A then CHR 0x0A # crlf_to_lf s else a # crlf_to_lf (b # s))"
| "crlf_to_lf s = s"

definition attribute_key :: "string \<Rightarrow> string" where
  "attribute_key attribute = (case Index attribute '':'' of None \<Rightarrow> attribute | Some i \<Rightarrow> take i attribute)"

definition bad_attribute :: "string \<Rightarrow> bool" where
  "bad_attribute line \<longleftrightarrow>
     (let trimmed = TrimSpace line
      in HasPrefix trimmed ''a='' \<and> \<not> isValidSDPAttributeKey (TrimSpace (attribute_key (TrimSpace (drop 2 trimmed)))))"

definition sanitizeSDPAttributes :: "string \<Rightarrow> string \<times> nat" where
  "sanitizeSDPAttributes data =
     (let ls = Split (crlf_to_lf data) (CHR 0x0A); cleaned = filter (\<lambda>l. \<not> bad_attribute l) ls
      in (Join cleaned [CHR 0x0D, CHR 0x0A], length ls - length cleaned))"

definition ParseSDPTolerant :: "(string \<Rightarrow> 'sdp option) \<Rightarrow> string \<Rightarrow> 'sdp option" where
  "ParseSDPTolerant unmarshal sdpData =
     (let (sanitized, dropped) = sanitizeSDPAttributes sdpData
      in case unmarshal sdpData of
           Some parsed \<Rightarrow> if dropped = 0 then Some parsed else (case unmarshal sanitized of Some clean \<Rightarrow> Some clean | None \<Rightarrow> Some parsed)
         | None \<Rightarrow> if dropped = 0 then None else unmarshal sanitized)"

section \<open>Options\<close>

record SRTPKeyInfo =
  sk_MasterKey :: "byte list"
  sk_MasterSalt :: "byte list"
  sk_Profile :: string
  sk_KeyLifetime :: int

record SDPOptions =
  so_IPAddress :: string
  so_BehindNAT :: bool
  so_InternalIP :: string
  so_ExternalIP :: string
  so_IncludeICE :: bool
  so_RTPPort :: int
  so_RTCPPort :: int
  so_UseRTCPMux :: bool
  so_EnableSRTP :: bool
  so_SRTPKeyInfo :: "SRTPKeyInfo option"
  so_MediaPortPairs :: "PortPair list"

record nat_config =
  nc_BehindNAT :: bool
  nc_InternalIP :: string
  nc_ExternalIP :: string
  nc_EnableSRTP :: bool

definition key_info :: "RTPForwarder \<Rightarrow> SRTPKeyInfo" where
  "key_info f = \<lparr>sk_MasterKey = fw_SRTPMasterKey f, sk_MasterSalt = fw_SRTPMasterSalt f, sk_Profile = fw_SRTPProfile f,
     sk_KeyLifetime = fw_SRTPKeyLifetime f\<rparr>"

definition connection_addr :: "SDPOptions \<Rightarrow> string" where
  "connection_addr opt = (if so_BehindNAT opt then so_ExternalIP opt else so_IPAddress opt)"

section \<open>The attributes of an answer\<close>

definition direction_answer :: "string \<Rightarrow> string option" where
  "direction_answer k =
     (if k = ''sendonly'' \<or> k = ''sendrecv'' then Some ''recvonly''
      else if k = ''inactive'' then Some ''inactive''
      else if k = ''recvonly'' then Some ''sendonly''
      else None)"

definition flag_attr :: "string \<Rightarrow> Attribute" where
  "flag_attr k = \<lparr>at_Key = k, at_Value = []\<rparr>"

definition keep_attr :: "SDPOptions \<Rightarrow> Attribute \<Rightarrow> bool" where
  "keep_attr opt a \<longleftrightarrow>
     direction_answer (at_Key a) = None \<and> at_Key a \<noteq> ''rtcp'' \<and>
     \<not> (so_BehindNAT opt \<and> at_Key a = ''candidate'' \<and> Contains (at_Value a) (so_InternalIP opt))"

fun answer_direction :: "Attribute list \<Rightarrow> string" where
  "answer_direction as = (case List.map_filter (\<lambda>a. direction_answer (at_Key a)) as of [] \<Rightarrow> ''recvonly'' | ds \<Rightarrow> last ds)"

definition rtcp_attrs :: "SDPOptions \<Rightarrow> int \<Rightarrow> int \<Rightarrow> Attribute list" where
  "rtcp_attrs opt rtpPort rtcpPort =
     (if so_UseRTCPMux opt then [flag_attr ''rtcp-mux'']
      else if rtcpPort > 0 \<and> rtcpPort \<noteq> rtpPort
      then [\<lparr>at_Key = ''rtcp'', at_Value = Itoa rtcpPort @ '' IN IP4 '' @ connection_addr opt\<rparr>]
      else [])"

definition host_candidate :: "string \<Rightarrow> SDPOptions \<Rightarrow> int \<Rightarrow> Attribute list" where
  "host_candidate kind opt port =
     (if so_InternalIP opt \<noteq> []
      then [\<lparr>at_Key = ''candidate'', at_Value = ''1 '' @ kind @ '' '' @ so_InternalIP opt @ '' '' @ Itoa port @ '' typ host''\<rparr>] else [])"

definition srflx_candidate :: "string \<Rightarrow> SDPOptions \<Rightarrow> int \<Rightarrow> Attribute list" where
  "srflx_candidate kind opt port =
     (if so_ExternalIP opt \<noteq> [] \<and> so_ExternalIP opt \<noteq> so_InternalIP opt
      then [\<lparr>at_Key = ''candidate'', at_Value = ''2 '' @ kind @ '' '' @ so_ExternalIP opt @ '' '' @ Itoa port @ '' typ srflx raddr '' @
               so_InternalIP opt @ '' rport '' @ Itoa port\<rparr>] else [])"

definition ice_attrs :: "SDPOptions \<Rightarrow> int \<Rightarrow> int \<Rightarrow> Attribute list" where
  "ice_attrs opt rtpPort rtcpPort =
     (if so_BehindNAT opt \<and> so_IncludeICE opt
      then [\<lparr>at_Key = ''ice-ufrag'', at_Value = ''randomufrag''\<rparr>, \<lparr>at_Key = ''ice-pwd'', at_Value = ''randomicepwd''\<rparr>] @
           host_candidate ''1 UDP 2130706431'' opt rtpPort @ srflx_candidate ''1 UDP 1694498815'' opt rtpPort @
           (if \<not> so_UseRTCPMux opt \<and> rtcpPort > 0
            then host_candidate ''2 UDP 2130706430'' opt rtcpPort @ srflx_candidate ''2 UDP 1694498814'' opt rtcpPort else [])
      else [])"

definition crypto_line :: "SRTPKeyInfo \<Rightarrow> string" where
  "crypto_line k =
     ''1 '' @ sk_Profile k @ '' inline:'' @ EncodeToString (sk_MasterKey k @ sk_MasterSalt k) @
     (if sk_KeyLifetime k > 0 then ''|2^'' @ Itoa (sk_KeyLifetime k) else [])"

fun savp :: "string list \<Rightarrow> string list option" where
  "savp [] = None"
| "savp (p # ps) = (if p = ''RTP/AVP'' then Some (''RTP/SAVP'' # ps) else map_option (Cons p) (savp ps))"

definition savp_protos :: "string list \<Rightarrow> string list" where
  "savp_protos ps = (case savp ps of Some qs \<Rightarrow> qs | None \<Rightarrow> (case ps of [] \<Rightarrow> [] | _ # r \<Rightarrow> ''RTP/SAVP'' # r))"

section \<open>Codecs\<close>

definition prioritizeCodecs :: "string list \<Rightarrow> string list" where
  "prioritizeCodecs formats =
     filter (\<lambda>c. c \<in> set formats) [''0'', ''8'', ''9''] @ filter (\<lambda>c. c \<notin> set [''0'', ''8'', ''9'']) formats"

section \<open>The answer\<close>

definition media_ports :: "SDPOptions \<Rightarrow> nat \<Rightarrow> int \<times> int" where
  "media_ports opt idx =
     (let pairs = so_MediaPortPairs opt;
          rtp = (if idx < length pairs \<and> RTPPort (pairs ! idx) > 0 then RTPPort (pairs ! idx) else so_RTPPort opt);
          rtcp = (if idx < length pairs \<and> RTCPPort (pairs ! idx) > 0 then RTCPPort (pairs ! idx) else so_RTCPPort opt)
      in (rtp, if rtcp \<le> 0 \<and> rtp > 0 then rtp + 1 else rtcp))"

definition answer_media :: "SDPOptions \<Rightarrow> nat \<times> MediaDescription \<Rightarrow> MediaDescription" where
  "answer_media opt im =
     (let (idx, m) = im; (rtpPort, rtcpPort) = media_ports opt idx;
          key = (if so_EnableSRTP opt then so_SRTPKeyInfo opt else None)
      in \<lparr>md_Media = md_Media m, md_Port = rtpPort,
          md_Protos = (case key of None \<Rightarrow> md_Protos m | Some _ \<Rightarrow> savp_protos (md_Protos m)),
          md_Formats = prioritizeCodecs (md_Formats m),
          md_Connection = Some (Some (connection_addr opt)),
          md_Attributes =
            filter (keep_attr opt) (md_Attributes m) @ [flag_attr (answer_direction (md_Attributes m))] @
            rtcp_attrs opt rtpPort rtcpPort @ ice_attrs opt rtpPort rtcpPort @
            (case key of None \<Rightarrow> [] | Some k \<Rightarrow> [\<lparr>at_Key = ''crypto'', at_Value = crypto_line k\<rparr>])\<rparr>)"

definition default_crypto :: "SDPOptions \<Rightarrow> Attribute list" where
  "default_crypto opt =
     (case (if so_EnableSRTP opt then so_SRTPKeyInfo opt else None) of
        None \<Rightarrow> []
      | Some k \<Rightarrow>
          [\<lparr>at_Key = ''crypto'',
            at_Value = (if sk_MasterKey k \<noteq> [] \<and> sk_MasterSalt k \<noteq> [] then crypto_line k
                        else ''1 AES_CM_128_HMAC_SHA1_80 inline:c2VjcmV0a2V5c2VjcmV0a2V5c2VjcmU='')\<rparr>])"

definition generateDefaultSDP :: "int \<Rightarrow> SDPOptions \<Rightarrow> SessionDescription" where
  "generateDefaultSDP unix opt =
     (let addr = connection_addr opt; crypto = default_crypto opt
      in \<lparr>sd_Username = ''siprec'', sd_SessionID = unix, sd_SessionVersion = 1, sd_UnicastAddress = addr,
          sd_SessionName = ''SIPREC Media Session'', sd_Connection = Some (Some addr), sd_TimeDescriptions = [(0, 0)],
          sd_MediaDescriptions =
            [\<lparr>md_Media = ''audio'', md_Port = (if so_RTPPort opt \<le> 0 then 0 else so_RTPPort opt),
              md_Protos = [if crypto = [] then ''RTP/AVP'' else ''RTP/SAVP''], md_Formats = [''0'', ''8'', ''9''],
              md_Connection = Some (Some addr),
              md_Attributes = [\<lparr>at_Key = ''rtpmap'', at_Value = ''0 PCMU/8000''\<rparr>, \<lparr>at_Key = ''rtpmap'', at_Value = ''8 PCMA/8000''\<rparr>,
                \<lparr>at_Key = ''rtpmap'', at_Value = ''9 G722/8000''\<rparr>, \<lparr>at_Key = ''ptime'', at_Value = ''20''\<rparr>, flag_attr ''recvonly''] @ crypto\<rparr>],
          sd_Attributes = [flag_attr ''recording-session'']\<rparr>)"

definition generateSDPAdvanced :: "int \<Rightarrow> SessionDescription option \<Rightarrow> SDPOptions \<Rightarrow> SessionDescription" where
  "generateSDPAdvanced clock receivedSDP opt =
     (case receivedSDP of
        None \<Rightarrow> generateDefaultSDP clock opt
      | Some offer \<Rightarrow>
          \<lparr>sd_Username = ''siprec-srs'', sd_SessionID = clock, sd_SessionVersion = 1, sd_UnicastAddress = connection_addr opt,
           sd_SessionName = ''SRS Recording Session'', sd_Connection = Some (Some (connection_addr opt)),
           sd_TimeDescriptions = sd_TimeDescriptions offer,
           sd_MediaDescriptions = map (answer_media opt) (enumerate 0 (sd_MediaDescriptions offer)),
           sd_Attributes = [flag_attr ''recording-session'']\<rparr>)"

definition generateSDPResponseWithPort ::
  "int \<Rightarrow> nat_config \<Rightarrow> SessionDescription option \<Rightarrow> string \<Rightarrow> int \<Rightarrow> RTPForwarder option \<Rightarrow> SessionDescription" where
  "generateSDPResponseWithPort clock cfg receivedSDP ip rtpPort fwd =
     (let rtcpPort = (case fwd of Some f \<Rightarrow> if fw_RTCPPort f > 0 then fw_RTCPPort f else 0 | None \<Rightarrow> 0);
          srtp = (case fwd of Some f \<Rightarrow> nc_EnableSRTP cfg \<and> fw_SRTPEnabled f | None \<Rightarrow> False)
      in generateSDPAdvanced clock receivedSDP
           \<lparr>so_IPAddress = ip, so_BehindNAT = nc_BehindNAT cfg, so_InternalIP = nc_InternalIP cfg, so_ExternalIP = nc_ExternalIP cfg,
            so_IncludeICE = False, so_RTPPort = rtpPort, so_RTCPPort = rtcpPort, so_UseRTCPMux = (rtcpPort > 0 \<and> nc_BehindNAT cfg),
            so_EnableSRTP = srtp,
            so_SRTPKeyInfo = (case fwd of
                Some f \<Rightarrow> if srtp \<and> fw_SRTPMasterKey f \<noteq> [] \<and> fw_SRTPMasterSalt f \<noteq> [] then Some (key_info f) else None
              | None \<Rightarrow> None),
            so_MediaPortPairs = [\<lparr>RTPPort = rtpPort, RTCPPort = rtcpPort\<rparr>]\<rparr>)"

text \<open>The ports of the forwarders for the audio descriptions, in order, and none for the others.\<close>

fun audio_pairs :: "MediaDescription list \<Rightarrow> RTPForwarder list \<Rightarrow> PortPair list" where
  "audio_pairs [] fs = []"
| "audio_pairs (m # ms) fs =
     (if md_Media m = ''audio''
      then (case fs of
              [] \<Rightarrow> \<lparr>RTPPort = 0, RTCPPort = 0\<rparr> # audio_pairs ms []
            | f # fs' \<Rightarrow> \<lparr>RTPPort = fw_LocalPort f, RTCPPort = fw_RTCPPort f\<rparr> # audio_pairs ms fs')
      else \<lparr>RTPPort = 0, RTCPPort = 0\<rparr> # audio_pairs ms fs)"

definition generateSDPResponseForForwarders ::
  "int \<Rightarrow> nat_config \<Rightarrow> SessionDescription option \<Rightarrow> string \<Rightarrow> RTPForwarder list \<Rightarrow> SessionDescription" where
  "generateSDPResponseForForwarders clock cfg receivedSDP ip fs =
     (let base = \<lparr>so_IPAddress = ip, so_BehindNAT = nc_BehindNAT cfg, so_InternalIP = nc_InternalIP cfg, so_ExternalIP = nc_ExternalIP cfg,
            so_IncludeICE = True, so_RTPPort = 0, so_RTCPPort = 0, so_UseRTCPMux = False, so_EnableSRTP = False, so_SRTPKeyInfo = None,
            so_MediaPortPairs = []\<rparr>
      in case receivedSDP of
           None \<Rightarrow> generateDefaultSDP clock base
         | Some offer \<Rightarrow>
             generateSDPAdvanced clock (Some offer)
               (case fs of
                  [] \<Rightarrow> base
                | f # _ \<Rightarrow>
                    let srtp = (nc_EnableSRTP cfg \<and> fw_SRTPEnabled f \<and> fw_SRTPMasterKey f \<noteq> [] \<and> fw_SRTPMasterSalt f \<noteq> [])
                    in base\<lparr>so_RTPPort := fw_LocalPort f, so_RTCPPort := fw_RTCPPort f, so_EnableSRTP := srtp,
                            so_SRTPKeyInfo := (if srtp then Some (key_info f) else None),
                            so_MediaPortPairs := audio_pairs (sd_MediaDescriptions offer) fs\<rparr>))"

section \<open>The answer: properties\<close>

definition is_direction :: "Attribute \<Rightarrow> bool" where
  "is_direction a \<longleftrightarrow> at_Key a \<in> set [''sendonly'', ''recvonly'', ''sendrecv'', ''inactive'']"

lemma is_direction_answer: "is_direction a \<longleftrightarrow> direction_answer (at_Key a) \<noteq> None"
  by (auto simp: is_direction_def direction_answer_def)

lemma prioritizeCodecs_set: "set (prioritizeCodecs fs) = set fs" "distinct fs \<Longrightarrow> distinct (prioritizeCodecs fs)"
  by (auto simp: prioritizeCodecs_def)

lemma generated_no_direction:
  "filter is_direction (rtcp_attrs opt p q) = []" "filter is_direction (ice_attrs opt p q) = []"
  "filter is_direction (case key of None \<Rightarrow> [] | Some k \<Rightarrow> [\<lparr>at_Key = ''crypto'', at_Value = v k\<rparr>]) = []"
  by (simp_all add: rtcp_attrs_def ice_attrs_def host_candidate_def srflx_candidate_def flag_attr_def is_direction_def split: option.split)

lemma answer_direction_flag: "is_direction (flag_attr (answer_direction as))"
proof -
  have "d \<in> set (List.map_filter (\<lambda>a. direction_answer (at_Key a)) as) \<Longrightarrow> d \<in> {''recvonly'', ''inactive'', ''sendonly''}" for d
    by (auto simp: set_map_filter direction_answer_def split: if_splits)
  then have "List.map_filter (\<lambda>a. direction_answer (at_Key a)) as \<noteq> [] \<Longrightarrow>
      last (List.map_filter (\<lambda>a. direction_answer (at_Key a)) as) \<in> {''recvonly'', ''inactive'', ''sendonly''}"
    by (metis last_in_set)
  then show ?thesis by (auto simp: is_direction_def flag_attr_def split: list.split)
qed

lemma answer_media_directions:
  "filter is_direction (md_Attributes (answer_media opt (i, m))) = [flag_attr (answer_direction (md_Attributes m))]"
proof -
  have "filter is_direction (filter (keep_attr opt) as) = []" for as
    by (induction as) (simp_all add: is_direction_answer keep_attr_def)
  then show ?thesis
    using answer_direction_flag[of "md_Attributes m"]
    by (simp add: answer_media_def split_beta Let_def generated_no_direction del: answer_direction.simps)
qed



lemma enumerate_ports:
  assumes "so_MediaPortPairs opt = prs @ audio_pairs ms fs" "length prs = n" "so_RTPPort opt = p" "p > 0"
    and "length fs = length (filter (\<lambda>m. md_Media m = ''audio'') ms)" "\<forall>f \<in> set fs. fw_LocalPort f > 0"
  shows "map md_Port (filter (\<lambda>a. md_Media a = ''audio'') (map (answer_media opt) (enumerate n ms))) = map fw_LocalPort fs \<and>
    (\<forall>a \<in> set (map (answer_media opt) (enumerate n ms)). md_Media a \<noteq> ''audio'' \<longrightarrow> md_Port a = p)"
  using assms
proof (induction ms arbitrary: n prs fs)
  case (Cons m ms)
  have media: "md_Media (answer_media opt (n, m)) = md_Media m" by (simp add: answer_media_def split_beta Let_def)
  have port: "md_Port (answer_media opt (n, m)) = (let q = RTPPort (so_MediaPortPairs opt ! n) in if n < length (so_MediaPortPairs opt) \<and> q > 0 then q else p)"
    using Cons.prems(3) by (simp add: answer_media_def media_ports_def split_beta Let_def)
  show ?case
  proof (cases "md_Media m = ''audio''")
    case True
    then obtain f fs' where fs: "fs = f # fs'" using Cons.prems(5) by (cases fs) auto
    let ?pair = "\<lparr>RTPPort = fw_LocalPort f, RTCPPort = fw_RTCPPort f\<rparr>"
    have "so_MediaPortPairs opt = (prs @ [?pair]) @ audio_pairs ms fs'" using Cons.prems(1) True fs by simp
    from Cons.IH[OF this _ Cons.prems(3,4)] Cons.prems(2,5,6) True fs
    have "map md_Port (filter (\<lambda>a. md_Media a = ''audio'') (map (answer_media opt) (enumerate (Suc n) ms))) = map fw_LocalPort fs' \<and>
      (\<forall>a \<in> set (map (answer_media opt) (enumerate (Suc n) ms)). md_Media a \<noteq> ''audio'' \<longrightarrow> md_Port a = p)" by simp
    moreover have "md_Port (answer_media opt (n, m)) = fw_LocalPort f"
      using Cons.prems(1,2,6) True fs by (simp add: port nth_append Let_def)
    ultimately show ?thesis using True by (simp add: media fs)
  next
    case False
    let ?pair = "\<lparr>RTPPort = 0, RTCPPort = 0\<rparr> :: PortPair"
    have "so_MediaPortPairs opt = (prs @ [?pair]) @ audio_pairs ms fs" using Cons.prems(1) False by simp
    from Cons.IH[OF this _ Cons.prems(3,4)] Cons.prems(2,5,6) False
    have "map md_Port (filter (\<lambda>a. md_Media a = ''audio'') (map (answer_media opt) (enumerate (Suc n) ms))) = map fw_LocalPort fs \<and>
      (\<forall>a \<in> set (map (answer_media opt) (enumerate (Suc n) ms)). md_Media a \<noteq> ''audio'' \<longrightarrow> md_Port a = p)" by simp
    moreover have "md_Port (answer_media opt (n, m)) = p"
      using Cons.prems(1,2) False by (simp add: port nth_append Let_def)
    ultimately show ?thesis using False by (simp add: media)
  qed
qed simp

text \<open>C37: the ports of the answer. With one forwarder for each audio stream, the audio streams are answered with the ports of
  the forwarders, in order. Every other medium, and also one that the client has disabled with port zero, is
  accepted on the port of the first forwarder: a video stream and the first audio stream then share a port.\<close>

theorem answer_ports:
  assumes "length fs = length (filter (\<lambda>m. md_Media m = ''audio'') (sd_MediaDescriptions offer))"
    and "fs \<noteq> []" "\<forall>f \<in> set fs. fw_LocalPort f > 0"
    and "answers = sd_MediaDescriptions (generateSDPResponseForForwarders clock cfg (Some offer) ip fs)"
  shows "map md_Port (filter (\<lambda>a. md_Media a = ''audio'') answers) = map fw_LocalPort fs \<and>
    (\<forall>a \<in> set answers. md_Media a \<noteq> ''audio'' \<longrightarrow> md_Port a = fw_LocalPort (hd fs))"
proof -
  obtain f fs' where fs: "fs = f # fs'" using assms(2) by (cases fs) auto
  let ?srtp = "nc_EnableSRTP cfg \<and> fw_SRTPEnabled f \<and> fw_SRTPMasterKey f \<noteq> [] \<and> fw_SRTPMasterSalt f \<noteq> []"
  let ?opt = "\<lparr>so_IPAddress = ip, so_BehindNAT = nc_BehindNAT cfg, so_InternalIP = nc_InternalIP cfg, so_ExternalIP = nc_ExternalIP cfg,
    so_IncludeICE = True, so_RTPPort = fw_LocalPort f, so_RTCPPort = fw_RTCPPort f, so_UseRTCPMux = False, so_EnableSRTP = ?srtp,
    so_SRTPKeyInfo = (if ?srtp then Some (key_info f) else None), so_MediaPortPairs = audio_pairs (sd_MediaDescriptions offer) fs\<rparr>"
  have "answers = map (answer_media ?opt) (enumerate 0 (sd_MediaDescriptions offer))"
    unfolding assms(4) generateSDPResponseForForwarders_def generateSDPAdvanced_def Let_def fs by simp
  then show ?thesis
    using enumerate_ports[of ?opt "[]" "sd_MediaDescriptions offer" fs 0 "fw_LocalPort f"] assms(1,3) fs by simp
qed

definition plain_nat :: nat_config where
  "plain_nat = \<lparr>nc_BehindNAT = False, nc_InternalIP = [], nc_ExternalIP = [], nc_EnableSRTP = False\<rparr>"

definition video_offer :: SessionDescription where
  "video_offer =
     (let m = \<lparr>md_Media = ''audio'', md_Port = 4000, md_Protos = [''RTP/AVP''], md_Formats = [''0''], md_Connection = None, md_Attributes = []\<rparr>
      in \<lparr>sd_Username = [], sd_SessionID = 1, sd_SessionVersion = 1, sd_UnicastAddress = [], sd_SessionName = [],
          sd_Connection = None, sd_TimeDescriptions = [], sd_MediaDescriptions = [m, m\<lparr>md_Media := ''video'', md_Port := 0\<rparr>], sd_Attributes = []\<rparr>)"

theorem answer_ports_witness:
  "map md_Port (filter (\<lambda>a. md_Media a = ''audio'')
     (sd_MediaDescriptions (generateSDPResponseForForwarders 1 plain_nat (Some video_offer) ''10.0.0.1'' [call_forwarder]))) = [10000]"
proof -
  have "length [call_forwarder] = length (filter (\<lambda>m. md_Media m = ''audio'') (sd_MediaDescriptions video_offer))"
    by (simp add: video_offer_def Let_def)
  from answer_ports[OF this _ _ refl, of 1 plain_nat "''10.0.0.1''"] show ?thesis by (simp add: call_forwarder_simps)
qed

section \<open>The tolerant parser: properties\<close>

lemma crlf_to_lf_no_cr: "CHR 0x0A \<notin> set l \<Longrightarrow> crlf_to_lf (l @ CHR 0x0D # CHR 0x0A # s) = l @ CHR 0x0A # crlf_to_lf s"
proof (induction l rule: crlf_to_lf.induct)
  case (1 a b l)
  then show ?case by (cases "a = CHR 0x0D") auto
qed simp_all

lemma crlf_to_lf_line: "CHR 0x0A \<notin> set l \<Longrightarrow> crlf_to_lf l = l"
  by (induction l rule: crlf_to_lf.induct) auto

lemma Split_lines: "l \<in> set (Split s c) \<Longrightarrow> c \<notin> set l"
  by (induction s c arbitrary: l rule: Split.induct) (auto split: if_splits list.splits)

lemma lines_Join:
  assumes "ls \<noteq> []" "\<forall>l \<in> set ls. CHR 0x0A \<notin> set l"
  shows "Split (crlf_to_lf (Join ls [CHR 0x0D, CHR 0x0A])) (CHR 0x0A) = ls"
  using assms
proof (induction ls rule: induct_list012)
  case (3 l l' ls)
  then have l: "CHR 0x0A \<notin> set l" by simp
  have "crlf_to_lf (Join (l # l' # ls) [CHR 0x0D, CHR 0x0A]) = l @ CHR 0x0A # crlf_to_lf (Join (l' # ls) [CHR 0x0D, CHR 0x0A])"
    using crlf_to_lf_no_cr[OF l] by simp
  then show ?case using 3 Split_append[OF l] by simp
qed (simp_all add: crlf_to_lf_line Split_no_sep)

text \<open>C38: the tolerant parser. Removing malformed attributes leaves no malformed attribute behind and a second run
  removes nothing. Whatever the library's parser, an offer that it accepts is accepted, an offer that it rejects is
  accepted exactly when it has malformed attributes and is acceptable without them, and an offer without malformed
  attributes is parsed as the library does.\<close>

theorem ParseSDPTolerant_correct:
  "sanitizeSDPAttributes (fst (sanitizeSDPAttributes d)) = (fst (sanitizeSDPAttributes d), 0) \<and>
   (ParseSDPTolerant unmarshal d \<noteq> None \<longleftrightarrow>
      unmarshal d \<noteq> None \<or> snd (sanitizeSDPAttributes d) > 0 \<and> unmarshal (fst (sanitizeSDPAttributes d)) \<noteq> None) \<and>
   (snd (sanitizeSDPAttributes d) = 0 \<longrightarrow> ParseSDPTolerant unmarshal d = unmarshal d)"
proof -
  let ?ls = "Split (crlf_to_lf d) (CHR 0x0A)"
  let ?cl = "filter (\<lambda>l. \<not> bad_attribute l) ?ls"
  have "sanitizeSDPAttributes (Join ?cl [CHR 0x0D, CHR 0x0A]) = (Join ?cl [CHR 0x0D, CHR 0x0A], 0)"
  proof (cases "?cl = []")
    case True
    have "\<not> bad_attribute []" by (simp add: bad_attribute_def HasPrefix_def)
    then show ?thesis unfolding True by (simp add: sanitizeSDPAttributes_def)
  next
    case False
    have lines: "Split (crlf_to_lf (Join ?cl [CHR 0x0D, CHR 0x0A])) (CHR 0x0A) = ?cl"
      by (rule lines_Join[OF False]) (auto dest: Split_lines)
    then show ?thesis unfolding sanitizeSDPAttributes_def Let_def lines by simp
  qed
  then show ?thesis
    by (simp add: sanitizeSDPAttributes_def ParseSDPTolerant_def Let_def split: option.split)
qed

theorem ParseSDPTolerant_correct_witness:
  "ParseSDPTolerant (\<lambda>s. if s = ''v=0'' then Some s else None) ''v=0'' = Some ''v=0''"
proof -
  have "snd (sanitizeSDPAttributes ''v=0'') = 0" by code_simp
  then show ?thesis using ParseSDPTolerant_correct[of "''v=0''" "\<lambda>s. if s = ''v=0'' then Some s else None"] by simp
qed

section \<open>The crypto attribute of an answer\<close>

lemma shift_one_differs: "e > 0 \<Longrightarrow> shift_one e = Some l \<Longrightarrow> l \<noteq> e"
proof -
  assume e: "e > 0" "shift_one e = Some l"
  have "int (nat e) < 2 ^ nat e" by (metis of_nat_less_two_power)
  with e show "l \<noteq> e" by (auto simp: shift_one_def split: if_splits)
qed

text \<open>The key lifetime does not survive an answer. The lifetime is printed where its binary logarithm belongs: read back
  by the server's own parser, the crypto attribute of an answer gives the same key and salt and a lifetime that is
  never the original; for the default of \<open>2^31\<close> packets it is zero.\<close>

theorem answer_lifetime_differs:
  assumes "no_space (fw_SRTPProfile f)" "length (fw_SRTPMasterKey f) = 16" "length (fw_SRTPMasterSalt f) = 14"
    and "0 < fw_SRTPKeyLifetime f" "fw_SRTPKeyLifetime f \<le> 2 ^ 63 - 1"
  shows "\<exists>l. parseSRTPAttributes (crypto_line (key_info f)) g =
      Some (g\<lparr>fw_SRTPMasterKey := fw_SRTPMasterKey f, fw_SRTPMasterSalt := fw_SRTPMasterSalt f, fw_SRTPProfile := fw_SRTPProfile f,
        fw_SRTPKeyLifetime := l\<rparr>) \<and>
    l \<noteq> fw_SRTPKeyLifetime f \<and> (fw_SRTPKeyLifetime f = 2 ^ 31 \<longrightarrow> l = 0)"
proof -
  let ?key = "fw_SRTPMasterKey f @ fw_SRTPMasterSalt f" and ?e = "fw_SRTPKeyLifetime f"
  have "Itoa 1 = ''1''" by code_simp
  then have line: "crypto_line (key_info f) = crypto_value 1 (fw_SRTPProfile f) ?key (''|2^'' @ Itoa ?e)"
    using assms(4) by (simp add: crypto_line_def key_info_def crypto_value_def)
  have "shift_one ?e \<noteq> None" using assms(4) by (simp add: shift_one_def)
  then obtain l where l: "shift_one ?e = Some l" by blast
  have "30 \<le> length ?key" using assms(2,3) by simp
  from parse_crypto[OF assms(1) this _ assms(5), of 1 g] l assms(2-4)
  have "parseSRTPAttributes (crypto_line (key_info f)) g =
      Some (g\<lparr>fw_SRTPMasterKey := fw_SRTPMasterKey f, fw_SRTPMasterSalt := fw_SRTPMasterSalt f, fw_SRTPProfile := fw_SRTPProfile f,
        fw_SRTPKeyLifetime := l\<rparr>)" unfolding line by simp
  moreover have "?e = 2 ^ 31 \<longrightarrow> l = 0" using l by (auto simp: shift_one_def)
  ultimately show ?thesis using shift_one_differs[OF assms(4) l] by blast
qed

theorem answer_lifetime_differs_witness:
  "\<exists>l. parseSRTPAttributes (crypto_line (key_info (call_forwarder\<lparr>fw_SRTPMasterKey := replicate 16 1, fw_SRTPMasterSalt := replicate 14 2\<rparr>))) call_forwarder =
     Some (call_forwarder\<lparr>fw_SRTPMasterKey := replicate 16 1, fw_SRTPMasterSalt := replicate 14 2,
       fw_SRTPProfile := ''AES_CM_128_HMAC_SHA1_80'', fw_SRTPKeyLifetime := l\<rparr>) \<and> l = 0"
proof -
  let ?f = "call_forwarder\<lparr>fw_SRTPMasterKey := replicate 16 1, fw_SRTPMasterSalt := replicate 14 2\<rparr>"
  have f: "fw_SRTPProfile ?f = ''AES_CM_128_HMAC_SHA1_80''" "fw_SRTPKeyLifetime ?f = 2 ^ 31" "length (fw_SRTPMasterKey ?f) = 16"
    "length (fw_SRTPMasterSalt ?f) = 14" by (simp_all add: call_forwarder_def new_forwarder_def)
  have ns: "no_space ''AES_CM_128_HMAC_SHA1_80''" by code_simp
  have "no_space (fw_SRTPProfile ?f)" unfolding f(1) by (rule ns)
  from answer_lifetime_differs[OF this f(3,4), of call_forwarder] f(1,2) show ?thesis by auto
qed

end
