(* ===== verification/Spec2Isabelle.thy ===== *)
theory Spec2Isabelle
  imports SiprecSession SiprecPolicy SiprecFill PortManager PauseWriter RtpStats RateLimit CircuitBreaker SipAuth AccessControl SipVendor SdpAnswer
begin

text \<open>
  Verification of the SIPREC recording server (Go, module \<^verbatim>\<open>siprec-server\<close>).

  \<^bold>\<open>The program.\<close> A recording client sends an INVITE whose body holds an SDP offer and an rs-metadata document
  (RFC 7865, RFC 7866). The server reads the body, completes, normalises and validates the document, creates a
  recording session from it, decides by policy whether to record, gives every audio stream a pair of ports and
  a forwarder, answers with SDP, and then receives RTP on each stream, decodes it, records it and feeds the
  transcription. Requests pass a rate limiter and digest authentication; the HTTP interface has its own
  authentication and roles; calls of outside services go through a circuit breaker.

  \<^bold>\<open>Theories and sources\<close> (file names under \<^verbatim>\<open>src/pkg\<close>).

  \<^item> \<open>GoLib\<close>, \<open>GoConv\<close>, \<open>GoHeap\<close>, \<open>Md5\<close>: the parts of Go and of its library that the code uses: byte strings,
    white space, splitting, \<^verbatim>\<open>RFC3339\<close>, numbers, base64, \<^verbatim>\<open>container/heap\<close>, \<^verbatim>\<open>crypto/md5\<close>. The heap lemmas are proved
    in the locale \<open>heap_order\<close>.
  \<^item> \<open>SiprecTypes\<close>, \<open>SiprecMetadata\<close> (\<^verbatim>\<open>siprec/types.go\<close>): every struct as a record; normalisation is a projection to a
    canonical form, and resolving the participant of a stream is characterised.
  \<^item> \<open>SiprecValidation\<close> (\<^verbatim>\<open>siprec/parser.go\<close>): the validator accepts exactly the documents of a declarative
    predicate; the document of a response.
  \<^item> \<open>SiprecSession\<close> (\<^verbatim>\<open>siprec/session.go\<close>): merging of participants, changes, recovery and failover with its round
    trip, state changes; the document built for a failover does not pass the server's own validation.
  \<^item> \<open>SiprecPolicy\<close> (\<^verbatim>\<open>siprec/policy.go\<close>): the decision is that of a matching rule of the highest priority; cached
    decisions and acknowledgements.
  \<^item> \<open>SiprecFill\<close> (\<^verbatim>\<open>siprec/fill.go\<close>): completion of documents, what it keeps and what it repairs.
  \<^item> \<open>LRUCache\<close> (\<^verbatim>\<open>util/session_cache.go\<close>): refines a map with recency and expiry. Two locales, \<open>value_cache\<close> and
    its extension \<open>holding_cache\<close>, are the contract that the port manager uses, interpreted on the cache.
  \<^item> \<open>PortManager\<close> (\<^verbatim>\<open>media/port_manager.go\<close>): pairs are even, adjacent, in range and unused; reachable states by rule
    induction; released pairs cool down.
  \<^item> \<open>BufferedPipe\<close>, \<open>PauseWriter\<close> (\<^verbatim>\<open>media/buffered_pipe.go\<close>, \<^verbatim>\<open>media/pause_writer.go\<close>): the ring buffer refines a bounded queue
    of bytes, the pausable writer over any sink that fulfils the locale \<open>byte_sink\<close>, interpreted on the pipe.
  \<^item> \<open>JitterBuffer\<close>, \<open>RtpStats\<close> (\<^verbatim>\<open>media/jitter_buffer.go\<close>, \<^verbatim>\<open>media/rtp_stats.go\<close>): order by sequence number across the
    wrap-around of 16 bits, as an interpretation of \<open>heap_order\<close>; counters of 32 bits against an extended sequence.
  \<^item> \<open>RtpForwarder\<close>, \<open>SdpTypes\<close> (\<^verbatim>\<open>media/types.go\<close>, \<^verbatim>\<open>media/sdp_utils.go\<close>, \<^verbatim>\<open>media/codec.go\<close>): a stream's forwarder, its
    configuration from the offer, pause and mute, and its clean-up, which gives the ports back once.
  \<^item> \<open>AudioCodec\<close> (\<^verbatim>\<open>media/audio_conversion.go\<close>): G.711 and G.722 on words of 8, 16 and 32 bits; the \<open>mu\<close>-law decoder is
    the standard's, the \<open>A\<close>-law decoder is not.
  \<^item> \<open>RtpReceive\<close> (\<^verbatim>\<open>media/rtp.go\<close>): the receive loop of a stream as a function of its datagrams and ticks: the lock on
    one source, its take-over, loss, recorded bytes.
  \<^item> \<open>SipSession\<close>, \<open>SipVendor\<close> (\<^verbatim>\<open>sip/custom_server.go\<close>): the parts of a body, the session created and updated from it;
    the vendor of the client, its identifiers and where they come from.
  \<^item> \<open>SdpAnswer\<close> (\<^verbatim>\<open>sip/sdp.go\<close>): the tolerant parser and the answer to an offer.
  \<^item> \<open>SipAuth\<close>, \<open>AccessControl\<close>, \<open>RateLimit\<close>, \<open>CircuitBreaker\<close> (\<^verbatim>\<open>auth\<close>, \<^verbatim>\<open>http/*_middleware.go\<close>, \<^verbatim>\<open>ratelimit\<close>, \<^verbatim>\<open>circuitbreaker\<close>): a request is served iff its
    credentials, address and role allow it; no nonce count is accepted twice; the token bucket's bound; the
    breaker refines a three-state machine.

  \<^bold>\<open>Conventions.\<close> A Go string or byte slice is a list of characters; time and durations are integers of nanoseconds, with
  0 for the zero time; \<^verbatim>\<open>time.Now()\<close>, random values, the order of a range over a map, and outcomes of the
  operating system are arguments. Numbers of fixed width are words where the code can overflow. \<^verbatim>\<open>float64\<close> is an exact
  number. Errors are \<open>Inl\<close> or \<open>None\<close>; a panic is \<open>None\<close>. A pointer that is shared is an address of a store. Locks are not
  modelled: an operation under a lock is one step, and interleavings are sequences of such steps.

  \<^bold>\<open>Bounds.\<close> No function has fuel. Loops over data are structural; \<open>Fields\<close>, \<open>TrimSpace\<close>, \<open>step2\<close>, the heap's sift loops and the
  selection sort of rules have termination proofs with measures. The drain of a pipe returns after at most as
  many reads as it holds bytes; that a pipe of size one never accepts a byte is stated as a property.

  \<^bold>\<open>Libraries as arguments.\<close> The parsers and printers of XML, MIME, SDP and SIP, the resolver of host names, password hashing and signed tokens,
  and the codecs of libopus and bcg729 are arguments; hypotheses on them are stated where a theorem needs one.

  \<^bold>\<open>Not modelled.\<close> Clients of cloud services (transcription, storage, DNS, load balancers, key services), SQL, Redis,
  Elasticsearch and AMQP access, because their behaviour is the other side's; signal processing and scoring in
  floating point (\<^verbatim>\<open>audio\<close>, \<^verbatim>\<open>realtime\<close>), because the claims would be about rounding; configuration, command line,
  metrics, tracing and logging, because they do not change the recording; listeners, transactions and the handlers of SIP requests of
  \<^verbatim>\<open>sip/custom_server.go\<close> beyond the parts above; files in WAV format; the routing of HTTP and WebSockets. Each of these parts is listed with its reason in the manifest.
\<close>

end
